(* ===== verification/Rust_Prelude.thy ===== *)
theory Rust_Prelude
  imports Main "HOL-Library.Word"
begin

text \<open>
  The parts of the Rust language and its standard library the companion uses, shared by
  every component theory.

  A Rust \<open>str\<close> is a sequence of UTF-8 bytes and is modelled as such: an Isabelle \<open>string\<close>
  is a list of eight-bit characters, one per byte, so \<open>length\<close> is Rust's \<open>len()\<close>. A
  \<open>Result<T, E>\<close> is the sum type \<open>'e + 'a\<close> (\<open>Inl\<close> the error). Unsigned machine integers
  are words of their width; an \<open>i64\<close> is an \<open>int\<close> where the code only compares it; a
  \<open>usize\<close> that is a length is a \<open>nat\<close>.
\<close>

type_synonym u8 = "8 word"
type_synonym u16 = "16 word"
type_synonym u32 = "32 word"
type_synonym u64 = "64 word"
type_synonym i64 = int
type_synonym bytes = "u8 list"

named_theorems rust_str \<open>facts about the string functions of the standard library\<close>
named_theorems result_simps \<open>facts about chains of fallible calls\<close>

lemma set_eq_UNIV_I: "(\<And>x. x \<in> set xs) \<Longrightarrow> set xs = UNIV"
  by blast

section \<open>Fallible calls\<close>

text \<open>
  A body made of statements \<open>f()?; g()?; Ok(())\<close> returns the first error, or \<open>Ok\<close>.
\<close>

fun try_all :: "('e + unit) list \<Rightarrow> 'e + unit" where
  "try_all [] = Inr ()"
| "try_all (r # rs) = (case r of Inl e \<Rightarrow> Inl e | Inr _ \<Rightarrow> try_all rs)"

text \<open>\<open>if let Some(inner) = &field { f(inner)?; }\<close>\<close>

fun if_some :: "'a option \<Rightarrow> ('a \<Rightarrow> 'e + unit) \<Rightarrow> 'e + unit" where
  "if_some None f = Inr ()"
| "if_some (Some x) f = f x"

text \<open>\<open>for item in list.iter() { f(item)?; }\<close>\<close>

definition for_each :: "'a list \<Rightarrow> ('a \<Rightarrow> 'e + unit) \<Rightarrow> 'e + unit" where
  "for_each xs f = try_all (map f xs)"

definition is_ok :: "'e + 'a \<Rightarrow> bool" where
  "is_ok r = (case r of Inl _ \<Rightarrow> False | Inr _ \<Rightarrow> True)"

lemma is_ok_simps [simp, result_simps]:
  "is_ok (Inr x)" "\<not> is_ok (Inl e)"
  by (simp_all add: is_ok_def)

lemma is_ok_iff: "is_ok r \<longleftrightarrow> (\<exists>x. r = Inr x)"
  by (cases r) simp_all

lemma is_ok_unit: "(r = Inr ()) = is_ok r"
  by (cases r) simp_all

lemma is_ok_if [simp, result_simps]:
  "is_ok (if b then Inr x else Inl e) = b"
  "is_ok (if b then Inl e else Inr x) = (\<not> b)"
  by simp_all

lemma is_ok_then [simp, result_simps]:
  "is_ok (case r of Inl e \<Rightarrow> Inl e | Inr _ \<Rightarrow> s) = (is_ok r \<and> is_ok s)"
  by (cases r) simp_all

lemma list_all_enumerate:
  "list_all (\<lambda>(i, x). P i x) (enumerate 0 xs) = (\<forall>i < length xs. P i (xs ! i))"
  by (force simp: list_all_iff in_set_enumerate_eq)

lemma is_ok_try_all [simp, result_simps]: "is_ok (try_all rs) = (\<forall>r\<in>set rs. is_ok r)"
  by (induction rs) (auto split: sum.splits simp: is_ok_def)

lemma is_ok_if_some [simp, result_simps]:
  "is_ok (if_some x f) = (case x of None \<Rightarrow> True | Some y \<Rightarrow> is_ok (f y))"
  by (cases x) simp_all

lemma is_ok_for_each [simp, result_simps]: "is_ok (for_each xs f) = (\<forall>x\<in>set xs. is_ok (f x))"
  by (simp add: for_each_def)

text \<open>An error of a chain is an error of one of its statements.\<close>

lemma try_all_Inl: "try_all rs = Inl e \<Longrightarrow> Inl e \<in> set rs"
  by (induction rs) (auto split: sum.splits)

lemma try_all_append [result_simps]:
  "try_all (rs @ ss) = (case try_all rs of Inl e \<Rightarrow> Inl e | Inr _ \<Rightarrow> try_all ss)"
  by (induction rs) (auto split: sum.splits)

section \<open>Counters\<close>

lemma unat_plus_one: "w \<noteq> - 1 \<Longrightarrow> unat (w + 1) = Suc (unat w)" for w :: "'a::len word"
  by (metis add.commute eq_neg_iff_add_eq_0 unatSuc)

lemma unat_minus_one: "0 < unat w \<Longrightarrow> unat (w - 1) = unat w - 1" for w :: "'a::len word"
  using unat_plus_one [of "w - 1"] by (cases "w = 0") simp_all

section \<open>Characters and ASCII\<close>

definition code :: "char \<Rightarrow> nat" where
  "code c = of_char c"

definition newline :: char where
  "newline = CHR 0x0A"

lemma code_inj [simp]: "(code c = code d) = (c = d)"
  by (simp add: code_def)

lemma code_less_256 [simp]: "code c < 256"
  by (simp add: code_def)

definition is_ascii_digit :: "char \<Rightarrow> bool" where
  "is_ascii_digit c = (48 \<le> code c \<and> code c \<le> 57)"

definition is_ascii_hexdigit :: "char \<Rightarrow> bool" where
  "is_ascii_hexdigit c =
     (is_ascii_digit c \<or> 65 \<le> code c \<and> code c \<le> 70 \<or> 97 \<le> code c \<and> code c \<le> 102)"

definition is_ascii_alphanumeric :: "char \<Rightarrow> bool" where
  "is_ascii_alphanumeric c =
     (is_ascii_digit c \<or> 65 \<le> code c \<and> code c \<le> 90 \<or> 97 \<le> code c \<and> code c \<le> 122)"

definition to_ascii_lowercase_char :: "char \<Rightarrow> char" where
  "to_ascii_lowercase_char c =
     (if 65 \<le> code c \<and> code c \<le> 90 then char_of (code c + 32) else c)"

definition to_ascii_lowercase :: "string \<Rightarrow> string" where
  "to_ascii_lowercase s = map to_ascii_lowercase_char s"

definition eq_ignore_ascii_case :: "string \<Rightarrow> string \<Rightarrow> bool" where
  "eq_ignore_ascii_case s t = (to_ascii_lowercase s = to_ascii_lowercase t)"

lemma code_char_of: "n < 256 \<Longrightarrow> code (char_of n) = n"
  by (simp add: code_def of_char_of)

lemma lowercase_char_idem [simp]:
  "to_ascii_lowercase_char (to_ascii_lowercase_char c) = to_ascii_lowercase_char c"
  by (simp add: to_ascii_lowercase_char_def code_char_of)

lemma lowercase_idem [simp, rust_str]:
  "to_ascii_lowercase (to_ascii_lowercase s) = to_ascii_lowercase s"
  by (simp add: to_ascii_lowercase_def)

lemma lowercase_append [simp, rust_str]:
  "to_ascii_lowercase (s @ t) = to_ascii_lowercase s @ to_ascii_lowercase t"
  by (simp add: to_ascii_lowercase_def)

lemma length_lowercase [simp, rust_str]: "length (to_ascii_lowercase s) = length s"
  by (simp add: to_ascii_lowercase_def)

lemma eq_ignore_ascii_case_refl [simp]: "eq_ignore_ascii_case s s"
  by (simp add: eq_ignore_ascii_case_def)

lemma eq_ignore_ascii_case_sym: "eq_ignore_ascii_case s t = eq_ignore_ascii_case t s"
  by (auto simp: eq_ignore_ascii_case_def)

text \<open>\<open>s.into_bytes()\<close>\<close>

definition into_bytes :: "string \<Rightarrow> bytes" where
  "into_bytes s = map (\<lambda>c. word_of_nat (code c)) s"

lemma into_bytes_inj [simp]: "(into_bytes s = into_bytes t) = (s = t)"
proof -
  have "inj (\<lambda>c. word_of_nat (code c) :: u8)"
  proof (rule injI)
    fix c d
    assume "(word_of_nat (code c) :: u8) = word_of_nat (code d)"
    then have "take_bit 8 (code c) = take_bit 8 (code d)"
      by (simp add: word_of_nat_eq_iff)
    then show "c = d" by (simp add: take_bit_eq_mod)
  qed
  then show ?thesis by (simp add: into_bytes_def inj_map_eq_map)
qed

section \<open>Splitting and stripping\<close>

text \<open>\<open>s.strip_prefix(p)\<close>\<close>

definition strip_prefix :: "string \<Rightarrow> string \<Rightarrow> string option" where
  "strip_prefix p s = (if take (length p) s = p then Some (drop (length p) s) else None)"

lemma strip_prefix_Some [rust_str]: "strip_prefix p s = Some r \<longleftrightarrow> s = p @ r"
  by (auto simp: strip_prefix_def) (metis append_take_drop_id)

lemma strip_prefix_append [simp, rust_str]: "strip_prefix p (p @ r) = Some r"
  by (simp add: strip_prefix_Some)

text \<open>\<open>s.split(pattern)\<close>, all pieces; the pattern is a predicate on the (ASCII) separator.\<close>

fun split_on :: "(char \<Rightarrow> bool) \<Rightarrow> string \<Rightarrow> string list" where
  "split_on P [] = [[]]"
| "split_on P (c # cs) =
     (if P c then [] # split_on P cs
      else (case split_on P cs of [] \<Rightarrow> [[c]] | p # ps \<Rightarrow> (c # p) # ps))"

text \<open>\<open>iter.next()\<close> on a freshly made iterator.\<close>

fun next_item :: "'a list \<Rightarrow> 'a option" where
  "next_item [] = None"
| "next_item (x # xs) = Some x"

lemma split_on_not_Nil [simp, rust_str]: "split_on P s \<noteq> []"
  by (induction s) (auto split: list.splits)

lemma next_split_on [simp, rust_str]: "next_item (split_on P s) = Some (takeWhile (\<lambda>c. \<not> P c) s)"
proof (induction s)
  case Nil
  then show ?case by simp
next
  case (Cons c cs)
  then show ?case
    by (cases "split_on P cs") auto
qed

text \<open>A piece in front of a separator is split off as it is.\<close>

lemma split_on_append_sep [rust_str]:
  assumes "\<forall>c\<in>set s. \<not> P c" and "P x"
  shows "split_on P (s @ x # t) = s # split_on P t"
  using assms(1) by (induction s) (auto simp: assms(2))

lemma split_on_no_sep [rust_str]:
  "\<forall>c\<in>set s. \<not> P c \<Longrightarrow> split_on P s = [s]"
  by (induction s) auto

text \<open>\<open>s.trim_end_matches(c)\<close>\<close>

definition trim_end_matches :: "char \<Rightarrow> string \<Rightarrow> string" where
  "trim_end_matches c s = rev (dropWhile (\<lambda>d. d = c) (rev s))"

lemma trim_end_matches_decomp:
  "\<exists>n. s = trim_end_matches c s @ replicate n c"
proof -
  let ?t = "takeWhile (\<lambda>d. d = c) (rev s)"
  have "?t = replicate (length ?t) c"
    by (metis (mono_tags, lifting) replicate_length_same set_takeWhileD)
  moreover have "s = trim_end_matches c s @ rev ?t"
    by (metis rev_append rev_rev_ident takeWhile_dropWhile_id trim_end_matches_def)
  ultimately show ?thesis
    by (metis rev_replicate)
qed

lemma trim_end_matches_append_replicate [simp, rust_str]:
  "trim_end_matches c (s @ replicate n c) = trim_end_matches c s"
proof -
  have "dropWhile (\<lambda>d. d = c) (replicate n c @ rev s) = dropWhile (\<lambda>d. d = c) (rev s)"
    by (rule dropWhile_append2) simp
  then show ?thesis
    unfolding trim_end_matches_def by (simp only: rev_append rev_replicate)
qed

lemma trim_end_matches_id [rust_str]:
  "c \<notin> set s \<Longrightarrow> trim_end_matches c s = s"
  by (cases s rule: rev_cases) (auto simp: trim_end_matches_def)

lemma trim_end_matches_eq [rust_str]:
  assumes "t = [] \<or> last t \<noteq> c"
  shows "trim_end_matches c s = t \<longleftrightarrow> (\<exists>n. s = t @ replicate n c)"
proof
  assume "trim_end_matches c s = t"
  then show "\<exists>n. s = t @ replicate n c"
    using trim_end_matches_decomp by blast
next
  assume "\<exists>n. s = t @ replicate n c"
  then obtain n where "s = t @ replicate n c" ..
  then have "trim_end_matches c s = trim_end_matches c t" by simp
  also have "\<dots> = t"
    using assms by (cases t rule: rev_cases) (auto simp: trim_end_matches_def)
  finally show "trim_end_matches c s = t" .
qed

text \<open>
  \<open>s.trim()\<close> removes Unicode white space at both ends. On UTF-8 bytes a white-space code
  point is one of the following byte sequences (U+0009 to U+000D, U+0020, U+0085, U+00A0,
  U+1680, U+2000 to U+200A, U+2028, U+2029, U+202F, U+205F, U+3000); UTF-8 is
  self-synchronising, so on well-formed text matching the bytes is matching the code point.
\<close>

definition white_spaces :: "string list" where
  "white_spaces = map (map char_of)
     ([[9], [10], [11], [12], [13], [32], [0xC2, 0x85], [0xC2, 0xA0], [0xE1, 0x9A, 0x80],
       [0xE2, 0x80, 0x80], [0xE2, 0x80, 0x81], [0xE2, 0x80, 0x82], [0xE2, 0x80, 0x83],
       [0xE2, 0x80, 0x84], [0xE2, 0x80, 0x85], [0xE2, 0x80, 0x86], [0xE2, 0x80, 0x87],
       [0xE2, 0x80, 0x88], [0xE2, 0x80, 0x89], [0xE2, 0x80, 0x8A], [0xE2, 0x80, 0xA8],
       [0xE2, 0x80, 0xA9], [0xE2, 0x80, 0xAF], [0xE2, 0x81, 0x9F], [0xE3, 0x80, 0x80]] :: nat list list)"

function strip_while :: "string list \<Rightarrow> string \<Rightarrow> string" where
  "strip_while ws s =
     (case find (\<lambda>w. w \<noteq> [] \<and> take (length w) s = w) ws of
        None \<Rightarrow> s
      | Some w \<Rightarrow> strip_while ws (drop (length w) s))"
  by pat_completeness auto
termination
proof (relation "measure (\<lambda>(ws, s). length s)")
  fix ws :: "string list" and s w :: string
  assume "find (\<lambda>w. w \<noteq> [] \<and> take (length w) s = w) ws = Some w"
  then have "w \<noteq> []" and "take (length w) s = w"
    by (auto simp: find_Some_iff)
  then have "0 < length w" and "0 < length s" by auto
  then show "((ws, drop (length w) s), (ws, s)) \<in> measure (\<lambda>(ws, s). length s)" by simp
qed simp

declare strip_while.simps [simp del]

definition trim_start :: "string \<Rightarrow> string" where
  "trim_start s = strip_while white_spaces s"

definition trim_end :: "string \<Rightarrow> string" where
  "trim_end s = rev (strip_while (map rev white_spaces) (rev s))"

definition trim :: "string \<Rightarrow> string" where
  "trim s = trim_end (trim_start s)"

lemma strip_while_suffix: "\<exists>p. s = p @ strip_while ws s"
proof (induction ws s rule: strip_while.induct)
  case (1 ws s)
  show ?case
  proof (cases "find (\<lambda>w. w \<noteq> [] \<and> take (length w) s = w) ws")
    case None
    then show ?thesis by (simp add: strip_while.simps [of ws s])
  next
    case (Some w)
    with "1.IH" obtain p where p: "drop (length w) s = p @ strip_while ws (drop (length w) s)"
      by blast
    have "s = (take (length w) s @ p) @ strip_while ws (drop (length w) s)"
      by (metis append.assoc append_take_drop_id p)
    moreover from Some have "strip_while ws s = strip_while ws (drop (length w) s)"
      by (simp add: strip_while.simps [of ws s])
    ultimately show ?thesis by metis
  qed
qed

text \<open>What is trimmed away is a prefix and a suffix; the middle is untouched.\<close>

lemma trim_decomp: "\<exists>p q. s = p @ trim s @ q"
proof -
  obtain p where p: "s = p @ trim_start s"
    using strip_while_suffix by (auto simp: trim_start_def)
  obtain q where "rev (trim_start s) = q @ strip_while (map rev white_spaces) (rev (trim_start s))"
    using strip_while_suffix by blast
  then have "trim_start s = trim s @ rev q"
    by (metis rev_append rev_rev_ident trim_def trim_end_def)
  with p show ?thesis by metis
qed

text \<open>The first byte of a white-space character.\<close>

definition ws_lead :: "char \<Rightarrow> bool" where
  "ws_lead c = (\<exists>w\<in>set white_spaces. w \<noteq> [] \<and> hd w = c)"

definition ws_last :: "char \<Rightarrow> bool" where
  "ws_last c = (\<exists>w\<in>set white_spaces. w \<noteq> [] \<and> last w = c)"

lemma strip_while_id:
  assumes "s = [] \<or> (\<forall>w\<in>set ws. w \<noteq> [] \<longrightarrow> hd w \<noteq> hd s)"
  shows "strip_while ws s = s"
proof -
  have "find (\<lambda>w. w \<noteq> [] \<and> take (length w) s = w) ws = None"
    using assms by (auto simp: find_None_iff) (metis hd_take length_greater_0_conv)+
  then show ?thesis by (simp add: strip_while.simps [of ws s])
qed

lemma trim_id [rust_str]:
  assumes "s = [] \<or> \<not> ws_lead (hd s) \<and> \<not> ws_last (last s)"
  shows "trim s = s"
proof -
  have "trim_start s = s"
    unfolding trim_start_def using assms by (intro strip_while_id) (auto simp: ws_lead_def)
  moreover have "trim_end s = s"
    unfolding trim_end_def using assms
    by (subst strip_while_id) (auto simp: ws_last_def hd_rev)
  ultimately show ?thesis by (simp add: trim_def)
qed

text \<open>Text that begins and ends with a visible ASCII character is left as it is.\<close>

definition is_visible :: "char \<Rightarrow> bool" where
  "is_visible c = (33 \<le> code c \<and> code c < 127)"

lemma visible_not_ws: "is_visible c \<Longrightarrow> \<not> ws_lead c \<and> \<not> ws_last c"
proof -
  let ?ends = "{9, 10, 11, 12, 13, 32} \<union> {128..255}"
  have "\<forall>w\<in>set white_spaces. code (hd w) \<in> ?ends \<and> code (last w) \<in> ?ends"
    unfolding white_spaces_def by (simp add: code_char_of)
  moreover assume "is_visible c"
  then have "code c \<notin> ?ends" by (auto simp: is_visible_def)
  ultimately show ?thesis by (auto simp: ws_lead_def ws_last_def)
qed

lemma trim_visible [rust_str]:
  "s \<noteq> [] \<Longrightarrow> is_visible (hd s) \<Longrightarrow> is_visible (last s) \<Longrightarrow> trim s = s"
  by (rule trim_id) (simp add: visible_not_ws)

section \<open>Decimal numbers\<close>

definition digit_char :: "nat \<Rightarrow> char" where
  "digit_char n = char_of (48 + n)"

text \<open>\<open>format!("{}", n)\<close> for an unsigned integer.\<close>

fun show_nat :: "nat \<Rightarrow> string" where
  "show_nat n = (if n < 10 then [digit_char n] else show_nat (n div 10) @ [digit_char (n mod 10)])"

declare show_nat.simps [simp del]

definition show_int :: "int \<Rightarrow> string" where
  "show_int i = (if i < 0 then ''-'' @ show_nat (nat (- i)) else show_nat (nat i))"

definition digit_value :: "char \<Rightarrow> nat option" where
  "digit_value c = (if is_ascii_digit c then Some (code c - 48) else None)"

text \<open>
  \<open>str::parse\<close> for an unsigned type with largest value \<open>m\<close>: an empty string is an error, one
  leading plus sign is accepted when digits follow, everything else must be digits, and a
  value that does not fit is an error.
\<close>

fun parse_digits :: "nat \<Rightarrow> nat \<Rightarrow> string \<Rightarrow> nat option" where
  "parse_digits m acc [] = Some acc"
| "parse_digits m acc (c # cs) =
     (case digit_value c of
        None \<Rightarrow> None
      | Some d \<Rightarrow> (if acc * 10 + d \<le> m then parse_digits m (acc * 10 + d) cs else None))"

definition parse_unsigned :: "nat \<Rightarrow> string \<Rightarrow> nat option" where
  "parse_unsigned m s =
     (if s = [] then None
      else if hd s = CHR ''+'' \<and> tl s \<noteq> [] then parse_digits m 0 (tl s)
      else parse_digits m 0 s)"

lemma digit_char_code: "n < 10 \<Longrightarrow> code (digit_char n) = 48 + n"
  by (simp add: digit_char_def code_char_of)

lemma digit_char_is_digit [simp]: "n < 10 \<Longrightarrow> is_ascii_digit (digit_char n)"
  by (simp add: is_ascii_digit_def digit_char_code)

lemma digit_value_digit_char [simp]: "n < 10 \<Longrightarrow> digit_value (digit_char n) = Some n"
  by (simp add: digit_value_def digit_char_code)

lemma show_nat_digits: "c \<in> set (show_nat n) \<Longrightarrow> is_ascii_digit c"
proof (induction n rule: show_nat.induct)
  case (1 n)
  then show ?case
    by (cases "n < 10") (auto simp: show_nat.simps [of n])
qed

lemma show_nat_not_Nil [simp]: "show_nat n \<noteq> []"
  by (simp add: show_nat.simps)

lemma parse_digits_append:
  "parse_digits m acc (s @ t) =
     (case parse_digits m acc s of None \<Rightarrow> None | Some a \<Rightarrow> parse_digits m a t)"
  by (induction s arbitrary: acc) (auto split: option.splits)

lemma parse_digits_show: "n \<le> m \<Longrightarrow> parse_digits m 0 (show_nat n) = Some n"
proof (induction n rule: show_nat.induct)
  case (1 n)
  show ?case
  proof (cases "n < 10")
    case True
    with 1 show ?thesis by (simp add: show_nat.simps [of n])
  next
    case False
    with 1 have "parse_digits m 0 (show_nat (n div 10)) = Some (n div 10)"
      by simp
    with False 1(2) show ?thesis
      by (simp add: show_nat.simps [of n] parse_digits_append)
  qed
qed

lemma hd_show_nat_not_plus [simp]: "hd (show_nat n) \<noteq> CHR ''+''"
proof -
  have "is_ascii_digit (hd (show_nat n))"
    by (rule show_nat_digits) (rule hd_in_set [OF show_nat_not_Nil])
  then show ?thesis by (auto simp: is_ascii_digit_def code_def)
qed

lemma parse_unsigned_show [simp]: "n \<le> m \<Longrightarrow> parse_unsigned m (show_nat n) = Some n"
  by (simp add: parse_unsigned_def parse_digits_show)

lemma show_nat_inj [simp]: "(show_nat m = show_nat n) = (m = n)"
  by (metis nat_le_linear option.inject parse_unsigned_show)

lemma parse_digits_bound: "acc \<le> m \<Longrightarrow> parse_digits m acc s = Some n \<Longrightarrow> n \<le> m"
  by (induction s arbitrary: acc) (auto split: option.splits if_splits)

lemma parse_unsigned_bound: "parse_unsigned m s = Some n \<Longrightarrow> n \<le> m"
  by (auto simp: parse_unsigned_def split: if_splits intro: parse_digits_bound [of 0])

lemma parse_digits_Some_digits: "parse_digits m acc s = Some n \<Longrightarrow> \<forall>c\<in>set s. is_ascii_digit c"
  by (induction s arbitrary: acc) (auto simp: digit_value_def split: option.splits if_splits)

section \<open>UTF-8 boundaries\<close>

text \<open>A byte that does not start a code point is a continuation byte, 10xxxxxx.\<close>

definition is_continuation :: "char \<Rightarrow> bool" where
  "is_continuation c = (128 \<le> code c \<and> code c < 192)"

definition char_count :: "string \<Rightarrow> nat" where
  "char_count s = length (filter (\<lambda>c. \<not> is_continuation c) s)"

text \<open>\<open>list.join(sep)\<close>\<close>

fun join :: "string \<Rightarrow> string list \<Rightarrow> string" where
  "join sep [] = []"
| "join sep [s] = s"
| "join sep (s # t # ts) = s @ sep @ join sep (t # ts)"

end
