(* ===== verification/Interfaces.thy ===== *)
theory Interfaces
  imports Rust_Prelude
begin

text \<open>
  The contracts components rely on, as locales. Each is interpreted on the model's own
  definitions in the theory of the component that provides it:
  \<^item> \<open>codec\<close>: an encoder and the decoder that undoes it (the two base64 routines, the JSON of every
    message);
  \<^item> \<open>machine\<close>: a step function with an invariant every step keeps (the window, the worker,
    the endpoint's connection counter);
  \<^item> \<open>observed_machine\<close>: a machine whose outputs satisfy a predicate while the invariant holds;
  \<^item> \<open>refinement\<close>: a concrete step function that is simulated by events of an abstract one
    (the worker by the window's state machine);
  \<^item> \<open>inductive_invariant\<close>: a property of the states a step relation reaches (the threads of the
    companion and their channels).
\<close>

section \<open>Codecs\<close>

locale codec =
  fixes enc :: "'a \<Rightarrow> 'b" and dec :: "'b \<Rightarrow> 'a option"
  assumes dec_enc: "dec (enc x) = Some x"
begin

lemma enc_inj: "enc x = enc y \<Longrightarrow> x = y"
  by (metis dec_enc option.inject)

lemma dec_image: "\<exists>w. dec w = Some x"
  using dec_enc by blast

end

section \<open>Machines\<close>

text \<open>A run over a list of inputs, and the outputs it makes on the way.\<close>

primrec run :: "('s \<Rightarrow> 'i \<Rightarrow> 's) \<Rightarrow> 's \<Rightarrow> 'i list \<Rightarrow> 's" where
  "run step s [] = s"
| "run step s (i # is) = run step (step s i) is"

primrec outputs :: "('s \<Rightarrow> 'i \<Rightarrow> 's) \<Rightarrow> ('s \<Rightarrow> 'i \<Rightarrow> 'o list) \<Rightarrow> 's \<Rightarrow> 'i list \<Rightarrow> 'o list" where
  "outputs step out s [] = []"
| "outputs step out s (i # is) = out s i @ outputs step out (step s i) is"

lemma run_append [simp]: "run step s (is @ js) = run step (run step s is) js"
  by (induction "is" arbitrary: s) simp_all

lemma outputs_append:
  "outputs step out s (is @ js) = outputs step out s is @ outputs step out (run step s is) js"
  by (induction "is" arbitrary: s) simp_all

text \<open>Every output is made at some input.\<close>

lemma outputs_split:
  "o' \<in> set (outputs step out s is) \<Longrightarrow>
   \<exists>before i after. is = before @ i # after \<and> o' \<in> set (out (run step s before) i)"
proof (induction "is" arbitrary: s)
  case (Cons i "is")
  show ?case
  proof (cases "o' \<in> set (out s i)")
    case True
    then show ?thesis by (intro exI [of _ "[]"] exI [of _ i] exI [of _ "is"]) simp
  next
    case False
    with Cons.prems have "o' \<in> set (outputs step out (step s i) is)" by simp
    from Cons.IH [OF this] obtain before j after
      where "is = before @ j # after" "o' \<in> set (out (run step (step s i) before) j)" by blast
    then show ?thesis by (intro exI [of _ "i # before"] exI [of _ j] exI [of _ after]) simp
  qed
qed simp

locale machine =
  fixes step :: "'s \<Rightarrow> 'i \<Rightarrow> 's" and inv :: "'s \<Rightarrow> bool" and admissible :: "'i \<Rightarrow> bool"
  assumes inv_step: "inv s \<Longrightarrow> admissible i \<Longrightarrow> inv (step s i)"
begin

lemma inv_run: "inv s \<Longrightarrow> \<forall>i\<in>set is. admissible i \<Longrightarrow> inv (run step s is)"
  by (induction "is" arbitrary: s) (simp_all add: inv_step)

end

locale observed_machine = machine +
  fixes out :: "'s \<Rightarrow> 'i \<Rightarrow> 'o list" and good :: "'o \<Rightarrow> bool"
  assumes out_good: "inv s \<Longrightarrow> admissible i \<Longrightarrow> o' \<in> set (out s i) \<Longrightarrow> good o'"
begin

lemma outputs_good:
  "inv s \<Longrightarrow> \<forall>i\<in>set is. admissible i \<Longrightarrow> o' \<in> set (outputs step out s is) \<Longrightarrow> good o'"
  by (induction "is" arbitrary: s) (auto intro: out_good inv_step)

end

section \<open>Refinement\<close>

locale refinement =
  fixes cstep :: "'s \<Rightarrow> 'i \<Rightarrow> 's" and astep :: "'a \<Rightarrow> 'e \<Rightarrow> 'a"
    and abs :: "'s \<Rightarrow> 'a" and events :: "'s \<Rightarrow> 'i \<Rightarrow> 'e list"
  assumes refines: "abs (cstep s i) = run astep (abs s) (events s i)"
begin

lemma run_refines: "abs (run cstep s is) = run astep (abs s) (outputs cstep events s is)"
  by (induction "is" arbitrary: s) (simp_all add: refines)

end

section \<open>Step relations\<close>

inductive reach :: "('s \<Rightarrow> bool) \<Rightarrow> ('s \<Rightarrow> 's \<Rightarrow> bool) \<Rightarrow> 's \<Rightarrow> bool"
  for init :: "'s \<Rightarrow> bool" and step :: "'s \<Rightarrow> 's \<Rightarrow> bool" where
  reach_init: "init s \<Longrightarrow> reach init step s"
| reach_step: "reach init step s \<Longrightarrow> step s t \<Longrightarrow> reach init step t"

locale inductive_invariant =
  fixes init :: "'s \<Rightarrow> bool" and step :: "'s \<Rightarrow> 's \<Rightarrow> bool" and inv :: "'s \<Rightarrow> bool"
  assumes inv_init: "init s \<Longrightarrow> inv s"
    and inv_step: "inv s \<Longrightarrow> step s t \<Longrightarrow> inv t"
begin

lemma inv_reach: "reach init step s \<Longrightarrow> inv s"
  by (induction rule: reach.induct) (auto intro: inv_init inv_step)

end

end
