(* ===== verification/Base64_Codec.thy ===== *)
theory Base64_Codec
  imports Interfaces
begin

text \<open>
  The two base64 routines of the companion: the decoder of the updater
  (\<open>fiveprotect-core/src/updater.rs\<close>), which shifts sextets through a 32-bit buffer, and the
  encoder of the window (\<open>fiveprotect-companion/src/shell.rs\<close>), which works on chunks of three
  bytes. The decoder is shown to compute the bit-stream specification of base64 (the wrapping
  of its buffer never loses a pending bit), and to undo the encoder.
\<close>

unbundle bit_operations_syntax

section \<open>The routines\<close>

definition ALPHABET :: string where
  "ALPHABET = ''ABCDEFGHIJKLMNOPQRSTUVWXYZabcdefghijklmnopqrstuvwxyz0123456789+/''"

text \<open>\<open>iter().position(p)\<close>\<close>

fun position :: "('a \<Rightarrow> bool) \<Rightarrow> 'a list \<Rightarrow> nat option" where
  "position p [] = None"
| "position p (x # xs) = (if p x then Some 0 else map_option Suc (position p xs))"

fun base64_loop :: "string \<Rightarrow> u32 \<Rightarrow> nat \<Rightarrow> bytes \<Rightarrow> bytes option" where
  "base64_loop [] buffer bits out = Some out"
| "base64_loop (byte # rest) buffer bits out =
     (case position (\<lambda>candidate. candidate = byte) ALPHABET of
        None \<Rightarrow> None
      | Some index \<Rightarrow>
          (let buffer = push_bit 6 buffer OR word_of_nat index;
               bits = bits + 6
           in if bits \<ge> 8
              then base64_loop rest buffer (bits - 8)
                     (out @ [ucast (drop_bit (bits - 8) buffer AND 0xFF)])
              else base64_loop rest buffer bits out))"

definition base64_decode :: "string \<Rightarrow> bytes option" where
  "base64_decode value = base64_loop (trim_end_matches CHR ''='' value) 0 0 []"

text \<open>\<open>slice.chunks(n)\<close>\<close>

function chunks :: "nat \<Rightarrow> 'a list \<Rightarrow> 'a list list" where
  "chunks n xs = (if xs = [] \<or> n = 0 then [] else take n xs # chunks n (drop n xs))"
  by pat_completeness auto
termination
  by (relation "measure (\<lambda>(n, xs). length xs)") auto

declare chunks.simps [simp del]

definition base64_chunk :: "bytes \<Rightarrow> string" where
  "base64_chunk chunk =
     (let b0 = ucast (chunk ! 0) :: u32;
          b1 = (if 1 < length chunk then ucast (chunk ! 1) else 0);
          b2 = (if 2 < length chunk then ucast (chunk ! 2) else 0);
          triple = push_bit 16 b0 OR push_bit 8 b1 OR b2
      in [ALPHABET ! unat (drop_bit 18 triple AND 0x3f),
          ALPHABET ! unat (drop_bit 12 triple AND 0x3f),
          if length chunk > 1 then ALPHABET ! unat (drop_bit 6 triple AND 0x3f) else CHR ''='',
          if length chunk > 2 then ALPHABET ! unat (triple AND 0x3f) else CHR ''=''])"

definition base64 :: "bytes \<Rightarrow> string" where
  "base64 bytes = concat (map base64_chunk (chunks 3 bytes))"

section \<open>The bit-stream specification\<close>

text \<open>Bits are written most significant first.\<close>

definition word_bits :: "nat \<Rightarrow> 'a::len word \<Rightarrow> bool list" where
  "word_bits n w = map (bit w) (rev [0..<n])"

definition byte_of_bits :: "bool list \<Rightarrow> u8" where
  "byte_of_bits bs = horner_sum of_bool 2 (rev bs)"

function octets :: "bool list \<Rightarrow> bytes" where
  "octets bs = (if length bs < 8 then [] else byte_of_bits (take 8 bs) # octets (drop 8 bs))"
  by pat_completeness auto
termination
  by (relation "measure length") auto

declare octets.simps [simp del]

definition sextet :: "char \<Rightarrow> bool list option" where
  "sextet c = map_option (\<lambda>i. word_bits 6 (word_of_nat i :: u32)) (position (\<lambda>d. d = c) ALPHABET)"

fun sextets :: "string \<Rightarrow> bool list option" where
  "sextets [] = Some []"
| "sextets (c # cs) =
     (case sextet c of
        None \<Rightarrow> None
      | Some bs \<Rightarrow> map_option (\<lambda>rest. bs @ rest) (sextets cs))"

definition base64_spec :: "string \<Rightarrow> bytes option" where
  "base64_spec s = map_option octets (sextets (trim_end_matches CHR ''='' s))"

section \<open>Bits and bytes\<close>

lemma length_word_bits [simp]: "length (word_bits n w) = n"
  by (simp add: word_bits_def)

lemma byte_of_word_bits [simp]: "byte_of_bits (word_bits 8 w) = w"
proof -
  have "byte_of_bits (word_bits 8 w) = horner_sum of_bool 2 (map (bit w) [0..<8])"
    by (simp add: byte_of_bits_def word_bits_def rev_map)
  also have "\<dots> = take_bit 8 w"
    by (rule horner_sum_bit_eq_take_bit)
  finally show ?thesis by (simp add: take_bit_word_eq_self)
qed

lemma octets_short [simp]: "length bs < 8 \<Longrightarrow> octets bs = []"
  by (simp add: octets.simps)

lemma octets_byte [simp]: "octets (word_bits 8 w @ bs) = w # octets bs"
  by (subst octets.simps) simp

lemma octets_append: "length bs = 8 \<Longrightarrow> octets (bs @ cs) = byte_of_bits bs # octets cs"
  by (subst octets.simps) simp

text \<open>The byte the loop pushes is the one made of the bits it takes out of the buffer.\<close>

lemma pushed_byte:
  "(ucast (drop_bit k (w :: u32) AND 0xFF) :: u8) = byte_of_bits (map (bit w) (rev [k..<k + 8]))"
proof (rule bit_word_eqI)
  fix n assume n: "n < LENGTH(8)"
  have "bit (mask 8 :: u32) n"
    using n by (simp only: bit_mask_iff) simp
  moreover have "(mask 8 :: u32) = 0xFF" by (simp add: mask_eq_exp_minus_1)
  ultimately have "bit (0xFF :: u32) n" by simp
  with n show "bit (ucast (drop_bit k w AND 0xFF) :: u8) n =
      bit (byte_of_bits (map (bit w) (rev [k..<k + 8]))) n"
    by (simp add: byte_of_bits_def rev_map bit_horner_sum_bit_iff bit_simps)
qed

lemma high_bits_clear: "m < 2 ^ k \<Longrightarrow> k \<le> n \<Longrightarrow> \<not> bit (m :: nat) n"
  by (simp add: bit_iff_odd) (metis div_less even_zero less_le_trans one_less_numeral_iff
      power_increasing semiring_norm(76) less_imp_le)

lemma upt_shift: "[6..<bits + 6] = map (\<lambda>i. i + 6) [0..<bits]"
  by (simp add: map_add_upt)

lemma shifted_in:
  assumes "index < 64" and "bits < 8"
  shows "word_bits (bits + 6) (push_bit 6 buffer OR word_of_nat index :: u32) =
           word_bits bits buffer @ word_bits 6 (word_of_nat index :: u32)"
proof -
  let ?w = "push_bit 6 buffer OR word_of_nat index :: u32"
  have clear: "\<not> bit index n" if "6 \<le> n" for n
    using assms(1) that by (intro high_bits_clear [of index 6]) simp_all
  have "word_bits (bits + 6) ?w = map (bit ?w) (rev [6..<bits + 6]) @ map (bit ?w) (rev [0..<6])"
    by (metis add.commute le_add2 map_append rev_append upt_add_eq_append word_bits_def zero_le)
  also have "map (bit ?w) (rev [6..<bits + 6]) = word_bits bits buffer"
    unfolding word_bits_def upt_shift rev_map map_map comp_def
    using assms(2) clear by (auto simp: bit_simps)
  also have "map (bit ?w) (rev [0..<6]) = word_bits 6 (word_of_nat index :: u32)"
    by (auto simp: word_bits_def bit_simps)
  finally show ?thesis .
qed


text \<open>One round of the loop that pushes a byte: the eight oldest pending bits leave the buffer.\<close>

lemma upt_split_rev: "a \<le> b \<Longrightarrow> rev [0..<b] = rev [a..<b] @ rev [0..<a]"
  by (metis le0 le_add_diff_inverse rev_append upt_add_eq_append)

lemma word_bits_split:
  "a \<le> b \<Longrightarrow> word_bits b w = map (bit w) (rev [a..<b]) @ word_bits a w"
  by (simp add: word_bits_def upt_split_rev [of a b])

lemma octets_pushed:
  assumes "8 \<le> n"
  shows "octets (word_bits n (w :: u32) @ rest) =
           ucast (drop_bit (n - 8) w AND 0xFF) # octets (word_bits (n - 8) w @ rest)"
proof -
  have "word_bits n w = map (bit w) (rev [n - 8..<(n - 8) + 8]) @ word_bits (n - 8) w"
    using word_bits_split [of "n - 8" n w] assms by simp
  then show ?thesis
    unfolding pushed_byte by (simp only: append_assoc) (subst octets_append, simp_all)
qed

section \<open>The loop computes the specification\<close>

lemma position_less: "position p xs = Some i \<Longrightarrow> i < length xs"
  by (induction xs arbitrary: i) (auto split: if_splits)

lemma length_ALPHABET [simp]: "length ALPHABET = 64"
  by (simp add: ALPHABET_def)

lemma base64_loop_spec:
  "bits < 8 \<Longrightarrow> base64_loop cs buffer bits out =
     map_option (\<lambda>rest. out @ octets (word_bits bits buffer @ rest)) (sextets cs)"
proof (induction cs buffer bits out rule: base64_loop.induct)
  case (1 buffer bits out)
  then show ?case by simp
next
  case (2 byte cs buffer bits out)
  show ?case
  proof (cases "position (\<lambda>candidate. candidate = byte) ALPHABET")
    case None
    then show ?thesis by (simp add: sextet_def)
  next
    case (Some index)
    then have index: "index < 64"
      using position_less by fastforce
    let ?buffer = "push_bit 6 buffer OR word_of_nat index :: u32"
    have new: "word_bits (bits + 6) ?buffer = word_bits bits buffer @ word_bits 6 (word_of_nat index :: u32)"
      using index "2.prems" by (rule shifted_in)
    have bits6: "sextet byte = Some (word_bits 6 (word_of_nat index :: u32))"
      using Some by (simp add: sextet_def)
    show ?thesis
    proof (cases "8 \<le> bits + 6")
      case True
      with "2.prems" have small: "bits + 6 - 8 < 8" by simp
      have "octets ((word_bits bits buffer @ word_bits 6 (word_of_nat index :: u32)) @ rest) =
          ucast (drop_bit (bits + 6 - 8) ?buffer AND 0xFF)
            # octets (word_bits (bits + 6 - 8) ?buffer @ rest)" for rest
        unfolding new [symmetric] using True by (rule octets_pushed)
      with True Some bits6 "2.IH"(1) [OF Some refl refl True small] show ?thesis
        by (simp add: Let_def option.map_comp comp_def)
    next
      case False
      with Some bits6 "2.IH"(2) [OF Some refl refl False] new show ?thesis
        by (simp add: Let_def option.map_comp comp_def flip: append_assoc)
    qed
  qed
qed

lemma base64_decode_spec: "base64_decode s = base64_spec s"
  by (simp add: base64_decode_def base64_spec_def base64_loop_spec word_bits_def)


section \<open>The decoder undoes the encoder\<close>

lemma distinct_ALPHABET: "distinct ALPHABET"
  by code_simp

lemma position_nth: "distinct xs \<Longrightarrow> i < length xs \<Longrightarrow> position (\<lambda>d. d = xs ! i) xs = Some i"
proof (induction xs arbitrary: i)
  case Nil
  then show ?case by simp
next
  case (Cons x xs)
  then show ?case by (cases i) auto
qed

lemma pad_not_in_ALPHABET: "CHR ''='' \<notin> set ALPHABET"
  by code_simp

lemma unat_sextet: "unat (x AND 0x3f :: u32) < 64"
proof -
  have "unat (x AND 0x3f) \<le> unat (0x3f :: u32)"
    by (rule word_and_le1 [THEN word_le_nat_alt [THEN iffD1]])
  then show ?thesis by simp
qed

lemma sextet_encoded: "sextet (ALPHABET ! unat (x AND 0x3f :: u32)) = Some (word_bits 6 x)"
proof -
  have "word_bits 6 (x AND 0x3f) = word_bits 6 x"
  proof -
    have "bit (0x3f :: u32) n" if "n < 6" for n
    proof -
      have "bit (mask 6 :: u32) n" using that by (simp only: bit_mask_iff) simp
      then show ?thesis by (simp add: mask_eq_exp_minus_1)
    qed
    then show ?thesis by (auto simp: word_bits_def bit_simps)
  qed
  then show ?thesis
    using unat_sextet [of x] by (simp add: sextet_def position_nth distinct_ALPHABET)
qed

lemma encoded_not_pad: "ALPHABET ! unat (x AND 0x3f :: u32) \<noteq> CHR ''=''"
  using unat_sextet [of x] pad_not_in_ALPHABET by (metis length_ALPHABET nth_mem)

lemma body_no_pad: "CHR ''='' \<notin> set (map (\<lambda>x :: u32. ALPHABET ! unat (x AND 0x3f)) xs)"
  by (auto simp: encoded_not_pad [symmetric])

lemma sextets_append:
  "sextets (cs @ ds) =
     (case sextets cs of None \<Rightarrow> None | Some bs \<Rightarrow> map_option (\<lambda>rest. bs @ rest) (sextets ds))"
proof (induction cs)
  case Nil
  then show ?case by (cases "sextets ds") simp_all
next
  case (Cons c cs)
  then show ?case
    by (cases "sextets ds") (simp_all split: option.splits)
qed

text \<open>The three bytes of a chunk are the bits of the word the encoder builds.\<close>

definition triple :: "u8 \<Rightarrow> u8 \<Rightarrow> u8 \<Rightarrow> u32" where
  "triple a b c = push_bit 16 (ucast a) OR push_bit 8 (ucast b) OR ucast c"

lemma u8_high_bits: "8 \<le> n \<Longrightarrow> \<not> bit (w :: u8) n"
  using bit_imp_le_length [of w n] by auto

lemma triple_byte:
  "i < 8 \<Longrightarrow> bit (triple a b c) (i + 16) = bit a i"
  "i < 8 \<Longrightarrow> bit (triple a b c) (i + 8) = bit b i"
  "i < 8 \<Longrightarrow> bit (triple a b c) i = bit c i"
  by (auto simp: triple_def bit_simps u8_high_bits)

lemma bits_shift: "map (bit w) (rev [k..<k + 8]) = map (\<lambda>i. bit w (i + k)) (rev [0..<8])"
proof -
  have "[k..<k + 8] = map (\<lambda>i. i + k) [0..<8]"
    by (metis add.commute map_add_upt)
  then show ?thesis by (simp only: rev_map map_map comp_def)
qed

lemma triple_bits:
  "map (bit (triple a b c)) (rev [0..<24]) = word_bits 8 a @ word_bits 8 b @ word_bits 8 c"
proof -
  let ?t = "triple a b c"
  have "map (bit ?t) (rev [0..<24]) =
      map (bit ?t) (rev [16..<16 + 8]) @ map (bit ?t) (rev [8..<8 + 8]) @ map (bit ?t) (rev [0..<0 + 8])"
    using word_bits_split [of 16 24 ?t] word_bits_split [of 8 16 ?t] by (simp add: word_bits_def)
  also have "\<dots> = word_bits 8 a @ word_bits 8 b @ word_bits 8 c"
    unfolding bits_shift word_bits_def
    by (intro arg_cong2 [where f = append] map_cong refl) (simp_all add: triple_byte)
  finally show ?thesis .
qed

lemma sextet_groups:
  "word_bits 6 (drop_bit 18 t) @ word_bits 6 (drop_bit 12 t) @ word_bits 6 (drop_bit 6 t) @
     word_bits 6 t = map (bit (t :: u32)) (rev [0..<24])"
  by (simp add: word_bits_def upt_rec bit_simps numeral_eq_Suc)

lemma chunk_sextets:
  fixes a b c :: u8
  defines "t \<equiv> triple a b c"
  shows "word_bits 6 (drop_bit 18 t) @ word_bits 6 (drop_bit 12 t) @ word_bits 6 (drop_bit 6 t) @
     word_bits 6 t = word_bits 8 a @ word_bits 8 b @ word_bits 8 c"
  unfolding t_def sextet_groups triple_bits ..

definition encodes :: "string \<Rightarrow> bool list \<Rightarrow> bool" where
  "encodes s bs \<longleftrightarrow> (\<exists>body n pad. s = body @ replicate n CHR ''='' \<and> CHR ''='' \<notin> set body \<and>
     length pad < 8 \<and> sextets body = Some (bs @ pad))"

lemma chunk3:
  "\<exists>cs. base64_chunk [a, b, c] = cs \<and> CHR ''='' \<notin> set cs \<and>
     sextets cs = Some (word_bits 8 a @ word_bits 8 b @ word_bits 8 c)"
proof -
  have "base64_chunk [a, b, c] = map (\<lambda>x. ALPHABET ! unat (x AND 0x3f))
      [drop_bit 18 (triple a b c), drop_bit 12 (triple a b c), drop_bit 6 (triple a b c), triple a b c]"
    by (simp add: base64_chunk_def Let_def triple_def)
  moreover have "sextets \<dots> = Some (word_bits 8 a @ word_bits 8 b @ word_bits 8 c)"
    by (simp add: sextet_encoded chunk_sextets)
  ultimately show ?thesis
    using body_no_pad by metis
qed

lemma chunk2: "encodes (base64_chunk [a, b]) (word_bits 8 a @ word_bits 8 b)"
proof -
  let ?t = "triple a b 0"
  let ?body = "map (\<lambda>x. ALPHABET ! unat (x AND 0x3f)) [drop_bit 18 ?t, drop_bit 12 ?t, drop_bit 6 ?t]"
  have "base64_chunk [a, b] = ?body @ replicate 1 CHR ''=''"
    by (simp add: base64_chunk_def Let_def triple_def)
  moreover have "take 18 (word_bits 6 (drop_bit 18 ?t) @ word_bits 6 (drop_bit 12 ?t) @
      word_bits 6 (drop_bit 6 ?t) @ word_bits 6 ?t) =
    take 18 (word_bits 8 a @ word_bits 8 b @ word_bits 8 (0 :: u8))"
    by (simp only: chunk_sextets)
  then have "sextets ?body = Some ((word_bits 8 a @ word_bits 8 b) @ take 2 (word_bits 8 (0 :: u8)))"
    by (simp add: sextet_encoded)
  moreover have "CHR ''='' \<notin> set ?body"
    by (rule body_no_pad)
  ultimately show ?thesis
    unfolding encodes_def by (intro exI [of _ ?body] exI [of _ 1] exI [of _ "take 2 (word_bits 8 (0 :: u8))"]) simp
qed

lemma chunk1: "encodes (base64_chunk [a]) (word_bits 8 a)"
proof -
  let ?t = "triple a 0 0"
  let ?body = "map (\<lambda>x. ALPHABET ! unat (x AND 0x3f)) [drop_bit 18 ?t, drop_bit 12 ?t]"
  have "base64_chunk [a] = ?body @ replicate 2 CHR ''=''"
    by (simp add: base64_chunk_def Let_def triple_def numeral_2_eq_2)
  moreover have "take 12 (word_bits 6 (drop_bit 18 ?t) @ word_bits 6 (drop_bit 12 ?t) @
      word_bits 6 (drop_bit 6 ?t) @ word_bits 6 ?t) =
    take 12 (word_bits 8 a @ word_bits 8 (0 :: u8) @ word_bits 8 (0 :: u8))"
    by (simp only: chunk_sextets)
  then have "sextets ?body = Some (word_bits 8 a @ take 4 (word_bits 8 (0 :: u8)))"
    by (simp add: sextet_encoded)
  moreover have "CHR ''='' \<notin> set ?body"
    by (rule body_no_pad)
  ultimately show ?thesis
    unfolding encodes_def by (intro exI [of _ ?body] exI [of _ 2] exI [of _ "take 4 (word_bits 8 (0 :: u8))"]) simp
qed

lemma base64_Nil [simp]: "base64 [] = []"
  by (simp add: base64_def chunks.simps)

lemma base64_three: "base64 (a # b # c # bs) = base64_chunk [a, b, c] @ base64 bs"
  by (simp add: base64_def chunks.simps [of 3 "a # b # c # bs"])

lemma base64_short: "bs \<noteq> [] \<Longrightarrow> length bs \<le> 3 \<Longrightarrow> base64 bs = base64_chunk bs"
  by (simp add: base64_def chunks.simps [of 3 bs] chunks.simps [of 3 "[]"])

lemma encodes_append:
  assumes "CHR ''='' \<notin> set cs" and "sextets cs = Some bs" and "encodes s ds"
  shows "encodes (cs @ s) (bs @ ds)"
proof -
  from assms(3) obtain body n pad where "s = body @ replicate n CHR ''=''" "CHR ''='' \<notin> set body"
      "length pad < 8" "sextets body = Some (ds @ pad)"
    by (auto simp: encodes_def)
  then show ?thesis
    unfolding encodes_def using assms(1,2)
    by (intro exI [of _ "cs @ body"] exI [of _ n] exI [of _ pad]) (simp add: sextets_append)
qed

lemma base64_encodes: "encodes (base64 bs) (concat (map (word_bits 8) bs))"
proof (induction bs rule: length_induct)
  case (1 bs)
  show ?case
  proof (cases "length bs < 3")
    case True
    then consider "bs = []" | a where "bs = [a]" | a b where "bs = [a, b]"
      by (cases bs; cases "tl bs"; cases "tl (tl bs)") auto
    then show ?thesis
    proof cases
      case 1
      then show ?thesis
        by (auto simp: encodes_def intro!: exI [of _ "[]"] exI [of _ 0])
    qed (use chunk1 chunk2 in \<open>simp_all add: base64_short\<close>)
  next
    case False
    then obtain a b c rest where bs: "bs = a # b # c # rest"
      by (cases bs; cases "tl bs"; cases "tl (tl bs)") auto
    with 1 have "encodes (base64 rest) (concat (map (word_bits 8) rest))" by simp
    moreover obtain cs where "base64_chunk [a, b, c] = cs" "CHR ''='' \<notin> set cs"
        "sextets cs = Some (word_bits 8 a @ word_bits 8 b @ word_bits 8 c)"
      using chunk3 by blast
    ultimately show ?thesis
      using encodes_append by (fastforce simp: bs base64_three)
  qed
qed

lemma octets_concat: "length pad < 8 \<Longrightarrow> octets (concat (map (word_bits 8) bs) @ pad) = bs"
  by (induction bs) simp_all

lemma base64_decode_encoded: "encodes s (concat (map (word_bits 8) bs)) \<Longrightarrow> base64_decode s = Some bs"
  by (auto simp: encodes_def base64_decode_spec base64_spec_def trim_end_matches_id octets_concat)

interpretation b64: codec base64 base64_decode
  by unfold_locales (rule base64_decode_encoded [OF base64_encodes])


lemma base64_padded: "length bs mod 3 \<noteq> 0 \<Longrightarrow> CHR ''='' \<in> set (base64 bs)"
proof (induction bs rule: length_induct)
  case (1 bs)
  show ?case
  proof (cases "length bs \<le> 2")
    case True
    with 1(2) show ?thesis
      by (cases bs; cases "tl bs")
        (auto simp: base64_short base64_chunk_def Let_def)
  next
    case False
    then obtain a b c cs where bs: "bs = a # b # c # cs"
      by (cases bs; cases "tl bs"; cases "tl (tl bs)") auto
    with 1(2) have "length cs mod 3 \<noteq> 0" by simp
    with 1(1) bs show ?thesis by (simp add: base64_three)
  qed
qed

lemma base64_chars: "c \<in> set (base64 bs) \<Longrightarrow> c \<in> set ALPHABET \<or> c = CHR ''=''"
proof -
  have "d \<in> set (base64_chunk xs) \<Longrightarrow> d \<in> set ALPHABET \<or> d = CHR ''=''" for d xs
    by (auto simp: base64_chunk_def Let_def unat_sextet split: if_splits intro!: nth_mem)
  then show "c \<in> set (base64 bs) \<Longrightarrow> c \<in> set ALPHABET \<or> c = CHR ''=''"
    by (auto simp: base64_def)
qed

lemma length_base64: "length (base64 bs) = 4 * ((length bs + 2) div 3)"
proof (induction bs rule: length_induct)
  case (1 bs)
  show ?case
  proof (cases "length bs \<le> 2")
    case True
    then show ?thesis
      by (cases bs; cases "tl bs") (auto simp: base64_short base64_chunk_def Let_def)
  next
    case False
    then obtain a b c cs where bs: "bs = a # b # c # cs"
      by (cases bs; cases "tl bs"; cases "tl (tl bs)") auto
    have "(length bs + 2) div 3 = Suc ((length cs + 2) div 3)"
      using div_add_self2 [of 3 "length cs + 2"] bs by (simp add: add.commute)
    with 1 bs show ?thesis by (simp add: base64_three base64_chunk_def Let_def)
  qed
qed

section \<open>Properties\<close>

text \<open>
  The base64 the window's script is embedded with decodes, with the updater's decoder, to
  exactly the bytes that went in, for every input and every length.
\<close>

lemma base64_roundtrip: "base64_decode (base64 bs) = Some bs"
  by (rule b64.dec_enc)

text \<open>
  C28: the decoder's shifting 32-bit buffer computes the bit stream: strip the padding, write each
  character as its six bits, refuse any character outside the alphabet, cut the stream into
  bytes and drop what is left over. The wrap-around of the buffer loses nothing.
\<close>

theorem base64_decode_is_bit_stream: "base64_decode s = base64_spec s"
  by (rule base64_decode_spec)

text \<open>
  Encoded text is four characters for every three bytes begun and consists of the alphabet and
  padding alone, so nothing in it can end the script string or the tag it is embedded in.
\<close>

lemma base64_shape:
  "length (base64 bs) = 4 * ((length bs + 2) div 3) \<and>
   set (base64 bs) \<subseteq> set ALPHABET \<union> {CHR ''=''}"
  using length_base64 base64_chars by blast

end
