(* ===== verification/Url_Origin.thy ===== *)
theory Url_Origin
  imports Rust_Prelude
begin

text \<open>
  What an origin is: scheme, host and port of an absolute http URL, lowercased. Two functions of
  the program compute it (\<open>origin_of\<close> of the localhost contract, and a second \<open>origin_of\<close> local
  to the updater's \<open>is_same_origin\<close>); both are interpretations of the locale \<open>origin_policy\<close>, in
  which the facts about exact origin comparison are proved once.
\<close>

definition ends_authority :: "char \<Rightarrow> bool" where
  "ends_authority c = (c = CHR ''/'' \<or> c = CHR ''?'' \<or> c = CHR ''#'')"

definition http_origin :: "string \<Rightarrow> string \<Rightarrow> bool" where
  "http_origin url origin \<longleftrightarrow>
     (\<exists>scheme authority rest.
        (scheme = ''https'' \<or> scheme = ''http'') \<and>
        to_ascii_lowercase (trim url) = scheme @ ''://'' @ authority @ rest \<and>
        authority \<noteq> [] \<and> (\<forall>c\<in>set authority. \<not> ends_authority c) \<and>
        (rest = [] \<or> ends_authority (hd rest)) \<and>
        origin = scheme @ ''://'' @ authority)"

lemma takeWhile_split:
  assumes "\<forall>c\<in>set a. \<not> P c" and "r = [] \<or> P (hd r)"
  shows "takeWhile (\<lambda>c. \<not> P c) (a @ r) = a"
  using assms by (cases r) (simp_all add: takeWhile_append2)

text \<open>
  The shape both functions share: cut off the scheme, take the text up to the first delimiter,
  refuse an empty one.
\<close>

lemma http_origin_scheme:
  assumes "scheme = ''https'' \<or> scheme = ''http''"
    and "to_ascii_lowercase (trim url) = scheme @ ''://'' @ rest"
  shows "http_origin url origin \<longleftrightarrow>
    (let authority = takeWhile (\<lambda>c. \<not> ends_authority c) rest
     in authority \<noteq> [] \<and> origin = scheme @ ''://'' @ authority)"
proof -
  let ?a = "takeWhile (\<lambda>c. \<not> ends_authority c) rest"
  let ?r = "dropWhile (\<lambda>c. \<not> ends_authority c) rest"
  have good1: "\<forall>c\<in>set ?a. \<not> ends_authority c"
    by (blast dest: set_takeWhileD)
  have good2: "?r = [] \<or> ends_authority (hd ?r)"
    using hd_dropWhile [of "\<lambda>c. \<not> ends_authority c" rest] by blast
  have same: "scheme' = scheme \<and> rest' = rest"
    if s: "scheme' = ''https'' \<or> scheme' = ''http''"
      and eq: "to_ascii_lowercase (trim url) = scheme' @ ''://'' @ rest'" for scheme' rest'
  proof -
    from eq assms(2) have "scheme' @ ''://'' @ rest' = scheme @ ''://'' @ rest" by simp
    with s assms(1) show ?thesis by (elim disjE) simp_all
  qed
  show ?thesis
  proof
    assume "http_origin url origin"
    then obtain scheme' authority rest'
      where o: "scheme' = ''https'' \<or> scheme' = ''http''"
        "to_ascii_lowercase (trim url) = scheme' @ ''://'' @ authority @ rest'"
        "authority \<noteq> []" "\<forall>c\<in>set authority. \<not> ends_authority c"
        "rest' = [] \<or> ends_authority (hd rest')" "origin = scheme' @ ''://'' @ authority"
      by (auto simp only: http_origin_def)
    from same [OF o(1,2)] have "scheme' = scheme" and "rest = authority @ rest'" by auto
    with o takeWhile_split [of authority ends_authority rest'] show
      "let authority = ?a in authority \<noteq> [] \<and> origin = scheme @ ''://'' @ authority"
      by (simp add: Let_def)
  next
    assume "let authority = ?a in authority \<noteq> [] \<and> origin = scheme @ ''://'' @ authority"
    then have "?a \<noteq> []" and "origin = scheme @ ''://'' @ ?a" by (simp_all add: Let_def)
    moreover have "to_ascii_lowercase (trim url) = scheme @ ''://'' @ ?a @ ?r"
      using assms(2) by (simp only: takeWhile_dropWhile_id)
    ultimately show "http_origin url origin"
      unfolding http_origin_def using assms(1) good1 good2
      by (intro exI [of _ scheme] exI [of _ ?a] exI [of _ ?r] conjI)
  qed
qed

lemma http_origin_no_scheme:
  assumes "strip_prefix ''https://'' (to_ascii_lowercase (trim url)) = None"
    and "strip_prefix ''http://'' (to_ascii_lowercase (trim url)) = None"
  shows "\<not> http_origin url origin"
proof
  assume "http_origin url origin"
  then obtain scheme r where "scheme = ''https'' \<or> scheme = ''http''"
    "to_ascii_lowercase (trim url) = scheme @ ''://'' @ r"
    by (auto simp only: http_origin_def append.assoc)
  then have "strip_prefix ''https://'' (to_ascii_lowercase (trim url)) = Some r \<or>
      strip_prefix ''http://'' (to_ascii_lowercase (trim url)) = Some r"
    by (auto simp: strip_prefix_Some)
  with assms show False by simp
qed

section \<open>The interface of an origin function\<close>

locale origin_policy =
  fixes origin_of :: "string \<Rightarrow> string option"
  assumes origin_iff: "origin_of url = Some origin \<longleftrightarrow> http_origin url origin"
begin

lemma origin_unique: "http_origin url o1 \<Longrightarrow> http_origin url o2 \<Longrightarrow> o1 = o2"
  by (metis option.inject origin_iff)

text \<open>A URL of the origin is the origin, then nothing or a delimiter.\<close>

lemma origin_extends:
  assumes "origin_of url = Some origin"
  shows "\<exists>rest. to_ascii_lowercase (trim url) = origin @ rest \<and>
    (rest = [] \<or> ends_authority (hd rest))"
  using assms by (auto simp: origin_iff http_origin_def)

text \<open>So a longer host name in front of which the trusted one stands has another origin.\<close>

lemma lookalike_refused:
  assumes "origin_of trusted = Some origin"
    and "to_ascii_lowercase (trim url) = origin @ c # rest" and "\<not> ends_authority c"
  shows "origin_of url \<noteq> Some origin"
proof
  assume "origin_of url = Some origin"
  then obtain rest' where "to_ascii_lowercase (trim url) = origin @ rest'"
    and "rest' = [] \<or> ends_authority (hd rest')"
    using origin_extends by blast
  with assms(2,3) show False by auto
qed

lemma origin_trim: "trim url = trim url' \<Longrightarrow> origin_of url = origin_of url'"
proof -
  assume "trim url = trim url'"
  then have same: "origin_of url = Some origin \<longleftrightarrow> origin_of url' = Some origin" for origin
    unfolding origin_iff http_origin_def by simp
  show ?thesis
  proof (cases "origin_of url")
    case None
    with same show ?thesis by (metis not_None_eq)
  next
    case (Some origin)
    with same [of origin] show ?thesis by simp
  qed
qed

end

end
