(* ===== verification/Protocol_Types.thy ===== *)
theory Protocol_Types
  imports Rust_Prelude
begin

text \<open>
  The wire protocol's data, \<open>packages/protocol/generated/rust/protocol.rs\<close>: its constants, its
  eight enums with their wire names and the array of their variants, and its twenty-one
  messages as records. A field carries a short prefix of its message, because the source
  uses the same field names in several messages and a record field is a global name.
\<close>

lemmas all_variants = list_all_iff list_ex_iff

section \<open>Constants\<close>

definition PROTOCOL_VERSION :: u32 where
  "PROTOCOL_VERSION = 1"

definition NONCE_TTL_SECONDS :: u32 where
  "NONCE_TTL_SECONDS = 30"

definition HEARTBEAT_INTERVAL_SECONDS :: u32 where
  "HEARTBEAT_INTERVAL_SECONDS = 120"

definition HEARTBEAT_GRACE_SECONDS :: u32 where
  "HEARTBEAT_GRACE_SECONDS = 90"

definition VERDICT_POLL_TIMEOUT_SECONDS :: u32 where
  "VERDICT_POLL_TIMEOUT_SECONDS = 20"

definition COMPANION_POLL_TIMEOUT_SECONDS :: u32 where
  "COMPANION_POLL_TIMEOUT_SECONDS = 25"

definition LOCAL_PORT_RANGE_START :: u32 where
  "LOCAL_PORT_RANGE_START = 52800"

definition LOCAL_PORT_RANGE_END :: u32 where
  "LOCAL_PORT_RANGE_END = 52899"

section \<open>Enums\<close>

datatype PolicyTier =
    Relaxed
  | Standard
  | Strict

primrec PolicyTier_as_wire_str :: "PolicyTier \<Rightarrow> string" where
  "PolicyTier_as_wire_str PolicyTier.Relaxed = ''relaxed''"
| "PolicyTier_as_wire_str PolicyTier.Standard = ''standard''"
| "PolicyTier_as_wire_str PolicyTier.Strict = ''strict''"

definition PolicyTier_ALL :: "PolicyTier list" where
  "PolicyTier_ALL =
     [PolicyTier.Relaxed,
      PolicyTier.Standard,
      PolicyTier.Strict]"

lemma set_PolicyTier_ALL [simp]: "set PolicyTier_ALL = UNIV"
  by (rule set_eq_UNIV_I, case_tac x) (simp_all add: PolicyTier_ALL_def)

instantiation PolicyTier :: enum
begin

definition "enum_PolicyTier = PolicyTier_ALL"
definition "enum_all_PolicyTier P = list_all P PolicyTier_ALL"
definition "enum_ex_PolicyTier P = list_ex P PolicyTier_ALL"

instance
  by standard
    (simp_all add: enum_PolicyTier_def enum_all_PolicyTier_def enum_ex_PolicyTier_def all_variants,
      simp add: PolicyTier_ALL_def)

end

datatype FailMode =
    FailOpen
  | FailClosed

primrec FailMode_as_wire_str :: "FailMode \<Rightarrow> string" where
  "FailMode_as_wire_str FailMode.FailOpen = ''fail_open''"
| "FailMode_as_wire_str FailMode.FailClosed = ''fail_closed''"

definition FailMode_ALL :: "FailMode list" where
  "FailMode_ALL =
     [FailMode.FailOpen,
      FailMode.FailClosed]"

lemma set_FailMode_ALL [simp]: "set FailMode_ALL = UNIV"
  by (rule set_eq_UNIV_I, case_tac x) (simp_all add: FailMode_ALL_def)

instantiation FailMode :: enum
begin

definition "enum_FailMode = FailMode_ALL"
definition "enum_all_FailMode P = list_all P FailMode_ALL"
definition "enum_ex_FailMode P = list_ex P FailMode_ALL"

instance
  by standard
    (simp_all add: enum_FailMode_def enum_all_FailMode_def enum_ex_FailMode_def all_variants,
      simp add: FailMode_ALL_def)

end

datatype FeatureState =
    Enabled
  | Disabled
  | Unknown

primrec FeatureState_as_wire_str :: "FeatureState \<Rightarrow> string" where
  "FeatureState_as_wire_str FeatureState.Enabled = ''enabled''"
| "FeatureState_as_wire_str FeatureState.Disabled = ''disabled''"
| "FeatureState_as_wire_str FeatureState.Unknown = ''unknown''"

definition FeatureState_ALL :: "FeatureState list" where
  "FeatureState_ALL =
     [FeatureState.Enabled,
      FeatureState.Disabled,
      FeatureState.Unknown]"

lemma set_FeatureState_ALL [simp]: "set FeatureState_ALL = UNIV"
  by (rule set_eq_UNIV_I, case_tac x) (simp_all add: FeatureState_ALL_def)

instantiation FeatureState :: enum
begin

definition "enum_FeatureState = FeatureState_ALL"
definition "enum_all_FeatureState P = list_all P FeatureState_ALL"
definition "enum_ex_FeatureState P = list_ex P FeatureState_ALL"

instance
  by standard
    (simp_all add: enum_FeatureState_def enum_all_FeatureState_def enum_ex_FeatureState_def all_variants,
      simp add: FeatureState_ALL_def)

end

datatype SessionState =
    Pending
  | Attested
  | Active
  | Expired
  | Terminated

primrec SessionState_as_wire_str :: "SessionState \<Rightarrow> string" where
  "SessionState_as_wire_str SessionState.Pending = ''pending''"
| "SessionState_as_wire_str SessionState.Attested = ''attested''"
| "SessionState_as_wire_str SessionState.Active = ''active''"
| "SessionState_as_wire_str SessionState.Expired = ''expired''"
| "SessionState_as_wire_str SessionState.Terminated = ''terminated''"

definition SessionState_ALL :: "SessionState list" where
  "SessionState_ALL =
     [SessionState.Pending,
      SessionState.Attested,
      SessionState.Active,
      SessionState.Expired,
      SessionState.Terminated]"

lemma set_SessionState_ALL [simp]: "set SessionState_ALL = UNIV"
  by (rule set_eq_UNIV_I, case_tac x) (simp_all add: SessionState_ALL_def)

instantiation SessionState :: enum
begin

definition "enum_SessionState = SessionState_ALL"
definition "enum_all_SessionState P = list_all P SessionState_ALL"
definition "enum_ex_SessionState P = list_ex P SessionState_ALL"

instance
  by standard
    (simp_all add: enum_SessionState_def enum_all_SessionState_def enum_ex_SessionState_def all_variants,
      simp add: SessionState_ALL_def)

end

datatype VerdictDecision =
    Allow
  | Deny
  | Pending

primrec VerdictDecision_as_wire_str :: "VerdictDecision \<Rightarrow> string" where
  "VerdictDecision_as_wire_str VerdictDecision.Allow = ''allow''"
| "VerdictDecision_as_wire_str VerdictDecision.Deny = ''deny''"
| "VerdictDecision_as_wire_str VerdictDecision.Pending = ''pending''"

definition VerdictDecision_ALL :: "VerdictDecision list" where
  "VerdictDecision_ALL =
     [VerdictDecision.Allow,
      VerdictDecision.Deny,
      VerdictDecision.Pending]"

lemma set_VerdictDecision_ALL [simp]: "set VerdictDecision_ALL = UNIV"
  by (rule set_eq_UNIV_I, case_tac x) (simp_all add: VerdictDecision_ALL_def)

instantiation VerdictDecision :: enum
begin

definition "enum_VerdictDecision = VerdictDecision_ALL"
definition "enum_all_VerdictDecision P = list_all P VerdictDecision_ALL"
definition "enum_ex_VerdictDecision P = list_ex P VerdictDecision_ALL"

instance
  by standard
    (simp_all add: enum_VerdictDecision_def enum_all_VerdictDecision_def enum_ex_VerdictDecision_def all_variants,
      simp add: VerdictDecision_ALL_def)

end

datatype RequirementId =
    CompanionAttested
  | TestSigningDisabled
  | KernelDebuggingDisabled
  | SecureBootEnabled
  | TpmAttestationValid
  | HvciEnabled
  | DriverBlocklistEnabled
  | IommuEnabled
  | VulnerableDriversAbsent
  | GameProcessPresent
  | NetworkOriginMatches

primrec RequirementId_as_wire_str :: "RequirementId \<Rightarrow> string" where
  "RequirementId_as_wire_str RequirementId.CompanionAttested = ''companion_attested''"
| "RequirementId_as_wire_str RequirementId.TestSigningDisabled = ''test_signing_disabled''"
| "RequirementId_as_wire_str RequirementId.KernelDebuggingDisabled = ''kernel_debugging_disabled''"
| "RequirementId_as_wire_str RequirementId.SecureBootEnabled = ''secure_boot_enabled''"
| "RequirementId_as_wire_str RequirementId.TpmAttestationValid = ''tpm_attestation_valid''"
| "RequirementId_as_wire_str RequirementId.HvciEnabled = ''hvci_enabled''"
| "RequirementId_as_wire_str RequirementId.DriverBlocklistEnabled = ''driver_blocklist_enabled''"
| "RequirementId_as_wire_str RequirementId.IommuEnabled = ''iommu_enabled''"
| "RequirementId_as_wire_str RequirementId.VulnerableDriversAbsent = ''vulnerable_drivers_absent''"
| "RequirementId_as_wire_str RequirementId.GameProcessPresent = ''game_process_present''"
| "RequirementId_as_wire_str RequirementId.NetworkOriginMatches = ''network_origin_matches''"

definition RequirementId_ALL :: "RequirementId list" where
  "RequirementId_ALL =
     [RequirementId.CompanionAttested,
      RequirementId.TestSigningDisabled,
      RequirementId.KernelDebuggingDisabled,
      RequirementId.SecureBootEnabled,
      RequirementId.TpmAttestationValid,
      RequirementId.HvciEnabled,
      RequirementId.DriverBlocklistEnabled,
      RequirementId.IommuEnabled,
      RequirementId.VulnerableDriversAbsent,
      RequirementId.GameProcessPresent,
      RequirementId.NetworkOriginMatches]"

lemma set_RequirementId_ALL [simp]: "set RequirementId_ALL = UNIV"
  by (rule set_eq_UNIV_I, case_tac x) (simp_all add: RequirementId_ALL_def)

instantiation RequirementId :: enum
begin

definition "enum_RequirementId = RequirementId_ALL"
definition "enum_all_RequirementId P = list_all P RequirementId_ALL"
definition "enum_ex_RequirementId P = list_ex P RequirementId_ALL"

instance
  by standard
    (simp_all add: enum_RequirementId_def enum_all_RequirementId_def enum_ex_RequirementId_def all_variants,
      simp add: RequirementId_ALL_def)

end

datatype RequirementStatus =
    Pass
  | Fail
  | Warn
  | Skipped
  | Unknown

primrec RequirementStatus_as_wire_str :: "RequirementStatus \<Rightarrow> string" where
  "RequirementStatus_as_wire_str RequirementStatus.Pass = ''pass''"
| "RequirementStatus_as_wire_str RequirementStatus.Fail = ''fail''"
| "RequirementStatus_as_wire_str RequirementStatus.Warn = ''warn''"
| "RequirementStatus_as_wire_str RequirementStatus.Skipped = ''skipped''"
| "RequirementStatus_as_wire_str RequirementStatus.Unknown = ''unknown''"

definition RequirementStatus_ALL :: "RequirementStatus list" where
  "RequirementStatus_ALL =
     [RequirementStatus.Pass,
      RequirementStatus.Fail,
      RequirementStatus.Warn,
      RequirementStatus.Skipped,
      RequirementStatus.Unknown]"

lemma set_RequirementStatus_ALL [simp]: "set RequirementStatus_ALL = UNIV"
  by (rule set_eq_UNIV_I, case_tac x) (simp_all add: RequirementStatus_ALL_def)

instantiation RequirementStatus :: enum
begin

definition "enum_RequirementStatus = RequirementStatus_ALL"
definition "enum_all_RequirementStatus P = list_all P RequirementStatus_ALL"
definition "enum_ex_RequirementStatus P = list_ex P RequirementStatus_ALL"

instance
  by standard
    (simp_all add: enum_RequirementStatus_def enum_all_RequirementStatus_def enum_ex_RequirementStatus_def all_variants,
      simp add: RequirementStatus_ALL_def)

end

datatype DenyReason =
    CompanionMissing
  | CompanionTimeout
  | CompanionOutdated
  | AttestationInvalid
  | NonceExpired
  | NonceReused
  | NetworkOriginMismatch
  | GameProcessMissing
  | PolicyNotMet
  | HeartbeatLost
  | BackendUnavailable
  | Banned

primrec DenyReason_as_wire_str :: "DenyReason \<Rightarrow> string" where
  "DenyReason_as_wire_str DenyReason.CompanionMissing = ''companion_missing''"
| "DenyReason_as_wire_str DenyReason.CompanionTimeout = ''companion_timeout''"
| "DenyReason_as_wire_str DenyReason.CompanionOutdated = ''companion_outdated''"
| "DenyReason_as_wire_str DenyReason.AttestationInvalid = ''attestation_invalid''"
| "DenyReason_as_wire_str DenyReason.NonceExpired = ''nonce_expired''"
| "DenyReason_as_wire_str DenyReason.NonceReused = ''nonce_reused''"
| "DenyReason_as_wire_str DenyReason.NetworkOriginMismatch = ''network_origin_mismatch''"
| "DenyReason_as_wire_str DenyReason.GameProcessMissing = ''game_process_missing''"
| "DenyReason_as_wire_str DenyReason.PolicyNotMet = ''policy_not_met''"
| "DenyReason_as_wire_str DenyReason.HeartbeatLost = ''heartbeat_lost''"
| "DenyReason_as_wire_str DenyReason.BackendUnavailable = ''backend_unavailable''"
| "DenyReason_as_wire_str DenyReason.Banned = ''banned''"

definition DenyReason_ALL :: "DenyReason list" where
  "DenyReason_ALL =
     [DenyReason.CompanionMissing,
      DenyReason.CompanionTimeout,
      DenyReason.CompanionOutdated,
      DenyReason.AttestationInvalid,
      DenyReason.NonceExpired,
      DenyReason.NonceReused,
      DenyReason.NetworkOriginMismatch,
      DenyReason.GameProcessMissing,
      DenyReason.PolicyNotMet,
      DenyReason.HeartbeatLost,
      DenyReason.BackendUnavailable,
      DenyReason.Banned]"

lemma set_DenyReason_ALL [simp]: "set DenyReason_ALL = UNIV"
  by (rule set_eq_UNIV_I, case_tac x) (simp_all add: DenyReason_ALL_def)

instantiation DenyReason :: enum
begin

definition "enum_DenyReason = DenyReason_ALL"
definition "enum_all_DenyReason P = list_all P DenyReason_ALL"
definition "enum_ex_DenyReason P = list_ex P DenyReason_ALL"

instance
  by standard
    (simp_all add: enum_DenyReason_def enum_all_DenyReason_def enum_ex_DenyReason_def all_variants,
      simp add: DenyReason_ALL_def)

end

section \<open>Messages\<close>

record SecurityFeatures =
  sf_secure_boot :: "FeatureState"
  sf_hvci :: "FeatureState"
  sf_test_signing :: "FeatureState"
  sf_kernel_debugging :: "FeatureState"
  sf_driver_blocklist :: "FeatureState"
  sf_iommu :: "FeatureState"
  sf_virtualization_based_security :: "FeatureState"

record TpmInfo =
  tpm_present :: "bool"
  tpm_manufacturer :: "string option"
  tpm_spec_version :: "string option"
  tpm_attestation_key_id :: "string option"

record GameProcessEvidence =
  gpe_pid :: "i64"
  gpe_started_at_unix_ms :: "i64"
  gpe_image_name :: "string"
  gpe_main_window_present :: "bool"

record SystemSnapshot =
  snap_schema_version :: "i64"
  snap_collected_at :: "string"
  snap_companion_version :: "string"
  snap_companion_build_hash :: "string"
  snap_os_build :: "string"
  snap_features :: "SecurityFeatures"
  snap_tpm :: "TpmInfo"
  snap_game_process :: "GameProcessEvidence option"
  snap_probe_errors :: "string list"

record AttestationQuote =
  quote_ak_public_key_id :: "string"
  quote_pcr_selection :: "i64 list"
  quote_pcr_digest :: "string"
  quote_quote_blob :: "string"
  quote_signature :: "string"

record PlayerIdentifiers =
  pid_license :: "string"
  pid_steam :: "string option"
  pid_discord :: "string option"
  pid_ip :: "string"

record NonceRequest =
  nrq_server_id :: "string"
  nrq_player :: "PlayerIdentifiers"
  nrq_game_build :: "string option"
  nrq_protocol_version :: "i64"

record NonceResponse =
  nrs_nonce :: "string"
  nrs_session_id :: "string"
  nrs_expires_at :: "string"
  nrs_policy_tier :: "PolicyTier"
  nrs_backend_url :: "string"
  nrs_protocol_version :: "i64"

record AttestationRequest =
  arq_nonce :: "string"
  arq_snapshot :: "SystemSnapshot"
  arq_quote :: "AttestationQuote option"
  arq_protocol_version :: "i64"

record AttestationAck =
  ack_accepted :: "bool"
  ack_session_id :: "string"
  ack_received_at :: "string"
  ack_heartbeat_interval_seconds :: "i64"

record RequirementResult =
  rr_requirement :: "RequirementId"
  rr_status :: "RequirementStatus"
  rr_detail :: "string option"

record Verdict =
  verdict_decision :: "VerdictDecision"
  verdict_session_id :: "string"
  verdict_reasons :: "DenyReason list"
  verdict_requirements :: "RequirementResult list"
  verdict_remediation :: "string option"
  verdict_policy_tier :: "PolicyTier"
  verdict_evaluated_at :: "string"
  verdict_fail_open :: "bool"

record LivenessResponse =
  live_session_id :: "string"
  live_state :: "SessionState"
  live_last_heartbeat_at :: "string option"
  live_grace_expires_at :: "string option"
  live_should_kick :: "bool"
  live_reason :: "DenyReason option"

record LocalAttestCommand =
  lac_nonce :: "string"
  lac_backend_url :: "string"
  lac_server_name :: "string option"
  lac_protocol_version :: "i64"

record LocalAttestAck =
  laa_accepted :: "bool"
  laa_companion_version :: "string"
  laa_protocol_version :: "i64"

record CompanionPollRequest =
  cpq_companion_version :: "string"
  cpq_wait_seconds :: "i64"
  cpq_protocol_version :: "i64"

record CompanionPollResponse =
  cpr_pending :: "bool"
  cpr_nonce :: "string option"
  cpr_server_name :: "string option"
  cpr_policy_tier :: "PolicyTier option"
  cpr_expires_at :: "string option"
  cpr_protocol_version :: "i64"

record CompanionOutcomeRequest =
  coq_session_id :: "string"
  coq_wait_seconds :: "i64"
  coq_protocol_version :: "i64"

record HeartbeatRequest =
  hrq_session_id :: "string"
  hrq_companion_build_hash :: "string"
  hrq_uptime_seconds :: "i64"
  hrq_game_process_present :: "bool"
  hrq_closing :: "bool option"
  hrq_protocol_version :: "i64"

record HeartbeatResponse =
  hrs_acknowledged :: "bool"
  hrs_next_interval_seconds :: "i64"
  hrs_terminate :: "bool"
  hrs_terminate_reason :: "DenyReason option"

record ProtocolError =
  perr_code :: "string"
  perr_message :: "string"
  perr_request_id :: "string option"

end
