(* ===== verification/Protocol_Check.thy ===== *)
theory Protocol_Check
  imports Protocol_Types
begin

text \<open>
  The generated validation of \<open>packages/protocol/generated/rust/protocol.rs\<close>: the helper module
  \<open>check\<close> (one definition per function, with the error text it formats) and the \<open>validate\<close>
  method of every message. The lemmas give each check as a condition on the value, then the
  message contracts the companion relies on: the shape of a nonce, the range of a heartbeat
  interval, the shape of a timestamp.
\<close>

named_theorems check_iff \<open>each check as the condition on the value it accepts\<close>

section \<open>The module \<open>check\<close>\<close>

definition check_length :: "string \<Rightarrow> string \<Rightarrow> nat option \<Rightarrow> nat option \<Rightarrow> string + unit" where
  "check_length value path lo hi = try_all
     [if_some lo (\<lambda>lo. if length value < lo
        then Inl (path @ '': shorter than '' @ show_nat lo @ '' characters'') else Inr ()),
      if_some hi (\<lambda>hi. if length value > hi
        then Inl (path @ '': longer than '' @ show_nat hi @ '' characters'') else Inr ())]"

definition check_range :: "i64 \<Rightarrow> string \<Rightarrow> i64 option \<Rightarrow> i64 option \<Rightarrow> string + unit" where
  "check_range value path lo hi = try_all
     [if_some lo (\<lambda>lo. if value < lo
        then Inl (path @ '': below the minimum of '' @ show_int lo) else Inr ()),
      if_some hi (\<lambda>hi. if value > hi
        then Inl (path @ '': above the maximum of '' @ show_int hi) else Inr ())]"

definition check_max_items :: "'a list \<Rightarrow> string \<Rightarrow> nat \<Rightarrow> string + unit" where
  "check_max_items value path hi =
     (if length value > hi
      then Inl (path @ '': holds more than '' @ show_nat hi @ '' items'') else Inr ())"

text \<open>
  \<open>chars().all(p)\<close> with a predicate that only ASCII characters satisfy is \<open>p\<close> on every byte:
  every byte of a longer UTF-8 sequence is above 127.
\<close>

definition check_hex :: "string \<Rightarrow> string \<Rightarrow> string + unit" where
  "check_hex value path =
     (if list_all is_ascii_hexdigit value then Inr ()
      else Inl (path @ '': does not look like hex''))"

definition check_base64 :: "string \<Rightarrow> string \<Rightarrow> string + unit" where
  "check_base64 value path =
     (if list_all (\<lambda>c. is_ascii_alphanumeric c \<or> c = CHR ''+'' \<or> c = CHR ''/'' \<or> c = CHR ''='') value
      then Inr () else Inl (path @ '': does not look like base64''))"

definition check_ip :: "string \<Rightarrow> string \<Rightarrow> string + unit" where
  "check_ip value path =
     (if value \<noteq> [] \<and> list_all (\<lambda>c. is_ascii_hexdigit c \<or> c = CHR ''.'' \<or> c = CHR '':'') value
      then Inr () else Inl (path @ '': does not look like an IP address''))"

definition check_uuid :: "string \<Rightarrow> string \<Rightarrow> string + unit" where
  "check_uuid value path =
     (if length value = 36 \<and>
         list_all (\<lambda>(index, byte). if index \<in> {8, 13, 18, 23} then byte = CHR ''-''
                                   else is_ascii_hexdigit byte)
           (enumerate 0 value)
      then Inr () else Inl (path @ '': does not look like a UUID''))"

definition datetime_SHAPE :: string where
  "datetime_SHAPE = ''0000-00-00T00:00:00''"

definition check_datetime :: "string \<Rightarrow> string \<Rightarrow> string + unit" where
  "check_datetime value path =
     (if length value \<ge> length datetime_SHAPE \<and>
         list_all (\<lambda>(index, expected). if expected = CHR ''0'' then is_ascii_digit (value ! index)
                                       else value ! index = expected)
           (enumerate 0 datetime_SHAPE)
      then Inr () else Inl (path @ '': does not look like an ISO 8601 timestamp''))"

definition unwrap_or :: "'a option \<Rightarrow> 'a \<Rightarrow> 'a" where
  "unwrap_or x d = (case x of None \<Rightarrow> d | Some y \<Rightarrow> y)"

lemma unwrap_or_simps [simp]: "unwrap_or None d = d" "unwrap_or (Some x) d = x"
  by (simp_all add: unwrap_or_def)

text \<open>
  The version is cut at the first dash or plus and split at dots; the three calls of
  \<open>parts.next()\<close> read the first three pieces.
\<close>

definition check_semver :: "string \<Rightarrow> string \<Rightarrow> string + unit" where
  "check_semver value path =
     (let core = unwrap_or (next_item (split_on (\<lambda>c. c = CHR ''-'' \<or> c = CHR ''+'') value)) [];
          parts = split_on (\<lambda>c. c = CHR ''.'') core;
          major = unwrap_or (next_item parts) [];
          minor = unwrap_or (next_item (drop 1 parts)) [];
          patch = unwrap_or (next_item (drop 2 parts)) [];
          numeric = (\<lambda>part. part \<noteq> [] \<and> list_all is_ascii_digit part)
      in if numeric major \<and> numeric minor \<and> numeric patch then Inr ()
         else Inl (path @ '': does not look like a semantic version''))"

section \<open>The \<open>validate\<close> methods\<close>

definition validate_SecurityFeatures :: "SecurityFeatures \<Rightarrow> string + unit" where
  "validate_SecurityFeatures self = try_all
     []"

definition validate_TpmInfo :: "TpmInfo \<Rightarrow> string + unit" where
  "validate_TpmInfo self = try_all
     [if_some (tpm_manufacturer self) (\<lambda>inner. check_length inner ''TpmInfo.manufacturer'' None (Some 64)),
      if_some (tpm_spec_version self) (\<lambda>inner. check_length inner ''TpmInfo.specVersion'' None (Some 32)),
      if_some (tpm_attestation_key_id self) (\<lambda>inner. try_all [check_length inner ''TpmInfo.attestationKeyId'' None (Some 128), check_hex inner ''TpmInfo.attestationKeyId''])]"

definition validate_GameProcessEvidence :: "GameProcessEvidence \<Rightarrow> string + unit" where
  "validate_GameProcessEvidence self = try_all
     [check_range (gpe_pid self) ''GameProcessEvidence.pid'' (Some 1) None,
      check_range (gpe_started_at_unix_ms self) ''GameProcessEvidence.startedAtUnixMs'' (Some 0) None,
      check_length (gpe_image_name self) ''GameProcessEvidence.imageName'' None (Some 128)]"

definition validate_SystemSnapshot :: "SystemSnapshot \<Rightarrow> string + unit" where
  "validate_SystemSnapshot self = try_all
     [check_range (snap_schema_version self) ''SystemSnapshot.schemaVersion'' (Some 1) None,
      check_datetime (snap_collected_at self) ''SystemSnapshot.collectedAt'',
      check_length (snap_companion_version self) ''SystemSnapshot.companionVersion'' None (Some 32),
      check_semver (snap_companion_version self) ''SystemSnapshot.companionVersion'',
      check_length (snap_companion_build_hash self) ''SystemSnapshot.companionBuildHash'' (Some 64) (Some 64),
      check_hex (snap_companion_build_hash self) ''SystemSnapshot.companionBuildHash'',
      check_length (snap_os_build self) ''SystemSnapshot.osBuild'' None (Some 64),
      validate_SecurityFeatures (snap_features self),
      validate_TpmInfo (snap_tpm self),
      if_some (snap_game_process self) (\<lambda>inner. validate_GameProcessEvidence inner),
      check_max_items (snap_probe_errors self) ''SystemSnapshot.probeErrors'' 32,
      for_each (snap_probe_errors self) (\<lambda>item. check_length item ''SystemSnapshot.probeErrors[]'' None (Some 200))]"

definition validate_AttestationQuote :: "AttestationQuote \<Rightarrow> string + unit" where
  "validate_AttestationQuote self = try_all
     [check_length (quote_ak_public_key_id self) ''AttestationQuote.akPublicKeyId'' None (Some 128),
      check_hex (quote_ak_public_key_id self) ''AttestationQuote.akPublicKeyId'',
      check_max_items (quote_pcr_selection self) ''AttestationQuote.pcrSelection'' 24,
      for_each (quote_pcr_selection self) (\<lambda>item. check_range item ''AttestationQuote.pcrSelection[]'' (Some 0) (Some 23)),
      check_length (quote_pcr_digest self) ''AttestationQuote.pcrDigest'' None (Some 128),
      check_hex (quote_pcr_digest self) ''AttestationQuote.pcrDigest'',
      check_length (quote_quote_blob self) ''AttestationQuote.quoteBlob'' None (Some 8192),
      check_base64 (quote_quote_blob self) ''AttestationQuote.quoteBlob'',
      check_length (quote_signature self) ''AttestationQuote.signature'' None (Some 2048),
      check_base64 (quote_signature self) ''AttestationQuote.signature'']"

definition validate_PlayerIdentifiers :: "PlayerIdentifiers \<Rightarrow> string + unit" where
  "validate_PlayerIdentifiers self = try_all
     [check_length (pid_license self) ''PlayerIdentifiers.license'' None (Some 128),
      if_some (pid_steam self) (\<lambda>inner. check_length inner ''PlayerIdentifiers.steam'' None (Some 128)),
      if_some (pid_discord self) (\<lambda>inner. check_length inner ''PlayerIdentifiers.discord'' None (Some 128)),
      check_length (pid_ip self) ''PlayerIdentifiers.ip'' None (Some 45),
      check_ip (pid_ip self) ''PlayerIdentifiers.ip'']"

definition validate_NonceRequest :: "NonceRequest \<Rightarrow> string + unit" where
  "validate_NonceRequest self = try_all
     [check_uuid (nrq_server_id self) ''NonceRequest.serverId'',
      validate_PlayerIdentifiers (nrq_player self),
      if_some (nrq_game_build self) (\<lambda>inner. check_length inner ''NonceRequest.gameBuild'' None (Some 32)),
      check_range (nrq_protocol_version self) ''NonceRequest.protocolVersion'' (Some 1) None]"

definition validate_NonceResponse :: "NonceResponse \<Rightarrow> string + unit" where
  "validate_NonceResponse self = try_all
     [check_length (nrs_nonce self) ''NonceResponse.nonce'' (Some 64) (Some 64),
      check_hex (nrs_nonce self) ''NonceResponse.nonce'',
      check_uuid (nrs_session_id self) ''NonceResponse.sessionId'',
      check_datetime (nrs_expires_at self) ''NonceResponse.expiresAt'',
      check_length (nrs_backend_url self) ''NonceResponse.backendUrl'' None (Some 256),
      check_range (nrs_protocol_version self) ''NonceResponse.protocolVersion'' (Some 1) None]"

definition validate_AttestationRequest :: "AttestationRequest \<Rightarrow> string + unit" where
  "validate_AttestationRequest self = try_all
     [check_length (arq_nonce self) ''AttestationRequest.nonce'' (Some 64) (Some 64),
      check_hex (arq_nonce self) ''AttestationRequest.nonce'',
      validate_SystemSnapshot (arq_snapshot self),
      if_some (arq_quote self) (\<lambda>inner. validate_AttestationQuote inner),
      check_range (arq_protocol_version self) ''AttestationRequest.protocolVersion'' (Some 1) None]"

definition validate_AttestationAck :: "AttestationAck \<Rightarrow> string + unit" where
  "validate_AttestationAck self = try_all
     [check_uuid (ack_session_id self) ''AttestationAck.sessionId'',
      check_datetime (ack_received_at self) ''AttestationAck.receivedAt'',
      check_range (ack_heartbeat_interval_seconds self) ''AttestationAck.heartbeatIntervalSeconds'' (Some 5) (Some 3600)]"

definition validate_RequirementResult :: "RequirementResult \<Rightarrow> string + unit" where
  "validate_RequirementResult self = try_all
     [if_some (rr_detail self) (\<lambda>inner. check_length inner ''RequirementResult.detail'' None (Some 200))]"

definition validate_Verdict :: "Verdict \<Rightarrow> string + unit" where
  "validate_Verdict self = try_all
     [check_uuid (verdict_session_id self) ''Verdict.sessionId'',
      check_max_items (verdict_reasons self) ''Verdict.reasons'' 16,
      check_max_items (verdict_requirements self) ''Verdict.requirements'' 32,
      for_each (verdict_requirements self) (\<lambda>item. validate_RequirementResult item),
      if_some (verdict_remediation self) (\<lambda>inner. check_length inner ''Verdict.remediation'' None (Some 500)),
      check_datetime (verdict_evaluated_at self) ''Verdict.evaluatedAt'']"

definition validate_LivenessResponse :: "LivenessResponse \<Rightarrow> string + unit" where
  "validate_LivenessResponse self = try_all
     [check_uuid (live_session_id self) ''LivenessResponse.sessionId'',
      if_some (live_last_heartbeat_at self) (\<lambda>inner. check_datetime inner ''LivenessResponse.lastHeartbeatAt''),
      if_some (live_grace_expires_at self) (\<lambda>inner. check_datetime inner ''LivenessResponse.graceExpiresAt'')]"

definition validate_LocalAttestCommand :: "LocalAttestCommand \<Rightarrow> string + unit" where
  "validate_LocalAttestCommand self = try_all
     [check_length (lac_nonce self) ''LocalAttestCommand.nonce'' (Some 64) (Some 64),
      check_hex (lac_nonce self) ''LocalAttestCommand.nonce'',
      check_length (lac_backend_url self) ''LocalAttestCommand.backendUrl'' None (Some 256),
      if_some (lac_server_name self) (\<lambda>inner. check_length inner ''LocalAttestCommand.serverName'' None (Some 128)),
      check_range (lac_protocol_version self) ''LocalAttestCommand.protocolVersion'' (Some 1) None]"

definition validate_LocalAttestAck :: "LocalAttestAck \<Rightarrow> string + unit" where
  "validate_LocalAttestAck self = try_all
     [check_length (laa_companion_version self) ''LocalAttestAck.companionVersion'' None (Some 32),
      check_semver (laa_companion_version self) ''LocalAttestAck.companionVersion'',
      check_range (laa_protocol_version self) ''LocalAttestAck.protocolVersion'' (Some 1) None]"

definition validate_CompanionPollRequest :: "CompanionPollRequest \<Rightarrow> string + unit" where
  "validate_CompanionPollRequest self = try_all
     [check_length (cpq_companion_version self) ''CompanionPollRequest.companionVersion'' None (Some 32),
      check_semver (cpq_companion_version self) ''CompanionPollRequest.companionVersion'',
      check_range (cpq_wait_seconds self) ''CompanionPollRequest.waitSeconds'' (Some 0) (Some 30),
      check_range (cpq_protocol_version self) ''CompanionPollRequest.protocolVersion'' (Some 1) None]"

definition validate_CompanionPollResponse :: "CompanionPollResponse \<Rightarrow> string + unit" where
  "validate_CompanionPollResponse self = try_all
     [if_some (cpr_nonce self) (\<lambda>inner. try_all [check_length inner ''CompanionPollResponse.nonce'' (Some 64) (Some 64), check_hex inner ''CompanionPollResponse.nonce'']),
      if_some (cpr_server_name self) (\<lambda>inner. check_length inner ''CompanionPollResponse.serverName'' None (Some 128)),
      if_some (cpr_expires_at self) (\<lambda>inner. check_datetime inner ''CompanionPollResponse.expiresAt''),
      check_range (cpr_protocol_version self) ''CompanionPollResponse.protocolVersion'' (Some 1) None]"

definition validate_CompanionOutcomeRequest :: "CompanionOutcomeRequest \<Rightarrow> string + unit" where
  "validate_CompanionOutcomeRequest self = try_all
     [check_uuid (coq_session_id self) ''CompanionOutcomeRequest.sessionId'',
      check_range (coq_wait_seconds self) ''CompanionOutcomeRequest.waitSeconds'' (Some 0) (Some 10),
      check_range (coq_protocol_version self) ''CompanionOutcomeRequest.protocolVersion'' (Some 1) None]"

definition validate_HeartbeatRequest :: "HeartbeatRequest \<Rightarrow> string + unit" where
  "validate_HeartbeatRequest self = try_all
     [check_uuid (hrq_session_id self) ''HeartbeatRequest.sessionId'',
      check_length (hrq_companion_build_hash self) ''HeartbeatRequest.companionBuildHash'' (Some 64) (Some 64),
      check_hex (hrq_companion_build_hash self) ''HeartbeatRequest.companionBuildHash'',
      check_range (hrq_uptime_seconds self) ''HeartbeatRequest.uptimeSeconds'' (Some 0) None,
      check_range (hrq_protocol_version self) ''HeartbeatRequest.protocolVersion'' (Some 1) None]"

definition validate_HeartbeatResponse :: "HeartbeatResponse \<Rightarrow> string + unit" where
  "validate_HeartbeatResponse self = try_all
     [check_range (hrs_next_interval_seconds self) ''HeartbeatResponse.nextIntervalSeconds'' (Some 5) (Some 3600)]"

definition validate_ProtocolError :: "ProtocolError \<Rightarrow> string + unit" where
  "validate_ProtocolError self = try_all
     [check_length (perr_code self) ''ProtocolError.code'' None (Some 64),
      check_length (perr_message self) ''ProtocolError.message'' None (Some 500),
      if_some (perr_request_id self) (\<lambda>inner. check_length inner ''ProtocolError.requestId'' None (Some 64))]"
section \<open>Each check as a condition\<close>

lemma is_ok_check_length [simp, check_iff]:
  "is_ok (check_length v p lo hi) \<longleftrightarrow>
     (case lo of None \<Rightarrow> True | Some m \<Rightarrow> m \<le> length v) \<and>
     (case hi of None \<Rightarrow> True | Some m \<Rightarrow> length v \<le> m)"
  by (auto simp: check_length_def split: option.splits)

lemma is_ok_check_range [simp, check_iff]:
  "is_ok (check_range v p lo hi) \<longleftrightarrow>
     (case lo of None \<Rightarrow> True | Some m \<Rightarrow> m \<le> v) \<and>
     (case hi of None \<Rightarrow> True | Some m \<Rightarrow> v \<le> m)"
  by (auto simp: check_range_def split: option.splits)

lemma is_ok_check_max_items [simp, check_iff]:
  "is_ok (check_max_items xs p m) \<longleftrightarrow> length xs \<le> m"
  by (simp add: check_max_items_def not_less)

lemma is_ok_check_hex [simp, check_iff]:
  "is_ok (check_hex v p) \<longleftrightarrow> list_all is_ascii_hexdigit v"
  by (simp add: check_hex_def)

lemma is_ok_check_base64 [check_iff]:
  "is_ok (check_base64 v p) \<longleftrightarrow>
     list_all (\<lambda>c. is_ascii_alphanumeric c \<or> c = CHR ''+'' \<or> c = CHR ''/'' \<or> c = CHR ''='') v"
  by (simp add: check_base64_def)

lemma is_ok_check_uuid [check_iff]:
  "is_ok (check_uuid v p) \<longleftrightarrow>
     length v = 36 \<and>
     (\<forall>i < 36. if i \<in> {8, 13, 18, 23} then v ! i = CHR ''-'' else is_ascii_hexdigit (v ! i))"
  unfolding check_uuid_def is_ok_if list_all_enumerate by (rule conj_cong) simp_all

lemma is_ok_check_datetime [check_iff]:
  "is_ok (check_datetime v p) \<longleftrightarrow>
     19 \<le> length v \<and>
     (\<forall>i < 19. if datetime_SHAPE ! i = CHR ''0'' then is_ascii_digit (v ! i)
               else v ! i = datetime_SHAPE ! i)"
proof -
  have "length datetime_SHAPE = 19" by (simp add: datetime_SHAPE_def)
  then show ?thesis
    by (simp add: check_datetime_def list_all_enumerate)
qed

text \<open>A semantic version: three non-empty runs of digits, then anything.\<close>

definition semver_core :: "string \<Rightarrow> string" where
  "semver_core v = takeWhile (\<lambda>c. c \<noteq> CHR ''-'' \<and> c \<noteq> CHR ''+'') v"

lemma is_ok_check_semver [check_iff]:
  "is_ok (check_semver v p) \<longleftrightarrow>
     (\<exists>a b c rest. split_on (\<lambda>c. c = CHR ''.'') (semver_core v) = a # b # c # rest \<and>
        (\<forall>q\<in>{a, b, c}. q \<noteq> [] \<and> list_all is_ascii_digit q))"
proof -
  have eq: "unwrap_or (next_item (split_on (\<lambda>c. c = CHR ''-'' \<or> c = CHR ''+'') v)) [] = semver_core v"
    by (simp add: unwrap_or_def semver_core_def)
  obtain parts where parts: "split_on (\<lambda>c. c = CHR ''.'') (semver_core v) = parts" by simp
  show ?thesis
    unfolding check_semver_def Let_def eq parts
    by (cases parts; cases "tl parts"; cases "tl (tl parts)") (auto simp: unwrap_or_def)
qed

lemmas validate_defs =
  validate_SecurityFeatures_def validate_TpmInfo_def validate_GameProcessEvidence_def
  validate_SystemSnapshot_def validate_AttestationQuote_def validate_PlayerIdentifiers_def
  validate_NonceRequest_def validate_NonceResponse_def validate_AttestationRequest_def
  validate_AttestationAck_def validate_RequirementResult_def validate_Verdict_def
  validate_LivenessResponse_def validate_LocalAttestCommand_def validate_LocalAttestAck_def
  validate_CompanionPollRequest_def validate_CompanionPollResponse_def
  validate_CompanionOutcomeRequest_def validate_HeartbeatRequest_def
  validate_HeartbeatResponse_def validate_ProtocolError_def

section \<open>The contracts the companion relies on\<close>

definition is_nonce :: "string \<Rightarrow> bool" where
  "is_nonce s = (length s = 64 \<and> list_all is_ascii_hexdigit s)"

lemma command_valid_nonce: "is_ok (validate_LocalAttestCommand c) \<Longrightarrow> is_nonce (lac_nonce c)"
  by (simp add: validate_LocalAttestCommand_def is_nonce_def)

lemma poll_response_valid_nonce:
  "is_ok (validate_CompanionPollResponse r) \<Longrightarrow> cpr_nonce r = Some n \<Longrightarrow> is_nonce n"
  by (simp add: validate_CompanionPollResponse_def is_nonce_def)

lemma ack_valid_interval:
  "is_ok (validate_AttestationAck a) \<Longrightarrow>
     5 \<le> ack_heartbeat_interval_seconds a \<and> ack_heartbeat_interval_seconds a \<le> 3600"
  by (simp add: validate_AttestationAck_def)

lemma heartbeat_valid_interval:
  "is_ok (validate_HeartbeatResponse r) \<Longrightarrow>
     5 \<le> hrs_next_interval_seconds r \<and> hrs_next_interval_seconds r \<le> 3600"
  by (simp add: validate_HeartbeatResponse_def)


lemma inj_of_ALL: "set xs = UNIV \<Longrightarrow> distinct (map f xs) \<Longrightarrow> inj f"
  by (simp add: distinct_map)

lemmas wire_str_defs =
  PolicyTier_ALL_def FailMode_ALL_def FeatureState_ALL_def VerdictDecision_ALL_def
  SessionState_ALL_def RequirementId_ALL_def RequirementStatus_ALL_def DenyReason_ALL_def

section \<open>Properties\<close>

text \<open>
  The wire name of an enum value determines the value, for each of the eight enums: two values
  of one enum are never written alike.
\<close>

lemma wire_names_distinct:
  "inj PolicyTier_as_wire_str \<and> inj FailMode_as_wire_str \<and> inj FeatureState_as_wire_str \<and>
   inj VerdictDecision_as_wire_str \<and> inj SessionState_as_wire_str \<and>
   inj RequirementId_as_wire_str \<and> inj RequirementStatus_as_wire_str \<and> inj DenyReason_as_wire_str"
proof (intro conjI)
  show "inj PolicyTier_as_wire_str"
    by (rule inj_of_ALL [OF set_PolicyTier_ALL]) (simp add: wire_str_defs)
  show "inj FailMode_as_wire_str"
    by (rule inj_of_ALL [OF set_FailMode_ALL]) (simp add: wire_str_defs)
  show "inj FeatureState_as_wire_str"
    by (rule inj_of_ALL [OF set_FeatureState_ALL]) (simp add: wire_str_defs)
  show "inj VerdictDecision_as_wire_str"
    by (rule inj_of_ALL [OF set_VerdictDecision_ALL]) (simp add: wire_str_defs)
  show "inj SessionState_as_wire_str"
    by (rule inj_of_ALL [OF set_SessionState_ALL]) (simp add: wire_str_defs)
  show "inj RequirementId_as_wire_str"
    by (rule inj_of_ALL [OF set_RequirementId_ALL]) (simp add: wire_str_defs)
  show "inj RequirementStatus_as_wire_str"
    by (rule inj_of_ALL [OF set_RequirementStatus_ALL]) (simp add: wire_str_defs)
  show "inj DenyReason_as_wire_str"
    by (rule inj_of_ALL [OF set_DenyReason_ALL]) (simp add: wire_str_defs)
qed

end
