(* ===== verification/Local_Endpoint.thy ===== *)
theory Local_Endpoint
  imports Url_Origin Protocol_Check
begin

text \<open>
  The contract of the localhost endpoint, \<open>fiveprotect-core/src/local.rs\<close>, and the port range of
  \<open>fiveprotect-core/src/lib.rs\<close>: what a request must be to be accepted, which refusal it gets
  otherwise, and what is answered. \<open>serde_json::from_str\<close> is the parameter \<open>from_str\<close>, with its
  error already rendered by \<open>to_string\<close>. The lemmas give the origin function its meaning
  (\<open>http_origin\<close>) and describe \<open>handle_request\<close> on every branch.
\<close>

section \<open>The port range\<close>

definition PORT_RANGE_START :: u16 where
  "PORT_RANGE_START = ucast LOCAL_PORT_RANGE_START"

definition PORT_RANGE_END :: u16 where
  "PORT_RANGE_END = ucast LOCAL_PORT_RANGE_END"

definition VERSION :: string where
  "VERSION = ''0.1.0''"

text \<open>The values of the inclusive range in order, which is what iterating over it yields.\<close>

definition port_range :: "u16 list" where
  "port_range = map word_of_nat [unat PORT_RANGE_START ..< Suc (unat PORT_RANGE_END)]"

lemma port_bounds: "unat PORT_RANGE_START = 52800" "unat PORT_RANGE_END = 52899"
  by (simp_all add: PORT_RANGE_START_def PORT_RANGE_END_def LOCAL_PORT_RANGE_START_def
      LOCAL_PORT_RANGE_END_def)

lemma set_port_range: "p \<in> set port_range \<longleftrightarrow> PORT_RANGE_START \<le> p \<and> p \<le> PORT_RANGE_END"
proof -
  have "p \<in> set port_range \<longleftrightarrow> (\<exists>n. 52800 \<le> n \<and> n \<le> 52899 \<and> p = word_of_nat n)"
    unfolding port_range_def port_bounds set_map set_upt image_iff Bex_def atLeastLessThan_iff
      less_Suc_eq_le conj_assoc ..
  also have "\<dots> \<longleftrightarrow> 52800 \<le> unat p \<and> unat p \<le> 52899"
  proof
    assume "\<exists>n. 52800 \<le> n \<and> n \<le> 52899 \<and> p = word_of_nat n"
    then obtain n where n: "52800 \<le> n" "n \<le> 52899" "p = word_of_nat n" by blast
    then have "unat p = n" by (simp add: unat_of_nat take_bit_nat_eq_self)
    with n show "52800 \<le> unat p \<and> unat p \<le> 52899" by simp
  next
    assume "52800 \<le> unat p \<and> unat p \<le> 52899"
    then show "\<exists>n. 52800 \<le> n \<and> n \<le> 52899 \<and> p = word_of_nat n"
      by (intro exI [of _ "unat p"]) simp
  qed
  also have "\<dots> \<longleftrightarrow> PORT_RANGE_START \<le> p \<and> p \<le> PORT_RANGE_END"
    by (simp add: word_le_nat_alt port_bounds)
  finally show ?thesis .
qed

section \<open>Refusals and acceptance\<close>

datatype RejectReason =
    WrongRoute
  | Malformed string
  | Invalid string
  | VersionMismatch (theirs: i64) (ours: i64)
  | UntrustedBackend

datatype Accepted = Attest LocalAttestCommand

section \<open>Origins\<close>

definition origin_of :: "string \<Rightarrow> string option" where
  "origin_of url =
     (let lowered = to_ascii_lowercase (trim url);
          rest = (case strip_prefix ''https://'' lowered of
                    Some rest \<Rightarrow> Some (''https'', rest)
                  | None \<Rightarrow> map_option (\<lambda>rest. (''http'', rest)) (strip_prefix ''http://'' lowered))
      in case rest of
           None \<Rightarrow> None
         | Some (scheme, rest) \<Rightarrow>
             (case next_item (split_on (\<lambda>c. c = CHR ''/'' \<or> c = CHR ''?'' \<or> c = CHR ''#'') rest) of
                None \<Rightarrow> None
              | Some authority \<Rightarrow>
                  if authority = [] then None else Some (scheme @ ''://'' @ authority)))"

definition is_allowed_backend :: "string \<Rightarrow> string list \<Rightarrow> bool" where
  "is_allowed_backend candidate allowed =
     (case origin_of candidate of
        None \<Rightarrow> False
      | Some origin \<Rightarrow> list_ex (\<lambda>trusted. trusted = origin) (List.map_filter origin_of allowed))"

section \<open>The request handler\<close>

type_synonym from_str_command = "string \<Rightarrow> string + LocalAttestCommand"

definition i64_from_u32 :: "u32 \<Rightarrow> i64" where
  "i64_from_u32 w = uint w"

definition handle_request ::
    "from_str_command \<Rightarrow> string \<Rightarrow> string \<Rightarrow> string \<Rightarrow> string list \<Rightarrow> RejectReason + Accepted" where
  "handle_request from_str method path body allowed_backends =
     (if \<not> eq_ignore_ascii_case method ''POST'' \<or> trim_end_matches (CHR ''/'') path \<noteq> ''/attest''
      then Inl WrongRoute
      else case from_str body of
        Inl error \<Rightarrow> Inl (Malformed error)
      | Inr command \<Rightarrow>
          (case validate_LocalAttestCommand command of
             Inl message \<Rightarrow> Inl (Invalid message)
           | Inr _ \<Rightarrow>
               if lac_protocol_version command \<noteq> i64_from_u32 PROTOCOL_VERSION
               then Inl (VersionMismatch (lac_protocol_version command) (i64_from_u32 PROTOCOL_VERSION))
               else if \<not> is_allowed_backend (lac_backend_url command) allowed_backends
               then Inl UntrustedBackend
               else Inr (Attest command)))"

definition acknowledgement :: "string \<Rightarrow> LocalAttestAck" where
  "acknowledgement companion_version =
     \<lparr>laa_accepted = True,
      laa_companion_version = companion_version,
      laa_protocol_version = i64_from_u32 PROTOCOL_VERSION\<rparr>"

section \<open>What an origin is\<close>

lemma split_authority [simp]:
  "next_item (split_on (\<lambda>c. c = CHR ''/'' \<or> c = CHR ''?'' \<or> c = CHR ''#'') rest) =
     Some (takeWhile (\<lambda>c. \<not> ends_authority c) rest)"
proof -
  have "(\<lambda>c. c = CHR ''/'' \<or> c = CHR ''?'' \<or> c = CHR ''#'') = ends_authority"
    by (simp add: fun_eq_iff ends_authority_def)
  then show ?thesis by simp
qed

lemma origin_of_http_origin: "origin_of url = Some origin \<longleftrightarrow> http_origin url origin"
proof (cases "strip_prefix ''https://'' (to_ascii_lowercase (trim url))")
  case (Some rest)
  then have "to_ascii_lowercase (trim url) = ''https'' @ ''://'' @ rest"
    by (simp add: strip_prefix_Some)
  from http_origin_scheme [OF disjI1 [OF refl] this] Some show ?thesis
    by (simp only: origin_of_def split_authority Let_def option.case prod.case) auto
next
  case https: None
  show ?thesis
  proof (cases "strip_prefix ''http://'' (to_ascii_lowercase (trim url))")
    case (Some rest)
    then have "to_ascii_lowercase (trim url) = ''http'' @ ''://'' @ rest"
      by (simp add: strip_prefix_Some)
    from http_origin_scheme [OF disjI2 [OF refl] this] Some https show ?thesis
      by (simp only: origin_of_def split_authority Let_def option.case prod.case option.map) auto
  next
    case None
    with https http_origin_no_scheme [OF https None] show ?thesis
      by (simp add: origin_of_def)
  qed
qed

interpretation local_origin: origin_policy origin_of
  by unfold_locales (rule origin_of_http_origin)

text \<open>A URL is trusted when it and some configured entry have the same origin.\<close>

lemma is_allowed_backend_iff:
  "is_allowed_backend candidate allowed \<longleftrightarrow>
     (\<exists>origin. http_origin candidate origin \<and> (\<exists>entry\<in>set allowed. http_origin entry origin))"
  by (auto simp: is_allowed_backend_def list_ex_iff map_filter_def
      origin_of_http_origin [symmetric] split: option.splits) force+

section \<open>The handler on every branch\<close>

definition attest_route :: "string \<Rightarrow> string \<Rightarrow> bool" where
  "attest_route method path \<longleftrightarrow>
     eq_ignore_ascii_case method ''POST'' \<and> (\<exists>n. path = ''/attest'' @ replicate n (CHR ''/''))"

lemma attest_route_iff:
  "attest_route method path \<longleftrightarrow>
     eq_ignore_ascii_case method ''POST'' \<and> trim_end_matches (CHR ''/'') path = ''/attest''"
  by (simp only: attest_route_def) (subst trim_end_matches_eq, simp_all)

lemma handle_request_route:
  "\<not> attest_route method path \<Longrightarrow> handle_request from_str method path body allowed = Inl WrongRoute"
  by (auto simp: handle_request_def attest_route_iff)

lemma handle_request_ok:
  "handle_request from_str method path body allowed = Inr a \<longleftrightarrow>
     (\<exists>command. a = Attest command \<and> attest_route method path \<and> from_str body = Inr command \<and>
        is_ok (validate_LocalAttestCommand command) \<and>
        lac_protocol_version command = i64_from_u32 PROTOCOL_VERSION \<and>
        is_allowed_backend (lac_backend_url command) allowed)"
  by (auto simp: handle_request_def attest_route_iff is_ok_def split: sum.splits)


lemmas command_accept_simps =
  validate_LocalAttestCommand_def is_nonce_def i64_from_u32_def PROTOCOL_VERSION_def

text \<open>The refusals, by the first condition that fails.\<close>

lemma handle_request_errors:
  assumes "attest_route method path"
  shows "from_str body = Inl error \<Longrightarrow>
      handle_request from_str method path body allowed = Inl (Malformed error)"
    and "from_str body = Inr c \<Longrightarrow> validate_LocalAttestCommand c = Inl message \<Longrightarrow>
      handle_request from_str method path body allowed = Inl (Invalid message)"
    and "from_str body = Inr c \<Longrightarrow> validate_LocalAttestCommand c = Inr u \<Longrightarrow>
      lac_protocol_version c \<noteq> 1 \<Longrightarrow>
      handle_request from_str method path body allowed =
        Inl (VersionMismatch (lac_protocol_version c) 1)"
    and "from_str body = Inr c \<Longrightarrow> validate_LocalAttestCommand c = Inr u \<Longrightarrow>
      lac_protocol_version c = 1 \<Longrightarrow> \<not> is_allowed_backend (lac_backend_url c) allowed \<Longrightarrow>
      handle_request from_str method path body allowed = Inl UntrustedBackend"
  using assms
  by (simp_all add: handle_request_def attest_route_iff i64_from_u32_def PROTOCOL_VERSION_def)

section \<open>Properties\<close>

text \<open>
  C3: a request starts an attestation exactly when its method is POST in any case, its path is
  /attest with any number of slashes after it, its body parses to a command whose nonce is 64
  hexadecimal digits, whose backend URL has at most 256 bytes and whose server name at most 128,
  which speaks this build's protocol version, and whose backend URL has the origin of a
  configured backend; and then it is started for that command.
\<close>

theorem handle_request_accepts:
  "handle_request from_str method path body allowed = Inr accepted \<longleftrightarrow>
     (\<exists>command. accepted = Attest command \<and>
        eq_ignore_ascii_case method ''POST'' \<and>
        (\<exists>n. path = ''/attest'' @ replicate n (CHR ''/'')) \<and>
        from_str body = Inr command \<and>
        is_nonce (lac_nonce command) \<and>
        length (lac_backend_url command) \<le> 256 \<and>
        (case lac_server_name command of None \<Rightarrow> True | Some name \<Rightarrow> length name \<le> 128) \<and>
        lac_protocol_version command = 1 \<and>
        (\<exists>origin entry. entry \<in> set allowed \<and> http_origin entry origin \<and>
           http_origin (lac_backend_url command) origin))"
  unfolding handle_request_ok is_allowed_backend_iff attest_route_def
  by (rule arg_cong [of _ _ Ex], rule ext)
    (auto simp: command_accept_simps split: option.split)

text \<open>
  An accepted command's backend URL, lowercased, is the origin of a configured backend
  followed by nothing or by a path, query or fragment: a host name that only starts with a
  trusted one is never accepted.
\<close>

lemma accepted_backend_is_exact:
  assumes "handle_request from_str method path body allowed = Inr (Attest command)"
  shows "\<exists>origin entry rest. entry \<in> set allowed \<and> origin_of entry = Some origin \<and>
    to_ascii_lowercase (trim (lac_backend_url command)) = origin @ rest \<and>
    (rest = [] \<or> hd rest = CHR ''/'' \<or> hd rest = CHR ''?'' \<or> hd rest = CHR ''#'')"
proof -
  from assms obtain origin entry where "entry \<in> set allowed" and "origin_of entry = Some origin"
    and "origin_of (lac_backend_url command) = Some origin"
    by (auto simp: handle_request_ok is_allowed_backend_iff origin_of_http_origin)
  with local_origin.origin_extends [OF this(3)] show ?thesis
    by (auto simp: ends_authority_def)
qed

text \<open>
  The look-alike of a configured backend, its origin with more of a host name behind it, is
  refused, whatever else the request says.
\<close>

lemma lookalike_backend_refused:
  assumes "\<forall>entry\<in>set allowed. origin_of entry = Some trusted"
    and "from_str body = Inr command"
    and "to_ascii_lowercase (trim (lac_backend_url command)) = trusted @ c # more_host"
    and "c \<notin> {CHR ''/'', CHR ''?'', CHR ''#''}"
  shows "\<exists>reason. handle_request from_str method path body allowed = Inl reason"
proof (rule ccontr)
  assume "\<nexists>reason. handle_request from_str method path body allowed = Inl reason"
  then obtain command' where "handle_request from_str method path body allowed = Inr (Attest command')"
    by (metis Accepted.exhaust sum.exhaust)
  with assms(2) obtain entry origin where "entry \<in> set allowed" and "http_origin entry origin"
    and other: "http_origin (lac_backend_url command) origin"
    by (auto simp: handle_request_ok is_allowed_backend_iff)
  moreover from this(1) assms(1) have trusted: "origin_of entry = Some trusted" by blast
  ultimately have "origin = trusted"
    using local_origin.origin_unique by (auto simp: origin_of_http_origin)
  with other local_origin.lookalike_refused [OF trusted assms(3)] assms(4) show False
    by (auto simp: ends_authority_def origin_of_http_origin)
qed

section \<open>An instance\<close>

definition example_command :: "string \<Rightarrow> LocalAttestCommand" where
  "example_command url =
     \<lparr>lac_nonce = replicate 64 (CHR ''a''), lac_backend_url = url, lac_server_name = None,
      lac_protocol_version = 1\<rparr>"

lemma example_lowercase:
  "to_ascii_lowercase ''HTTPS://api.example/v1'' = ''https://api.example/v1''"
  "to_ascii_lowercase ''https://api.example'' = ''https://api.example''"
  "to_ascii_lowercase ''https://api.example.evil'' = ''https://api.example.evil''"
  "to_ascii_lowercase ''post'' = ''post''" "to_ascii_lowercase ''POST'' = ''post''"
  by code_simp+

lemmas example_simps =
  example_command_def trim_visible is_visible_def code_def example_lowercase

lemma example_trusted:
  "origin_of ''https://api.example'' = Some ''https://api.example''"
  "origin_of ''HTTPS://api.example/v1'' = Some ''https://api.example''"
  by (simp_all add: origin_of_def strip_prefix_def example_simps ends_authority_def)

lemma example_accepted:
  "handle_request (\<lambda>_. Inr (example_command ''HTTPS://api.example/v1'')) ''post'' ''/attest/'' []
     [''https://api.example''] = Inr (Attest (example_command ''HTTPS://api.example/v1''))"
proof -
  have "attest_route ''post'' ''/attest/''"
    by (simp add: attest_route_def eq_ignore_ascii_case_def example_lowercase) (rule exI [of _ 1], simp)
  moreover have "is_ok (validate_LocalAttestCommand (example_command ''HTTPS://api.example/v1''))"
    by (simp add: command_accept_simps example_simps is_ascii_hexdigit_def list_all_iff)
  moreover have "is_allowed_backend ''HTTPS://api.example/v1'' [''https://api.example'']"
    by (simp add: is_allowed_backend_def map_filter_def example_trusted)
  ultimately show ?thesis
    by (simp add: handle_request_ok example_command_def command_accept_simps)
qed

lemma accepted_backend_is_exact_witness:
  "\<exists>origin entry rest. entry \<in> {''https://api.example''} \<and> origin_of entry = Some origin \<and>
    to_ascii_lowercase (trim ''HTTPS://api.example/v1'') = origin @ rest \<and>
    (rest = [] \<or> hd rest = CHR ''/'' \<or> hd rest = CHR ''?'' \<or> hd rest = CHR ''#'')"
  using accepted_backend_is_exact [OF example_accepted] by (simp add: example_command_def)

lemma lookalike_backend_refused_witness:
  "\<exists>reason. handle_request (\<lambda>_. Inr (example_command ''https://api.example.evil'')) ''POST'' ''/attest''
     [] [''https://api.example''] = Inl reason"
  by (rule lookalike_backend_refused
      [where trusted = "''https://api.example''" and c = "CHR ''.''" and more_host = "''evil''"
        and command = "example_command ''https://api.example.evil''"])
    (simp_all add: example_trusted example_simps)

end
