(* ===== verification/Updater.thy ===== *)
theory Updater
  imports Interfaces Local_Endpoint Base64_Codec "HOL-Library.Product_Lexorder"
begin

text \<open>
  The signed updater, \<open>fiveprotect-core/src/updater.rs\<close>: the manifest and the bytes its signature
  covers, the checks in the code's order, the version triple and the origin comparison. The
  crates it calls (hex, ed25519-dalek, sha2) are the record \<open>crates\<close> every operation takes; what a
  lemma needs of them is a hypothesis of the lemma. The lemmas describe acceptance, show the
  payload injective, a chain of accepted updates increasing, and the rollout exact.
\<close>

section \<open>Data\<close>

record UpdateManifest =
  um_version :: string
  um_sha256 :: string
  um_url :: string
  um_channel :: string
  um_rollout_percent :: u8
  um_signature :: string

datatype UpdateError =
    BadSignature
  | MalformedSignature
  | HashMismatch
  | WrongChannel string string
  | NotNewer string string
  | MalformedVersion string
  | UntrustedUrl

record UpdatePolicy =
  up_current_version :: string
  up_channel :: string
  up_download_origin :: string
  up_rollout_bucket :: u8

text \<open>
  The crates: \<open>hex::decode\<close>, \<open>hex::encode\<close>, \<open>Sha256::digest\<close>, and \<open>VerifyingKey::verify\<close> of a
  message and the 64 bytes of a signature.
\<close>

record 'key crates =
  hex_decode :: "string \<Rightarrow> bytes option"
  hex_encode :: "bytes \<Rightarrow> string"
  sha256_digest :: "bytes \<Rightarrow> bytes"
  ed25519_verify :: "'key \<Rightarrow> bytes \<Rightarrow> bytes \<Rightarrow> bool"

section \<open>Operations\<close>

definition signing_payload :: "UpdateManifest \<Rightarrow> bytes" where
  "signing_payload self = into_bytes
     (''fiveprotect-update-v1'' @ [newline] @ um_version self @ [newline] @ um_sha256 self @ [newline] @
      um_url self @ [newline] @ um_channel self @ [newline] @ show_nat (unat (um_rollout_percent self)))"

definition decode_signature :: "'key crates \<Rightarrow> string \<Rightarrow> bytes option" where
  "decode_signature cr value =
     (case hex_decode cr value of
        Some bytes \<Rightarrow> Some bytes
      | None \<Rightarrow> base64_decode value)"

definition verify_signature :: "'key crates \<Rightarrow> UpdateManifest \<Rightarrow> 'key \<Rightarrow> UpdateError + unit" where
  "verify_signature cr manifest public_key =
     (case decode_signature cr (um_signature manifest) of
        None \<Rightarrow> Inl MalformedSignature
      | Some raw \<Rightarrow>
          if length raw \<noteq> 64 then Inl MalformedSignature
          else if ed25519_verify cr public_key (signing_payload manifest) raw then Inr ()
          else Inl BadSignature)"

definition verify_download :: "'key crates \<Rightarrow> bytes \<Rightarrow> UpdateManifest \<Rightarrow> UpdateError + unit" where
  "verify_download cr contents manifest =
     (let digest = sha256_digest cr contents; actual = hex_encode cr digest
      in if eq_ignore_ascii_case actual (um_sha256 manifest) then Inr () else Inl HashMismatch)"

text \<open>\<open>parse::<u32>()\<close>\<close>

definition parse_u32 :: "string \<Rightarrow> u32 option" where
  "parse_u32 s = map_option word_of_nat (parse_unsigned 4294967295 s)"

definition parse_version :: "string \<Rightarrow> UpdateError + (u32 \<times> u32 \<times> u32)" where
  "parse_version value =
     (let core = unwrap_or (next_item (split_on (\<lambda>c. c = CHR ''-'' \<or> c = CHR ''+'') value)) [];
          parts = split_on (\<lambda>c. c = CHR ''.'') core;
          piece = (\<lambda>n. Option.bind (next_item (drop n parts)) parse_u32)
      in case (piece 0, piece 1, piece 2) of
           (Some major, Some minor, Some patch) \<Rightarrow> Inr (major, minor, patch)
         | _ \<Rightarrow> Inl (MalformedVersion value))"

text \<open>The function \<open>origin_of\<close> declared inside \<open>is_same_origin\<close>.\<close>

definition same_origin_origin_of :: "string \<Rightarrow> string option" where
  "same_origin_origin_of value =
     (let lowered = to_ascii_lowercase (trim value)
      in case (case strip_prefix ''https://'' lowered of
                 Some rest \<Rightarrow> Some (''https'', rest)
               | None \<Rightarrow> map_option (\<lambda>rest. (''http'', rest)) (strip_prefix ''http://'' lowered)) of
           None \<Rightarrow> None
         | Some (scheme, rest) \<Rightarrow>
             (case next_item (split_on (\<lambda>c. c = CHR ''/'' \<or> c = CHR ''?'' \<or> c = CHR ''#'') rest) of
                None \<Rightarrow> None
              | Some authority \<Rightarrow>
                  if authority = [] then None else Some (scheme @ ''://'' @ authority)))"

definition is_same_origin :: "string \<Rightarrow> string \<Rightarrow> bool" where
  "is_same_origin url origin =
     (case (same_origin_origin_of url, same_origin_origin_of origin) of
        (Some left, Some right) \<Rightarrow> left = right
      | _ \<Rightarrow> False)"

definition evaluate_manifest ::
    "'key crates \<Rightarrow> UpdateManifest \<Rightarrow> UpdatePolicy \<Rightarrow> 'key \<Rightarrow> UpdateError + bool" where
  "evaluate_manifest cr manifest policy public_key =
     (case verify_signature cr manifest public_key of
        Inl e \<Rightarrow> Inl e
      | Inr _ \<Rightarrow>
          if um_channel manifest \<noteq> up_channel policy
          then Inl (WrongChannel (um_channel manifest) (up_channel policy))
          else if \<not> is_same_origin (um_url manifest) (up_download_origin policy)
          then Inl UntrustedUrl
          else case parse_version (um_version manifest) of
            Inl e \<Rightarrow> Inl e
          | Inr offered \<Rightarrow>
              (case parse_version (up_current_version policy) of
                 Inl e \<Rightarrow> Inl e
               | Inr current \<Rightarrow>
                   if offered \<le> current
                   then Inl (NotNewer (um_version manifest) (up_current_version policy))
                   else Inr (up_rollout_bucket policy < um_rollout_percent manifest)))"

section \<open>Origins\<close>

lemma same_origin_origin_of_eq: "same_origin_origin_of = origin_of"
  by (rule ext) (simp add: same_origin_origin_of_def origin_of_def Let_def)

interpretation update_origin: origin_policy same_origin_origin_of
  unfolding same_origin_origin_of_eq by unfold_locales (rule origin_of_http_origin)

lemma is_same_origin_iff:
  "is_same_origin url origin \<longleftrightarrow> (\<exists>o'. http_origin url o' \<and> http_origin origin o')"
  by (auto simp: is_same_origin_def update_origin.origin_iff [symmetric] split: option.splits)

section \<open>The signature and the payload\<close>

lemma verify_signature_ok:
  "verify_signature cr m key = Inr u \<longleftrightarrow>
     (\<exists>raw. decode_signature cr (um_signature m) = Some raw \<and> length raw = 64 \<and>
        ed25519_verify cr key (signing_payload m) raw)"
  by (auto simp: verify_signature_def split: option.splits)

text \<open>The lines of a text without newlines in its pieces are its pieces.\<close>

lemma join_lines_inj:
  assumes "a @ newline # s = b @ newline # t" and "newline \<notin> set a" and "newline \<notin> set b"
  shows "a = b \<and> s = t"
proof -
  have "takeWhile (\<lambda>c. c \<noteq> newline) (w @ newline # r) = w" if "newline \<notin> set w" for w r
    using that by (subst takeWhile_append2) auto
  with assms show ?thesis by (metis append_same_eq list.inject same_append_eq)
qed

definition one_line_fields :: "UpdateManifest \<Rightarrow> bool" where
  "one_line_fields m \<longleftrightarrow>
     newline \<notin> set (um_version m) \<and> newline \<notin> set (um_sha256 m) \<and> newline \<notin> set (um_url m) \<and>
     newline \<notin> set (um_channel m)"

lemma newline_not_digit: "newline \<notin> set (show_nat n)"
proof
  assume "newline \<in> set (show_nat n)"
  then have "is_ascii_digit newline" by (rule show_nat_digits)
  then show False by (simp add: is_ascii_digit_def newline_def code_def)
qed

text \<open>
  The payload determines the five fields it covers, even when the other manifest was made by
  somebody who puts newlines into fields: the number of newlines gives that away.
\<close>

lemma signing_payload_inj:
  assumes "signing_payload m = signing_payload m'" and "one_line_fields m"
  shows "um_version m' = um_version m \<and> um_sha256 m' = um_sha256 m \<and> um_url m' = um_url m \<and>
    um_channel m' = um_channel m \<and> um_rollout_percent m' = um_rollout_percent m"
proof -
  let ?r = "show_nat (unat (um_rollout_percent m))" and ?r' = "show_nat (unat (um_rollout_percent m'))"
  from assms(1) have eq:
    "um_version m @ newline # um_sha256 m @ newline # um_url m @ newline # um_channel m @ newline # ?r =
     um_version m' @ newline # um_sha256 m' @ newline # um_url m' @ newline # um_channel m' @ newline # ?r'"
    by (simp add: signing_payload_def)
  have "count_list (um_version m') newline + count_list (um_sha256 m') newline +
      count_list (um_url m') newline + count_list (um_channel m') newline = 0"
    using arg_cong [OF eq, of "\<lambda>s. count_list s newline"] assms(2)
    by (simp add: one_line_fields_def newline_not_digit count_notin)
  then have clean: "one_line_fields m'" by (simp add: one_line_fields_def count_list_0_iff)
  note join_lines_inj [OF eq]
  with clean assms(2) have v: "um_version m = um_version m'" and
    eq2: "um_sha256 m @ newline # um_url m @ newline # um_channel m @ newline # ?r =
     um_sha256 m' @ newline # um_url m' @ newline # um_channel m' @ newline # ?r'"
    by (simp_all add: one_line_fields_def)
  from join_lines_inj [OF eq2] clean assms(2) have h: "um_sha256 m = um_sha256 m'" and
    eq3: "um_url m @ newline # um_channel m @ newline # ?r =
     um_url m' @ newline # um_channel m' @ newline # ?r'"
    by (simp_all add: one_line_fields_def)
  from join_lines_inj [OF eq3] clean assms(2) have u: "um_url m = um_url m'" and
    eq4: "um_channel m @ newline # ?r = um_channel m' @ newline # ?r'"
    by (simp_all add: one_line_fields_def)
  from join_lines_inj [OF eq4] clean assms(2) have "um_channel m = um_channel m'" and "?r = ?r'"
    by (simp_all add: one_line_fields_def)
  with v h u show ?thesis by (simp add: word_unat_eq_iff)
qed

section \<open>Versions\<close>

lemma parse_u32_show [simp]: "parse_u32 (show_nat (unat w)) = Some w"
proof -
  have "unat w \<le> 4294967295"
    using unsigned_less [of w, where ?'a = nat] by simp
  then show ?thesis by (simp add: parse_u32_def)
qed

definition show_version :: "u32 \<times> u32 \<times> u32 \<Rightarrow> string" where
  "show_version v = (case v of (a, b, c) \<Rightarrow>
     show_nat (unat a) @ ''.'' @ show_nat (unat b) @ ''.'' @ show_nat (unat c))"

lemma digits_no_sep:
  assumes "\<not> is_ascii_digit x"
  shows "x \<notin> set (show_nat n)"
  using assms show_nat_digits by blast

lemma version_separators: "\<not> is_ascii_digit (CHR ''.'')" "\<not> is_ascii_digit (CHR ''-'')" "\<not> is_ascii_digit (CHR ''+'')"
  by (simp_all add: is_ascii_digit_def code_def)

text \<open>Printing a triple and parsing it gives the triple; a pre-release or build tag is ignored.\<close>

lemma parse_version_show:
  assumes "tag = [] \<or> hd tag = CHR ''-'' \<or> hd tag = CHR ''+''"
  shows "parse_version (show_version v @ tag) = Inr v"
proof -
  obtain a b c where v: "v = (a, b, c)" by (cases v)
  have "takeWhile (\<lambda>c. \<not> (c = CHR ''-'' \<or> c = CHR ''+'')) (show_version v @ tag) = show_version v"
    using assms digits_no_sep [OF version_separators(2)] digits_no_sep [OF version_separators(3)]
    by (intro takeWhile_split) (auto simp: v show_version_def)
  then have core: "unwrap_or (next_item (split_on (\<lambda>c. c = CHR ''-'' \<or> c = CHR ''+'')
      (show_version v @ tag))) [] = show_version v"
    by (simp only: next_split_on unwrap_or_def option.case)
  have parts: "split_on (\<lambda>c. c = CHR ''.'') (show_version v) =
      [show_nat (unat a), show_nat (unat b), show_nat (unat c)]"
    using digits_no_sep [OF version_separators(1)]
    by (simp add: v show_version_def, subst split_on_append_sep, force, simp,
      simp, subst split_on_append_sep, force, simp, simp, subst split_on_no_sep, force, simp)
  show ?thesis
    unfolding parse_version_def Let_def core parts by (simp add: v)
qed

text \<open>The number a run of digits stands for, without a bound.\<close>

definition decimal :: "string \<Rightarrow> nat" where
  "decimal = foldl (\<lambda>acc c. acc * 10 + (code c - 48)) 0"

lemma foldl_decimal_mono: "acc \<le> foldl (\<lambda>acc c. acc * 10 + (code c - 48)) acc s"
proof (induction s arbitrary: acc)
  case (Cons c cs)
  from Cons [of "acc * 10 + (code c - 48)"] show ?case by simp
qed simp

lemma parse_digits_decimal:
  "acc \<le> m \<Longrightarrow> parse_digits m acc s =
     (if list_all is_ascii_digit s \<and> foldl (\<lambda>acc c. acc * 10 + (code c - 48)) acc s \<le> m
      then Some (foldl (\<lambda>acc c. acc * 10 + (code c - 48)) acc s) else None)"
proof (induction s arbitrary: acc)
  case (Cons c cs)
  let ?acc = "acc * 10 + (code c - 48)"
  show ?case
  proof (cases "?acc \<le> m")
    case True
    with Cons.IH [OF True] show ?thesis by (simp add: digit_value_def)
  next
    case False
    with foldl_decimal_mono [of ?acc cs] have "\<not> foldl (\<lambda>acc c. acc * 10 + (code c - 48)) ?acc cs \<le> m"
      by linarith
    with False show ?thesis by (simp add: digit_value_def)
  qed
qed simp

lemma parse_u32_decimal:
  assumes "CHR ''+'' \<notin> set s"
  shows "parse_u32 s = (if s \<noteq> [] \<and> list_all is_ascii_digit s \<and> decimal s \<le> 4294967295
     then Some (word_of_nat (decimal s)) else None)"
proof -
  have "s \<noteq> [] \<Longrightarrow> hd s \<noteq> CHR ''+''" using assms by (cases s) auto
  then have "parse_unsigned 4294967295 s = (if s = [] then None else parse_digits 4294967295 0 s)"
    by (auto simp: parse_unsigned_def)
  then show ?thesis by (simp add: parse_u32_def parse_digits_decimal decimal_def)
qed

lemma set_split_on: "p \<in> set (split_on P s) \<Longrightarrow> set p \<subseteq> set s"
proof (induction s arbitrary: p)
  case (Cons c cs)
  note IH = Cons.IH and prems = Cons.prems
  show ?case
  proof (cases "split_on P cs")
    case (Cons q qs)
    then have "set q \<subseteq> set cs" "\<forall>r\<in>set qs. set r \<subseteq> set cs" using IH [of q] IH by auto
    with Cons prems show ?thesis by (auto split: if_splits)
  qed (use prems in auto)
qed simp

lemma semver_core_no_plus: "CHR ''+'' \<notin> set (semver_core v)"
  by (auto simp: semver_core_def dest: set_takeWhileD)

definition semver_parts :: "string \<Rightarrow> string list" where
  "semver_parts v = split_on (\<lambda>c. c = CHR ''.'') (semver_core v)"

text \<open>What follows a third part is ignored, as the protocol's own check does.\<close>

lemma fourth_part_ignored:
  "is_ok (check_semver ''1.2.3.4'' p)" "parse_version ''1.2.3.4'' = Inr (1, 2, 3)"
  by (simp_all add: is_ok_check_semver semver_core_def parse_version_def Let_def unwrap_or_def parse_u32_def
      parse_unsigned_def digit_value_def is_ascii_digit_def code_def)

section \<open>Acceptance\<close>

lemma evaluate_manifest_ok:
  "evaluate_manifest cr m policy key = Inr take_it \<longleftrightarrow>
     verify_signature cr m key = Inr () \<and> um_channel m = up_channel policy \<and>
     is_same_origin (um_url m) (up_download_origin policy) \<and>
     (\<exists>offered current. parse_version (um_version m) = Inr offered \<and>
        parse_version (up_current_version policy) = Inr current \<and> current < offered) \<and>
     take_it = (up_rollout_bucket policy < um_rollout_percent m)"
  by (auto simp: evaluate_manifest_def not_le split: sum.splits)

lemma evaluate_manifest_unverified:
  "verify_signature cr m key = Inl e \<Longrightarrow> evaluate_manifest cr m policy key = Inl e"
  by (simp add: evaluate_manifest_def)

lemma decode_signature_error:
  "verify_signature cr m key = Inl e \<Longrightarrow> e \<in> {BadSignature, MalformedSignature}"
  by (auto simp: verify_signature_def split: option.splits if_splits)

lemma hex_not_base64_padding:
  assumes "\<And>s b. hex_decode cr s = Some b \<Longrightarrow> list_all is_ascii_hexdigit s"
    and "CHR ''='' \<in> set s"
  shows "decode_signature cr s = base64_decode s"
proof -
  have "\<not> is_ascii_hexdigit (CHR ''='')"
    by (simp add: is_ascii_hexdigit_def is_ascii_digit_def code_def)
  with assms(2) have "\<not> list_all is_ascii_hexdigit s" by (auto simp: list_all_iff)
  with assms(1) [of s] show ?thesis by (cases "hex_decode cr s") (auto simp: decode_signature_def)
qed

section \<open>A sequence of updates\<close>

text \<open>
  An installation that acts on an offered manifest when the code says so, and then runs the
  version the manifest names.
\<close>

definition install :: "'key crates \<Rightarrow> 'key \<Rightarrow> UpdatePolicy \<Rightarrow> UpdateManifest \<Rightarrow> UpdatePolicy" where
  "install cr key policy m =
     (case evaluate_manifest cr m policy key of
        Inr True \<Rightarrow> policy\<lparr>up_current_version := um_version m\<rparr>
      | _ \<Rightarrow> policy)"

definition at_least :: "u32 \<times> u32 \<times> u32 \<Rightarrow> UpdatePolicy \<Rightarrow> bool" where
  "at_least v policy \<longleftrightarrow> (\<exists>w. parse_version (up_current_version policy) = Inr w \<and> v \<le> w)"

lemma install_cases:
  "install cr key policy m = policy \<or>
   evaluate_manifest cr m policy key = Inr True \<and>
   install cr key policy m = policy\<lparr>up_current_version := um_version m\<rparr>"
  by (auto simp: install_def split: sum.split bool.split)

lemma install_at_least: "at_least v policy \<Longrightarrow> at_least v (install cr key policy m)"
  using install_cases [of cr key policy m]
  by (auto simp: at_least_def evaluate_manifest_ok
      simp del: less_prod_simp less_eq_prod_simp split_paired_Ex)

interpretation installation: machine "install cr key" "at_least v" "\<lambda>_. True"
  by unfold_locales (rule install_at_least)


section \<open>Properties\<close>

text \<open>
  C4: a manifest is acted on exactly when its signature decodes to 64 bytes that verify against
  the compiled-in key over the signing payload, its channel is this build's, its URL has the
  origin of the configured download origin, its version parses to a triple above the running
  one, and this installation's bucket is below the rollout percentage; outside the slice the
  answer is Ok(false), not an error.
\<close>

theorem evaluate_manifest_accepts:
  "evaluate_manifest cr m policy key = Inr take_it \<longleftrightarrow>
     (\<exists>raw. decode_signature cr (um_signature m) = Some raw \<and> length raw = 64 \<and>
        ed25519_verify cr key (signing_payload m) raw) \<and>
     um_channel m = up_channel policy \<and>
     (\<exists>origin. http_origin (um_url m) origin \<and> http_origin (up_download_origin policy) origin) \<and>
     (\<exists>offered current. parse_version (um_version m) = Inr offered \<and>
        parse_version (up_current_version policy) = Inr current \<and> current < offered) \<and>
     take_it = (up_rollout_bucket policy < um_rollout_percent m)"
  unfolding evaluate_manifest_ok verify_signature_ok is_same_origin_iff ..

text \<open>
  Verification comes first and unconditionally: either the signature verifies, or the answer
  is one and the same signature error under every policy, so that no other field of an unsigned
  manifest is ever acted on or reported about.
\<close>

lemma signature_checked_first:
  "verify_signature cr m key = Inr () \<or>
   (\<exists>e. (e = BadSignature \<or> e = MalformedSignature) \<and>
      (\<forall>policy. evaluate_manifest cr m policy key = Inl e))"
  using evaluate_manifest_unverified decode_signature_error
  by (cases "verify_signature cr m key") fastforce+

text \<open>
  C5: with a signature scheme in which only signed messages verify, whatever this build acts on
  carries the version, hash, URL, channel and rollout of a manifest the owner of the key signed;
  no field can be changed, and no text moved from one field to its neighbour.
\<close>

theorem accepted_manifest_was_signed:
  assumes unforgeable: "\<And>message raw. ed25519_verify cr key message raw \<Longrightarrow>
      message \<in> signing_payload ` issued"
    and "\<forall>m\<in>issued. one_line_fields m"
    and "evaluate_manifest cr m policy key = Inr take_it"
  shows "\<exists>s\<in>issued. um_version m = um_version s \<and> um_sha256 m = um_sha256 s \<and>
    um_url m = um_url s \<and> um_channel m = um_channel s \<and>
    um_rollout_percent m = um_rollout_percent s"
proof -
  from assms(3) obtain raw where "ed25519_verify cr key (signing_payload m) raw"
    by (auto simp: evaluate_manifest_ok verify_signature_ok)
  with unforgeable obtain s where "s \<in> issued" and "signing_payload s = signing_payload m"
    by (metis imageE)
  with signing_payload_inj assms(2) show ?thesis by blast
qed

text \<open>
  C32: however many manifests are offered, in whatever order, replayed or not, an installation
  never goes back below a version it has reached.
\<close>

theorem no_downgrade:
  assumes "parse_version (up_current_version policy) = Inr v"
  shows "\<exists>w. parse_version (up_current_version (run (install cr key) policy manifests)) = Inr w \<and> v \<le> w"
  using assms installation.inv_run [of v policy manifests]
  by (simp add: at_least_def)

text \<open>
  A manifest that has been installed is refused as not newer ever after.
\<close>

lemma installed_manifest_not_offered_again:
  assumes "evaluate_manifest cr m policy key = Inr True"
  shows "evaluate_manifest cr m (run (install cr key) (install cr key policy m) manifests) key \<noteq> Inr take_it"
proof -
  from assms obtain v where v: "parse_version (um_version m) = Inr v"
    by (auto simp: evaluate_manifest_ok)
  with assms have "at_least v (install cr key policy m)"
    by (simp add: install_def at_least_def)
  then have "at_least v (run (install cr key) (install cr key policy m) manifests)"
    by (rule installation.inv_run) simp
  with v show ?thesis
    by (auto simp: evaluate_manifest_ok at_least_def simp del: less_prod_simp less_eq_prod_simp)
qed

text \<open>
  The updater reads exactly the versions the protocol calls semantic, as long as each of the
  first three numbers fits 32 bits, and reads them as those numbers: \<open>check::semver\<close> of the
  generated code and \<open>parse_version\<close>, written apart, agree on every string but for that bound.
\<close>

lemma parse_version_by_semver:
  "parse_version v =
     (if is_ok (check_semver v p) \<and> list_all (\<lambda>part. decimal part \<le> 4294967295) (take 3 (semver_parts v))
      then Inr (word_of_nat (decimal (semver_parts v ! 0)), word_of_nat (decimal (semver_parts v ! 1)),
        word_of_nat (decimal (semver_parts v ! 2)))
      else Inl (MalformedVersion v))"
proof -
  obtain parts where parts: "split_on (\<lambda>c. c = CHR ''.'') (semver_core v) = parts" by simp
  have core: "unwrap_or (next_item (split_on (\<lambda>c. c = CHR ''-'' \<or> c = CHR ''+'') v)) [] = semver_core v"
    by (simp add: unwrap_or_def semver_core_def)
  have plus: "\<forall>q\<in>set parts. parse_u32 q = (if q \<noteq> [] \<and> list_all is_ascii_digit q \<and> decimal q \<le> 4294967295
     then Some (word_of_nat (decimal q)) else None)"
    using parts set_split_on [of _ "\<lambda>c. c = CHR ''.''" "semver_core v"] semver_core_no_plus [of v]
    by (intro ballI parse_u32_decimal) blast
  show ?thesis
    unfolding parse_version_def Let_def core parts semver_parts_def is_ok_check_semver
    using plus
    by (cases parts; cases "tl parts"; cases "tl (tl parts)") (auto simp: numeral_3_eq_3 split: option.split)
qed

text \<open>
  A staged rollout reaches exactly its percentage of the hundred buckets, all of them from
  100 on and none at 0.
\<close>

lemma rollout_is_exact:
  assumes "is_ok (evaluate_manifest cr m policy key)"
  shows "card {b. b < 100 \<and>
      evaluate_manifest cr m (policy\<lparr>up_rollout_bucket := word_of_nat b\<rparr>) key = Inr True} =
    min 100 (unat (um_rollout_percent m))"
proof -
  from assms have "evaluate_manifest cr m (policy\<lparr>up_rollout_bucket := word_of_nat b\<rparr>) key = Inr True \<longleftrightarrow>
      (word_of_nat b :: u8) < um_rollout_percent m" for b
    by (auto simp: is_ok_iff evaluate_manifest_ok)
  moreover have "b < 100 \<Longrightarrow> (word_of_nat b :: u8) < um_rollout_percent m \<longleftrightarrow> b < unat (um_rollout_percent m)" for b
    by (simp add: word_less_nat_alt unat_of_nat take_bit_nat_eq_self)
  ultimately have "{b. b < 100 \<and>
      evaluate_manifest cr m (policy\<lparr>up_rollout_bucket := word_of_nat b\<rparr>) key = Inr True} =
    {..<min 100 (unat (um_rollout_percent m))}"
    by auto
  then show ?thesis by simp
qed

text \<open>
  C27: what passes both checks is the released file. Suppose that the key's signatures cannot be forged,
  that each issued manifest carries the hash of the release of its version and has one-line fields, that
  the hexadecimal digits of two byte strings never agree up to case, and that the download's hash is
  that of no release but its own. Then a download that matches an accepted manifest is, byte by byte,
  the release of the version the manifest names.
\<close>

theorem verified_download_is_the_release:
  assumes unforgeable: "\<And>message raw. ed25519_verify cr key message raw \<Longrightarrow>
      message \<in> signing_payload ` issued"
    and "\<forall>m\<in>issued. one_line_fields m"
    and published: "\<forall>s\<in>issued. um_sha256 s = hex_encode cr (sha256_digest cr (release (um_version s)))"
    and hex_case: "\<And>b b'. eq_ignore_ascii_case (hex_encode cr b) (hex_encode cr b') \<Longrightarrow> b = b'"
    and no_collision: "\<And>v. sha256_digest cr contents = sha256_digest cr (release v) \<Longrightarrow> contents = release v"
    and "evaluate_manifest cr m policy key = Inr take_it"
    and "verify_download cr contents m = Inr ()"
  shows "contents = release (um_version m)"
proof -
  from assms(6) obtain raw where "ed25519_verify cr key (signing_payload m) raw"
    by (auto simp: evaluate_manifest_ok verify_signature_ok)
  with unforgeable obtain s where s: "s \<in> issued" and "signing_payload s = signing_payload m"
    by (metis imageE)
  with signing_payload_inj assms(2) have "um_version m = um_version s" and "um_sha256 m = um_sha256 s"
    by blast+
  with s published assms(7) have "eq_ignore_ascii_case (hex_encode cr (sha256_digest cr contents))
      (hex_encode cr (sha256_digest cr (release (um_version m))))"
    by (simp add: verify_download_def Let_def split: if_splits)
  then show ?thesis by (intro no_collision hex_case)
qed

text \<open>
  A signature published in padded standard base64 is read as the bytes it encodes, although
  the decoder tries hexadecimal first.
\<close>

lemma base64_signature_accepted:
  assumes hex: "\<And>s b. hex_decode cr s = Some b \<Longrightarrow> list_all is_ascii_hexdigit s"
    and "length raw = 64" and "um_signature m = base64 raw"
  shows "verify_signature cr m key =
    (if ed25519_verify cr key (signing_payload m) raw then Inr () else Inl BadSignature)"
proof -
  have "CHR ''='' \<in> set (base64 raw)"
    using assms(2) by (intro base64_padded) simp
  with hex have "decode_signature cr (base64 raw) = base64_decode (base64 raw)"
    by (rule hex_not_base64_padding)
  with assms(2,3) show ?thesis
    by (simp add: verify_signature_def b64.dec_enc)
qed

text \<open>
  A printed version triple parses back to the triple, with or without a pre-release or build
  suffix, for every value a \<open>u32\<close> can hold.
\<close>

lemma parse_version_roundtrip:
  assumes "tag = [] \<or> hd tag = CHR ''-'' \<or> hd tag = CHR ''+''"
  shows "parse_version (show_version v @ tag) = Inr v"
  using assms by (rule parse_version_show)

text \<open>
  The two origin comparisons of the crate are the same relation: the updater fetches from a
  URL exactly when the localhost endpoint would trust it with the download origin configured.
\<close>

lemma origin_checks_agree:
  "is_same_origin url origin \<longleftrightarrow> is_allowed_backend url [origin]"
  by (auto simp: is_same_origin_iff is_allowed_backend_iff)


section \<open>An instance\<close>

text \<open>
  Concrete crates on which the hypotheses above hold: real hexadecimal encoding, a signature
  scheme in which exactly one message verifies, and an injective digest.
\<close>

definition HEX :: string where
  "HEX = ''0123456789abcdef''"

definition example_hex_encode :: "bytes \<Rightarrow> string" where
  "example_hex_encode bs = concat (map (\<lambda>b. [HEX ! (unat b div 16), HEX ! (unat b mod 16)]) bs)"

lemma HEX_facts: "length HEX = 16" "distinct HEX" "map to_ascii_lowercase_char HEX = HEX"
  by code_simp+

lemma HEX_nth: "i < 16 \<Longrightarrow> j < 16 \<Longrightarrow> (HEX ! i = HEX ! j) = (i = j)"
  using HEX_facts by (simp add: nth_eq_iff_index_eq)

lemma lowercase_HEX: "i < 16 \<Longrightarrow> to_ascii_lowercase_char (HEX ! i) = HEX ! i"
  using HEX_facts by (metis nth_map)

lemma unat_u8_div: "unat (b :: u8) div 16 < 16"
  using unsigned_less [of b, where ?'a = nat] by simp

lemma example_hex_encode_inj:
  "eq_ignore_ascii_case (example_hex_encode b) (example_hex_encode b') \<Longrightarrow> b = b'"
proof (induction b arbitrary: b')
  case Nil
  then show ?case
    by (cases b') (simp_all add: eq_ignore_ascii_case_def example_hex_encode_def to_ascii_lowercase_def)
next
  case (Cons x xs)
  then obtain y ys where b': "b' = y # ys"
    by (cases b') (auto simp: eq_ignore_ascii_case_def example_hex_encode_def to_ascii_lowercase_def)
  with Cons.prems have "HEX ! (unat x div 16) = HEX ! (unat y div 16)"
    "HEX ! (unat x mod 16) = HEX ! (unat y mod 16)"
    "eq_ignore_ascii_case (example_hex_encode xs) (example_hex_encode ys)"
    by (simp_all add: eq_ignore_ascii_case_def example_hex_encode_def to_ascii_lowercase_def
        lowercase_HEX unat_u8_div)
  with Cons.IH have "unat x div 16 = unat y div 16" "unat x mod 16 = unat y mod 16" "xs = ys"
    by (simp_all add: HEX_nth unat_u8_div)
  then show ?case using b' by (metis div_mult_mod_eq word_unat_eq_iff)
qed

definition example_manifest :: UpdateManifest where
  "example_manifest =
     \<lparr>um_version = ''0.2.0'', um_sha256 = example_hex_encode [7], um_url = ''https://dist.example/x'',
      um_channel = ''stable'', um_rollout_percent = 25, um_signature = base64 (replicate 64 0)\<rparr>"

definition example_policy :: UpdatePolicy where
  "example_policy =
     \<lparr>up_current_version = ''0.1.9'', up_channel = ''stable'',
      up_download_origin = ''https://dist.example'', up_rollout_bucket = 3\<rparr>"

definition example_crates :: "unit crates" where
  "example_crates =
     \<lparr>hex_decode = (\<lambda>_. None), hex_encode = example_hex_encode, sha256_digest = (\<lambda>b. b),
      ed25519_verify = (\<lambda>_ message raw. message = signing_payload example_manifest \<and> length raw = 64)\<rparr>"

lemma example_versions:
  "parse_version ''0.2.0'' = Inr (0, 2, 0)" "parse_version ''0.1.9'' = Inr (0, 1, 9)"
proof -
  have "digit_char 0 = CHR ''0''" "digit_char 1 = CHR ''1''" "digit_char 2 = CHR ''2''"
    "digit_char 9 = CHR ''9''"
    by code_simp+
  then have "show_version (0, 2, 0) = ''0.2.0''" "show_version (0, 1, 9) = ''0.1.9''"
    by (simp_all add: show_version_def show_nat.simps)
  then show "parse_version ''0.2.0'' = Inr (0, 2, 0)" "parse_version ''0.1.9'' = Inr (0, 1, 9)"
    using parse_version_show [of "[]" "(0, 2, 0)"] parse_version_show [of "[]" "(0, 1, 9)"] by simp_all
qed

lemma example_origins:
  "is_same_origin ''https://dist.example/x'' ''https://dist.example''"
proof -
  have "to_ascii_lowercase ''https://dist.example/x'' = ''https://dist.example/x''"
    "to_ascii_lowercase ''https://dist.example'' = ''https://dist.example''"
    by code_simp+
  then show ?thesis
    by (simp add: is_same_origin_def same_origin_origin_of_def strip_prefix_def ends_authority_def
        trim_visible is_visible_def code_def)
qed

lemma example_verified: "verify_signature example_crates example_manifest () = Inr ()"
  by (simp add: verify_signature_def decode_signature_def example_crates_def example_manifest_def
      b64.dec_enc)

lemma example_update: "evaluate_manifest example_crates example_manifest example_policy () = Inr True"
  unfolding evaluate_manifest_ok
  by (simp add: example_verified example_versions example_origins example_policy_def)
    (simp add: example_manifest_def example_versions example_origins)

lemma example_one_line: "\<forall>m\<in>{example_manifest}. one_line_fields m"
  by (simp add: one_line_fields_def example_manifest_def newline_def example_hex_encode_def HEX_def)

lemma accepted_manifest_was_signed_witness:
  "\<exists>s\<in>{example_manifest}. um_version example_manifest = um_version s \<and>
    um_sha256 example_manifest = um_sha256 s \<and>
    um_url example_manifest = um_url s \<and> um_channel example_manifest = um_channel s \<and>
    um_rollout_percent example_manifest = um_rollout_percent s"
  by (rule accepted_manifest_was_signed [OF _ example_one_line example_update])
    (simp add: example_crates_def)

lemma no_downgrade_witness:
  "\<exists>w. parse_version (up_current_version (run (install example_crates ()) example_policy
     [example_manifest, example_manifest])) = Inr w \<and> (0, 1, 9) \<le> w"
  by (rule no_downgrade) (simp add: example_policy_def example_versions)

lemma installed_manifest_not_offered_again_witness:
  "evaluate_manifest example_crates example_manifest
     (run (install example_crates ()) (install example_crates () example_policy example_manifest)
        [example_manifest]) () \<noteq> Inr True"
  by (rule installed_manifest_not_offered_again [OF example_update])

lemma rollout_is_exact_witness:
  "card {b. b < 100 \<and>
      evaluate_manifest example_crates example_manifest
        (example_policy\<lparr>up_rollout_bucket := word_of_nat b\<rparr>) () = Inr True} = 25"
  by (subst rollout_is_exact) (simp_all add: example_update, simp add: example_manifest_def)

definition example_release :: "string \<Rightarrow> bytes" where
  "example_release v = (if v = ''0.2.0'' then [7] else [8])"

lemma verified_download_is_the_release_witness:
  "\<exists>contents. verify_download example_crates contents example_manifest = Inr () \<and>
     contents = example_release (um_version example_manifest) \<and> contents \<noteq> example_release ''0.1.9''"
proof -
  have served: "verify_download example_crates [7] example_manifest = Inr ()"
    by (simp add: example_crates_def verify_download_def) (simp add: example_manifest_def)
  have "[7] = example_release (um_version example_manifest)"
  proof (rule verified_download_is_the_release [OF _ _ _ _ _ example_update served])
    show "message \<in> signing_payload ` {example_manifest}" if "ed25519_verify example_crates () message raw" for message raw
      using that by (simp add: example_crates_def)
  qed (simp_all add: example_one_line [simplified] example_crates_def example_hex_encode_inj,
      simp_all add: example_manifest_def example_release_def)
  then show ?thesis using served by (intro exI [of _ "[7]"]) (simp add: example_release_def)
qed

lemma base64_signature_accepted_witness:
  "verify_signature example_crates example_manifest () = Inr ()"
proof -
  have "verify_signature example_crates example_manifest () =
      (if ed25519_verify example_crates () (signing_payload example_manifest) (replicate 64 0)
       then Inr () else Inl BadSignature)"
    by (rule base64_signature_accepted) (simp_all add: example_crates_def, simp add: example_manifest_def)
  then show ?thesis by (simp add: example_crates_def)
qed

lemma parse_version_roundtrip_witness:
  "parse_version (show_version (1, 20, 300) @ ''-rc.1'') = Inr (1, 20, 300)"
  by (rule parse_version_roundtrip) simp

end
