(* ===== verification/Settings.thy ===== *)
theory Settings
  imports Local_Endpoint "HOL-Library.List_Lexorder" "HOL-Library.Char_ord"
begin

text \<open>
  Which backends the companion talks to, \<open>fiveprotect-companion/src/settings.rs\<close>, and the choice of
  the one it reports to in \<open>main\<close>. The file system and the JSON parser are parameters: whether
  there is a settings file, what reading it gives, and the entries it parses to. Strings are
  ordered by their bytes, as \<open>str\<close> is; on a total order \<open>sort_unstable\<close> gives the sorted list.
\<close>

section \<open>Data and operations\<close>

definition BUILT_IN :: "string list" where
  "BUILT_IN = [''https://api.fiveprotect.dev'']"

definition FILE_NAME :: string where
  "FILE_NAME = ''fiveprotect.json''"

record SettingsFile =
  file_allowed_backends :: "string list"

record Settings =
  allowed_backends :: "string list"
  source :: "string option"

definition built_in :: Settings where
  "built_in = \<lparr>allowed_backends = BUILT_IN, source = None\<rparr>"

definition from_file ::
    "(string \<Rightarrow> string option) \<Rightarrow> (string \<Rightarrow> SettingsFile option) \<Rightarrow> string \<Rightarrow> Settings" where
  "from_file read_to_string from_str path =
     (case read_to_string path of
        None \<Rightarrow> built_in
      | Some contents \<Rightarrow>
          (case from_str contents of
             None \<Rightarrow> built_in
           | Some parsed \<Rightarrow>
               let extended = allowed_backends built_in @ file_allowed_backends parsed;
                   sorted = sort extended;
                   deduped = remdups_adj sorted
               in built_in\<lparr>allowed_backends := deduped, source := Some path\<rparr>))"

text \<open>
  \<open>exe_dir\<close> is the directory of the running executable with a separator, when it is known.
\<close>

definition load ::
    "string option \<Rightarrow> (string \<Rightarrow> bool) \<Rightarrow> (string \<Rightarrow> string option) \<Rightarrow> (string \<Rightarrow> SettingsFile option) \<Rightarrow>
     Settings" where
  "load exe_dir is_file read_to_string from_str =
     (let path = map_option (\<lambda>dir. dir @ FILE_NAME) exe_dir
      in case path of
           Some file \<Rightarrow> if is_file file then from_file read_to_string from_str file else built_in
         | None \<Rightarrow> built_in)"

text \<open>\<open>main\<close>: the backend the collector and the worker report to.\<close>

definition primary_backend :: "Settings \<Rightarrow> string option" where
  "primary_backend settings = next_item (allowed_backends settings)"

section \<open>Lemmas\<close>

lemma from_file_cases:
  "from_file read_to_string from_str path = built_in \<or>
   (\<exists>contents parsed. read_to_string path = Some contents \<and> from_str contents = Some parsed \<and>
      from_file read_to_string from_str path =
        \<lparr>allowed_backends = remdups_adj (sort (BUILT_IN @ file_allowed_backends parsed)),
         source = Some path\<rparr>)"
  by (auto simp: from_file_def built_in_def Let_def split: option.split)

lemma load_cases:
  "load exe_dir is_file read_to_string from_str = built_in \<or>
   (\<exists>file. load exe_dir is_file read_to_string from_str = from_file read_to_string from_str file)"
  by (auto simp: load_def Let_def split: option.split)

lemma distinct_remdups_adj_sorted: "sorted xs \<Longrightarrow> distinct (remdups_adj xs)" for xs :: "'a::linorder list"
  by (induction xs rule: remdups_adj.induct) (auto simp: order_antisym)

lemma load_allowed:
  "\<exists>entries. set (allowed_backends (load exe_dir is_file read_to_string from_str)) = set BUILT_IN \<union> set entries \<and>
     sorted (allowed_backends (load exe_dir is_file read_to_string from_str)) \<and>
     distinct (allowed_backends (load exe_dir is_file read_to_string from_str))"
proof -
  have built: "set (allowed_backends built_in) = set BUILT_IN \<union> set []"
    "sorted (allowed_backends built_in)" "distinct (allowed_backends built_in)"
    by (simp_all add: built_in_def BUILT_IN_def)
  have "\<exists>entries. set (allowed_backends (from_file read_to_string from_str path)) = set BUILT_IN \<union> set entries \<and>
     sorted (allowed_backends (from_file read_to_string from_str path)) \<and>
     distinct (allowed_backends (from_file read_to_string from_str path))" for path
    using from_file_cases [of read_to_string from_str path]
  proof (elim disjE exE conjE)
    assume "from_file read_to_string from_str path = built_in"
    with built show ?thesis by metis
  next
    fix contents parsed
    assume eq: "from_file read_to_string from_str path =
        \<lparr>allowed_backends = remdups_adj (sort (BUILT_IN @ file_allowed_backends parsed)), source = Some path\<rparr>"
    show ?thesis
      unfolding eq
      by (rule exI [of _ "file_allowed_backends parsed"])
        (simp add: sorted_remdups_adj distinct_remdups_adj_sorted del: sort_key_simps)
  qed
  with built load_cases [of exe_dir is_file read_to_string from_str] show ?thesis by metis
qed


lemma first_of_sorted: "xs \<noteq> [] \<Longrightarrow> sorted xs \<Longrightarrow> next_item xs = Some (Min (set xs))"
proof (induction xs)
  case (Cons x xs)
  then have "Min (set (x # xs)) = x" by (intro Min_eqI) auto
  then show ?case by simp
qed simp

section \<open>Properties\<close>

text \<open>
  Whatever the settings file holds and however reading it fails, the list of trusted backends
  is sorted, without duplicates, and contains the compiled-in backend; it is never empty, and a
  command that names the production backend passes the origin check.
\<close>

lemma built_in_always_trusted:
  "''https://api.fiveprotect.dev'' \<in> set (allowed_backends (load exe_dir is_file read_to_string from_str)) \<and>
   sorted (allowed_backends (load exe_dir is_file read_to_string from_str)) \<and>
   distinct (allowed_backends (load exe_dir is_file read_to_string from_str)) \<and>
   is_allowed_backend ''https://api.fiveprotect.dev/v1''
     (allowed_backends (load exe_dir is_file read_to_string from_str))"
proof -
  let ?l = "allowed_backends (load exe_dir is_file read_to_string from_str)"
  from load_allowed obtain entries where l: "set ?l = set BUILT_IN \<union> set entries" "sorted ?l" "distinct ?l"
    by blast
  then have "''https://api.fiveprotect.dev'' \<in> set ?l" by (simp add: BUILT_IN_def)
  moreover have lower: "to_ascii_lowercase ''https://api.fiveprotect.dev'' = ''https://api.fiveprotect.dev''"
    "to_ascii_lowercase ''https://api.fiveprotect.dev/v1'' = ''https://api.fiveprotect.dev/v1''"
    by code_simp+
  have "origin_of ''https://api.fiveprotect.dev'' = Some ''https://api.fiveprotect.dev''"
    "origin_of ''https://api.fiveprotect.dev/v1'' = Some ''https://api.fiveprotect.dev''"
    by (simp_all add: origin_of_def lower strip_prefix_def trim_visible is_visible_def code_def
        ends_authority_def)
  ultimately show ?thesis
    using l by (auto simp: is_allowed_backend_iff origin_of_http_origin [symmetric])
qed

text \<open>
  A readable settings file adds exactly its entries, and nothing it says removes one.
\<close>

lemma settings_file_extends:
  assumes "read_to_string path = Some contents" and "from_str contents = Some parsed"
  shows "set (allowed_backends (from_file read_to_string from_str path)) =
      {''https://api.fiveprotect.dev''} \<union> set (file_allowed_backends parsed) \<and>
    source (from_file read_to_string from_str path) = Some path"
  using assms by (simp add: from_file_def Let_def built_in_def BUILT_IN_def set_insort_key)

lemma settings_file_extends_witness:
  "set (allowed_backends (from_file (\<lambda>_. Some []) (\<lambda>_. Some \<lparr>file_allowed_backends = [''http://a.example'']\<rparr>) ''f'')) =
    {''https://api.fiveprotect.dev''} \<union> {''http://a.example''} \<and>
   source (from_file (\<lambda>_. Some []) (\<lambda>_. Some \<lparr>file_allowed_backends = [''http://a.example'']\<rparr>) ''f'') = Some ''f''"
  using settings_file_extends [of "\<lambda>_. Some []" "''f''" "[]"
      "\<lambda>_. Some \<lparr>file_allowed_backends = [''http://a.example'']\<rparr>"
      "\<lparr>file_allowed_backends = [''http://a.example'']\<rparr>"]
  by simp

text \<open>
  The one backend the collector and the worker report to is the first of the list in byte
  order, not the first configured: an operator's entry is reported to exactly when it sorts
  before the compiled-in one, and then the compiled-in one is not.
\<close>

lemma primary_is_least:
  "primary_backend (load exe_dir is_file read_to_string from_str) =
     Some (Min (set (allowed_backends (load exe_dir is_file read_to_string from_str))))"
  using load_allowed [of exe_dir is_file read_to_string from_str]
  unfolding primary_backend_def
  by (intro first_of_sorted) (auto simp: BUILT_IN_def)

text \<open>
  The consequence for a deployment of its own: an entry whose first letter after the scheme comes
  after the compiled-in host's never becomes the primary backend.
\<close>

lemma operator_backend_ignored:
  "primary_backend (from_file (\<lambda>_. Some []) (\<lambda>_. Some \<lparr>file_allowed_backends = [''https://zzz.example'']\<rparr>) ''f'') =
     Some ''https://api.fiveprotect.dev''"
  by code_simp

end
