(* ===== verification/Utf8.thy ===== *)
theory Utf8
  imports Rust_Prelude
begin

text \<open>
  The UTF-8 functions of the Rust standard library the companion calls: the check behind
  \<open>String::from_utf8\<close> with the position and length its error reports, and the lossy conversion
  that puts U+FFFD in place of what does not decode. Text is the list of its bytes.
\<close>

section \<open>One code point\<close>

text \<open>
  The bytes that may follow a lead byte, as the width and the range of the second byte; \<open>None\<close>
  for a byte that starts nothing.
\<close>

definition lead :: "nat \<Rightarrow> (nat \<times> nat \<times> nat) option" where
  "lead b =
     (if b < 0x80 then Some (1, 0, 0)
      else if b < 0xC2 then None
      else if b < 0xE0 then Some (2, 0x80, 0xBF)
      else if b = 0xE0 then Some (3, 0xA0, 0xBF)
      else if b = 0xED then Some (3, 0x80, 0x9F)
      else if b < 0xF0 then Some (3, 0x80, 0xBF)
      else if b = 0xF0 then Some (4, 0x90, 0xBF)
      else if b < 0xF4 then Some (4, 0x80, 0xBF)
      else if b = 0xF4 then Some (4, 0x80, 0x8F)
      else None)"

text \<open>
  Continuation bytes from the third on: an error names how many bytes were read before it, the
  end of the input is an incomplete sequence.
\<close>

fun continuations :: "nat \<Rightarrow> nat \<Rightarrow> string \<Rightarrow> nat option option" where
  "continuations 0 seen s = None"
| "continuations (Suc n) seen [] = Some None"
| "continuations (Suc n) seen (c # cs) =
     (if is_continuation c then continuations n (Suc seen) cs else Some (Some seen))"

text \<open>\<open>Inr w\<close>: a code point of \<open>w\<close> bytes. \<open>Inl e\<close>: an error with the length \<open>e\<close> Rust reports.\<close>

fun code_point :: "string \<Rightarrow> nat option + nat" where
  "code_point [] = Inl None"
| "code_point (c # cs) =
     (case lead (code c) of
        None \<Rightarrow> Inl (Some 1)
      | Some (w, lo, hi) \<Rightarrow>
          if w = 1 then Inr 1
          else case cs of
            [] \<Rightarrow> Inl None
          | d # ds \<Rightarrow>
              if lo \<le> code d \<and> code d \<le> hi
              then (case continuations (w - 2) 2 ds of
                      Some e \<Rightarrow> Inl e
                    | None \<Rightarrow> Inr w)
              else Inl (Some 1))"

lemma code_point_width: "code_point s = Inr w \<Longrightarrow> 0 < w"
  by (cases s) (auto simp: lead_def split: option.splits list.splits if_splits)

lemma code_point_error: "code_point s = Inl (Some n) \<Longrightarrow> 0 < n"
proof -
  have "continuations k seen t = Some (Some m) \<Longrightarrow> seen \<le> m" for k seen t m
    by (induction k seen t rule: continuations.induct) (auto split: if_splits)
  then have *: "continuations k 2 t = Some (Some m) \<Longrightarrow> 0 < m" for k t m
    by (metis less_le_trans zero_less_numeral)
  assume "code_point s = Inl (Some n)"
  then show ?thesis
    by (cases s) (auto simp: lead_def split: option.splits list.splits if_splits dest: *)
qed

lemma continuations_length: "continuations k seen t = None \<Longrightarrow> k \<le> length t"
  by (induction k seen t rule: continuations.induct) (auto split: if_splits)

lemma code_point_length: "code_point s = Inr w \<Longrightarrow> w \<le> length s"
  by (cases s)
    (auto simp: lead_def split: option.splits list.splits if_splits dest: continuations_length)

section \<open>Whole strings\<close>

record Utf8Error =
  valid_up_to :: nat
  error_len :: "nat option"

function utf8_check :: "nat \<Rightarrow> string \<Rightarrow> Utf8Error option" where
  "utf8_check index s =
     (if s = [] then None
      else case code_point s of
        Inl e \<Rightarrow> Some \<lparr>valid_up_to = index, error_len = e\<rparr>
      | Inr w \<Rightarrow> utf8_check (index + w) (drop w s))"
  by pat_completeness auto
termination
  by (relation "measure (\<lambda>(index, s). length s)") (auto dest: code_point_width)

declare utf8_check.simps [simp del]

definition from_bytes :: "bytes \<Rightarrow> string" where
  "from_bytes bs = map (\<lambda>b. char_of (unat b)) bs"

definition string_from_utf8 :: "bytes \<Rightarrow> Utf8Error + string" where
  "string_from_utf8 bs =
     (case utf8_check 0 (from_bytes bs) of
        None \<Rightarrow> Inr (from_bytes bs)
      | Some e \<Rightarrow> Inl e)"

definition show_Utf8Error :: "Utf8Error \<Rightarrow> string" where
  "show_Utf8Error e =
     (case error_len e of
        Some n \<Rightarrow> ''invalid utf-8 sequence of '' @ show_nat n @ '' bytes from index '' @ show_nat (valid_up_to e)
      | None \<Rightarrow> ''incomplete utf-8 byte sequence from index '' @ show_nat (valid_up_to e))"

definition REPLACEMENT :: string where
  "REPLACEMENT = [CHR 0xEF, CHR 0xBF, CHR 0xBD]"

text \<open>\<open>String::from_utf8_lossy\<close>\<close>

function from_utf8_lossy :: "string \<Rightarrow> string" where
  "from_utf8_lossy s =
     (if s = [] then []
      else case code_point s of
        Inr w \<Rightarrow> take w s @ from_utf8_lossy (drop w s)
      | Inl None \<Rightarrow> REPLACEMENT
      | Inl (Some n) \<Rightarrow> REPLACEMENT @ from_utf8_lossy (drop n s))"
  by pat_completeness auto
termination
  by (relation "measure length") (auto dest: code_point_width code_point_error)

declare from_utf8_lossy.simps [simp del]

text \<open>Valid text is text the check has no error for.\<close>

definition utf8_valid :: "string \<Rightarrow> bool" where
  "utf8_valid s = (utf8_check 0 s = None)"

lemma utf8_check_index: "(utf8_check i s = None) = (utf8_check j s = None)"
proof (induction i s arbitrary: j rule: utf8_check.induct)
  case (1 i s)
  show ?case
  proof (cases "s = [] \<or> (\<exists>e. code_point s = Inl e)")
    case True
    then show ?thesis by (auto simp: utf8_check.simps [of i s] utf8_check.simps [of j s])
  next
    case False
    then obtain w where ne: "s \<noteq> []" and w: "code_point s = Inr w"
      by (cases "code_point s") auto
    from "1.IH" [OF ne w, of "j + w"] show ?thesis
      by (simp only: utf8_check.simps [of i s] utf8_check.simps [of j s] ne w if_False sum.case)
  qed
qed

lemma utf8_valid_step:
  "s \<noteq> [] \<Longrightarrow> code_point s = Inr w \<Longrightarrow> utf8_valid s = utf8_valid (drop w s)"
  using utf8_check_index [of w "drop w s" 0]
  by (simp add: utf8_valid_def utf8_check.simps [of 0 s])

lemma utf8_valid_Nil [simp]: "utf8_valid []"
  by (simp add: utf8_valid_def utf8_check.simps)

lemma lossy_valid_id: "utf8_valid s \<Longrightarrow> from_utf8_lossy s = s"
proof (induction s rule: from_utf8_lossy.induct)
  case (1 s)
  show ?case
  proof (cases "s = []")
    case False
    with "1.prems" obtain w where w: "code_point s = Inr w"
      by (auto simp: utf8_valid_def utf8_check.simps [of 0 s] split: sum.splits)
    have "from_utf8_lossy (drop w s) = drop w s"
      using "1.IH"(2) [OF False w] "1.prems" utf8_valid_step [OF False w] by simp
    with False w show ?thesis by (simp add: from_utf8_lossy.simps [of s])
  qed (simp add: from_utf8_lossy.simps)
qed

lemma ascii_code_point: "code c < 128 \<Longrightarrow> code_point (c # cs) = Inr 1"
  by (simp add: lead_def)

lemma utf8_valid_ascii_Cons: "code c < 128 \<Longrightarrow> utf8_valid (c # cs) = utf8_valid cs"
  using utf8_valid_step [of "c # cs" 1] ascii_code_point [of c cs] by simp

lemma utf8_valid_ascii: "\<forall>c\<in>set s. code c < 128 \<Longrightarrow> utf8_valid s"
  by (induction s) (simp_all add: utf8_valid_ascii_Cons)

lemma from_bytes_into_bytes [simp]: "from_bytes (into_bytes s) = s"
  by (induction s) (simp_all add: from_bytes_def into_bytes_def unat_of_nat take_bit_nat_eq_self code_def)

end
