(* ===== verification/Http_Request.thy ===== *)
theory Http_Request
  imports Utf8 Local_Endpoint
begin

text \<open>
  The HTTP framing of the endpoint, \<open>read_request\<close> and \<open>write_response\<close> of
  \<open>fiveprotect-companion/src/server.rs\<close>. A connection is the bytes that arrive on it and what comes
  after them: the end of the stream, or a read that fails (the time-out). The lemmas take a
  request apart that was put together in the usual way and bound what a request can make the
  endpoint hold.
\<close>

section \<open>Reading\<close>

datatype io_error = TimedOutRead | InvalidData string | UnexpectedEof

record stream =
  arrived :: string
  at_eof :: bool

record Request =
  rq_method :: string
  rq_path :: string
  rq_body :: string

definition MAX_BODY :: nat where
  "MAX_BODY = 16 * 1024"

text \<open>
  \<open>BufRead::read_line\<close>: the bytes up to and including the next newline, or up to the end of the
  stream; an error when the read fails first, or when the bytes are not UTF-8.
\<close>

definition read_line :: "stream \<Rightarrow> io_error + (string \<times> stream)" where
  "read_line s =
     (let before = takeWhile (\<lambda>c. c \<noteq> newline) (arrived s);
          rest = dropWhile (\<lambda>c. c \<noteq> newline) (arrived s)
      in if rest = [] \<and> \<not> at_eof s then Inl TimedOutRead
         else let line = before @ take 1 rest
              in if utf8_valid line then Inr (line, s\<lparr>arrived := drop 1 rest\<rparr>)
                 else Inl (InvalidData ''stream did not contain valid UTF-8''))"

text \<open>\<open>read_exact\<close> into a buffer of \<open>n\<close> bytes.\<close>

definition read_exact :: "nat \<Rightarrow> stream \<Rightarrow> io_error + string" where
  "read_exact n s =
     (if n \<le> length (arrived s) then Inr (take n (arrived s))
      else if at_eof s then Inl UnexpectedEof else Inl TimedOutRead)"

text \<open>\<open>split_whitespace\<close>: the maximal runs without white space.\<close>

definition starts_ws :: "string \<Rightarrow> bool" where
  "starts_ws s = list_ex (\<lambda>w. w \<noteq> [] \<and> take (length w) s = w) white_spaces"

fun word_split :: "string \<Rightarrow> string \<times> string" where
  "word_split [] = ([], [])"
| "word_split (c # cs) =
     (if starts_ws (c # cs) then ([], c # cs)
      else (case word_split cs of (w, rest) \<Rightarrow> (c # w, rest)))"

lemma word_split_append: "fst (word_split s) @ snd (word_split s) = s"
  by (induction s) (simp_all add: case_prod_beta)

definition next_word :: "string \<Rightarrow> string option \<times> string" where
  "next_word s =
     (let s' = strip_while white_spaces s
      in if s' = [] then (None, [])
         else (case word_split s' of (w, rest) \<Rightarrow> (Some w, rest)))"

text \<open>\<open>line.split_once(':')\<close>\<close>

definition split_once :: "char \<Rightarrow> string \<Rightarrow> (string \<times> string) option" where
  "split_once c s =
     (case dropWhile (\<lambda>d. d \<noteq> c) s of
        [] \<Rightarrow> None
      | _ # value \<Rightarrow> Some (takeWhile (\<lambda>d. d \<noteq> c) s, value))"

text \<open>The largest \<open>usize\<close>.\<close>

definition USIZE_MAX :: nat where
  "USIZE_MAX = 18446744073709551615"

lemma dropWhile_length: "length (dropWhile P xs) \<le> length xs"
  by (induction xs) simp_all

lemma read_line_shorter:
  "read_line s = Inr (line, s') \<Longrightarrow> line \<noteq> [] \<Longrightarrow> length (arrived s') < length (arrived s)"
proof -
  assume line: "read_line s = Inr (line, s')" "line \<noteq> []"
  let ?rest = "dropWhile (\<lambda>c. c \<noteq> newline) (arrived s)"
  have rest: "length ?rest \<le> length (arrived s)" by (rule dropWhile_length)
  from line have s': "arrived s' = drop 1 ?rest"
    and "line = takeWhile (\<lambda>c. c \<noteq> newline) (arrived s) @ take 1 ?rest"
    by (auto simp: read_line_def Let_def split: if_splits)
  with line(2) have "0 < length (arrived s)" by auto
  then show ?thesis unfolding s' length_drop using rest by linarith
qed

text \<open>The loop over the header lines, with the content length read so far.\<close>

function read_headers :: "stream \<Rightarrow> nat \<Rightarrow> io_error + (nat \<times> stream)" where
  "read_headers s content_length =
     (case read_line s of
        Inl e \<Rightarrow> Inl e
      | Inr (line, s') \<Rightarrow>
          if line = [] \<or> trim_end line = [] then Inr (content_length, s')
          else read_headers s'
            (case split_once (CHR '':'') line of
               None \<Rightarrow> content_length
             | Some (name, value) \<Rightarrow>
                 if eq_ignore_ascii_case (trim name) ''content-length''
                 then unwrap_or (parse_unsigned USIZE_MAX (trim value)) 0
                 else content_length))"
  by pat_completeness auto
termination
  by (relation "measure (\<lambda>(s, n). length (arrived s))") (auto dest: read_line_shorter)

declare read_headers.simps [simp del]

definition read_request :: "stream \<Rightarrow> io_error + Request" where
  "read_request s =
     (case read_line s of
        Inl e \<Rightarrow> Inl e
      | Inr (start, s1) \<Rightarrow>
          (case next_word start of (method, after_method) \<Rightarrow>
           case next_word after_method of (path, _) \<Rightarrow>
             (case read_headers s1 0 of
                Inl e \<Rightarrow> Inl e
              | Inr (content_length, s2) \<Rightarrow>
                  if content_length > MAX_BODY then Inl (InvalidData ''body exceeds the maximum'')
                  else (case read_exact content_length s2 of
                     Inl e \<Rightarrow> Inl e
                   | Inr body \<Rightarrow>
                       Inr \<lparr>rq_method = unwrap_or method [], rq_path = unwrap_or path [],
                            rq_body = from_utf8_lossy body\<rparr>))))"

section \<open>Writing\<close>

definition crlf :: string where
  "crlf = [CHR 0x0D, CHR 0x0A]"

definition reason_phrase :: "nat \<Rightarrow> string" where
  "reason_phrase status =
     (if status = 200 then ''OK''
      else if status = 204 then ''No Content''
      else if status = 400 then ''Bad Request''
      else if status = 404 then ''Not Found''
      else ''Error'')"

text \<open>The bytes \<open>write_response\<close> sends.\<close>

definition response :: "nat \<Rightarrow> string \<Rightarrow> string" where
  "response status body =
     ''HTTP/1.1 '' @ show_nat status @ '' '' @ reason_phrase status @ crlf @
     ''Content-Type: application/json; charset=utf-8'' @ crlf @
     ''Content-Length: '' @ show_nat (length body) @ crlf @
     ''Access-Control-Allow-Origin: *'' @ crlf @
     ''Access-Control-Allow-Methods: POST, OPTIONS'' @ crlf @
     ''Access-Control-Allow-Headers: Content-Type'' @ crlf @
     ''Access-Control-Max-Age: 600'' @ crlf @
     ''Cache-Control: no-store'' @ crlf @
     ''Connection: close'' @ crlf @ crlf @ body"

section \<open>Lemmas\<close>

text \<open>Lossy decoding makes at most three bytes of one.\<close>

lemma length_from_utf8_lossy: "length (from_utf8_lossy s) \<le> 3 * length s"
proof (induction s rule: from_utf8_lossy.induct)
  case (1 s)
  show ?case
  proof (cases "s = []")
    case False
    show ?thesis
    proof (cases "code_point s")
      case (Inr w)
      have "w \<le> length s" using Inr by (rule code_point_length)
      with "1.IH"(2) [OF False Inr] show ?thesis
        by (simp add: from_utf8_lossy.simps [of s] Inr False)
    next
      case (Inl e)
      show ?thesis
      proof (cases e)
        case None
        with Inl False have "from_utf8_lossy s = REPLACEMENT"
          by (simp add: from_utf8_lossy.simps [of s])
        with False show ?thesis by (cases s) (simp_all add: REPLACEMENT_def)
      next
        case (Some n)
        with Inl False have eq: "from_utf8_lossy s = REPLACEMENT @ from_utf8_lossy (drop n s)"
          by (simp add: from_utf8_lossy.simps [of s])
        have "0 < n" using Inl Some code_point_error by simp
        moreover have "length (from_utf8_lossy (drop n s)) \<le> 3 * length (drop n s)"
          using "1.IH"(1) False Inl Some by blast
        moreover have "0 < length s" using False by simp
        ultimately have "length (from_utf8_lossy (drop n s)) + 3 \<le> 3 * length s"
          unfolding length_drop by linarith
        then show ?thesis unfolding eq by (simp add: REPLACEMENT_def)
      qed
    qed
  qed (simp add: from_utf8_lossy.simps)
qed


text \<open>A white-space byte that only occurs alone is stripped on its own.\<close>

lemma strip_while_single:
  assumes "[c] \<in> set ws" and "\<forall>w\<in>set ws. w \<noteq> [] \<longrightarrow> hd w = c \<longrightarrow> w = [c]"
  shows "strip_while ws (c # s) = strip_while ws s"
proof -
  let ?P = "\<lambda>w. w \<noteq> [] \<and> take (length w) (c # s) = w"
  have "find ?P ws \<noteq> None" using assms(1) by (auto simp: find_None_iff)
  then obtain w where w: "find ?P ws = Some w" by blast
  then have w': "w \<in> set ws" "w \<noteq> []" "take (length w) (c # s) = w"
    by (auto simp: find_Some_iff)
  then have "hd w = c" by (metis hd_take length_greater_0_conv list.sel(1))
  with w' assms(2) have "w = [c]" by blast
  with w show ?thesis by (simp add: strip_while.simps [of ws "c # s"])
qed

lemma ascii_ws_alone:
  assumes "c \<in> {CHR '' '', CHR 0x0D, newline}"
  shows "[c] \<in> set white_spaces \<and> (\<forall>w\<in>set white_spaces. w \<noteq> [] \<longrightarrow> (hd w = c \<or> last w = c) \<longrightarrow> w = [c])"
proof
  have "char_of (32 :: nat) = CHR '' ''" "char_of (13 :: nat) = CHR 0x0D" "char_of (10 :: nat) = newline"
    unfolding newline_def by code_simp+
  with assms show "[c] \<in> set white_spaces"
    by (auto simp: white_spaces_def)
  have "\<forall>w\<in>set white_spaces. length w = 1 \<or> 128 \<le> code (hd w) \<and> 128 \<le> code (last w)"
    unfolding white_spaces_def by (simp add: code_char_of)
  moreover have "code c < 128" using assms by (auto simp: code_def newline_def)
  ultimately show "\<forall>w\<in>set white_spaces. w \<noteq> [] \<longrightarrow> (hd w = c \<or> last w = c) \<longrightarrow> w = [c]"
    by (fastforce simp: length_Suc_conv)
qed

lemma strip_space [simp]: "strip_while white_spaces (CHR '' '' # s) = strip_while white_spaces s"
  by (rule strip_while_single) (use ascii_ws_alone [of "CHR '' ''"] in auto)

lemma trim_end_ws:
  assumes "c \<in> {CHR '' '', CHR 0x0D, newline}"
  shows "trim_end (s @ [c]) = trim_end s"
proof -
  have "strip_while (map rev white_spaces) (c # rev s) = strip_while (map rev white_spaces) (rev s)"
  proof (rule strip_while_single)
    have "rev [c] \<in> rev ` set white_spaces" using ascii_ws_alone [OF assms] by blast
    then show "[c] \<in> set (map rev white_spaces)" by simp
    show "\<forall>w\<in>set (map rev white_spaces). w \<noteq> [] \<longrightarrow> hd w = c \<longrightarrow> w = [c]"
    proof (intro ballI impI)
      fix w
      assume "w \<in> set (map rev white_spaces)" and w: "w \<noteq> []" "hd w = c"
      then obtain v where "v \<in> set white_spaces" and v: "w = rev v" by auto
      moreover from w v have "v \<noteq> []" "last v = c" by (simp_all add: hd_rev)
      ultimately have "v = [c]" using ascii_ws_alone [OF assms] by blast
      with v show "w = [c]" by simp
    qed
  qed
  then show ?thesis by (simp add: trim_end_def)
qed

lemma trim_end_crlf [simp]: "trim_end (s @ crlf) = trim_end s"
  using trim_end_ws [of newline "s @ [CHR 0x0D]"] trim_end_ws [of "CHR 0x0D" s]
  by (simp add: crlf_def newline_def)

lemma trim_end_visible: "s = [] \<or> is_visible (last s) \<Longrightarrow> trim_end s = s"
  unfolding trim_end_def
  by (subst strip_while_id) (use visible_not_ws [of "last s"] in \<open>auto simp: hd_rev ws_last_def\<close>)

lemma strip_visible: "is_visible c \<Longrightarrow> strip_while white_spaces (c # s) = c # s"
  using visible_not_ws [of c] by (intro strip_while_id) (auto simp: ws_lead_def)

lemma starts_ws_visible: "is_visible c \<Longrightarrow> \<not> starts_ws (c # s)"
  using visible_not_ws [of c]
  by (auto simp: starts_ws_def list_ex_iff ws_lead_def) (metis hd_take length_greater_0_conv list.sel(1))

lemma word_split_visible:
  "\<forall>c\<in>set w. is_visible c \<Longrightarrow> word_split (w @ CHR '' '' # s) = (w, CHR '' '' # s)"
proof (induction w)
  case Nil
  have "starts_ws (CHR '' '' # s)"
    unfolding starts_ws_def list_ex_iff
    by (rule bexI [of _ "'' ''"]) (use ascii_ws_alone [of "CHR '' ''"] in auto)
  then show ?case by simp
qed (simp add: starts_ws_visible)

lemma next_word_visible:
  assumes "w \<noteq> []" and "\<forall>c\<in>set w. is_visible c"
  shows "next_word (w @ CHR '' '' # s) = (Some w, CHR '' '' # s)"
    and "next_word (CHR '' '' # w @ CHR '' '' # s) = (Some w, CHR '' '' # s)"
proof -
  have "strip_while white_spaces (w @ CHR '' '' # s) = w @ CHR '' '' # s"
    using assms by (cases w) (simp_all add: strip_visible)
  then show "next_word (w @ CHR '' '' # s) = (Some w, CHR '' '' # s)"
    and "next_word (CHR '' '' # w @ CHR '' '' # s) = (Some w, CHR '' '' # s)"
    using assms(1) by (simp_all add: next_word_def word_split_visible [OF assms(2)])
qed

text \<open>A line of visible characters and blanks is read up to its end.\<close>

definition plain :: "char \<Rightarrow> bool" where
  "plain c \<longleftrightarrow> is_visible c \<or> c = CHR '' ''"

lemma read_line_plain:
  assumes "\<forall>c\<in>set l. plain c"
  shows "read_line \<lparr>arrived = l @ crlf @ rest, at_eof = e\<rparr> = Inr (l @ crlf, \<lparr>arrived = rest, at_eof = e\<rparr>)"
proof -
  let ?l = "l @ [CHR 0x0D]"
  have no: "\<forall>c\<in>set ?l. c \<noteq> newline"
    using assms by (auto simp: plain_def is_visible_def newline_def code_def)
  have bytes: "l @ crlf @ rest = ?l @ newline # rest" by (simp add: crlf_def newline_def)
  have "takeWhile (\<lambda>c. c \<noteq> newline) (?l @ newline # rest) = ?l"
    using no by (subst takeWhile_append2) auto
  moreover have "dropWhile (\<lambda>c. c \<noteq> newline) (?l @ newline # rest) = newline # rest"
    using no by (subst dropWhile_append2) auto
  moreover have "utf8_valid (?l @ [newline])"
    using assms by (intro utf8_valid_ascii) (auto simp: plain_def is_visible_def newline_def code_def)
  ultimately show ?thesis
    unfolding read_line_def Let_def stream.simps bytes by (simp add: crlf_def newline_def)
qed

lemma show_nat_visible: "c \<in> set (show_nat n) \<Longrightarrow> is_visible c"
  using show_nat_digits [of c n] by (auto simp: is_ascii_digit_def is_visible_def)

lemma trim_number: "trim (CHR '' '' # show_nat n @ crlf) = show_nat n"
proof -
  have "trim_start (CHR '' '' # show_nat n @ crlf) = show_nat n @ crlf"
    using show_nat_visible [of "hd (show_nat n)" n] show_nat_not_Nil [of n]
    by (cases "show_nat n") (simp_all add: trim_start_def strip_visible)
  moreover have "trim_end (show_nat n @ crlf) = show_nat n"
    using show_nat_visible [of "last (show_nat n)" n] by (simp add: trim_end_visible)
  ultimately show ?thesis by (simp add: trim_def)
qed

lemma read_headers_content_length:
  assumes "n \<le> USIZE_MAX"
  shows "read_headers \<lparr>arrived = ''Content-Length: '' @ show_nat n @ crlf @ crlf @ rest, at_eof = e\<rparr> m =
    Inr (n, \<lparr>arrived = rest, at_eof = e\<rparr>)"
proof -
  let ?l = "''Content-Length: '' @ show_nat n"
  have first: "read_line \<lparr>arrived = ?l @ crlf @ crlf @ rest, at_eof = e\<rparr> =
      Inr (?l @ crlf, \<lparr>arrived = crlf @ rest, at_eof = e\<rparr>)"
    using show_nat_visible by (intro read_line_plain) (auto simp: plain_def is_visible_def code_def)
  have second: "read_line \<lparr>arrived = crlf @ rest, at_eof = e\<rparr> = Inr (crlf, \<lparr>arrived = rest, at_eof = e\<rparr>)"
    using read_line_plain [of "[]" rest e] by simp
  have ended: "read_headers \<lparr>arrived = crlf @ rest, at_eof = e\<rparr> k = Inr (k, \<lparr>arrived = rest, at_eof = e\<rparr>)" for k
    using trim_end_crlf [of "[]"] by (subst read_headers.simps) (simp add: second trim_end_visible)
  have "trim_end (?l @ crlf) \<noteq> []"
    using show_nat_visible [of "last (show_nat n)" n] by (subst trim_end_crlf) (simp add: trim_end_visible)
  moreover have "split_once (CHR '':'') (?l @ crlf) = Some (''Content-Length'', CHR '' '' # show_nat n @ crlf)"
    by (simp add: split_once_def)
  moreover have "trim ''Content-Length'' = ''Content-Length''"
    by (simp add: trim_visible is_visible_def code_def)
  moreover have "eq_ignore_ascii_case ''Content-Length'' ''content-length''" by code_simp
  ultimately show ?thesis
    using assms by (subst read_headers.simps) (simp add: first [simplified] ended trim_number)
qed


lemma read_request_plain:
  assumes m: "m \<noteq> []" "\<forall>c\<in>set m. is_visible c" and p: "p \<noteq> []" "\<forall>c\<in>set p. is_visible c"
    and body: "length body \<le> MAX_BODY" "utf8_valid body"
  shows "read_request \<lparr>arrived = m @ '' '' @ p @ '' HTTP/1.1'' @ crlf @
      ''Content-Length: '' @ show_nat (length body) @ crlf @ crlf @ body @ later, at_eof = e\<rparr> =
    Inr \<lparr>rq_method = m, rq_path = p, rq_body = body\<rparr>"
proof -
  let ?start = "m @ '' '' @ p @ '' HTTP/1.1''"
  let ?rest = "''Content-Length: '' @ show_nat (length body) @ crlf @ crlf @ body @ later"
  have "\<forall>c\<in>set ?start. plain c"
    using m(2) p(2) by (auto simp: plain_def is_visible_def code_def)
  from read_line_plain [OF this, of ?rest e]
  have start: "read_line \<lparr>arrived = ?start @ crlf @ ?rest, at_eof = e\<rparr> =
      Inr (?start @ crlf, \<lparr>arrived = ?rest, at_eof = e\<rparr>)" .
  have words: "next_word (?start @ crlf) = (Some m, CHR '' '' # p @ CHR '' '' # ''HTTP/1.1'' @ crlf)"
    "next_word (CHR '' '' # p @ CHR '' '' # ''HTTP/1.1'' @ crlf) = (Some p, CHR '' '' # ''HTTP/1.1'' @ crlf)"
    using next_word_visible(1) [OF m, of "p @ CHR '' '' # ''HTTP/1.1'' @ crlf"]
      next_word_visible(2) [OF p, of "''HTTP/1.1'' @ crlf"] by simp_all
  have "length body \<le> USIZE_MAX" using body(1) by (simp add: MAX_BODY_def USIZE_MAX_def)
  note headers = read_headers_content_length [OF this, of "body @ later" e 0]
  have "read_exact (length body) \<lparr>arrived = body @ later, at_eof = e\<rparr> = Inr body"
    by (simp add: read_exact_def)
  moreover have "\<not> MAX_BODY < length body" using body(1) by simp
  moreover have "read_request \<lparr>arrived = ?start @ crlf @ ?rest, at_eof = e\<rparr> =
      (if length body > MAX_BODY then Inl (InvalidData ''body exceeds the maximum'')
       else (case read_exact (length body) \<lparr>arrived = body @ later, at_eof = e\<rparr> of
          Inl e \<Rightarrow> Inl e
        | Inr b \<Rightarrow> Inr \<lparr>rq_method = m, rq_path = p, rq_body = from_utf8_lossy b\<rparr>))"
    unfolding read_request_def start sum.case prod.case words headers unwrap_or_simps ..
  ultimately show ?thesis using lossy_valid_id [OF body(2)] by simp
qed

section \<open>Properties\<close>

text \<open>
  A request put together the usual way is read back as it was meant: the method, the path, and
  as the body exactly the announced number of bytes, whatever arrives after them; for every
  method and path of visible characters and every text of at most 16 KiB.
\<close>

lemma request_roundtrip:
  assumes "m \<noteq> []" and "\<forall>c\<in>set m. is_visible c" and "p \<noteq> []" and "\<forall>c\<in>set p. is_visible c"
    and "length body \<le> MAX_BODY" and "utf8_valid body"
  shows "read_request \<lparr>arrived = m @ '' '' @ p @ '' HTTP/1.1'' @ crlf @
      ''Content-Length: '' @ show_nat (length body) @ crlf @ crlf @ body @ later, at_eof = e\<rparr> =
    Inr \<lparr>rq_method = m, rq_path = p, rq_body = body\<rparr>"
  using assms by (rule read_request_plain)

lemma request_roundtrip_witness:
  "read_request \<lparr>arrived = ''POST'' @ '' '' @ ''/attest'' @ '' HTTP/1.1'' @ crlf @
      ''Content-Length: '' @ show_nat (length ''{}'') @ crlf @ crlf @ ''{}'' @ ''x'', at_eof = False\<rparr> =
    Inr \<lparr>rq_method = ''POST'', rq_path = ''/attest'', rq_body = ''{}''\<rparr>"
  by (rule request_roundtrip)
    (simp_all add: is_visible_def code_def MAX_BODY_def utf8_valid_ascii)

text \<open>
  A request never makes the endpoint hold more than its limit of body: a larger announced
  length is an error before anything is allocated for it, and the text handed on has at most
  three bytes for each byte read.
\<close>

lemma request_body_bounded:
  "case read_request s of
     Inl _ \<Rightarrow> True
   | Inr r \<Rightarrow> \<exists>raw. length raw \<le> 16 * 1024 \<and> rq_body r = from_utf8_lossy raw \<and>
       length (rq_body r) \<le> 48 * 1024"
proof (cases "read_request s")
  case (Inr r)
  then obtain n s' raw where "n \<le> MAX_BODY" and "read_exact n s' = Inr raw"
    and body: "rq_body r = from_utf8_lossy raw"
    by (auto simp: read_request_def not_less split: sum.splits prod.splits if_splits)
  then have "length raw \<le> 16 * 1024"
    by (auto simp: read_exact_def MAX_BODY_def split: if_splits)
  with length_from_utf8_lossy [of raw] Inr body show ?thesis by auto
qed simp

end
