(* ===== verification/Server.thy ===== *)
theory Server
  imports Http_Request
begin

text \<open>
  The localhost endpoint, \<open>fiveprotect-companion/src/server.rs\<close>: which port it binds, what one
  connection is answered and which command it hands to the worker, and the counter that bounds
  the connections served at a time, as a step relation in which the accepting thread and the
  handler threads interleave at every atomic operation.
\<close>

section \<open>Binding\<close>

text \<open>\<open>listen\<close> is what \<open>TcpListener::bind\<close> answers for a port of the loopback address.\<close>

fun bind_loop :: "(u16 \<Rightarrow> string + unit) \<Rightarrow> u16 list \<Rightarrow> string option \<Rightarrow> string + u16" where
  "bind_loop listen [] last_error = Inl (unwrap_or last_error ''no port in the range was free'')"
| "bind_loop listen (port # ports) last_error =
     (case listen port of
        Inr _ \<Rightarrow> Inr port
      | Inl error \<Rightarrow> bind_loop listen ports (Some error))"

definition bind_endpoint :: "(u16 \<Rightarrow> string + unit) \<Rightarrow> string + u16" where
  "bind_endpoint listen = bind_loop listen port_range None"

section \<open>One connection\<close>

definition MALFORMED_BODY :: string where
  "MALFORMED_BODY = ''{\"code\":\"malformed_request\"}''"

definition REFUSED_BODY :: string where
  "REFUSED_BODY = ''{\"code\":\"refused\"}''"

text \<open>
  The command sent to the worker and the bytes written to the connection. \<open>cloned\<close> is whether the
  stream could be cloned for writing, \<open>to_string\<close> is \<open>serde_json::to_string\<close>.
\<close>

definition serve_one ::
    "from_str_command \<Rightarrow> (LocalAttestAck \<Rightarrow> string option) \<Rightarrow> bool \<Rightarrow> stream \<Rightarrow> string list \<Rightarrow> string \<Rightarrow>
     LocalAttestCommand option \<times> string option" where
  "serve_one from_str to_string cloned s allowed version =
     (if \<not> cloned then (None, None)
      else case read_request s of
        Inl _ \<Rightarrow> (None, Some (response 400 MALFORMED_BODY))
      | Inr request \<Rightarrow>
          if eq_ignore_ascii_case (rq_method request) ''OPTIONS''
          then (None, Some (response 204 []))
          else case handle_request from_str (rq_method request) (rq_path request) (rq_body request) allowed of
            Inr (Attest command) \<Rightarrow>
              (let ack = acknowledgement version;
                   body = unwrap_or (to_string ack) ''{\"accepted\":true}''
               in (Some command, Some (response 200 body)))
          | Inl reason \<Rightarrow>
              (let status = (case reason of WrongRoute \<Rightarrow> 404 | _ \<Rightarrow> 400)
               in (None, Some (response status REFUSED_BODY))))"

section \<open>The connections served at a time\<close>

definition MAX_CONCURRENT :: u64 where
  "MAX_CONCURRENT = 160"

text \<open>
  Where the accepting thread is: waiting for a connection; past the check of the counter; past its
  increment; past a spawn that failed.
\<close>

datatype acceptor = Accepting | Admitted | Counted | SpawnFailed

text \<open>
  \<open>handlers\<close> are the threads inside \<open>serve_one\<close>, \<open>leaving\<close> those that returned from it and have not
  subtracted themselves yet.
\<close>

record endpoint =
  live :: u64
  handlers :: nat
  leaving :: nat
  acceptor :: acceptor

definition endpoint_start :: endpoint where
  "endpoint_start = \<lparr>live = 0, handlers = 0, leaving = 0, acceptor = Accepting\<rparr>"

inductive endpoint_step :: "endpoint \<Rightarrow> endpoint \<Rightarrow> bool" where
  refuse: "acceptor s = Accepting \<Longrightarrow> MAX_CONCURRENT \<le> live s \<Longrightarrow> endpoint_step s s"
| admit: "acceptor s = Accepting \<Longrightarrow> live s < MAX_CONCURRENT \<Longrightarrow>
    endpoint_step s (s\<lparr>acceptor := Admitted\<rparr>)"
| count: "acceptor s = Admitted \<Longrightarrow> endpoint_step s (s\<lparr>live := live s + 1, acceptor := Counted\<rparr>)"
| spawned: "acceptor s = Counted \<Longrightarrow> endpoint_step s (s\<lparr>handlers := handlers s + 1, acceptor := Accepting\<rparr>)"
| not_spawned: "acceptor s = Counted \<Longrightarrow> endpoint_step s (s\<lparr>acceptor := SpawnFailed\<rparr>)"
| uncount: "acceptor s = SpawnFailed \<Longrightarrow> endpoint_step s (s\<lparr>live := live s - 1, acceptor := Accepting\<rparr>)"
| finish: "0 < handlers s \<Longrightarrow> endpoint_step s (s\<lparr>handlers := handlers s - 1, leaving := leaving s + 1\<rparr>)"
| leave: "0 < leaving s \<Longrightarrow> endpoint_step s (s\<lparr>leaving := leaving s - 1, live := live s - 1\<rparr>)"

inductive_cases endpoint_stepE: "endpoint_step s t"

inductive reachable :: "endpoint \<Rightarrow> bool" where
  reachable_start: "reachable endpoint_start"
| reachable_step: "reachable s \<Longrightarrow> endpoint_step s t \<Longrightarrow> reachable t"

text \<open>The slots taken: every handler, and the connection being spawned.\<close>

definition taken :: "endpoint \<Rightarrow> nat" where
  "taken s = handlers s + leaving s + (case acceptor s of Counted \<Rightarrow> 1 | SpawnFailed \<Rightarrow> 1 | _ \<Rightarrow> 0)"

definition slots_ok :: "endpoint \<Rightarrow> bool" where
  "slots_ok s \<longleftrightarrow> unat (live s) = taken s \<and> taken s \<le> 160 \<and> (acceptor s = Admitted \<longrightarrow> taken s < 160)"

section \<open>Lemmas\<close>

lemma bind_loop_Inr:
  "bind_loop listen ports e = Inr p \<longleftrightarrow>
     (\<exists>before after. ports = before @ p # after \<and> is_ok (listen p) \<and> list_all (\<lambda>q. \<not> is_ok (listen q)) before)"
proof (induction ports arbitrary: e)
  case (Cons q qs)
  show ?case
  proof (cases "listen q")
    case (Inl error)
    then have fails: "\<not> is_ok (listen q)" by simp
    show ?thesis
    proof
      assume "bind_loop listen (q # qs) e = Inr p"
      with Inl Cons obtain before after where "qs = before @ p # after" "is_ok (listen p)"
        "list_all (\<lambda>q. \<not> is_ok (listen q)) before"
        by auto
      with fails show "\<exists>before after. q # qs = before @ p # after \<and> is_ok (listen p) \<and>
          list_all (\<lambda>q. \<not> is_ok (listen q)) before"
        by (intro exI [of _ "q # before"] exI [of _ after]) simp
    next
      assume "\<exists>before after. q # qs = before @ p # after \<and> is_ok (listen p) \<and>
          list_all (\<lambda>q. \<not> is_ok (listen q)) before"
      with fails Inl Cons show "bind_loop listen (q # qs) e = Inr p"
        by (auto simp: Cons_eq_append_conv)
    qed
  next
    case (Inr u)
    then show ?thesis
      by (auto simp: Cons_eq_append_conv)
  qed
qed simp

lemma bind_loop_Inl:
  "bind_loop listen ports e = Inl error \<longleftrightarrow>
     list_all (\<lambda>q. \<not> is_ok (listen q)) ports \<and>
     error = (if ports = [] then unwrap_or e ''no port in the range was free''
              else (case listen (last ports) of Inl m \<Rightarrow> m | Inr _ \<Rightarrow> []))"
proof (induction ports arbitrary: e)
  case (Cons q qs)
  then show ?case
    by (cases "listen q"; cases qs) auto
qed auto

lemma unat_succ: "unat (w :: u64) < 160 \<Longrightarrow> unat (w + 1) = unat w + 1"
proof -
  assume "unat w < 160"
  then have "w \<noteq> - 1" by (auto simp: unsigned_minus_1_eq_mask mask_eq_exp_minus_1)
  then show ?thesis by (simp add: unat_plus_one)
qed

lemma slots_step:
  assumes "endpoint_step s t" and "slots_ok s"
  shows "slots_ok t"
  using assms
proof cases
  case admit
  then have "unat (live s) < 160" by (simp add: word_less_nat_alt MAX_CONCURRENT_def)
  with assms(2) admit show ?thesis by (simp add: slots_ok_def taken_def)
next
  case count
  with assms(2) have "unat (live s) < 160" by (simp add: slots_ok_def)
  with assms(2) count show ?thesis by (simp add: slots_ok_def taken_def unat_succ)
next
  case uncount
  with assms(2) have "0 < unat (live s)" by (simp add: slots_ok_def taken_def)
  with assms(2) uncount show ?thesis by (simp add: slots_ok_def taken_def unat_minus_one)
next
  case leave
  with assms(2) have "0 < unat (live s)" by (simp add: slots_ok_def taken_def)
  with assms(2) leave show ?thesis by (auto simp: slots_ok_def taken_def unat_minus_one)
qed (auto simp: slots_ok_def taken_def)

lemma reachable_slots: "reachable s \<Longrightarrow> slots_ok s"
proof (induction rule: reachable.induct)
  case reachable_start
  then show ?case by (simp add: slots_ok_def taken_def endpoint_start_def)
next
  case (reachable_step s t)
  then show ?case using slots_step by blast
qed


lemma port_range_split:
  "port_range = before @ p # after \<Longrightarrow>
     52800 \<le> unat p \<and> unat p \<le> 52899 \<and> set before = {q. 52800 \<le> unat q \<and> unat q < unat p}"
proof -
  assume split: "port_range = before @ p # after"
  let ?ns = "[52800..<Suc 52899]" and ?i = "length before"
  have range: "port_range = map word_of_nat ?ns" by (simp only: port_range_def port_bounds)
  have len: "length ?ns = 100" by simp
  have "?i < length port_range" unfolding split by simp
  then have i: "?i < 100" unfolding range length_map len .
  have p: "p = word_of_nat (52800 + ?i)"
    using arg_cong [OF split, of "\<lambda>xs. xs ! ?i"] i unfolding range
    by (simp add: nth_append del: upt_Suc upt_rec_numeral)
  have unat_port: "n < 60000 \<Longrightarrow> unat (word_of_nat n :: u16) = n" for n
    by (simp add: unat_of_nat take_bit_nat_eq_self)
  have "before = map word_of_nat (take ?i ?ns)"
    using arg_cong [OF split, of "take ?i"] unfolding range take_map by simp
  also have "take ?i ?ns = [52800..<52800 + ?i]" using i by (simp add: take_upt del: upt_Suc upt_rec_numeral)
  finally have "set before = set (map word_of_nat [52800..<52800 + ?i])" by (rule arg_cong)
  then have before: "set before = word_of_nat ` {52800..<52800 + ?i}"
    by (simp only: set_map set_upt)
  have "word_of_nat ` {52800..<52800 + ?i} = {q :: u16. 52800 \<le> unat q \<and> unat q < 52800 + ?i}"
  proof (intro set_eqI iffI)
    fix q :: u16
    assume "q \<in> word_of_nat ` {52800..<52800 + ?i}"
    then obtain n where "52800 \<le> n" "n < 52800 + ?i" "q = word_of_nat n" by auto
    then show "q \<in> {q. 52800 \<le> unat q \<and> unat q < 52800 + ?i}"
      using i by (simp add: unat_port)
  next
    fix q :: u16
    assume "q \<in> {q. 52800 \<le> unat q \<and> unat q < 52800 + ?i}"
    then show "q \<in> word_of_nat ` {52800..<52800 + ?i}"
      by (intro image_eqI [of _ _ "unat q"]) simp_all
  qed
  moreover have "unat p = 52800 + ?i" unfolding p using i by (intro unat_port) simp
  ultimately show ?thesis using before i by simp
qed

lemma port_range_at:
  "52800 \<le> unat p \<Longrightarrow> unat p \<le> 52899 \<Longrightarrow> \<exists>before after. port_range = before @ p # after"
  by (metis in_set_conv_decomp port_bounds set_port_range word_le_nat_alt)

lemma serve_one_accepted:
  "fst (serve_one from_str to_string cloned s allowed version) = Some c \<longleftrightarrow>
     cloned \<and> (\<exists>request. read_request s = Inr request \<and>
       \<not> eq_ignore_ascii_case (rq_method request) ''OPTIONS'' \<and>
       handle_request from_str (rq_method request) (rq_path request) (rq_body request) allowed = Inr (Attest c))"
  by (auto simp: serve_one_def Let_def split: sum.splits if_splits Accepted.splits)

lemma served_nonce:
  "fst (serve_one from_str to_string cloned s allowed version) = Some c \<Longrightarrow> is_nonce (lac_nonce c)"
  by (auto simp: serve_one_accepted handle_request_ok intro: command_valid_nonce)

lemma post_not_options: "eq_ignore_ascii_case method ''POST'' \<Longrightarrow> \<not> eq_ignore_ascii_case method ''OPTIONS''"
proof -
  have "to_ascii_lowercase ''POST'' = ''post''" "to_ascii_lowercase ''OPTIONS'' = ''options''" by code_simp+
  then show "eq_ignore_ascii_case method ''POST'' \<Longrightarrow> \<not> eq_ignore_ascii_case method ''OPTIONS''"
    by (simp add: eq_ignore_ascii_case_def)
qed

section \<open>Properties\<close>

text \<open>
  The endpoint binds the lowest port between 52800 and 52899 that can be bound, and fails only
  when none can, with the error of the last one.
\<close>

lemma bind_takes_first_free:
  "(bind_endpoint listen = Inr p \<longleftrightarrow>
      52800 \<le> unat p \<and> unat p \<le> 52899 \<and> is_ok (listen p) \<and>
      {q. 52800 \<le> unat q \<and> unat q < unat p \<and> is_ok (listen q)} = {}) \<and>
   (bind_endpoint listen = Inl error \<longleftrightarrow>
      {q. 52800 \<le> unat q \<and> unat q \<le> 52899 \<and> is_ok (listen q)} = {} \<and> listen 52899 = Inl error)"
proof
  show "bind_endpoint listen = Inr p \<longleftrightarrow>
      52800 \<le> unat p \<and> unat p \<le> 52899 \<and> is_ok (listen p) \<and>
      {q. 52800 \<le> unat q \<and> unat q < unat p \<and> is_ok (listen q)} = {}"
  proof
    assume "bind_endpoint listen = Inr p"
    then show "52800 \<le> unat p \<and> unat p \<le> 52899 \<and> is_ok (listen p) \<and>
      {q. 52800 \<le> unat q \<and> unat q < unat p \<and> is_ok (listen q)} = {}"
      using port_range_split by (fastforce simp: bind_endpoint_def bind_loop_Inr list_all_iff)
  next
    assume p: "52800 \<le> unat p \<and> unat p \<le> 52899 \<and> is_ok (listen p) \<and>
      {q. 52800 \<le> unat q \<and> unat q < unat p \<and> is_ok (listen q)} = {}"
    then obtain before after where split: "port_range = before @ p # after" using port_range_at by blast
    with p port_range_split [OF split] have "list_all (\<lambda>q. \<not> is_ok (listen q)) before"
      by (auto simp: list_all_iff)
    with p split show "bind_endpoint listen = Inr p" unfolding bind_endpoint_def bind_loop_Inr by blast
  qed
  have ports: "q \<in> set port_range \<longleftrightarrow> 52800 \<le> unat q \<and> unat q \<le> 52899" for q
    by (simp add: set_port_range word_le_nat_alt port_bounds)
  have last: "last port_range = 52899" "port_range \<noteq> []"
  proof -
    have eq: "port_range = map word_of_nat [52800..<52899] @ [word_of_nat 52899]"
      by (simp only: port_range_def port_bounds upt_Suc map_append) simp
    show "last port_range = 52899" unfolding eq last_snoc by simp
    show "port_range \<noteq> []" unfolding eq by (simp only: append_is_Nil_conv list.simps simp_thms)
  qed
  show "bind_endpoint listen = Inl error \<longleftrightarrow>
      {q. 52800 \<le> unat q \<and> unat q \<le> 52899 \<and> is_ok (listen q)} = {} \<and> listen 52899 = Inl error"
  proof -
    have none: "list_all (\<lambda>q. \<not> is_ok (listen q)) port_range \<longleftrightarrow>
        {q. 52800 \<le> unat q \<and> unat q \<le> 52899 \<and> is_ok (listen q)} = {}"
      unfolding list_all_iff by (auto simp: ports)
    moreover have "is_ok (listen 52899) \<Longrightarrow> \<not> list_all (\<lambda>q. \<not> is_ok (listen q)) port_range"
      using ports [of 52899] by (auto simp: list_all_iff)
    ultimately show ?thesis
      unfolding bind_endpoint_def bind_loop_Inl last none [symmetric] using last(2)
      by (cases "listen 52899") auto
  qed
qed

text \<open>
  A connection is told nothing about the command it carries: it is answered 200 with the fixed
  acknowledgement exactly when a command goes to the worker, and otherwise with one of four fixed
  texts, which depend on nothing but whether the request could be read, was a preflight, or missed
  the route.
\<close>

lemma answers_carry_no_result:
  "snd (serve_one from_str to_string True s allowed version) = Some
     (case fst (serve_one from_str to_string True s allowed version) of
        Some _ \<Rightarrow> response 200 (unwrap_or (to_string (acknowledgement version)) ''{\"accepted\":true}'')
      | None \<Rightarrow>
          (case read_request s of
             Inl _ \<Rightarrow> response 400 MALFORMED_BODY
           | Inr request \<Rightarrow>
               if eq_ignore_ascii_case (rq_method request) ''OPTIONS'' then response 204 []
               else if attest_route (rq_method request) (rq_path request) then response 400 REFUSED_BODY
               else response 404 REFUSED_BODY))"
proof (cases "read_request s")
  case (Inl e)
  then show ?thesis by (simp add: serve_one_def)
next
  case (Inr request)
  let ?h = "handle_request from_str (rq_method request) (rq_path request) (rq_body request) allowed"
  have route: "?h = Inl WrongRoute \<longleftrightarrow> \<not> attest_route (rq_method request) (rq_path request)"
    by (auto simp: handle_request_def attest_route_iff split: sum.splits if_splits)
  have ok: "?h = Inr a \<Longrightarrow> attest_route (rq_method request) (rq_path request)" for a
    by (auto simp: handle_request_ok)
  show ?thesis
    using Inr route ok
    by (cases ?h; cases "projl ?h"; cases "projr ?h") (auto simp: serve_one_def Let_def)
qed

text \<open>
  A well-formed command in an HTTP request reaches the worker: any method spelling of POST, the
  attest path with or without slashes behind it, a body that parses to a valid command for a
  trusted backend, in at most 16 KiB; and the caller gets the acknowledgement.
\<close>

lemma valid_command_is_handed_on:
  assumes "eq_ignore_ascii_case m ''POST''" and "\<forall>c\<in>set m. is_visible c"
    and "length body \<le> MAX_BODY" and "utf8_valid body"
    and "from_str body = Inr c" and "is_ok (validate_LocalAttestCommand c)"
    and "lac_protocol_version c = 1" and "is_allowed_backend (lac_backend_url c) allowed"
    and "to_string (acknowledgement version) = Some ack"
  shows "serve_one from_str to_string True
      \<lparr>arrived = m @ '' '' @ (''/attest'' @ replicate n (CHR ''/'')) @ '' HTTP/1.1'' @ crlf @
         ''Content-Length: '' @ show_nat (length body) @ crlf @ crlf @ body, at_eof = e\<rparr>
      allowed version = (Some c, Some (response 200 ack))"
proof -
  have "m \<noteq> []" using assms(1) by (auto simp: eq_ignore_ascii_case_def to_ascii_lowercase_def)
  then have read: "read_request
      \<lparr>arrived = m @ '' '' @ (''/attest'' @ replicate n (CHR ''/'')) @ '' HTTP/1.1'' @ crlf @
         ''Content-Length: '' @ show_nat (length body) @ crlf @ crlf @ body, at_eof = e\<rparr> =
      Inr \<lparr>rq_method = m, rq_path = ''/attest'' @ replicate n (CHR ''/''), rq_body = body\<rparr>"
    using assms(2-4) read_request_plain [of m "''/attest'' @ replicate n (CHR ''/'')" body "[]" e]
    by (simp add: is_visible_def code_def)
  have "attest_route m (''/attest'' @ replicate n (CHR ''/''))"
    using assms(1) by (auto simp: attest_route_def)
  then have "handle_request from_str m (''/attest'' @ replicate n (CHR ''/'')) body allowed = Inr (Attest c)"
    using assms(5-8) by (simp add: handle_request_ok i64_from_u32_def PROTOCOL_VERSION_def)
  with read post_not_options [OF assms(1)] assms(9) show ?thesis
    unfolding serve_one_def by simp
qed

text \<open>
  C23: in every interleaving of the accepting thread with the connections it serves, the counter is
  exactly the number of slots taken, never wraps, and never lets more than 160 connections be
  served at once; when all have been served it is back at zero.
\<close>

theorem connections_bounded:
  assumes "reachable s"
  shows "unat (live s) = taken s \<and> handlers s + leaving s \<le> 160 \<and>
    (if handlers s = 0 \<and> leaving s = 0 \<and> acceptor s = Accepting then live s = 0 else True)"
  using reachable_slots [OF assms]
  by (auto simp: slots_ok_def taken_def unat_eq_0 [symmetric] split: acceptor.splits)


section \<open>An instance\<close>

lemma valid_command_is_handed_on_witness:
  "serve_one (\<lambda>_. Inr (example_command ''HTTPS://api.example/v1'')) (\<lambda>_. Some ''{}'') True
      \<lparr>arrived = ''post'' @ '' '' @ (''/attest'' @ replicate 2 (CHR ''/'')) @ '' HTTP/1.1'' @ crlf @
         ''Content-Length: '' @ show_nat (length ''[]'') @ crlf @ crlf @ ''[]'', at_eof = False\<rparr>
      [''https://api.example''] ''0.1.0'' =
    (Some (example_command ''HTTPS://api.example/v1''), Some (response 200 ''{}''))"
proof (rule valid_command_is_handed_on)
  show "is_ok (validate_LocalAttestCommand (example_command ''HTTPS://api.example/v1''))"
    using example_accepted by (auto simp: handle_request_ok)
  show "is_allowed_backend (lac_backend_url (example_command ''HTTPS://api.example/v1'')) [''https://api.example'']"
    using example_accepted by (auto simp: handle_request_ok)
qed (simp_all add: eq_ignore_ascii_case_def example_lowercase is_visible_def code_def MAX_BODY_def
    utf8_valid_ascii example_command_def)

text \<open>A connection is being served and a second one being spawned.\<close>

lemma example_reachable:
  "reachable \<lparr>live = 2, handlers = 1, leaving = 0, acceptor = Counted\<rparr>"
proof -
  have "reachable \<lparr>live = 0, handlers = 0, leaving = 0, acceptor = Accepting\<rparr>"
    using reachable_start by (simp add: endpoint_start_def)
  from reachable_step [OF this admit]
  have "reachable \<lparr>live = 0, handlers = 0, leaving = 0, acceptor = Admitted\<rparr>"
    by (simp add: MAX_CONCURRENT_def)
  from reachable_step [OF this count]
  have "reachable \<lparr>live = 1, handlers = 0, leaving = 0, acceptor = Counted\<rparr>" by simp
  from reachable_step [OF this spawned]
  have "reachable \<lparr>live = 1, handlers = 1, leaving = 0, acceptor = Accepting\<rparr>" by simp
  from reachable_step [OF this admit]
  have "reachable \<lparr>live = 1, handlers = 1, leaving = 0, acceptor = Admitted\<rparr>"
    by (simp add: MAX_CONCURRENT_def)
  from reachable_step [OF this count] show ?thesis by simp
qed

lemma connections_bounded_witness:
  "unat (2 :: u64) = taken \<lparr>live = 2, handlers = 1, leaving = 0, acceptor = Counted\<rparr>"
  using connections_bounded [OF example_reachable] by simp

end
