(* ===== verification/Window_State.thy ===== *)
theory Window_State
  imports Interfaces Protocol_Types
begin

text \<open>
  The window's state machine, \<open>fiveprotect-core/src/state.rs\<close>: the four states, the events, the
  transition function and the view handed to the page. The lemmas say what a history of events
  leads to, so that \<open>Ready\<close> has an exact cause.
\<close>

section \<open>States, events, view\<close>

datatype WindowState = Idle | Checking | Ready | Blocked

datatype Event =
    AttestRequested
  | AttestationAccepted
  | Refused "string option"
  | SessionEnded
  | Failed "string option"

record WindowCheck =
  wc_requirement :: RequirementId
  wc_status :: RequirementStatus

record WindowView =
  view_state :: WindowState
  view_requirements :: "WindowCheck list"
  view_game_present :: bool
  view_remediation :: "string option"
  view_server_name :: "string option"
  view_version :: string
  view_protocol_version :: i64

definition with_checks :: "WindowView \<Rightarrow> WindowCheck list \<Rightarrow> WindowView" where
  "with_checks v checks = v\<lparr>view_requirements := checks\<rparr>"

definition with_game_present :: "WindowView \<Rightarrow> bool \<Rightarrow> WindowView" where
  "with_game_present v present = v\<lparr>view_game_present := present\<rparr>"

fun next_state :: "WindowState \<Rightarrow> Event \<Rightarrow> WindowState" where
  "next_state _ AttestRequested = Checking"
| "next_state Checking AttestationAccepted = Ready"
| "next_state _ (Refused _) = Blocked"
| "next_state _ (Failed _) = Blocked"
| "next_state _ SessionEnded = Idle"
| "next_state state AttestationAccepted = state"

definition view ::
    "WindowState \<Rightarrow> string option \<Rightarrow> string option \<Rightarrow> string \<Rightarrow> i64 \<Rightarrow> WindowView" where
  "view state remediation server_name version protocol_version =
     \<lparr>view_state = state,
      view_requirements = [],
      view_game_present = False,
      view_remediation = (if state = Blocked then remediation else None),
      view_server_name = server_name,
      view_version = version,
      view_protocol_version = protocol_version\<rparr>"

instantiation WindowState :: enum
begin

definition "enum_WindowState = [Idle, Checking, Ready, Blocked]"
definition "enum_all_WindowState P = list_all P [Idle, Checking, Ready, Blocked]"
definition "enum_ex_WindowState P = list_ex P [Idle, Checking, Ready, Blocked]"

lemma set_WindowState: "set [Idle, Checking, Ready, Blocked] = UNIV"
  by (rule set_eq_UNIV_I, case_tac x) simp_all

instance
  by standard
    (simp_all only: enum_WindowState_def enum_all_WindowState_def enum_ex_WindowState_def
      all_variants set_WindowState, simp_all)

end

section \<open>Histories\<close>

fun_cases next_state_ReadyE: "next_state s e = Ready"

lemma next_state_Ready:
  "next_state s e = Ready \<longleftrightarrow> e = AttestationAccepted \<and> (s = Checking \<or> s = Ready)"
  by (cases s; cases e) simp_all

lemma next_state_Checking:
  "next_state s e = Checking \<longleftrightarrow> e = AttestRequested"
  by (cases s; cases e) simp_all

lemma next_state_accepted_idem:
  "next_state (next_state s AttestationAccepted) AttestationAccepted = next_state s AttestationAccepted"
  by (cases s) simp_all

lemma run_accepted:
  "run next_state s (replicate (Suc n) AttestationAccepted) = next_state s AttestationAccepted"
proof (induction n arbitrary: s)
  case (Suc n)
  have "run next_state s (replicate (Suc (Suc n)) AttestationAccepted) =
      run next_state (next_state s AttestationAccepted) (replicate (Suc n) AttestationAccepted)"
    by simp
  also have "\<dots> = next_state s AttestationAccepted"
    unfolding Suc.IH by (rule next_state_accepted_idem)
  finally show ?case .
qed simp

text \<open>A window shows Checking exactly when the last thing that happened is a request.\<close>

lemma run_Checking:
  "run next_state Idle es = Checking \<longleftrightarrow> (\<exists>pre. es = pre @ [AttestRequested])"
  by (cases es rule: rev_cases) (auto simp: next_state_Checking)

lemma run_Ready:
  "run next_state Idle es = Ready \<longleftrightarrow>
     (\<exists>pre n. es = pre @ AttestRequested # replicate (Suc n) AttestationAccepted)"
proof (induction es rule: rev_induct)
  case Nil
  then show ?case by simp
next
  case (snoc e es)
  show ?case
  proof
    assume "run next_state Idle (es @ [e]) = Ready"
    then have e: "e = AttestationAccepted"
      and prev: "run next_state Idle es = Checking \<or> run next_state Idle es = Ready"
      by (auto simp: next_state_Ready)
    from prev show "\<exists>pre n. es @ [e] = pre @ AttestRequested # replicate (Suc n) AttestationAccepted"
    proof
      assume "run next_state Idle es = Checking"
      then obtain pre where "es = pre @ [AttestRequested]"
        by (auto simp: run_Checking)
      with e show ?thesis by (intro exI [of _ pre] exI [of _ 0]) simp
    next
      assume "run next_state Idle es = Ready"
      with snoc.IH obtain pre n
        where "es = pre @ AttestRequested # replicate (Suc n) AttestationAccepted" by blast
      with e show ?thesis
        by (intro exI [of _ pre] exI [of _ "Suc n"]) (simp add: replicate_append_same)
    qed
  next
    assume "\<exists>pre n. es @ [e] = pre @ AttestRequested # replicate (Suc n) AttestationAccepted"
    then obtain pre n
      where "es @ [e] = pre @ AttestRequested # replicate (Suc n) AttestationAccepted" by blast
    then show "run next_state Idle (es @ [e]) = Ready"
      by (simp only: run_append run.simps run_accepted next_state.simps)
  qed
qed

lemmas view_simps = view_def with_checks_def with_game_present_def

text \<open>
  The window shows Ready exactly when the history of events ends in a request for an
  attestation followed by one or more acknowledgements and nothing else. No other sequence of
  events, local or not, produces it.
\<close>

lemma ready_history:
  "run next_state Idle es = Ready \<longleftrightarrow>
     (\<exists>pre n. es = pre @ AttestRequested # replicate (Suc n) AttestationAccepted)"
  by (rule run_Ready)

end
