(* ===== verification/Window_Checks.thy ===== *)
theory Window_Checks
  imports Window_State Utf8
begin

text \<open>
  The pure functions of \<open>fiveprotect-companion/src/worker.rs\<close>: the lines the window shows for a
  snapshot, their replacement by the server's view, the summary and the shortened session id for
  the log, and what a presentation is. The lemmas say what each line means, which row wins in a
  merge, and how much of a session id can reach the log.
\<close>

section \<open>Definitions\<close>

record Presentation =
  p_state :: WindowState
  p_checks :: "WindowCheck list"
  p_server_name :: "string option"
  p_remediation :: "string option"
  p_game_present :: bool

definition Presentation_new :: Presentation where
  "Presentation_new =
     \<lparr>p_state = Idle, p_checks = [], p_server_name = None, p_remediation = None,
      p_game_present = False\<rparr>"

definition check :: "RequirementId \<Rightarrow> RequirementStatus \<Rightarrow> WindowCheck" where
  "check requirement status = \<lparr>wc_requirement = requirement, wc_status = status\<rparr>"

fun enabled_is_pass :: "FeatureState \<Rightarrow> RequirementStatus" where
  "enabled_is_pass FeatureState.Enabled = RequirementStatus.Pass"
| "enabled_is_pass FeatureState.Disabled = RequirementStatus.Fail"
| "enabled_is_pass FeatureState.Unknown = RequirementStatus.Unknown"

fun enabled_is_fail :: "FeatureState \<Rightarrow> RequirementStatus" where
  "enabled_is_fail FeatureState.Enabled = RequirementStatus.Fail"
| "enabled_is_fail FeatureState.Disabled = RequirementStatus.Pass"
| "enabled_is_fail FeatureState.Unknown = RequirementStatus.Unknown"

definition checks_from :: "SystemSnapshot \<Rightarrow> WindowCheck list" where
  "checks_from snapshot =
     (let features = snap_features snapshot;
          checks =
            [check SecureBootEnabled (enabled_is_pass (sf_secure_boot features)),
             check HvciEnabled (enabled_is_pass (sf_hvci features)),
             check DriverBlocklistEnabled (enabled_is_pass (sf_driver_blocklist features)),
             check IommuEnabled (enabled_is_pass (sf_iommu features)),
             check TestSigningDisabled (enabled_is_fail (sf_test_signing features)),
             check KernelDebuggingDisabled (enabled_is_fail (sf_kernel_debugging features)),
             check TpmAttestationValid
               (if tpm_present (snap_tpm snapshot) then RequirementStatus.Pass else RequirementStatus.Fail)]
      in checks @
         [check GameProcessPresent
            (if snap_game_process snapshot \<noteq> None then RequirementStatus.Pass else RequirementStatus.Fail)])"

text \<open>The body of the loop over the local rows.\<close>

definition merge_entry :: "WindowCheck \<Rightarrow> WindowCheck list \<Rightarrow> WindowCheck list" where
  "merge_entry entry merged =
     (if \<not> list_ex (\<lambda>row. wc_requirement row = wc_requirement entry) merged
      then merged @ [entry] else merged)"

definition merge_server_view :: "WindowCheck list \<Rightarrow> RequirementResult list \<Rightarrow> WindowCheck list" where
  "merge_server_view local server =
     fold merge_entry local
       (map (\<lambda>result. \<lparr>wc_requirement = rr_requirement result, wc_status = rr_status result\<rparr>) server)"

text \<open>
  \<open>char_indices().nth(8)\<close>: the byte index at which the ninth code point starts, the number of code
  points to skip counted down.
\<close>

fun char_start :: "nat \<Rightarrow> nat \<Rightarrow> string \<Rightarrow> nat option" where
  "char_start n index [] = None"
| "char_start n index (c # cs) =
     (if is_continuation c then char_start n (Suc index) cs
      else if n = 0 then Some index
      else char_start (n - 1) (Suc index) cs)"

definition short_session :: "string \<Rightarrow> string" where
  "short_session session_id =
     (let cut = (case char_start 8 0 session_id of None \<Rightarrow> length session_id | Some index \<Rightarrow> index)
      in take cut session_id)"

definition ue :: string where "ue = [CHR 0xC3, CHR 0xBC]"
definition ae :: string where "ae = [CHR 0xC3, CHR 0xA4]"

fun tally :: "WindowCheck list \<Rightarrow> nat \<times> nat \<times> nat \<Rightarrow> nat \<times> nat \<times> nat" where
  "tally [] counts = counts"
| "tally (entry # rest) (pass, failed, unknown) =
     (case wc_status entry of
        RequirementStatus.Pass \<Rightarrow> tally rest (pass + 1, failed, unknown)
      | RequirementStatus.Unknown \<Rightarrow> tally rest (pass, failed, unknown + 1)
      | _ \<Rightarrow> tally rest (pass, failed + 1, unknown))"

definition summarise :: "WindowCheck list \<Rightarrow> string" where
  "summarise checks =
     (case tally checks (0, 0, 0) of (pass, failed, unknown) \<Rightarrow>
        show_nat pass @ '' ok, '' @ show_nat failed @ '' nicht erf'' @ ue @ ''llt, '' @
        show_nat unknown @ '' unklar'')"

section \<open>The lines of a snapshot\<close>

lemma requirements_checks_from:
  "map wc_requirement (checks_from s) =
     [SecureBootEnabled, HvciEnabled, DriverBlocklistEnabled, IommuEnabled, TestSigningDisabled,
      KernelDebuggingDisabled, TpmAttestationValid, GameProcessPresent]"
  by (simp add: checks_from_def check_def Let_def)

lemma distinct_checks_from: "distinct (map wc_requirement (checks_from s))"
  by (simp add: requirements_checks_from)

lemma enabled_is_pass_iff:
  "enabled_is_pass f = RequirementStatus.Pass \<longleftrightarrow> f = FeatureState.Enabled"
  "enabled_is_fail f = RequirementStatus.Pass \<longleftrightarrow> f = FeatureState.Disabled"
  by (cases f; simp)+

text \<open>The value of a requirement in a list of rows: that of its first row.\<close>

definition status_of :: "WindowCheck list \<Rightarrow> RequirementId \<Rightarrow> RequirementStatus option" where
  "status_of rows r = map_option wc_status (find (\<lambda>row. wc_requirement row = r) rows)"

lemma status_of_Nil [simp]: "status_of [] r = None"
  by (simp add: status_of_def)

lemma status_of_Cons [simp]:
  "status_of (row # rows) r = (if wc_requirement row = r then Some (wc_status row) else status_of rows r)"
  by (simp add: status_of_def)

lemma status_of_append:
  "status_of (xs @ ys) r = (case status_of xs r of None \<Rightarrow> status_of ys r | Some s \<Rightarrow> Some s)"
  by (induction xs) simp_all

lemma status_of_None: "status_of rows r = None \<longleftrightarrow> r \<notin> wc_requirement ` set rows"
  by (induction rows) auto

section \<open>The merge\<close>

text \<open>What the loop adds: the local rows whose requirement is not there yet, each once.\<close>

lemma merge_entry_present:
  "list_ex (\<lambda>row. wc_requirement row = wc_requirement entry) merged \<longleftrightarrow>
     wc_requirement entry \<in> wc_requirement ` set merged"
  by (simp add: list_ex_iff image_iff) metis

lemma merge_fold:
  "status_of (fold merge_entry xs acc) r =
     (case status_of acc r of None \<Rightarrow> status_of xs r | Some s \<Rightarrow> Some s)"
proof (induction xs arbitrary: acc)
  case (Cons x xs)
  have "status_of (merge_entry x acc) r =
      (case status_of acc r of None \<Rightarrow> status_of [x] r | Some s \<Rightarrow> Some s)"
    using status_of_None [of acc "wc_requirement x"]
    by (auto simp: merge_entry_def merge_entry_present status_of_append split: option.split)
  then show ?case by (auto simp: Cons split: option.split)
qed (simp split: option.split)

lemma merge_fold_distinct:
  "distinct (map wc_requirement (fold merge_entry xs acc)) = distinct (map wc_requirement acc)"
proof (induction xs arbitrary: acc)
  case (Cons x xs)
  have "distinct (map wc_requirement (merge_entry x acc)) = distinct (map wc_requirement acc)"
    by (auto simp: merge_entry_def merge_entry_present)
  then show ?case by (simp add: Cons)
qed simp

lemma merge_fold_prefix: "\<exists>added. fold merge_entry xs acc = acc @ added"
proof (induction xs arbitrary: acc)
  case (Cons x xs)
  show ?case
    using Cons [of "merge_entry x acc"] by (auto simp: merge_entry_def)
qed simp

section \<open>The shortened session id\<close>

lemma char_start_le: "char_start n index s = Some k \<Longrightarrow> index \<le> k \<and> k < index + length s"
  by (induction n index s rule: char_start.induct) (auto split: if_splits)

lemma char_start_count:
  "char_start n index s = Some k \<Longrightarrow>
     char_count (take (k - index) s) = n \<and> \<not> is_continuation (s ! (k - index))"
proof (induction n index s rule: char_start.induct)
  case (2 n index c cs)
  show ?case
  proof (cases "is_continuation c \<or> n \<noteq> 0")
    case True
    let ?m = "if is_continuation c then n else n - 1"
    from True 2(3) have rest: "char_start ?m (Suc index) cs = Some k" by (auto split: if_splits)
    then have "Suc index \<le> k" using char_start_le by blast
    then have k: "k - index = Suc (k - Suc index)" by simp
    have "char_count (take (k - Suc index) cs) = ?m \<and> \<not> is_continuation (cs ! (k - Suc index))"
      using True rest 2(1,2) by (cases "is_continuation c") simp_all
    with True k show ?thesis by (auto simp: char_count_def split: if_splits)
  next
    case False
    with 2(3) show ?thesis by (simp add: char_count_def)
  qed
qed simp

lemma char_start_None: "char_start n index s = None \<longleftrightarrow> char_count s \<le> n"
  by (induction n index s rule: char_start.induct) (auto simp: char_count_def)

lemma short_session_prefix: "\<exists>rest. session_id = short_session session_id @ rest"
  unfolding short_session_def Let_def by (metis append_take_drop_id)

lemma short_session_chars: "char_count (short_session s) = min 8 (char_count s)"
proof (cases "char_start 8 0 s")
  case None
  then have "char_count s \<le> 8" by (simp add: char_start_None)
  with None show ?thesis by (simp add: short_session_def)
next
  case (Some k)
  then have "char_count (take k s) = 8" using char_start_count by fastforce
  moreover have "\<not> char_count s \<le> 8" using Some char_start_None by (metis option.distinct(1))
  ultimately show ?thesis using Some by (simp add: short_session_def)
qed

lemma short_session_boundary:
  "session_id = short_session session_id @ c # rest \<Longrightarrow> \<not> is_continuation c"
proof (cases "char_start 8 0 session_id")
  case (Some k)
  then have "\<not> is_continuation (session_id ! k)" and "k < length session_id"
    using char_start_count [OF Some] char_start_le [OF Some] by simp_all
  moreover assume "session_id = short_session session_id @ c # rest"
  moreover have "short_session session_id = take k session_id" by (simp add: short_session_def Some)
  ultimately show ?thesis by (metis length_take min.absorb4 nth_append_length)
qed (simp add: short_session_def)

section \<open>The summary\<close>

lemma tally_counts:
  "tally rows (p, f, u) =
     (p + length (filter (\<lambda>row. wc_status row = RequirementStatus.Pass) rows),
      f + length (filter (\<lambda>row. wc_status row \<notin> {RequirementStatus.Pass, RequirementStatus.Unknown}) rows),
      u + length (filter (\<lambda>row. wc_status row = RequirementStatus.Unknown) rows))"
  by (induction rows arbitrary: p f u) (auto split: RequirementStatus.split)

section \<open>Properties\<close>

text \<open>
  The window shows a line as passed exactly when the machine was measured to meet it: a
  feature that must be on was read as enabled, one that must be off as disabled, the TPM and the
  game process were found. What could not be read is shown as unknown, never as passed or failed,
  and no other requirement has a line.
\<close>

lemma checks_from_polarity:
  "status_of (checks_from s) r =
     (let f = snap_features s; found = (\<lambda>b. if b then RequirementStatus.Pass else RequirementStatus.Fail);
          must = (\<lambda>good bad v. if v = good then RequirementStatus.Pass
                               else if v = bad then RequirementStatus.Fail else RequirementStatus.Unknown);
          on = must FeatureState.Enabled FeatureState.Disabled;
          off = must FeatureState.Disabled FeatureState.Enabled
      in case r of
           SecureBootEnabled \<Rightarrow> Some (on (sf_secure_boot f))
         | HvciEnabled \<Rightarrow> Some (on (sf_hvci f))
         | DriverBlocklistEnabled \<Rightarrow> Some (on (sf_driver_blocklist f))
         | IommuEnabled \<Rightarrow> Some (on (sf_iommu f))
         | TestSigningDisabled \<Rightarrow> Some (off (sf_test_signing f))
         | KernelDebuggingDisabled \<Rightarrow> Some (off (sf_kernel_debugging f))
         | TpmAttestationValid \<Rightarrow> Some (found (tpm_present (snap_tpm s)))
         | GameProcessPresent \<Rightarrow> Some (found (snap_game_process s \<noteq> None))
         | _ \<Rightarrow> None)"
proof -
  have on: "enabled_is_pass v = (if v = FeatureState.Enabled then RequirementStatus.Pass
      else if v = FeatureState.Disabled then RequirementStatus.Fail else RequirementStatus.Unknown)"
    and off: "enabled_is_fail v = (if v = FeatureState.Disabled then RequirementStatus.Pass
      else if v = FeatureState.Enabled then RequirementStatus.Fail else RequirementStatus.Unknown)" for v
    by (cases v; simp)+
  show ?thesis
    by (cases r) (simp_all add: checks_from_def check_def Let_def on off)
qed

text \<open>
  On the blocked screen a requirement the server judged shows the server's status, every other
  one the companion's own; the server's rows stand first and unchanged, and the rows
  repeat a requirement only where the server itself did.
\<close>

lemma merge_prefers_server:
  "status_of (merge_server_view local server) r =
     (case find (\<lambda>result. rr_requirement result = r) server of
        Some result \<Rightarrow> Some (rr_status result)
      | None \<Rightarrow> status_of local r) \<and>
   map wc_status (take (length server) (merge_server_view local server)) = map rr_status server \<and>
   distinct (map wc_requirement (merge_server_view local server)) = distinct (map rr_requirement server)"
proof -
  let ?rows = "map (\<lambda>result. \<lparr>wc_requirement = rr_requirement result, wc_status = rr_status result\<rparr>) server"
  have req: "map wc_requirement ?rows = map rr_requirement server" by simp
  have "status_of ?rows r = map_option rr_status (find (\<lambda>result. rr_requirement result = r) server)"
    by (induction server) auto
  moreover obtain added where added: "merge_server_view local server = ?rows @ added"
    using merge_fold_prefix [of local ?rows] by (auto simp: merge_server_view_def)
  moreover have "distinct (map wc_requirement (merge_server_view local server)) = distinct (map rr_requirement server)"
    unfolding merge_server_view_def merge_fold_distinct req ..
  ultimately show ?thesis
    using merge_fold [of local ?rows r]
    by (auto simp: merge_server_view_def [symmetric] comp_def split: option.splits)
qed

text \<open>
  What the log gets of a session id is its first eight characters, or all of it when it is no
  longer, cut before the start of the ninth and so never inside a character.
\<close>

lemma short_session_is_a_prefix:
  "\<exists>rest. session_id = short_session session_id @ rest \<and>
     char_count (short_session session_id) = min 8 (char_count session_id) \<and>
     (case rest of [] \<Rightarrow> True | c # _ \<Rightarrow> is_continuation c = False)"
proof -
  obtain rest where rest: "session_id = short_session session_id @ rest"
    using short_session_prefix by blast
  then have "case rest of [] \<Rightarrow> True | c # _ \<Rightarrow> is_continuation c = False"
    using short_session_boundary by (cases rest) auto
  with rest short_session_chars show ?thesis by blast
qed

text \<open>
  The summary of a check counts every line once: passed, unknown, and all else as failed.
\<close>

lemma summarise_counts_every_line:
  "\<exists>pass failed unknown.
     summarise rows = show_nat pass @ '' ok, '' @ show_nat failed @ '' nicht erf'' @ ue @ ''llt, '' @
       show_nat unknown @ '' unklar'' \<and>
     pass = length (filter (\<lambda>row. wc_status row = RequirementStatus.Pass) rows) \<and>
     unknown = length (filter (\<lambda>row. wc_status row = RequirementStatus.Unknown) rows) \<and>
     pass + failed + unknown = length rows"
proof -
  have "length (filter (\<lambda>row. wc_status row = RequirementStatus.Pass) rows) +
      length (filter (\<lambda>row. wc_status row \<notin> {RequirementStatus.Pass, RequirementStatus.Unknown}) rows) +
      length (filter (\<lambda>row. wc_status row = RequirementStatus.Unknown) rows) = length rows"
    by (induction rows) auto
  then show ?thesis
    by (auto simp: summarise_def tally_counts)
qed

end
