(* ===== verification/Scan_Engine.thy ===== *)
theory Scan_Engine
  imports Utf8 Protocol_Types
begin

text \<open>
  The seam to the native scan engine, \<open>fiveprotect-companion/src/engine.rs\<close>: the growing-buffer
  loop around the foreign call. The call is the parameter \<open>engine\<close>: what the n-th call with a
  buffer of a given capacity returns, reports in \<open>written\<close> and leaves at the start of the buffer;
  two calls need not agree. The JSON parser is the parameter \<open>from_str\<close>. The loop also returns
  the capacities it allocated, so that its memory use can be stated.
\<close>

section \<open>Data\<close>

definition FIVEPROTECT_OK :: int where
  "FIVEPROTECT_OK = 0"

definition FIVEPROTECT_ERR_BUFFER_TOO_SMALL :: int where
  "FIVEPROTECT_ERR_BUFFER_TOO_SMALL = -1"

definition INITIAL_BUFFER :: u64 where
  "INITIAL_BUFFER = 64 * 1024"

definition MAX_BUFFER :: u64 where
  "MAX_BUFFER = 4 * 1024 * 1024"

datatype ScanError =
    Argument string
  | Engine int
  | TooLarge u64
  | MalformedSnapshot string

definition show_ScanError :: "ScanError \<Rightarrow> string" where
  "show_ScanError e =
     (case e of
        Argument name \<Rightarrow> name @ '' is not a valid C string''
      | Engine status \<Rightarrow> ''the scan engine failed with code '' @ show_int status
      | TooLarge required \<Rightarrow> ''the scan engine asked for '' @ show_nat (unat required) @ '' bytes''
      | MalformedSnapshot detail \<Rightarrow> ''the scan engine produced no snapshot: '' @ detail)"

type_synonym engine_call = "nat \<Rightarrow> u64 \<Rightarrow> int \<times> u64 \<times> bytes"
type_synonym engine_fn = "string \<Rightarrow> string \<Rightarrow> string \<Rightarrow> engine_call"
type_synonym from_str_snapshot = "string \<Rightarrow> string + SystemSnapshot"

section \<open>Operations\<close>

text \<open>\<open>version\<close>: a null pointer is \<open>None\<close>; otherwise the bytes before the NUL.\<close>

definition engine_version :: "string option \<Rightarrow> string" where
  "engine_version raw =
     (case raw of
        None \<Rightarrow> ''unknown''
      | Some text \<Rightarrow> from_utf8_lossy text)"

definition saturating_succ :: "u64 \<Rightarrow> u64" where
  "saturating_succ w = (if w = - 1 then w else w + 1)"

text \<open>\<open>vec![0u8; capacity]\<close> after the engine has written \<open>bs\<close> at its start.\<close>

definition filled_buffer :: "u64 \<Rightarrow> bytes \<Rightarrow> bytes" where
  "filled_buffer capacity bs = take (unat capacity) (bs @ replicate (unat capacity) 0)"

definition parse_snapshot :: "from_str_snapshot \<Rightarrow> bytes \<Rightarrow> ScanError + SystemSnapshot" where
  "parse_snapshot from_str buffer =
     (case string_from_utf8 buffer of
        Inl e \<Rightarrow> Inl (MalformedSnapshot (show_Utf8Error e))
      | Inr json \<Rightarrow>
          (case from_str json of
             Inl e \<Rightarrow> Inl (MalformedSnapshot e)
           | Inr snapshot \<Rightarrow> Inr snapshot))"

function scan_loop ::
    "engine_call \<Rightarrow> from_str_snapshot \<Rightarrow> nat \<Rightarrow> u64 \<Rightarrow> u64 list \<times> (ScanError + SystemSnapshot)" where
  "scan_loop engine from_str n capacity =
     (case engine n capacity of (status, written, bs) \<Rightarrow>
        if status = FIVEPROTECT_OK then
          ([capacity], parse_snapshot from_str (take (unat written) (filled_buffer capacity bs)))
        else if status = FIVEPROTECT_ERR_BUFFER_TOO_SMALL then
          (let required = saturating_succ written in
           if required > MAX_BUFFER \<or> required \<le> capacity
           then ([capacity], Inl (TooLarge required))
           else case scan_loop engine from_str (Suc n) required of
             (allocated, result) \<Rightarrow> (capacity # allocated, result))
        else ([capacity], Inl (Engine status)))"
  by pat_completeness auto
termination
proof (relation "measure (\<lambda>(engine, from_str, n, capacity). unat MAX_BUFFER - unat capacity)")
  fix engine :: engine_call and from_str :: from_str_snapshot and n :: nat
    and capacity required :: u64
  assume "\<not> (MAX_BUFFER < required \<or> required \<le> capacity)"
  then have "unat required \<le> unat MAX_BUFFER" "unat capacity < unat required"
    by (simp_all add: word_le_nat_alt not_less not_le word_less_nat_alt)
  then show "((engine, from_str, Suc n, required), (engine, from_str, n, capacity))
      \<in> measure (\<lambda>(engine, from_str, n, capacity). unat MAX_BUFFER - unat capacity)"
    by simp
qed simp

declare scan_loop.simps [simp del]

definition has_nul :: "string \<Rightarrow> bool" where
  "has_nul s = (CHR 0x00 \<in> set s)"

definition scan ::
    "engine_fn \<Rightarrow> from_str_snapshot \<Rightarrow> string \<Rightarrow> string \<Rightarrow> string \<Rightarrow>
     u64 list \<times> (ScanError + SystemSnapshot)" where
  "scan engine from_str companion_version build_hash collected_at =
     (if has_nul companion_version then ([], Inl (Argument ''companion_version''))
      else if has_nul build_hash then ([], Inl (Argument ''build_hash''))
      else if has_nul collected_at then ([], Inl (Argument ''collected_at''))
      else scan_loop (engine companion_version build_hash collected_at) from_str 0 INITIAL_BUFFER)"

section \<open>Lemmas\<close>

lemma buffer_sizes: "unat INITIAL_BUFFER = 65536" "unat MAX_BUFFER = 4194304"
  by (simp_all add: INITIAL_BUFFER_def MAX_BUFFER_def)

text \<open>Whatever the engine does, the loop's buffers grow and stay within the limit.\<close>

lemma scan_loop_allocations:
  assumes "capacity \<le> MAX_BUFFER"
  shows "set (fst (scan_loop engine from_str n capacity)) \<subseteq> {capacity..MAX_BUFFER} \<and>
    sorted_wrt (<) (fst (scan_loop engine from_str n capacity))"
  using assms
proof (induction engine from_str n capacity rule: scan_loop.induct)
  case (1 engine from_str n capacity)
  obtain c written bs where call: "engine n capacity = (c, written, bs)" by (cases "engine n capacity")
  let ?required = "saturating_succ written"
  show ?case
  proof (cases "c = FIVEPROTECT_ERR_BUFFER_TOO_SMALL \<and> \<not> (?required > MAX_BUFFER \<or> ?required \<le> capacity)")
    case True
    then have grows: "capacity < ?required" "?required \<le> MAX_BUFFER" and "c \<noteq> FIVEPROTECT_OK"
      by (auto simp: FIVEPROTECT_OK_def FIVEPROTECT_ERR_BUFFER_TOO_SMALL_def)
    let ?rest = "fst (scan_loop engine from_str (Suc n) ?required)"
    from 1(1) [OF call [symmetric] refl \<open>c \<noteq> FIVEPROTECT_OK\<close> _ refl] True grows
    have IH: "set ?rest \<subseteq> {?required..MAX_BUFFER}" "sorted_wrt (<) ?rest" by auto
    moreover from True \<open>c \<noteq> FIVEPROTECT_OK\<close>
    have "fst (scan_loop engine from_str n capacity) = capacity # ?rest"
      by (simp add: scan_loop.simps [of engine from_str n capacity] call Let_def split: prod.split)
    ultimately show ?thesis using grows 1(2) by fastforce
  next
    case False
    with 1(2) show ?thesis
      by (auto simp: scan_loop.simps [of engine from_str n capacity] call Let_def split: if_splits)
  qed
qed

section \<open>The engine's documented contract\<close>

text \<open>
  \<open>native/include/fiveprotect/engine_abi.h\<close> and \<open>native/src/abi.cpp\<close>: every call runs the probes anew, so every
  call has a text of its own. The n-th call reports the size of its text \<open>texts n\<close>; it fails when the
  buffer has no room for the text and a NUL, and otherwise writes it. Where the engine throws there is
  no text, and the call fails with \<open>FIVEPROTECT_ERR_INTERNAL\<close>, \<open>-3\<close>.
\<close>

definition engine_serves :: "(nat \<Rightarrow> bytes option) \<Rightarrow> engine_call \<Rightarrow> bool" where
  "engine_serves texts engine \<longleftrightarrow>
     (\<forall>n capacity.
        case texts n of
          None \<Rightarrow> fst (engine n capacity) = - 3
        | Some json \<Rightarrow>
            if unat capacity < length json + 1
            then fst (engine n capacity) = FIVEPROTECT_ERR_BUFFER_TOO_SMALL \<and>
                 fst (snd (engine n capacity)) = word_of_nat (length json)
            else engine n capacity = (FIVEPROTECT_OK, word_of_nat (length json), json @ [0]))"

text \<open>What a scan makes of the text of its last call.\<close>

definition scan_answer :: "from_str_snapshot \<Rightarrow> bytes option \<Rightarrow> ScanError + SystemSnapshot" where
  "scan_answer from_str text =
     (case text of None \<Rightarrow> Inl (Engine (- 3)) | Some json \<Rightarrow> parse_snapshot from_str json)"

text \<open>
  The calls from the n-th on, with these buffers: each but the last has a text that does not fit, and the
  next buffer is one byte longer than that text; the last call's text fits, or there is none.
\<close>

fun calls_of :: "(nat \<Rightarrow> bytes option) \<Rightarrow> nat \<Rightarrow> u64 list \<Rightarrow> bool" where
  "calls_of texts n [] = False"
| "calls_of texts n [c] = (case texts n of None \<Rightarrow> True | Some json \<Rightarrow> length json < unat c)"
| "calls_of texts n (c # c' # cs) =
     (case texts n of
        None \<Rightarrow> False
      | Some json \<Rightarrow> unat c \<le> length json \<and> unat c' = length json + 1 \<and> calls_of texts (Suc n) (c' # cs))"

lemma unat_small: "k < 4194305 \<Longrightarrow> unat (word_of_nat k :: u64) = k"
  by (simp add: unat_of_nat take_bit_nat_eq_self)

lemma required_size: "k < 4194304 \<Longrightarrow> saturating_succ (word_of_nat k) = word_of_nat (k + 1)"
proof -
  assume k: "k < 4194304"
  have "word_of_nat k \<noteq> (- 1 :: u64)"
  proof
    assume "word_of_nat k = (- 1 :: u64)"
    then have "unat (word_of_nat k :: u64) = unat (- 1 :: u64)" by (rule arg_cong)
    with k show False by (simp add: unat_small unsigned_minus_1_eq_mask mask_eq_exp_minus_1)
  qed
  then show ?thesis by (simp add: saturating_succ_def add.commute)
qed

lemma scan_loop_served:
  assumes "engine_serves texts engine" and "\<And>n json. texts n = Some json \<Longrightarrow> length json < 4194304"
  shows "case scan_loop engine from_str n capacity of (buffers, result) \<Rightarrow>
    (\<exists>cs. buffers = capacity # cs) \<and> calls_of texts n buffers \<and>
    result = scan_answer from_str (texts (n + length buffers - 1))"
  using assms
proof (induction engine from_str n capacity rule: scan_loop.induct)
  case (1 engine from_str n capacity)
  from 1(2) have call: "case texts n of
      None \<Rightarrow> fst (engine n capacity) = - 3
    | Some json \<Rightarrow> if unat capacity < length json + 1
        then fst (engine n capacity) = FIVEPROTECT_ERR_BUFFER_TOO_SMALL \<and>
          fst (snd (engine n capacity)) = word_of_nat (length json)
        else engine n capacity = (FIVEPROTECT_OK, word_of_nat (length json), json @ [0])"
    by (simp add: engine_serves_def)
  note unfold = scan_loop.simps [of engine from_str n capacity]
  show ?case
  proof (cases "texts n")
    case None
    with call have "fst (engine n capacity) = - 3" by simp
    then show ?thesis
      using None
      by (cases "engine n capacity")
        (simp add: unfold FIVEPROTECT_OK_def FIVEPROTECT_ERR_BUFFER_TOO_SMALL_def scan_answer_def)
  next
    case (Some json)
    then have short: "length json < 4194304" by (rule 1(3))
    show ?thesis
    proof (cases "unat capacity < length json + 1")
      case False
      with call Some have "engine n capacity = (FIVEPROTECT_OK, word_of_nat (length json), json @ [0])" by simp
      moreover have "take (length json) (filled_buffer capacity (json @ [0])) = json"
        using False by (simp add: filled_buffer_def)
      ultimately show ?thesis using Some short False by (simp add: unfold scan_answer_def unat_small)
    next
      case True
      let ?required = "word_of_nat (length json + 1) :: u64"
      from True call Some obtain bs where small:
        "engine n capacity = (FIVEPROTECT_ERR_BUFFER_TOO_SMALL, word_of_nat (length json), bs)"
        by (cases "engine n capacity") auto
      have size: "unat ?required = length json + 1" using short by (intro unat_small) simp
      have ok: "\<not> (MAX_BUFFER < ?required \<or> ?required \<le> capacity)"
        unfolding word_less_nat_alt word_le_nat_alt size buffer_sizes using True short by simp
      have codes: "FIVEPROTECT_ERR_BUFFER_TOO_SMALL \<noteq> FIVEPROTECT_OK"
        by (simp add: FIVEPROTECT_OK_def FIVEPROTECT_ERR_BUFFER_TOO_SMALL_def)
      have loop: "scan_loop engine from_str n capacity =
          (capacity # fst (scan_loop engine from_str (Suc n) ?required), snd (scan_loop engine from_str (Suc n) ?required))"
        using codes ok by (simp only: unfold small prod.case required_size [OF short] Let_def if_False if_True)
          (simp add: case_prod_beta)
      have "case scan_loop engine from_str (Suc n) ?required of (buffers, result) \<Rightarrow>
          (\<exists>cs. buffers = ?required # cs) \<and> calls_of texts (Suc n) buffers \<and>
          result = scan_answer from_str (texts (Suc n + length buffers - 1))"
        using 1(1) [OF small [symmetric] refl codes refl _ ok [folded required_size [OF short]]] 1(2,3)
        by (simp add: required_size [OF short])
      then obtain cs where
        "fst (scan_loop engine from_str (Suc n) ?required) = ?required # cs"
        "calls_of texts (Suc n) (?required # cs)"
        "snd (scan_loop engine from_str (Suc n) ?required) = scan_answer from_str (texts (Suc n + length cs))"
        by (cases "scan_loop engine from_str (Suc n) ?required") auto
      with True Some size show ?thesis unfolding loop by simp
    qed
  qed
qed

section \<open>Properties\<close>

text \<open>
  C30: a scan returns, whatever the engine answers, and on the way it allocates buffers of strictly
  growing size, none below 64 KiB and none above 4 MiB.
\<close>

theorem scan_memory_bounded:
  "set (fst (scan engine from_str version hash time)) \<subseteq> {INITIAL_BUFFER..MAX_BUFFER} \<and>
   sorted_wrt (<) (fst (scan engine from_str version hash time))"
proof -
  have "INITIAL_BUFFER \<le> MAX_BUFFER" by (simp add: word_le_nat_alt buffer_sizes)
  then show ?thesis by (simp add: scan_def scan_loop_allocations)
qed

text \<open>
  C29: a scan ends with a text the engine served. The engine may answer every call with another text, or
  fail inside; as long as it keeps its ABI contract call by call, its texts are below 4 MiB and the three
  arguments hold no NUL, the scan asks again exactly while a text did not fit, each time with a buffer of
  one byte more than that text, and then returns what the text of the last call parses to, whole, or
  the engine's failure; it never gives up for want of room.
\<close>

theorem scan_returns_a_served_text:
  assumes "engine_serves texts (engine version hash time)"
    and "\<And>n json. texts n = Some json \<Longrightarrow> length json < 4194304"
    and "\<not> has_nul version" and "\<not> has_nul hash" and "\<not> has_nul time"
  shows "case scan engine from_str version hash time of (buffers, result) \<Rightarrow>
    (\<exists>cs. buffers = INITIAL_BUFFER # cs) \<and> calls_of texts 0 buffers \<and>
    result = scan_answer from_str (texts (length buffers - 1))"
  using scan_loop_served [OF assms(1,2), where n = 0] assms(3-5) by (simp add: scan_def)

text \<open>
  An engine that asks again for no more than it was given, or for more than the limit, is not
  called again: the scan ends with the size it asked for.
\<close>

lemma scan_refuses_unbounded_growth:
  assumes "engine version hash time 0 INITIAL_BUFFER = (FIVEPROTECT_ERR_BUFFER_TOO_SMALL, written, bs)"
    and "unat written < 65536 \<or> 4194304 \<le> unat written"
    and "\<not> has_nul version" and "\<not> has_nul hash" and "\<not> has_nul time"
  shows "scan engine from_str version hash time =
    ([INITIAL_BUFFER], Inl (TooLarge (if written = - 1 then - 1 else written + 1)))"
proof -
  have "MAX_BUFFER < saturating_succ written \<or> saturating_succ written \<le> INITIAL_BUFFER"
  proof (cases "written = - 1")
    case True
    then show ?thesis by (simp add: saturating_succ_def MAX_BUFFER_def)
  next
    case False
    then have "unat (written + 1) = unat written + 1" by (simp add: unat_plus_one)
    with False assms(2) show ?thesis
      by (simp add: saturating_succ_def word_less_nat_alt word_le_nat_alt buffer_sizes)
        (use assms(2) in linarith)
  qed
  with assms show ?thesis
    by (simp add: scan_def scan_loop.simps [of _ from_str 0 INITIAL_BUFFER] saturating_succ_def
        FIVEPROTECT_OK_def FIVEPROTECT_ERR_BUFFER_TOO_SMALL_def)
qed

section \<open>An instance\<close>

definition example_engine :: "(nat \<Rightarrow> bytes option) \<Rightarrow> engine_fn" where
  "example_engine texts version hash time n capacity =
     (case texts n of
        None \<Rightarrow> (- 3, 0, [])
      | Some json \<Rightarrow>
          if unat capacity < length json + 1
          then (FIVEPROTECT_ERR_BUFFER_TOO_SMALL, word_of_nat (length json), [])
          else (FIVEPROTECT_OK, word_of_nat (length json), json @ [0]))"

text \<open>A text that is longer when it is asked for again: the third call's is the one that counts.\<close>

definition growing :: "nat \<Rightarrow> bytes option" where
  "growing n = Some (replicate (if n = 0 then 70000 else if n = 1 then 70005 else 70001) (word_of_nat n))"

lemma scan_returns_a_served_text_witness:
  "\<exists>buffers. scan (example_engine growing) (\<lambda>_. Inl ''only blanks'') ''0.1.0'' ''ab'' ''2024'' =
     (buffers, scan_answer (\<lambda>_. Inl ''only blanks'') (growing 2)) \<and> map unat buffers = [65536, 70001, 70006]"
proof -
  have serves: "engine_serves growing (example_engine growing ''0.1.0'' ''ab'' ''2024'')"
    by (simp add: engine_serves_def example_engine_def growing_def)
  have short: "growing n = Some json \<Longrightarrow> length json < 4194304" for n json
    by (auto simp: growing_def split: if_splits)
  obtain buffers result where scan: "scan (example_engine growing) (\<lambda>_. Inl ''only blanks'') ''0.1.0'' ''ab'' ''2024'' =
      (buffers, result)" by (cases "scan (example_engine growing) (\<lambda>_. Inl ''only blanks'') ''0.1.0'' ''ab'' ''2024''")
  have "case (buffers, result) of (buffers, result) \<Rightarrow>
    (\<exists>cs. buffers = INITIAL_BUFFER # cs) \<and> calls_of growing 0 buffers \<and>
    result = scan_answer (\<lambda>_. Inl ''only blanks'') (growing (length buffers - 1))"
    unfolding scan [symmetric]
    by (rule scan_returns_a_served_text [where engine = "example_engine growing", OF serves short])
      (simp_all add: has_nul_def)
  then obtain cs where cs: "buffers = INITIAL_BUFFER # cs" "calls_of growing 0 (INITIAL_BUFFER # cs)"
    "result = scan_answer (\<lambda>_. Inl ''only blanks'') (growing (length cs))" by auto
  have texts: "growing 0 = Some (replicate 70000 0)" "growing (Suc 0) = Some (replicate 70005 1)"
    "growing (Suc (Suc 0)) = Some (replicate 70001 2)"
    by (simp_all add: growing_def)
  have "\<exists>c c'. cs = [c, c'] \<and> unat c = 70001 \<and> unat c' = 70006"
    using cs(2) texts
    by (cases cs; cases "tl cs"; cases "tl (tl cs)") (auto simp: buffer_sizes)
  with cs scan show ?thesis by (auto simp: buffer_sizes numeral_2_eq_2)
qed

lemma scan_refuses_unbounded_growth_witness:
  "scan (\<lambda>_ _ _ _ _. (- 1, - 1, [])) (\<lambda>_. Inl ''only blanks'') ''0.1.0'' ''ab'' ''2024'' =
    ([INITIAL_BUFFER], Inl (TooLarge (- 1)))"
  by (subst scan_refuses_unbounded_growth [where written = "- 1" and bs = "[]"])
    (simp_all add: has_nul_def FIVEPROTECT_ERR_BUFFER_TOO_SMALL_def unsigned_minus_1_eq_mask
      mask_eq_exp_minus_1)

end
