(* ===== verification/Backend_Client.thy ===== *)
theory Backend_Client
  imports Local_Endpoint
begin

text \<open>
  Everything the companion says to the backend, \<open>fiveprotect-companion/src/backend.rs\<close>. The HTTP
  client (ureq) and the JSON layer (serde_json) are parameters: \<open>send_json\<close> gives what posting a
  body to a URL results in, and the record \<open>serde\<close> holds the conversion of a JSON value into each
  message. The locale \<open>validated_call\<close> is the contract of a call whose answer is validated before
  anybody sees it; the client's calls are its interpretations.
\<close>

section \<open>Data\<close>

datatype BackendError =
    Unreachable string
  | Status u16 string
  | Malformed string

definition show_BackendError :: "BackendError \<Rightarrow> string" where
  "show_BackendError e =
     (case e of
        Unreachable detail \<Rightarrow> ''backend unreachable: '' @ detail
      | Status number code_text \<Rightarrow>
          ''backend answered '' @ show_nat (unat number) @ '' ('' @ code_text @ '')''
      | Malformed detail \<Rightarrow> ''backend answer did not parse: '' @ detail)"

record Pending =
  pending_nonce :: string
  pending_server_name :: "string option"

record Client =
  base_url :: string
  client_version :: string

text \<open>The bodies the client posts.\<close>

datatype body =
    PollBody CompanionPollRequest
  | AttestBody AttestationRequest
  | OutcomeBody CompanionOutcomeRequest
  | HeartbeatBody HeartbeatRequest

text \<open>
  The result of \<open>agent.post(url).send_json(body)\<close>, with that of \<open>into_json\<close> on its response: a
  status below 400 is \<open>Ok\<close>, any other is \<open>Error::Status\<close>, and no response at all is a transport
  error.
\<close>

datatype 'v ureq_result =
    UreqOk u16 "string + 'v"
  | UreqStatus u16 "string + 'v"
  | UreqTransport string

type_synonym 'v send_json = "string \<Rightarrow> body \<Rightarrow> 'v ureq_result"

text \<open>
  serde_json: \<open>from_value\<close> at the four answer types, and \<open>value.get("code")\<close> read as a string.
\<close>

record 'v serde =
  value_to_poll :: "'v \<Rightarrow> string + CompanionPollResponse"
  value_to_ack :: "'v \<Rightarrow> string + AttestationAck"
  value_to_verdict :: "'v \<Rightarrow> string + Verdict"
  value_to_heartbeat :: "'v \<Rightarrow> string + HeartbeatResponse"
  value_code :: "'v \<Rightarrow> string option"

section \<open>Operations\<close>

definition map_err :: "('e \<Rightarrow> 'f) \<Rightarrow> 'e + 'a \<Rightarrow> 'f + 'a" where
  "map_err f r = (case r of Inl e \<Rightarrow> Inl (f e) | Inr x \<Rightarrow> Inr x)"

definition Client_new :: "string \<Rightarrow> string \<Rightarrow> Client" where
  "Client_new url companion_version =
     \<lparr>base_url = trim_end_matches (CHR ''/'') url, client_version = companion_version\<rparr>"

definition post_raw ::
    "'v serde \<Rightarrow> 'v send_json \<Rightarrow> Client \<Rightarrow> string \<Rightarrow> body \<Rightarrow> BackendError + (u16 \<times> 'v)" where
  "post_raw sd send self path content =
     (let url = base_url self @ path
      in case send url content of
           UreqOk status json \<Rightarrow>
             (case map_err Malformed json of
                Inl e \<Rightarrow> Inl e
              | Inr v \<Rightarrow> Inr (status, v))
         | UreqStatus number json \<Rightarrow>
             (let code_text =
                unwrap_or (Option.bind (case json of Inl _ \<Rightarrow> None | Inr v \<Rightarrow> Some v) (value_code sd))
                  ''unknown''
              in Inl (Status number code_text))
         | UreqTransport transport \<Rightarrow> Inl (Unreachable transport))"

definition post ::
    "'v serde \<Rightarrow> ('v \<Rightarrow> string + 'r) \<Rightarrow> 'v send_json \<Rightarrow> Client \<Rightarrow> string \<Rightarrow> body \<Rightarrow> BackendError + 'r" where
  "post sd from_value send self path content =
     (case post_raw sd send self path content of
        Inl e \<Rightarrow> Inl e
      | Inr (_, v) \<Rightarrow> map_err Malformed (from_value v))"

definition poll_request :: "Client \<Rightarrow> i64 \<Rightarrow> CompanionPollRequest" where
  "poll_request self wait_seconds =
     \<lparr>cpq_companion_version = client_version self,
      cpq_wait_seconds = wait_seconds,
      cpq_protocol_version = i64_from_u32 PROTOCOL_VERSION\<rparr>"

definition poll_pending ::
    "'v serde \<Rightarrow> 'v send_json \<Rightarrow> Client \<Rightarrow> i64 \<Rightarrow> BackendError + Pending option" where
  "poll_pending sd send self wait_seconds =
     (case post sd (value_to_poll sd) send self ''/v1/companion/pending''
             (PollBody (poll_request self wait_seconds)) of
        Inl e \<Rightarrow> Inl e
      | Inr answer \<Rightarrow>
          (case map_err Malformed (validate_CompanionPollResponse answer) of
             Inl e \<Rightarrow> Inl e
           | Inr _ \<Rightarrow>
               (case cpr_nonce answer of
                  Some nonce \<Rightarrow>
                    if cpr_pending answer
                    then Inr (Some \<lparr>pending_nonce = nonce, pending_server_name = cpr_server_name answer\<rparr>)
                    else Inr None
                | None \<Rightarrow> Inr None)))"

definition attest ::
    "'v serde \<Rightarrow> 'v send_json \<Rightarrow> Client \<Rightarrow> AttestationRequest \<Rightarrow> BackendError + AttestationAck" where
  "attest sd send self request =
     (case post sd (value_to_ack sd) send self ''/v1/attest'' (AttestBody request) of
        Inl e \<Rightarrow> Inl e
      | Inr ack \<Rightarrow>
          (case map_err Malformed (validate_AttestationAck ack) of
             Inl e \<Rightarrow> Inl e
           | Inr _ \<Rightarrow> Inr ack))"

definition outcome_request :: "string \<Rightarrow> i64 \<Rightarrow> CompanionOutcomeRequest" where
  "outcome_request session_id wait_seconds =
     \<lparr>coq_session_id = session_id,
      coq_wait_seconds = wait_seconds,
      coq_protocol_version = i64_from_u32 PROTOCOL_VERSION\<rparr>"

definition outcome ::
    "'v serde \<Rightarrow> 'v send_json \<Rightarrow> Client \<Rightarrow> string \<Rightarrow> i64 \<Rightarrow> BackendError + Verdict option" where
  "outcome sd send self session_id wait_seconds =
     (case post_raw sd send self ''/v1/companion/outcome''
             (OutcomeBody (outcome_request session_id wait_seconds)) of
        Inl e \<Rightarrow> Inl e
      | Inr (status, v) \<Rightarrow>
          if status = 202 then Inr None
          else case map_err Malformed (value_to_verdict sd v) of
            Inl e \<Rightarrow> Inl e
          | Inr verdict \<Rightarrow>
              (case map_err Malformed (validate_Verdict verdict) of
                 Inl e \<Rightarrow> Inl e
               | Inr _ \<Rightarrow> Inr (Some verdict)))"

definition heartbeat ::
    "'v serde \<Rightarrow> 'v send_json \<Rightarrow> Client \<Rightarrow> HeartbeatRequest \<Rightarrow> BackendError + HeartbeatResponse" where
  "heartbeat sd send self request =
     (case post sd (value_to_heartbeat sd) send self ''/v1/sessions/heartbeat'' (HeartbeatBody request) of
        Inl e \<Rightarrow> Inl e
      | Inr response \<Rightarrow>
          (case map_err Malformed (validate_HeartbeatResponse response) of
             Inl e \<Rightarrow> Inl e
           | Inr _ \<Rightarrow> Inr response))"

section \<open>A call whose answer is validated\<close>

locale validated_call =
  fixes call :: "'q \<Rightarrow> BackendError + 'r"
    and fetch :: "'q \<Rightarrow> BackendError + 'r"
    and validate :: "'r \<Rightarrow> string + unit"
  assumes call_def: "call q =
    (case fetch q of
       Inl e \<Rightarrow> Inl e
     | Inr r \<Rightarrow> (case validate r of Inl m \<Rightarrow> Inl (Malformed m) | Inr _ \<Rightarrow> Inr r))"
begin

lemma call_ok: "call q = Inr r \<longleftrightarrow> fetch q = Inr r \<and> is_ok (validate r)"
  by (auto simp: call_def is_ok_def split: sum.splits)

lemma call_valid: "call q = Inr r \<Longrightarrow> is_ok (validate r)"
  by (simp add: call_ok)

lemma call_invalid: "fetch q = Inr r \<Longrightarrow> validate r = Inl m \<Longrightarrow> call q = Inl (Malformed m)"
  by (simp add: call_def)

lemma call_unreachable: "call q = Inl (Unreachable d) \<longleftrightarrow> fetch q = Inl (Unreachable d)"
  by (auto simp: call_def split: sum.splits)

end

lemma map_err_simps [simp]: "map_err f (Inl e) = Inl (f e)" "map_err f (Inr x) = Inr x"
  by (simp_all add: map_err_def)

interpretation attest_call: validated_call
  "attest sd send self"
  "\<lambda>request. post sd (value_to_ack sd) send self ''/v1/attest'' (AttestBody request)"
  validate_AttestationAck
  by unfold_locales (simp add: attest_def map_err_def split: sum.split)

interpretation heartbeat_call: validated_call
  "heartbeat sd send self"
  "\<lambda>request. post sd (value_to_heartbeat sd) send self ''/v1/sessions/heartbeat'' (HeartbeatBody request)"
  validate_HeartbeatResponse
  by unfold_locales (simp add: heartbeat_def map_err_def split: sum.split)

section \<open>Lemmas\<close>

lemma poll_pending_Some:
  "poll_pending sd send self w = Inr (Some p) \<longleftrightarrow>
     (\<exists>answer. post sd (value_to_poll sd) send self ''/v1/companion/pending'' (PollBody (poll_request self w)) =
          Inr answer \<and>
        is_ok (validate_CompanionPollResponse answer) \<and> cpr_pending answer \<and>
        cpr_nonce answer = Some (pending_nonce p) \<and> cpr_server_name answer = pending_server_name p)"
  by (cases p) (auto simp: poll_pending_def is_ok_def map_err_def split: sum.splits option.splits if_splits)

lemma poll_pending_nonce: "poll_pending sd send self w = Inr (Some p) \<Longrightarrow> is_nonce (pending_nonce p)"
  using poll_response_valid_nonce by (auto simp: poll_pending_Some)

lemma outcome_Some_valid:
  "outcome sd send self sid w = Inr (Some v) \<Longrightarrow> is_ok (validate_Verdict v)"
  by (auto simp: outcome_def is_ok_def map_err_def split: sum.splits if_splits prod.splits)

lemma outcome_None:
  "outcome sd send self sid w = Inr None \<longleftrightarrow>
     (\<exists>v. post_raw sd send self ''/v1/companion/outcome'' (OutcomeBody (outcome_request sid w)) = Inr (202, v))"
  by (auto simp: outcome_def map_err_def split: sum.splits if_splits prod.splits)

lemma ack_session_uuid: "is_ok (validate_AttestationAck a) \<Longrightarrow> length (ack_session_id a) = 36"
  by (simp add: validate_AttestationAck_def is_ok_check_uuid)

section \<open>Properties\<close>

text \<open>
  Nothing the backend answers reaches the rest of the program unless it satisfies the
  protocol: an acknowledgement names a session of 36 characters and an interval of 5 to 3600
  seconds, a heartbeat answer an interval in the same range, a collected nonce is 64 hexadecimal
  digits, and a verdict is valid.
\<close>

lemma answers_are_valid:
  "(case attest sd send self request of
      Inl _ \<Rightarrow> True
    | Inr ack \<Rightarrow> length (ack_session_id ack) = 36 \<and>
        ack_heartbeat_interval_seconds ack \<in> {5..3600}) \<and>
   (case heartbeat sd send self beat of
      Inl _ \<Rightarrow> True
    | Inr response \<Rightarrow> hrs_next_interval_seconds response \<in> {5..3600}) \<and>
   (case poll_pending sd send self w of
      Inr (Some p) \<Rightarrow> length (pending_nonce p) = 64 \<and> list_all is_ascii_hexdigit (pending_nonce p)
    | _ \<Rightarrow> True) \<and>
   (case outcome sd send self session w of
      Inr (Some verdict) \<Rightarrow> is_ok (validate_Verdict verdict)
    | _ \<Rightarrow> True)"
proof (intro conjI)
  show "case attest sd send self request of Inl _ \<Rightarrow> True
    | Inr ack \<Rightarrow> length (ack_session_id ack) = 36 \<and> ack_heartbeat_interval_seconds ack \<in> {5..3600}"
    using ack_session_uuid [OF attest_call.call_valid [of sd send self request]]
      ack_valid_interval [OF attest_call.call_valid [of sd send self request]]
    by (cases "attest sd send self request") auto
  show "case heartbeat sd send self beat of Inl _ \<Rightarrow> True
    | Inr response \<Rightarrow> hrs_next_interval_seconds response \<in> {5..3600}"
    using heartbeat_valid_interval [OF heartbeat_call.call_valid [of sd send self beat]]
    by (cases "heartbeat sd send self beat") auto
qed (auto simp: is_nonce_def dest: poll_pending_nonce outcome_Some_valid split: sum.split option.split)

text \<open>
  A pending outcome is recognised by its status alone: the call answers that no verdict has
  formed exactly when the backend answered 202 with some JSON, and a verdict is only ever parsed
  from an answer with another status below 400.
\<close>

lemma outcome_pending_by_status:
  "(outcome sd send self session w = Inr None \<longleftrightarrow>
      (\<exists>v. send (base_url self @ ''/v1/companion/outcome'') (OutcomeBody (outcome_request session w)) =
         UreqOk 202 (Inr v))) \<and>
   (case outcome sd send self session w of
      Inr (Some verdict) \<Rightarrow>
        (\<exists>status v. send (base_url self @ ''/v1/companion/outcome'') (OutcomeBody (outcome_request session w)) =
           UreqOk status (Inr v) \<and> status \<noteq> 202 \<and> value_to_verdict sd v = Inr verdict)
    | _ \<Rightarrow> True)"
  by (auto simp: outcome_def post_raw_def Let_def map_err_def
      split: sum.splits if_splits ureq_result.splits option.splits)

text \<open>
  The error of a call says what happened: unreachable exactly when there was no response, a
  status error exactly for a response ureq reports as one, with that status and the code of the
  error body or the word unknown.
\<close>

lemma backend_errors_classified:
  "(attest sd send self request = Inl (Unreachable d) \<longleftrightarrow>
      send (base_url self @ ''/v1/attest'') (AttestBody request) = UreqTransport d) \<and>
   (attest sd send self request = Inl (Status number text) \<longleftrightarrow>
      (\<exists>json. send (base_url self @ ''/v1/attest'') (AttestBody request) = UreqStatus number json \<and>
         text = (case json of Inl _ \<Rightarrow> ''unknown''
                 | Inr v \<Rightarrow> unwrap_or (value_code sd v) ''unknown'')))"
proof (cases "send (base_url self @ ''/v1/attest'') (AttestBody request)")
  case (UreqOk status json)
  then show ?thesis
    by (auto simp: attest_def post_def post_raw_def Let_def map_err_def split: sum.split)
next
  case (UreqStatus status json)
  then show ?thesis
    by (cases json) (auto simp: attest_def post_def post_raw_def Let_def)
next
  case (UreqTransport transport)
  then show ?thesis by (simp add: attest_def post_def post_raw_def Let_def)
qed

text \<open>
  The base URL keeps no trailing slash, however many were configured, so a request goes to the
  configured URL followed by the path.
\<close>

lemma base_url_without_slash:
  "base_url (Client_new (url @ replicate n (CHR ''/'')) version) = base_url (Client_new url version) \<and>
   (\<exists>k. url = base_url (Client_new url version) @ replicate k (CHR ''/'')) \<and>
   (base_url (Client_new url version) = [] \<or> last (base_url (Client_new url version)) \<noteq> CHR ''/'')"
proof -
  let ?t = "trim_end_matches (CHR ''/'') url"
  have "?t = [] \<or> last ?t \<noteq> CHR ''/''"
    using hd_dropWhile [of "\<lambda>d. d = CHR ''/''" "rev url"]
    by (auto simp: trim_end_matches_def last_rev)
  then show ?thesis
    using trim_end_matches_decomp by (simp add: Client_new_def)
qed

end
