(* ===== verification/Worker.thy ===== *)
theory Worker
  imports Window_Checks Scan_Engine Backend_Client
begin

text \<open>
  The worker thread, \<open>fiveprotect-companion/src/worker.rs\<close>: one definition per branch of the loop in
  \<open>Worker::run\<close>, put together in \<open>iterate\<close>. What the outside world answers during one turn of the
  loop is the record \<open>env\<close>: what \<open>recv_timeout\<close> returned, the scan engine, the HTTP client, the
  clock. What the turn does is the list of its actions: views sent to the window, requests
  posted, lines logged, the channel signalled. The lemmas describe each branch; the properties
  about whole runs are in \<open>Worker_Properties\<close>.
\<close>

section \<open>Data\<close>

datatype Job =
    Collected Pending
  | Local LocalAttestCommand
  | Recheck
  | Shutdown nat

datatype received = Got Job | TimedOut | Disconnected

record Active =
  session_id :: string
  interval :: nat
  next_beat :: nat

record Worker =
  wk_client :: Client
  wk_version :: string
  wk_build_hash :: string

record worker_state =
  shown :: Presentation
  active :: "Active option"
  last_nonce :: "string option"

record 'v env =
  received :: received
  engine_at :: "nat \<Rightarrow> engine_fn"
  iso_at :: "nat \<Rightarrow> string"
  send :: "'v send_json"
  now :: nat
  elapsed_secs :: nat

text \<open>The parsers of JSON values and of the engine's text.\<close>

record 'v parsers =
  serde_of :: "'v serde"
  snapshot_of :: from_str_snapshot

datatype action =
    Publish WindowView
  | Post string body
  | Logged string
  | Signal nat

definition job_nonce :: "Job \<Rightarrow> string option" where
  "job_nonce self =
     (case self of
        Collected pending \<Rightarrow> Some (pending_nonce pending)
      | Local command \<Rightarrow> Some (lac_nonce command)
      | Recheck \<Rightarrow> None
      | Shutdown _ \<Rightarrow> None)"

definition job_server_name :: "Job \<Rightarrow> string option" where
  "job_server_name self =
     (case self of
        Collected pending \<Rightarrow> pending_server_name pending
      | Local command \<Rightarrow> lac_server_name command
      | Recheck \<Rightarrow> None
      | Shutdown _ \<Rightarrow> None)"

section \<open>Constants\<close>

definition SCAN_FAILED :: string where
  "SCAN_FAILED =
     ''Die Systempr'' @ ue @ ''fung konnte nicht durchgef'' @ ue @
     ''hrt werden. Starte FiveProtect neu und versuche es erneut.''"

definition BACKEND_UNREACHABLE :: string where
  "BACKEND_UNREACHABLE =
     ''Der Anticheat-Dienst ist nicht erreichbar. Pr'' @ ue @
     ''fe deine Internetverbindung und versuche es erneut.''"

definition REPORT_REFUSED :: string where
  "REPORT_REFUSED =
     ''Die Systempr'' @ ue @
     ''fung wurde nicht angenommen. Verbinde dich erneut mit dem Server.''"

text \<open>\<open>Duration\<close> and \<open>Instant\<close> are nanoseconds.\<close>

definition from_secs :: "nat \<Rightarrow> nat" where
  "from_secs s = s * 1000000000"

definition IDLE_WATCH :: nat where
  "IDLE_WATCH = from_secs 3"

definition OUTCOME_WAIT_SECONDS :: i64 where
  "OUTCOME_WAIT_SECONDS = 5"

text \<open>\<open>u64::try_from(seconds).unwrap_or(120)\<close> and \<open>i64::try_from(seconds).unwrap_or(i64::MAX)\<close>.\<close>

definition seconds_or_default :: "i64 \<Rightarrow> nat" where
  "seconds_or_default seconds = (if seconds < 0 then 120 else nat seconds)"

definition uptime :: "nat \<Rightarrow> i64" where
  "uptime secs = (if secs \<le> 9223372036854775807 then int secs else 9223372036854775807)"

section \<open>What every branch uses\<close>

definition publish :: "Worker \<Rightarrow> Presentation \<Rightarrow> WindowView" where
  "publish self pres =
     with_game_present
       (with_checks
         (view (p_state pres) (p_remediation pres) (p_server_name pres) (wk_version self)
           (i64_from_u32 PROTOCOL_VERSION))
         (p_checks pres))
       (p_game_present pres)"

definition worker_scan ::
    "Worker \<Rightarrow> 'v parsers \<Rightarrow> 'v env \<Rightarrow> nat \<Rightarrow> ScanError + SystemSnapshot" where
  "worker_scan self ps env k =
     snd (scan (engine_at env k) (snapshot_of ps) (wk_version self) (wk_build_hash self) (iso_at env k))"

definition game_running :: "Worker \<Rightarrow> 'v parsers \<Rightarrow> 'v env \<Rightarrow> nat \<Rightarrow> bool" where
  "game_running self ps env k =
     (case worker_scan self ps env k of
        Inl _ \<Rightarrow> False
      | Inr snapshot \<Rightarrow> snap_game_process snapshot \<noteq> None)"

definition beat_request :: "Worker \<Rightarrow> 'v env \<Rightarrow> string \<Rightarrow> bool \<Rightarrow> bool option \<Rightarrow> HeartbeatRequest" where
  "beat_request self env sid game_present closing =
     \<lparr>hrq_session_id = sid,
      hrq_companion_build_hash = wk_build_hash self,
      hrq_uptime_seconds = uptime (elapsed_secs env),
      hrq_game_process_present = game_present,
      hrq_closing = closing,
      hrq_protocol_version = i64_from_u32 PROTOCOL_VERSION\<rparr>"

definition posted :: "Worker \<Rightarrow> string \<Rightarrow> body \<Rightarrow> action" where
  "posted self path content = Post (base_url (wk_client self) @ path) content"

definition announce_close :: "Worker \<Rightarrow> 'v parsers \<Rightarrow> 'v env \<Rightarrow> string \<Rightarrow> action list" where
  "announce_close self ps env sid =
     (let request = beat_request self env sid True (Some True)
      in [posted self ''/v1/sessions/heartbeat'' (HeartbeatBody request),
          Logged (case heartbeat (serde_of ps) (send env) (wk_client self) request of
             Inr _ \<Rightarrow> ''Sitzung beim Beenden abgemeldet''
           | Inl error \<Rightarrow> ''Abmeldung fehlgeschlagen: '' @ show_BackendError error)])"

definition beat ::
    "Worker \<Rightarrow> 'v parsers \<Rightarrow> 'v env \<Rightarrow> string \<Rightarrow> action list \<times> (BackendError + nat option)" where
  "beat self ps env sid =
     (let game_present = game_running self ps env 0;
          request = beat_request self env sid game_present None
      in ([posted self ''/v1/sessions/heartbeat'' (HeartbeatBody request)],
          case heartbeat (serde_of ps) (send env) (wk_client self) request of
            Inl e \<Rightarrow> Inl e
          | Inr response \<Rightarrow>
              if hrs_terminate response then Inr None
              else Inr (Some (from_secs (seconds_or_default (hrs_next_interval_seconds response))))))"

text \<open>How long a turn waits for a job.\<close>

definition wait_time :: "worker_state \<Rightarrow> nat \<Rightarrow> nat" where
  "wait_time st instant =
     (case active st of
        None \<Rightarrow> IDLE_WATCH
      | Some session \<Rightarrow> next_beat session - instant)"

section \<open>The branches of the loop\<close>

text \<open>No job arrived: look for the game, or send the heartbeat that is due.\<close>

definition on_timeout :: "Worker \<Rightarrow> 'v parsers \<Rightarrow> 'v env \<Rightarrow> worker_state \<Rightarrow> worker_state \<times> action list" where
  "on_timeout self ps env st =
     (case active st of
        None \<Rightarrow>
          (let running = game_running self ps env 0
           in if running \<noteq> p_game_present (shown st)
              then let shown' = (shown st)\<lparr>p_game_present := running\<rparr>
                   in (st\<lparr>shown := shown'\<rparr>, [Publish (publish self shown')])
              else (st, []))
      | Some session \<Rightarrow>
          (case beat self ps env (session_id session) of
             (acts, Inr (Some interval')) \<Rightarrow>
               (st\<lparr>active := Some (session\<lparr>interval := interval', next_beat := now env + interval'\<rparr>)\<rparr>, acts)
           | (acts, Inr None) \<Rightarrow>
               (let shown' = (shown st)\<lparr>p_state := next_state (p_state (shown st)) SessionEnded,
                      p_checks := [], p_server_name := None,
                      p_game_present := game_running self ps env 1\<rparr>
                in (st\<lparr>active := None, shown := shown'\<rparr>, acts @ [Publish (publish self shown')]))
           | (acts, Inl error) \<Rightarrow>
               (st\<lparr>active := Some (session\<lparr>next_beat := now env + interval session\<rparr>)\<rparr>,
                acts @ [Logged (''Heartbeat fehlgeschlagen: '' @ show_BackendError error)])))"

definition on_shutdown :: "Worker \<Rightarrow> 'v parsers \<Rightarrow> 'v env \<Rightarrow> worker_state \<Rightarrow> nat \<Rightarrow> action list" where
  "on_shutdown self ps env st done_tx =
     (case active st of None \<Rightarrow> [] | Some session \<Rightarrow> announce_close self ps env (session_id session)) @
     [Signal done_tx]"

definition on_recheck :: "Worker \<Rightarrow> 'v parsers \<Rightarrow> 'v env \<Rightarrow> worker_state \<Rightarrow> worker_state \<times> action list" where
  "on_recheck self ps env st =
     (let scanned = worker_scan self ps env 0;
          shown1 = (case scanned of
              Inr snapshot \<Rightarrow> (shown st)\<lparr>p_game_present := snap_game_process snapshot \<noteq> None,
                                         p_checks := checks_from snapshot\<rparr>
            | Inl _ \<Rightarrow> shown st);
          line = (case scanned of
              Inr snapshot \<Rightarrow> ''Erneute Pr'' @ ue @ ''fung: '' @ summarise (p_checks shown1)
            | Inl error \<Rightarrow> ''Erneute Pr'' @ ue @ ''fung fehlgeschlagen: '' @ show_ScanError error);
          shown2 = (if active st = None
             then shown1\<lparr>p_state := next_state (p_state shown1) SessionEnded, p_remediation := None,
                         p_server_name := None\<rparr>
             else shown1)
      in (st\<lparr>shown := shown2\<rparr>,
          [Logged (''Erneute Pr'' @ ue @ ''fung angefordert''), Logged line, Publish (publish self shown2)]))"

text \<open>\<open>format!("{reason:?}")\<close>\<close>

primrec debug_DenyReason :: "DenyReason \<Rightarrow> string" where
  "debug_DenyReason CompanionMissing = ''CompanionMissing''"
| "debug_DenyReason CompanionTimeout = ''CompanionTimeout''"
| "debug_DenyReason CompanionOutdated = ''CompanionOutdated''"
| "debug_DenyReason AttestationInvalid = ''AttestationInvalid''"
| "debug_DenyReason NonceExpired = ''NonceExpired''"
| "debug_DenyReason NonceReused = ''NonceReused''"
| "debug_DenyReason NetworkOriginMismatch = ''NetworkOriginMismatch''"
| "debug_DenyReason GameProcessMissing = ''GameProcessMissing''"
| "debug_DenyReason PolicyNotMet = ''PolicyNotMet''"
| "debug_DenyReason HeartbeatLost = ''HeartbeatLost''"
| "debug_DenyReason BackendUnavailable = ''BackendUnavailable''"
| "debug_DenyReason Banned = ''Banned''"

text \<open>The attestation was acknowledged: ask how it was judged.\<close>

definition on_outcome ::
    "Worker \<Rightarrow> 'v env \<Rightarrow> Presentation \<Rightarrow> Active option \<Rightarrow> AttestationAck \<Rightarrow>
     BackendError + Verdict option \<Rightarrow> Presentation \<times> Active option \<times> action list" where
  "on_outcome self env shown0 active0 ack answer =
     (let interval' = from_secs (seconds_or_default (ack_heartbeat_interval_seconds ack));
          live = Some \<lparr>session_id = ack_session_id ack, interval = interval', next_beat = now env + interval'\<rparr>
      in case answer of
           Inr (Some verdict) \<Rightarrow>
             if verdict_decision verdict = Deny then
               (let remediation = verdict_remediation verdict;
                    shown1 = shown0\<lparr>p_remediation := remediation,
                      p_checks := merge_server_view (p_checks shown0) (verdict_requirements verdict),
                      p_state := next_state (p_state shown0) (Refused remediation)\<rparr>
                in (shown1, active0,
                    [Logged (''Server hat abgelehnt: '' @
                       join '', '' (map debug_DenyReason (verdict_reasons verdict)))]))
             else (shown0, live, [])
         | Inr None \<Rightarrow> (shown0, live, [])
         | Inl error \<Rightarrow>
             (shown0, live, [Logged (''Ergebnis nicht abrufbar: '' @ show_BackendError error)]))"

definition attestation_request :: "string \<Rightarrow> SystemSnapshot \<Rightarrow> AttestationRequest" where
  "attestation_request nonce snapshot =
     \<lparr>arq_nonce = nonce, arq_snapshot = snapshot, arq_quote = None,
      arq_protocol_version = i64_from_u32 PROTOCOL_VERSION\<rparr>"

text \<open>The snapshot is there: report it.\<close>

definition on_snapshot ::
    "Worker \<Rightarrow> 'v parsers \<Rightarrow> 'v env \<Rightarrow> worker_state \<Rightarrow> string \<Rightarrow> SystemSnapshot \<Rightarrow>
     worker_state \<times> action list" where
  "on_snapshot self ps env st nonce snapshot =
     (let request = attestation_request nonce snapshot;
          report = posted self ''/v1/attest'' (AttestBody request)
      in case attest (serde_of ps) (send env) (wk_client self) request of
           Inr ack \<Rightarrow>
             (let accepted = (shown st)\<lparr>p_state := next_state (p_state (shown st)) AttestationAccepted\<rparr>;
                  question = outcome_request (ack_session_id ack) OUTCOME_WAIT_SECONDS;
                  answer = outcome (serde_of ps) (send env) (wk_client self) (ack_session_id ack)
                    OUTCOME_WAIT_SECONDS
              in case on_outcome self env accepted (active st) ack answer of
                   (shown', active', acts) \<Rightarrow>
                     (st\<lparr>shown := shown', active := active', last_nonce := Some nonce\<rparr>,
                      [report,
                       Logged (''Meldung angenommen und abgelegt (Sitzung '' @
                         short_session (ack_session_id ack) @ [CHR 0xE2, CHR 0x80, CHR 0xA6] @ '')''),
                       Publish (publish self accepted),
                       posted self ''/v1/companion/outcome'' (OutcomeBody question)] @
                      acts @ [Publish (publish self shown')]))
         | Inl error \<Rightarrow>
             (let remediation = Some (case error of Unreachable _ \<Rightarrow> BACKEND_UNREACHABLE | _ \<Rightarrow> REPORT_REFUSED);
                  shown' = (shown st)\<lparr>p_remediation := remediation,
                    p_state := next_state (p_state (shown st)) (Refused remediation)\<rparr>
              in (st\<lparr>shown := shown'\<rparr>,
                  [report, Logged (''Meldung abgelehnt: '' @ show_BackendError error),
                   Publish (publish self shown')])))"

definition yes_no :: "bool \<Rightarrow> string" where
  "yes_no b = (if b then ''ja'' else ''nein'')"

definition snapshot_line :: "SystemSnapshot \<Rightarrow> string" where
  "snapshot_line snapshot =
     ''Systempr'' @ ue @ ''fung fertig: '' @ summarise (checks_from snapshot) @
     '' (Windows '' @ snap_os_build snapshot @
     '', TPM '' @ yes_no (tpm_present (snap_tpm snapshot)) @
     '', FiveM '' @ (if snap_game_process snapshot \<noteq> None then ''l'' @ ae @ ''uft'' else ''nicht gefunden'') @ '')''"

definition nonce_line :: "Job \<Rightarrow> string option \<Rightarrow> string" where
  "nonce_line job server_name =
     ''Nonce erhalten ('' @
     (case job of
        Collected _ \<Rightarrow> ''abgeholt''
      | Local _ \<Rightarrow> ''vom Spielclient''
      | _ \<Rightarrow> ''erneute Pr'' @ ue @ ''fung'') @
     ''), Server '' @ unwrap_or server_name ''unbekannt''"

text \<open>A nonce that is new.\<close>

definition on_nonce ::
    "Worker \<Rightarrow> 'v parsers \<Rightarrow> 'v env \<Rightarrow> worker_state \<Rightarrow> Job \<Rightarrow> string \<Rightarrow> worker_state \<times> action list" where
  "on_nonce self ps env st job nonce =
     (let shown1 = (case job_server_name job of
              Some name \<Rightarrow> (shown st)\<lparr>p_server_name := Some name\<rparr>
            | None \<Rightarrow> shown st);
          shown2 = shown1\<lparr>p_state := next_state (p_state shown1) AttestRequested, p_remediation := None\<rparr>;
          begin_acts = [Logged (nonce_line job (p_server_name shown1)), Publish (publish self shown2)]
      in case worker_scan self ps env 0 of
           Inl error \<Rightarrow>
             (let shown3 = shown2\<lparr>p_state := next_state (p_state shown2) (Failed (Some SCAN_FAILED)),
                    p_remediation := Some SCAN_FAILED\<rparr>
              in (st\<lparr>shown := shown3\<rparr>,
                  begin_acts @ [Logged (''Scan fehlgeschlagen: '' @ show_ScanError error),
                    Publish (publish self shown3)]))
         | Inr snapshot \<Rightarrow>
             (let shown3 = shown2\<lparr>p_game_present := snap_game_process snapshot \<noteq> None,
                    p_checks := checks_from snapshot\<rparr>
              in case on_snapshot self ps env (st\<lparr>shown := shown3\<rparr>) nonce snapshot of
                   (st', acts) \<Rightarrow>
                     (st', begin_acts @ [Logged (snapshot_line snapshot), Publish (publish self shown3)] @ acts)))"

section \<open>The loop\<close>

text \<open>One turn. \<open>None\<close> is a return from \<open>run\<close>.\<close>

definition iterate ::
    "Worker \<Rightarrow> 'v parsers \<Rightarrow> 'v env \<Rightarrow> worker_state \<Rightarrow> worker_state option \<times> action list" where
  "iterate self ps env st =
     (case received env of
        Disconnected \<Rightarrow> (None, [])
      | TimedOut \<Rightarrow> (case on_timeout self ps env st of (st', acts) \<Rightarrow> (Some st', acts))
      | Got (Shutdown done_tx) \<Rightarrow> (None, on_shutdown self ps env st done_tx)
      | Got job \<Rightarrow>
          (case job_nonce job of
             Some nonce \<Rightarrow>
               if last_nonce st = Some nonce then (Some st, [])
               else (case on_nonce self ps env st job nonce of (st', acts) \<Rightarrow> (Some st', acts))
           | None \<Rightarrow> (case on_recheck self ps env st of (st', acts) \<Rightarrow> (Some st', acts))))"

text \<open>Before the loop: the first view.\<close>

definition start_state :: "Worker \<Rightarrow> 'v parsers \<Rightarrow> 'v env \<Rightarrow> worker_state" where
  "start_state self ps env =
     \<lparr>shown = Presentation_new\<lparr>p_game_present := game_running self ps env 0\<rparr>,
      active = None, last_nonce = None\<rparr>"

text \<open>The loop over a sequence of turns; a state with \<open>False\<close> has returned.\<close>

definition worker_step :: "Worker \<Rightarrow> 'v parsers \<Rightarrow> bool \<times> worker_state \<Rightarrow> 'v env \<Rightarrow> bool \<times> worker_state" where
  "worker_step self ps s env =
     (case s of (alive, st) \<Rightarrow>
        if alive then (case fst (iterate self ps env st) of None \<Rightarrow> (False, st) | Some st' \<Rightarrow> (True, st'))
        else (False, st))"

definition worker_out :: "Worker \<Rightarrow> 'v parsers \<Rightarrow> bool \<times> worker_state \<Rightarrow> 'v env \<Rightarrow> action list" where
  "worker_out self ps s env =
     (case s of (alive, st) \<Rightarrow> if alive then snd (iterate self ps env st) else [])"

end
