(* ===== verification/Worker_Properties.thy ===== *)
theory Worker_Properties
  imports Worker
begin

text \<open>
  What the worker guarantees over whole runs. Its loop is three machines at once: it refines the
  window's state machine (interpretation \<open>window\<close>), the page is a function of its output
  (interpretation \<open>page\<close>), and it keeps an invariant under which every action is well-formed
  (interpretation \<open>actions\<close>).
\<close>

section \<open>What a turn does, by what arrived\<close>

lemma iterate_simps [simp]:
  "received env = Disconnected \<Longrightarrow> iterate self ps env st = (None, [])"
  "received env = TimedOut \<Longrightarrow> iterate self ps env st =
     (Some (fst (on_timeout self ps env st)), snd (on_timeout self ps env st))"
  "received env = Got (Shutdown tx) \<Longrightarrow> iterate self ps env st = (None, on_shutdown self ps env st tx)"
  "received env = Got Recheck \<Longrightarrow> iterate self ps env st =
     (Some (fst (on_recheck self ps env st)), snd (on_recheck self ps env st))"
  by (simp_all add: iterate_def job_nonce_def split: prod.split)

lemma iterate_nonce:
  "received env = Got job \<Longrightarrow> job_nonce job = Some nonce \<Longrightarrow> iterate self ps env st =
     (if last_nonce st = Some nonce then (Some st, [])
      else (Some (fst (on_nonce self ps env st job nonce)), snd (on_nonce self ps env st job nonce)))"
  by (cases job) (simp_all add: iterate_def job_nonce_def split: prod.split)

text \<open>Every turn is one of six.\<close>

lemma turn_cases:
  obtains (disconnected) "received env = Disconnected"
  | (timeout) "received env = TimedOut"
  | (shutdown) tx where "received env = Got (Shutdown tx)"
  | (recheck) "received env = Got Recheck"
  | (again) job nonce where "received env = Got job" "job_nonce job = Some nonce" "last_nonce st = Some nonce"
  | (nonce) job nonce where "received env = Got job" "job_nonce job = Some nonce" "last_nonce st \<noteq> Some nonce"
proof (cases "received env")
  case (Got job)
  then show ?thesis
  proof (cases job)
    case (Collected p)
    with Got again [of job] nonce [of job] show ?thesis by (auto simp: job_nonce_def)
  next
    case (Local c)
    with Got again [of job] nonce [of job] show ?thesis by (auto simp: job_nonce_def)
  qed (use Got recheck shutdown in auto)
qed (use disconnected timeout in auto)

lemma worker_step_simps [simp]:
  "worker_step self ps (False, st) env = (False, st)"
  "worker_out self ps (False, st) env = []"
  "worker_step self ps (True, st) env =
     (case fst (iterate self ps env st) of None \<Rightarrow> (False, st) | Some st' \<Rightarrow> (True, st'))"
  "worker_out self ps (True, st) env = snd (iterate self ps env st)"
  by (simp_all add: worker_step_def worker_out_def)

section \<open>The window's state machine\<close>

text \<open>The events of a turn, in the vocabulary of \<open>Window_State\<close>.\<close>

definition nonce_events :: "Worker \<Rightarrow> 'v parsers \<Rightarrow> 'v env \<Rightarrow> string \<Rightarrow> Event list" where
  "nonce_events self ps env nonce = AttestRequested #
     (case worker_scan self ps env 0 of
        Inl _ \<Rightarrow> [Failed (Some SCAN_FAILED)]
      | Inr snapshot \<Rightarrow>
          (case attest (serde_of ps) (send env) (wk_client self) (attestation_request nonce snapshot) of
             Inl error \<Rightarrow>
               [Refused (Some (case error of Unreachable _ \<Rightarrow> BACKEND_UNREACHABLE | _ \<Rightarrow> REPORT_REFUSED))]
           | Inr ack \<Rightarrow> AttestationAccepted #
               (case outcome (serde_of ps) (send env) (wk_client self) (ack_session_id ack)
                       OUTCOME_WAIT_SECONDS of
                  Inr (Some verdict) \<Rightarrow>
                    if verdict_decision verdict = Deny then [Refused (verdict_remediation verdict)] else []
                | _ \<Rightarrow> [])))"

definition turn_events :: "Worker \<Rightarrow> 'v parsers \<Rightarrow> 'v env \<Rightarrow> worker_state \<Rightarrow> Event list" where
  "turn_events self ps env st =
     (case received env of
        Disconnected \<Rightarrow> []
      | TimedOut \<Rightarrow>
          (case active st of
             None \<Rightarrow> []
           | Some session \<Rightarrow>
               (case snd (beat self ps env (session_id session)) of Inr None \<Rightarrow> [SessionEnded] | _ \<Rightarrow> []))
      | Got (Shutdown _) \<Rightarrow> []
      | Got job \<Rightarrow>
          (case job_nonce job of
             None \<Rightarrow> if active st = None then [SessionEnded] else []
           | Some nonce \<Rightarrow> if last_nonce st = Some nonce then [] else nonce_events self ps env nonce))"

definition window_events :: "Worker \<Rightarrow> 'v parsers \<Rightarrow> bool \<times> worker_state \<Rightarrow> 'v env \<Rightarrow> Event list" where
  "window_events self ps s env = (if fst s then turn_events self ps env (snd s) else [])"

definition window_state :: "bool \<times> worker_state \<Rightarrow> WindowState" where
  "window_state s = p_state (shown (snd s))"

lemma turn_events_simps [simp]:
  "received env = Disconnected \<Longrightarrow> turn_events self ps env st = []"
  "received env = Got (Shutdown tx) \<Longrightarrow> turn_events self ps env st = []"
  "received env = Got Recheck \<Longrightarrow> turn_events self ps env st = (if active st = None then [SessionEnded] else [])"
  by (simp_all add: turn_events_def job_nonce_def)

lemma turn_events_nonce:
  "received env = Got job \<Longrightarrow> job_nonce job = Some nonce \<Longrightarrow> turn_events self ps env st =
     (if last_nonce st = Some nonce then [] else nonce_events self ps env nonce)"
  by (cases job) (simp_all add: turn_events_def job_nonce_def)

lemma on_timeout_state:
  "received env = TimedOut \<Longrightarrow>
   p_state (shown (fst (on_timeout self ps env st))) =
     run next_state (p_state (shown st)) (turn_events self ps env st)"
  by (auto simp: on_timeout_def turn_events_def Let_def split: option.split prod.split sum.split)

lemma on_recheck_state:
  "p_state (shown (fst (on_recheck self ps env st))) =
     (if active st = None then next_state (p_state (shown st)) SessionEnded else p_state (shown st))"
  by (auto simp: on_recheck_def Let_def split: sum.split)

lemma on_outcome_state:
  "p_state (fst (on_outcome self env shown0 active0 ack answer)) =
     run next_state (p_state shown0)
       (case answer of
          Inr (Some verdict) \<Rightarrow>
            if verdict_decision verdict = Deny then [Refused (verdict_remediation verdict)] else []
        | _ \<Rightarrow> [])"
  by (auto simp: on_outcome_def Let_def split: sum.split option.split)

lemma on_nonce_state:
  "p_state (shown (fst (on_nonce self ps env st job nonce))) =
     run next_state (p_state (shown st)) (nonce_events self ps env nonce)"
proof (cases "worker_scan self ps env 0")
  case (Inl error)
  then show ?thesis by (simp add: on_nonce_def nonce_events_def Let_def split: option.split)
next
  case (Inr snapshot)
  show ?thesis
  proof (cases "attest (serde_of ps) (send env) (wk_client self) (attestation_request nonce snapshot)")
    case (Inl error)
    with Inr show ?thesis
      by (simp add: on_nonce_def on_snapshot_def nonce_events_def Let_def split: option.split)
  next
    case ack: (Inr ack)
    with Inr show ?thesis
      by (simp add: on_nonce_def on_snapshot_def nonce_events_def Let_def case_prod_beta
          on_outcome_state split: option.split)
  qed
qed

lemma iterate_events:
  "(case fst (iterate self ps env st) of
      None \<Rightarrow> turn_events self ps env st = []
    | Some st' \<Rightarrow> p_state (shown st') = run next_state (p_state (shown st)) (turn_events self ps env st))"
  by (rule turn_cases [where env = env and st = st])
    (simp_all add: on_timeout_state on_recheck_state on_nonce_state iterate_nonce turn_events_nonce)

interpretation window: refinement "worker_step self ps" next_state window_state "window_events self ps"
proof
  fix s :: "bool \<times> worker_state" and env
  obtain alive st where s: "s = (alive, st)" by (cases s)
  show "window_state (worker_step self ps s env) = run next_state (window_state s) (window_events self ps s env)"
    using iterate_events [of self ps env st]
    by (cases alive) (auto simp: s window_state_def window_events_def split: option.splits)
qed


section \<open>The page\<close>

text \<open>What the window shows after an action: the view last sent to it.\<close>

definition show_action :: "WindowView \<Rightarrow> action \<Rightarrow> WindowView" where
  "show_action v a = (case a of Publish v' \<Rightarrow> v' | _ \<Rightarrow> v)"

lemma show_action_simps [simp]:
  "show_action v (Publish v') = v'" "show_action v (Logged l) = v" "show_action v (Signal t) = v"
  "show_action v (posted self path b) = v"
  by (simp_all add: show_action_def posted_def)

lemma fst_beat [simp]:
  "fst (beat self ps env sid) =
     [posted self ''/v1/sessions/heartbeat''
        (HeartbeatBody (beat_request self env sid (game_running self ps env 0) None))]"
  by (simp add: beat_def Let_def)

lemma on_timeout_page:
  "run show_action (publish self (shown st)) (snd (on_timeout self ps env st)) =
     publish self (shown (fst (on_timeout self ps env st)))"
proof (cases "active st")
  case (Some session)
  then show ?thesis
    using fst_beat [of self ps env "session_id session"]
    by (cases "beat self ps env (session_id session)")
      (auto simp: on_timeout_def Let_def split: sum.split option.split)
qed (simp add: on_timeout_def Let_def)

lemma on_recheck_page:
  "run show_action v (snd (on_recheck self ps env st)) = publish self (shown (fst (on_recheck self ps env st)))"
  by (simp add: on_recheck_def Let_def)

lemma on_snapshot_page:
  "run show_action v (snd (on_snapshot self ps env st nonce snapshot)) =
     publish self (shown (fst (on_snapshot self ps env st nonce snapshot)))"
  by (simp add: on_snapshot_def Let_def case_prod_beta split: sum.split)

lemma on_nonce_page:
  "run show_action v (snd (on_nonce self ps env st job nonce)) =
     publish self (shown (fst (on_nonce self ps env st job nonce)))"
  by (simp add: on_nonce_def Let_def case_prod_beta on_snapshot_page split: sum.split)

lemma on_shutdown_page: "run show_action v (on_shutdown self ps env st tx) = v"
  by (simp add: on_shutdown_def announce_close_def Let_def split: option.split)

lemma iterate_page:
  "run show_action (publish self (shown st)) (snd (iterate self ps env st)) =
     (case fst (iterate self ps env st) of None \<Rightarrow> publish self (shown st) | Some st' \<Rightarrow> publish self (shown st'))"
  by (rule turn_cases [where env = env and st = st])
    (simp_all add: on_timeout_page on_recheck_page on_nonce_page on_shutdown_page iterate_nonce)

interpretation page: refinement "worker_step self ps" show_action "\<lambda>s. publish self (shown (snd s))"
  "worker_out self ps"
proof
  fix s :: "bool \<times> worker_state" and env
  obtain alive st where s: "s = (alive, st)" by (cases s)
  show "publish self (shown (snd (worker_step self ps s env))) =
      run show_action (publish self (shown (snd s))) (worker_out self ps s env)"
    using iterate_page [of self st ps env]
    by (cases alive) (auto simp: s split: option.splits)
qed

section \<open>The invariant\<close>

definition session_ok :: "Active \<Rightarrow> bool" where
  "session_ok a \<longleftrightarrow> length (session_id a) = 36 \<and> from_secs 5 \<le> interval a \<and> interval a \<le> from_secs 3600"

definition state_ok :: "worker_state \<Rightarrow> bool" where
  "state_ok st \<longleftrightarrow>
     p_state (shown st) \<noteq> Checking \<and>
     (p_state (shown st) = Ready \<longrightarrow> active st \<noteq> None) \<and>
     (p_state (shown st) = Idle \<longrightarrow> active st = None) \<and>
     (case active st of None \<Rightarrow> True | Some a \<Rightarrow> session_ok a \<and> last_nonce st \<noteq> None)"

lemma from_secs_mono [simp]: "(from_secs a \<le> from_secs b) = (a \<le> b)"
  by (simp add: from_secs_def)

lemma seconds_in_range:
  "5 \<le> i \<Longrightarrow> i \<le> 3600 \<Longrightarrow> 5 \<le> seconds_or_default i \<and> seconds_or_default i \<le> 3600"
  by (auto simp: seconds_or_default_def le_nat_iff nat_le_iff)

lemma beat_interval:
  assumes "snd (beat self ps env sid) = Inr (Some i)"
  shows "from_secs 5 \<le> i \<and> i \<le> from_secs 3600"
proof -
  from assms obtain r where
    "heartbeat (serde_of ps) (send env) (wk_client self)
       (beat_request self env sid (game_running self ps env 0) None) = Inr r"
    and i: "i = from_secs (seconds_or_default (hrs_next_interval_seconds r))"
    by (auto simp: beat_def Let_def split: sum.splits if_splits)
  then have "is_ok (validate_HeartbeatResponse r)" by (simp add: heartbeat_call.call_ok)
  then have "5 \<le> hrs_next_interval_seconds r" "hrs_next_interval_seconds r \<le> 3600"
    using heartbeat_valid_interval by blast+
  then show ?thesis by (simp add: i seconds_in_range)
qed

lemma live_session_ok:
  assumes "is_ok (validate_AttestationAck ack)"
  shows "session_ok \<lparr>session_id = ack_session_id ack,
    interval = from_secs (seconds_or_default (ack_heartbeat_interval_seconds ack)), next_beat = t\<rparr>"
proof -
  have "5 \<le> ack_heartbeat_interval_seconds ack" "ack_heartbeat_interval_seconds ack \<le> 3600"
    using ack_valid_interval [OF assms] by blast+
  then show ?thesis
    using ack_session_uuid [OF assms] by (simp add: session_ok_def seconds_in_range)
qed

lemma state_ok_start: "state_ok (start_state self ps env)"
  by (simp add: state_ok_def start_state_def Presentation_new_def)

lemma on_timeout_ok:
  assumes "state_ok st"
  shows "state_ok (fst (on_timeout self ps env st))"
proof (cases "active st")
  case None
  with assms show ?thesis by (simp add: on_timeout_def Let_def state_ok_def)
next
  case (Some session)
  obtain acts r where b: "beat self ps env (session_id session) = (acts, r)" by (cases "beat self ps env (session_id session)")
  show ?thesis
  proof (cases r)
    case (Inl e)
    with assms Some b show ?thesis by (simp add: on_timeout_def state_ok_def session_ok_def)
  next
    case (Inr upcoming)
    show ?thesis
    proof (cases upcoming)
      case None
      with assms Some b Inr show ?thesis
        by (cases "p_state (shown st)") (simp_all add: on_timeout_def state_ok_def Let_def)
    next
      case (Some i)
      with b Inr beat_interval [of self ps env "session_id session" i]
      have "from_secs 5 \<le> i \<and> i \<le> from_secs 3600" by simp
      with assms \<open>active st = Some session\<close> b Inr Some show ?thesis
        by (simp add: on_timeout_def state_ok_def session_ok_def)
    qed
  qed
qed

lemma on_recheck_ok:
  assumes "state_ok st"
  shows "state_ok (fst (on_recheck self ps env st))"
proof -
  have "active (fst (on_recheck self ps env st)) = active st"
    "last_nonce (fst (on_recheck self ps env st)) = last_nonce st"
    by (simp_all add: on_recheck_def Let_def)
  with assms show ?thesis
    unfolding state_ok_def on_recheck_state by (cases "p_state (shown st)") auto
qed

lemma on_snapshot_ok:
  assumes "p_state (shown st) = Checking"
    and "case active st of None \<Rightarrow> True | Some a \<Rightarrow> session_ok a \<and> last_nonce st \<noteq> None"
  shows "state_ok (fst (on_snapshot self ps env st nonce snapshot))"
proof (cases "attest (serde_of ps) (send env) (wk_client self) (attestation_request nonce snapshot)")
  case (Inl e)
  with assms show ?thesis by (simp add: on_snapshot_def Let_def state_ok_def split: option.splits)
next
  case (Inr ack)
  then have "is_ok (validate_AttestationAck ack)" by (simp add: attest_call.call_ok)
  note live = live_session_ok [OF this]
  let ?answer = "outcome (serde_of ps) (send env) (wk_client self) (ack_session_id ack) OUTCOME_WAIT_SECONDS"
  have live_case: "state_ok (fst (on_snapshot self ps env st nonce snapshot))"
    if "\<nexists>v. ?answer = Inr (Some v) \<and> verdict_decision v = Deny"
    using that Inr assms(1) live
    by (auto simp: on_snapshot_def on_outcome_def Let_def state_ok_def split: sum.split option.split)
  have denied: "state_ok (fst (on_snapshot self ps env st nonce snapshot))"
    if "?answer = Inr (Some v)" "verdict_decision v = Deny" for v
    using that Inr assms by (simp add: on_snapshot_def on_outcome_def Let_def state_ok_def split: option.splits)
  from live_case denied show ?thesis by blast
qed

lemma on_nonce_ok:
  assumes "state_ok st"
  shows "state_ok (fst (on_nonce self ps env st job nonce))"
proof (cases "worker_scan self ps env 0")
  case (Inl e)
  with assms show ?thesis
    by (cases "active st"; cases "job_server_name job") (simp_all add: on_nonce_def Let_def state_ok_def)
next
  case (Inr snapshot)
  from assms have "case active st of None \<Rightarrow> True | Some a \<Rightarrow> session_ok a \<and> last_nonce st \<noteq> None"
    by (simp add: state_ok_def)
  with Inr show ?thesis
    by (simp add: on_nonce_def Let_def case_prod_beta)
      (rule on_snapshot_ok; simp split: option.splits)
qed

lemma iterate_ok:
  assumes "state_ok st"
  shows "case fst (iterate self ps env st) of None \<Rightarrow> True | Some st' \<Rightarrow> state_ok st'"
  using assms
  by (rule_tac turn_cases [where env = env and st = st])
    (simp_all add: on_timeout_ok on_recheck_ok on_nonce_ok iterate_nonce)


section \<open>The actions\<close>

definition good_body :: "Worker \<Rightarrow> string \<Rightarrow> body \<Rightarrow> bool" where
  "good_body self path b \<longleftrightarrow>
     (case b of
        AttestBody r \<Rightarrow> path = ''/v1/attest'' \<and> is_nonce (arq_nonce r) \<and> arq_quote r = None \<and>
          arq_protocol_version r = 1
      | OutcomeBody r \<Rightarrow> path = ''/v1/companion/outcome'' \<and> length (coq_session_id r) = 36 \<and>
          coq_wait_seconds r = 5 \<and> coq_protocol_version r = 1
      | HeartbeatBody r \<Rightarrow> path = ''/v1/sessions/heartbeat'' \<and> length (hrq_session_id r) = 36 \<and>
          hrq_companion_build_hash r = wk_build_hash self \<and> 0 \<le> hrq_uptime_seconds r \<and>
          hrq_protocol_version r = 1
      | PollBody _ \<Rightarrow> False)"

definition good_request :: "Worker \<Rightarrow> string \<Rightarrow> body \<Rightarrow> bool" where
  "good_request self url b \<longleftrightarrow> (\<exists>path. url = base_url (wk_client self) @ path \<and> good_body self path b)"

definition good_view :: "Worker \<Rightarrow> WindowView \<Rightarrow> bool" where
  "good_view self v \<longleftrightarrow> view_version v = wk_version self \<and> view_protocol_version v = 1 \<and>
     (view_state v = Blocked \<or> view_remediation v = None)"

text \<open>Of actions, only requests and views are constrained here; \<open>Log_File\<close> speaks of lines.\<close>

definition good_action :: "Worker \<Rightarrow> action \<Rightarrow> bool" where
  "good_action self a \<longleftrightarrow>
     (case a of
        Publish v \<Rightarrow> good_view self v
      | Post url b \<Rightarrow> good_request self url b
      | Logged _ \<Rightarrow> True
      | Signal _ \<Rightarrow> True)"

definition brings_nonce :: "'v env \<Rightarrow> bool" where
  "brings_nonce env \<longleftrightarrow>
     (case received env of
        Got job \<Rightarrow> (case job_nonce job of None \<Rightarrow> True | Some nonce \<Rightarrow> is_nonce nonce)
      | _ \<Rightarrow> True)"

lemma protocol_one [simp]: "i64_from_u32 PROTOCOL_VERSION = 1"
  by (simp add: i64_from_u32_def PROTOCOL_VERSION_def)

lemma good_publish [simp]: "good_action self (Publish (publish self p))"
  by (simp add: good_action_def good_view_def publish_def view_simps)

lemma good_other [simp]: "good_action self (Logged l)" "good_action self (Signal t)"
  by (simp_all add: good_action_def)

lemma good_posted [simp]: "good_action self (posted self path b) \<longleftrightarrow> good_body self path b"
  by (simp add: good_action_def good_request_def posted_def)

lemma uptime_nonneg [simp]: "0 \<le> uptime s"
  by (simp add: uptime_def)

lemma good_beat [simp]:
  "good_body self ''/v1/sessions/heartbeat'' (HeartbeatBody (beat_request self env sid present closing)) \<longleftrightarrow>
     length sid = 36"
  by (simp add: good_body_def beat_request_def)

lemma on_timeout_good:
  "state_ok st \<Longrightarrow> list_all (good_action self) (snd (on_timeout self ps env st))"
proof (cases "active st")
  case (Some session)
  moreover assume "state_ok st"
  ultimately have "length (session_id session) = 36" by (simp add: state_ok_def session_ok_def)
  with Some show ?thesis
    using fst_beat [of self ps env "session_id session"]
    by (cases "beat self ps env (session_id session)")
      (auto simp: on_timeout_def Let_def split: sum.split option.split)
qed (simp add: on_timeout_def Let_def)

lemma on_snapshot_good:
  assumes "is_nonce nonce"
  shows "list_all (good_action self) (snd (on_snapshot self ps env st nonce snapshot))"
proof (cases "attest (serde_of ps) (send env) (wk_client self) (attestation_request nonce snapshot)")
  case (Inl e)
  with assms show ?thesis
    by (simp add: on_snapshot_def Let_def good_body_def attestation_request_def)
next
  case (Inr ack)
  then have "length (ack_session_id ack) = 36"
    by (intro ack_session_uuid) (simp add: attest_call.call_ok)
  moreover have "list_all (good_action self) (snd (snd (on_outcome self env p a ack answer)))" for p a answer
    by (auto simp: on_outcome_def Let_def split: sum.split option.split)
  ultimately show ?thesis using Inr assms
    by (simp add: on_snapshot_def Let_def case_prod_beta good_body_def attestation_request_def
        outcome_request_def OUTCOME_WAIT_SECONDS_def)
qed

lemma iterate_good:
  assumes "state_ok st" and "brings_nonce env"
  shows "list_all (good_action self) (snd (iterate self ps env st))"
proof (rule turn_cases [where env = env and st = st])
  fix tx
  assume "received env = Got (Shutdown tx)"
  with assms(1) show ?thesis
    by (cases "active st")
      (simp_all add: on_shutdown_def announce_close_def Let_def state_ok_def session_ok_def)
next
  fix job nonce
  assume job: "received env = Got job" "job_nonce job = Some nonce" "last_nonce st \<noteq> Some nonce"
  with assms(2) have "is_nonce nonce" by (simp add: brings_nonce_def)
  then have "list_all (good_action self) (snd (on_nonce self ps env st job nonce))"
    using on_snapshot_good by (auto simp: on_nonce_def Let_def case_prod_beta split: sum.split)
  with job show ?thesis by (simp add: iterate_nonce)
qed (use assms in \<open>simp_all add: on_timeout_good iterate_nonce\<close>, simp add: on_recheck_def Let_def)

interpretation actions: observed_machine "worker_step self ps" "\<lambda>s. state_ok (snd s)" brings_nonce
  "worker_out self ps" "good_action self"
proof
  fix s :: "bool \<times> worker_state" and env and a
  obtain alive st where s: "s = (alive, st)" by (cases s)
  show "state_ok (snd s) \<Longrightarrow> brings_nonce env \<Longrightarrow> state_ok (snd (worker_step self ps s env))"
    using iterate_ok [of st self ps env] by (cases alive) (auto simp: s split: option.splits)
  show "state_ok (snd s) \<Longrightarrow> brings_nonce env \<Longrightarrow> a \<in> set (worker_out self ps s env) \<Longrightarrow> good_action self a"
    using iterate_good [of st env self ps] by (cases alive) (auto simp: s list_all_iff)
qed

section \<open>Requests\<close>

text \<open>The bodies a turn posts, in order.\<close>

definition posts :: "action list \<Rightarrow> body list" where
  "posts acts = List.map_filter (\<lambda>a. case a of Post _ b \<Rightarrow> Some b | _ \<Rightarrow> None) acts"

lemma posts_simps [simp]:
  "posts [] = []"
  "posts (Publish v # as) = posts as" "posts (Logged l # as) = posts as" "posts (Signal t # as) = posts as"
  "posts (posted self path b # as) = b # posts as"
  by (simp_all add: posts_def posted_def map_filter_def)

lemma posts_append [simp]: "posts (as @ bs) = posts as @ posts bs"
  by (simp add: posts_def map_filter_def)

lemma posts_on_outcome [simp]: "posts (snd (snd (on_outcome self env p a ack answer))) = []"
  by (auto simp: on_outcome_def Let_def split: sum.split option.split)

definition turn_posts :: "Worker \<Rightarrow> 'v parsers \<Rightarrow> 'v env \<Rightarrow> worker_state \<Rightarrow> body list" where
  "turn_posts self ps env st =
     (case received env of
        Disconnected \<Rightarrow> []
      | TimedOut \<Rightarrow>
          (case active st of
             None \<Rightarrow> []
           | Some a \<Rightarrow> [HeartbeatBody (beat_request self env (session_id a) (game_running self ps env 0) None)])
      | Got job \<Rightarrow>
          (case job_nonce job of
             Some nonce \<Rightarrow>
               if last_nonce st = Some nonce then []
               else (case worker_scan self ps env 0 of
                  Inl _ \<Rightarrow> []
                | Inr snapshot \<Rightarrow> AttestBody (attestation_request nonce snapshot) #
                    (case attest (serde_of ps) (send env) (wk_client self) (attestation_request nonce snapshot) of
                       Inl _ \<Rightarrow> []
                     | Inr ack \<Rightarrow> [OutcomeBody (outcome_request (ack_session_id ack) 5)]))
           | None \<Rightarrow>
               (case (job, active st) of
                  (Shutdown _, Some a) \<Rightarrow> [HeartbeatBody (beat_request self env (session_id a) True (Some True))]
                | _ \<Rightarrow> [])))"

lemma posts_on_timeout:
  "received env = TimedOut \<Longrightarrow> posts (snd (on_timeout self ps env st)) = turn_posts self ps env st"
proof (cases "active st")
  case (Some session)
  moreover assume "received env = TimedOut"
  ultimately show ?thesis
    using fst_beat [of self ps env "session_id session"]
    by (cases "beat self ps env (session_id session)")
      (auto simp: on_timeout_def Let_def turn_posts_def split: sum.split option.split)
qed (simp add: on_timeout_def Let_def turn_posts_def)

lemma posts_on_nonce:
  "posts (snd (on_nonce self ps env st job nonce)) =
     (case worker_scan self ps env 0 of
        Inl _ \<Rightarrow> []
      | Inr snapshot \<Rightarrow> AttestBody (attestation_request nonce snapshot) #
          (case attest (serde_of ps) (send env) (wk_client self) (attestation_request nonce snapshot) of
             Inl _ \<Rightarrow> []
           | Inr ack \<Rightarrow> [OutcomeBody (outcome_request (ack_session_id ack) 5)]))"
  by (simp add: on_nonce_def on_snapshot_def Let_def case_prod_beta OUTCOME_WAIT_SECONDS_def split: sum.split)

lemma posts_iterate: "posts (snd (iterate self ps env st)) = turn_posts self ps env st"
proof (rule turn_cases [where env = env and st = st])
  fix tx
  assume "received env = Got (Shutdown tx)"
  then show ?thesis
    by (simp add: on_shutdown_def announce_close_def Let_def turn_posts_def job_nonce_def split: option.split)
next
  assume "received env = Got Recheck"
  then show ?thesis by (simp add: on_recheck_def Let_def turn_posts_def job_nonce_def)
next
  fix job nonce
  assume "received env = Got job" "job_nonce job = Some nonce" "last_nonce st \<noteq> Some nonce"
  then show ?thesis by (simp add: iterate_nonce posts_on_nonce) (simp add: turn_posts_def)
qed (simp_all add: posts_on_timeout iterate_nonce, simp_all add: turn_posts_def)

end
