(* ===== verification/Worker_Claims.thy ===== *)
theory Worker_Claims
  imports Worker_Properties
begin

text \<open>
  The worker's properties, each proved from the three interpretations and the branch lemmas of
  \<open>Worker_Properties\<close>, and a concrete world in which their hypotheses hold. Also here: the thread
  that collects nonces for the worker.
\<close>

section \<open>The collector thread\<close>

text \<open>\<open>collect_nonces\<close>, one turn: poll, hand on what was found, wait after a failure.\<close>

datatype collector_action = Sent Job | Noted string | Slept nat

definition RETRY :: nat where
  "RETRY = from_secs 5"

definition collect_turn ::
    "'v serde \<Rightarrow> 'v send_json \<Rightarrow> Client \<Rightarrow> bool \<Rightarrow> bool \<times> collector_action list" where
  "collect_turn sd snd_json client receiver_alive =
     (case poll_pending sd snd_json client (i64_from_u32 COMPANION_POLL_TIMEOUT_SECONDS) of
        Inr (Some pending) \<Rightarrow>
          if receiver_alive then (True, [Sent (Collected pending)]) else (False, [])
      | Inr None \<Rightarrow> (True, [])
      | Inl error \<Rightarrow> (True, [Noted (''Abholung fehlgeschlagen: '' @ show_BackendError error), Slept RETRY]))"

section \<open>Lemmas\<close>

interpretation session: machine "worker_step self ps" "\<lambda>s. state_ok (snd s)" "\<lambda>_. True"
proof
  fix s :: "bool \<times> worker_state" and env
  show "state_ok (snd s) \<Longrightarrow> state_ok (snd (worker_step self ps s env))"
    using iterate_ok [of "snd s" self ps env] by (cases s; cases "fst s") (auto split: option.splits)
qed

lemma ready_turn:
  assumes "window_state (worker_step self ps s env) = Ready" and "window_events self ps s env \<noteq> []"
  shows "\<exists>st job nonce snapshot ack. s = (True, st) \<and> received env = Got job \<and> job_nonce job = Some nonce \<and>
    worker_scan self ps env 0 = Inr snapshot \<and>
    attest (serde_of ps) (send env) (wk_client self) (attestation_request nonce snapshot) = Inr ack \<and>
    (case outcome (serde_of ps) (send env) (wk_client self) (ack_session_id ack) OUTCOME_WAIT_SECONDS of
       Inr (Some verdict) \<Rightarrow> verdict_decision verdict \<noteq> Deny | _ \<Rightarrow> True)"
proof -
  obtain st where s: "s = (True, st)" and ev: "turn_events self ps env st \<noteq> []"
    using assms(2) by (cases s) (auto simp: window_events_def split: if_splits)
  from assms(1) have ready: "run next_state (p_state (shown st)) (turn_events self ps env st) = Ready"
    using window.refines [of self ps s env] by (simp add: s window_state_def window_events_def)
  show ?thesis
  proof (rule turn_cases [where env = env and st = st])
    assume "received env = TimedOut"
    with ev have "turn_events self ps env st = [SessionEnded]"
      by (auto simp: turn_events_def split: option.splits sum.splits)
    with ready show ?thesis by (cases "p_state (shown st)") simp_all
  next
    assume "received env = Got Recheck"
    with ev have "turn_events self ps env st = [SessionEnded]" by (auto split: if_splits)
    with ready show ?thesis by (cases "p_state (shown st)") simp_all
  next
    fix job nonce
    assume job: "received env = Got job" "job_nonce job = Some nonce" "last_nonce st \<noteq> Some nonce"
    with ready have "run next_state Checking (tl (nonce_events self ps env nonce)) = Ready"
      by (simp add: turn_events_nonce nonce_events_def)
    then show ?thesis
      using s job by (auto simp: nonce_events_def split: sum.splits option.splits if_splits)
  qed (use ev in \<open>simp_all add: turn_events_nonce\<close>)
qed

lemma run_ready:
  assumes "window_state (run (worker_step self ps) s envs) = Ready" and "window_state s \<noteq> Ready"
  shows "\<exists>before env after st job nonce snapshot ack. envs = before @ env # after \<and>
    run (worker_step self ps) s before = (True, st) \<and>
    received env = Got job \<and> job_nonce job = Some nonce \<and> worker_scan self ps env 0 = Inr snapshot \<and>
    attest (serde_of ps) (send env) (wk_client self) (attestation_request nonce snapshot) = Inr ack \<and>
    (case outcome (serde_of ps) (send env) (wk_client self) (ack_session_id ack) OUTCOME_WAIT_SECONDS of
       Inr (Some verdict) \<Rightarrow> verdict_decision verdict \<noteq> Deny | _ \<Rightarrow> True) \<and>
    outputs (worker_step self ps) (window_events self ps)
      (run (worker_step self ps) s (before @ [env])) after = []"
  using assms(1)
proof (induction envs rule: rev_induct)
  case Nil
  with assms(2) show ?case by simp
next
  case (snoc env envs)
  let ?s = "run (worker_step self ps) s envs"
  show ?case
  proof (cases "window_events self ps ?s env = []")
    case True
    have "window_state (run (worker_step self ps) s (envs @ [env])) = window_state ?s"
      using window.refines [of self ps ?s env] True by simp
    with snoc.prems have "window_state ?s = Ready" by simp
    from snoc.IH [OF this] obtain before e after st job nonce snapshot ack
      where IH: "envs = before @ e # after" "run (worker_step self ps) s before = (True, st)"
        "received e = Got job" "job_nonce job = Some nonce" "worker_scan self ps e 0 = Inr snapshot"
        "attest (serde_of ps) (send e) (wk_client self) (attestation_request nonce snapshot) = Inr ack"
        "case outcome (serde_of ps) (send e) (wk_client self) (ack_session_id ack) OUTCOME_WAIT_SECONDS of
          Inr (Some verdict) \<Rightarrow> verdict_decision verdict \<noteq> Deny | _ \<Rightarrow> True"
        "outputs (worker_step self ps) (window_events self ps)
          (run (worker_step self ps) s (before @ [e])) after = []"
      by blast
    have "outputs (worker_step self ps) (window_events self ps)
        (run (worker_step self ps) s (before @ [e])) (after @ [env]) = []"
      using IH(1,8) True by (simp add: outputs_append)
    moreover have "envs @ [env] = before @ e # (after @ [env])" using IH(1) by simp
    ultimately show ?thesis using IH(2-7) by blast
  next
    case False
    from snoc.prems have "window_state (worker_step self ps ?s env) = Ready" by simp
    from ready_turn [OF this False] show ?thesis
      by (intro exI [of _ envs] exI [of _ env] exI [of _ "[]"]) simp
  qed
qed


text \<open>A nonce that was acknowledged is not reported by the turns that follow.\<close>

definition no_other_nonce :: "string \<Rightarrow> 'v env \<Rightarrow> bool" where
  "no_other_nonce nonce env \<longleftrightarrow>
     (case received env of Got job \<Rightarrow> job_nonce job = None \<or> job_nonce job = Some nonce | _ \<Rightarrow> True)"

lemma last_nonce_on_timeout: "last_nonce (fst (on_timeout self ps env st)) = last_nonce st"
  by (auto simp: on_timeout_def Let_def split: option.split prod.split sum.split)

lemma turn_no_other_nonce:
  assumes "last_nonce st = Some nonce" and "no_other_nonce nonce env"
  shows "last_nonce (snd (worker_step self ps (alive, st) env)) = Some nonce"
    and "AttestBody r \<notin> set (posts (worker_out self ps (alive, st) env))"
proof -
  have "(case fst (iterate self ps env st) of None \<Rightarrow> True | Some st' \<Rightarrow> last_nonce st' = Some nonce) \<and>
      AttestBody r \<notin> set (turn_posts self ps env st)"
  proof (rule turn_cases [where env = env and st = st])
    fix job n
    assume "received env = Got job" "job_nonce job = Some n" "last_nonce st \<noteq> Some n"
    with assms show ?thesis by (simp add: no_other_nonce_def)
  next
    fix tx
    assume "received env = Got (Shutdown tx)"
    then show ?thesis by (simp add: turn_posts_def job_nonce_def split: option.split)
  next
    assume "received env = Got Recheck"
    with assms(1) show ?thesis by (simp add: turn_posts_def job_nonce_def on_recheck_def Let_def)
  next
    assume "received env = TimedOut"
    with assms(1) show ?thesis
      by (simp add: turn_posts_def last_nonce_on_timeout split: option.split)
  qed (use assms in \<open>simp_all add: iterate_nonce turn_posts_def\<close>)
  then show "last_nonce (snd (worker_step self ps (alive, st) env)) = Some nonce"
    and "AttestBody r \<notin> set (posts (worker_out self ps (alive, st) env))"
    using assms(1) by (cases alive; auto simp: posts_iterate split: option.splits)+
qed

lemma run_no_other_nonce:
  "last_nonce (snd s) = Some nonce \<Longrightarrow> \<forall>env\<in>set envs. no_other_nonce nonce env \<Longrightarrow>
   AttestBody r \<notin> set (posts (outputs (worker_step self ps) (worker_out self ps) s envs))"
proof (induction envs arbitrary: s)
  case (Cons env envs)
  obtain alive st where s: "s = (alive, st)" by (cases s)
  from Cons.prems s have "last_nonce st = Some nonce" "no_other_nonce nonce env" by simp_all
  note turn = turn_no_other_nonce [OF this, where self = self and ps = ps and alive = alive]
  from Cons.prems have rest: "\<forall>env\<in>set envs. no_other_nonce nonce env" by simp
  from Cons.IH [OF turn(1) rest] turn(2) [of r] show ?case by (simp add: s)
qed simp

text \<open>A heartbeat the backend did not answer.\<close>

definition missed_beat :: "Worker \<Rightarrow> 'v parsers \<Rightarrow> 'v env \<Rightarrow> bool" where
  "missed_beat self ps env \<longleftrightarrow> received env = TimedOut \<and>
     (\<forall>sid. is_ok (snd (beat self ps env sid)) = False)"

lemma missed_turn:
  assumes "missed_beat self ps env" and "active st = Some a"
  shows "\<exists>a' error. iterate self ps env st =
      (Some (st\<lparr>active := Some a'\<rparr>),
       fst (beat self ps env (session_id a)) @ [Logged (''Heartbeat fehlgeschlagen: '' @ show_BackendError error)]) \<and>
    session_id a' = session_id a \<and> interval a' = interval a \<and> next_beat a' = now env + interval a"
proof -
  obtain acts r where b: "beat self ps env (session_id a) = (acts, r)"
    by (cases "beat self ps env (session_id a)")
  with assms(1) obtain e where "r = Inl e"
    by (cases r) (auto simp: missed_beat_def dest: spec [of _ "session_id a"])
  with b assms show ?thesis
    by (intro exI [of _ "a\<lparr>next_beat := now env + interval a\<rparr>"] exI [of _ e])
      (simp add: on_timeout_def missed_beat_def)
qed

definition published :: "action list \<Rightarrow> WindowView list" where
  "published acts = List.map_filter (\<lambda>a. case a of Publish v \<Rightarrow> Some v | _ \<Rightarrow> None) acts"

definition log_lines :: "action list \<Rightarrow> string list" where
  "log_lines acts = List.map_filter (\<lambda>a. case a of Logged l \<Rightarrow> Some l | _ \<Rightarrow> None) acts"

definition requests :: "action list \<Rightarrow> (string \<times> body) list" where
  "requests acts = List.map_filter (\<lambda>a. case a of Post url b \<Rightarrow> Some (url, b) | _ \<Rightarrow> None) acts"

lemma requests_append: "requests (as @ bs) = requests as @ requests bs"
  by (simp add: requests_def map_filter_def)

lemma published_simps [simp]:
  "published [] = []" "published (Publish v # as) = v # published as"
  "published (Logged l # as) = published as" "published (Signal t # as) = published as"
  "published (posted self path b # as) = published as"
  "published (as @ bs) = published as @ published bs"
  by (simp_all add: published_def posted_def map_filter_def)

lemma log_lines_simps [simp]:
  "log_lines [] = []" "log_lines (Logged l # as) = l # log_lines as"
  "log_lines (Publish v # as) = log_lines as" "log_lines (Signal t # as) = log_lines as"
  "log_lines (posted self path b # as) = log_lines as"
  "log_lines (as @ bs) = log_lines as @ log_lines bs"
  by (simp_all add: log_lines_def posted_def map_filter_def)

lemma run_missed:
  "active st = Some a \<Longrightarrow> \<forall>env\<in>set envs. missed_beat self ps env \<Longrightarrow>
   \<exists>a'. run (worker_step self ps) (True, st) envs = (True, st\<lparr>active := Some a'\<rparr>) \<and>
     session_id a' = session_id a \<and> interval a' = interval a \<and>
     published (outputs (worker_step self ps) (worker_out self ps) (True, st) envs) = []"
proof (induction envs arbitrary: st a)
  case Nil
  then show ?case by (intro exI [of _ a]) simp
next
  case (Cons env envs)
  from Cons.prems missed_turn [of self ps env st a] obtain a' error where turn:
    "iterate self ps env st = (Some (st\<lparr>active := Some a'\<rparr>),
       fst (beat self ps env (session_id a)) @ [Logged (''Heartbeat fehlgeschlagen: '' @ show_BackendError error)])"
    "session_id a' = session_id a" "interval a' = interval a"
    by auto
  from Cons.IH [of "st\<lparr>active := Some a'\<rparr>" a'] Cons.prems(2) obtain a2 where
    "run (worker_step self ps) (True, st\<lparr>active := Some a'\<rparr>) envs = (True, st\<lparr>active := Some a'\<rparr>\<lparr>active := Some a2\<rparr>)"
    "session_id a2 = session_id a'" "interval a2 = interval a'"
    "published (outputs (worker_step self ps) (worker_out self ps) (True, st\<lparr>active := Some a'\<rparr>) envs) = []"
    by auto
  with turn show ?case by (intro exI [of _ a2]) simp
qed

text \<open>A turn that neither brings a nonce nor ends the worker or its session.\<close>

definition keeps_session :: "Worker \<Rightarrow> 'v parsers \<Rightarrow> 'v env \<Rightarrow> bool" where
  "keeps_session self ps env \<longleftrightarrow> received env = Got Recheck \<or>
     received env = TimedOut \<and> (\<forall>sid. snd (beat self ps env sid) \<noteq> Inr None)"

lemma keeps_session_turn:
  assumes "keeps_session self ps env" and "active st = Some a" and "p_state (shown st) = Blocked"
  obtains st' b where "worker_step self ps (True, st) env = (True, st')" "active st' = Some b"
    "p_state (shown st') = Blocked" "p_remediation (shown st') = p_remediation (shown st)"
    "set (published (worker_out self ps (True, st) env)) \<subseteq> {publish self (shown st')}"
proof (cases "received env = Got Recheck")
  case True
  with assms(2,3) that show ?thesis
    by (simp add: on_recheck_def Let_def split: sum.splits)
next
  case False
  with assms(1) have env: "received env = TimedOut" "snd (beat self ps env (session_id a)) \<noteq> Inr None"
    by (auto simp: keeps_session_def)
  obtain acts r where b: "beat self ps env (session_id a) = (acts, r)"
    by (cases "beat self ps env (session_id a)")
  have acts: "published acts = []" using fst_beat [of self ps env "session_id a"] b by simp
  show ?thesis
  proof (cases r)
    case (Inl error)
    with env b assms(2,3) acts show ?thesis
      by (intro that [of "st\<lparr>active := Some (a\<lparr>next_beat := now env + interval a\<rparr>)\<rparr>"])
        (simp_all add: on_timeout_def)
  next
    case (Inr again)
    with env(2) b obtain interval' where "again = Some interval'" by (cases again) auto
    with Inr env b assms(2,3) acts show ?thesis
      by (intro that [of "st\<lparr>active := Some (a\<lparr>interval := interval', next_beat := now env + interval'\<rparr>)\<rparr>"])
        (simp_all add: on_timeout_def)
  qed
qed

lemma run_keeps_session:
  "active st = Some a \<Longrightarrow> p_state (shown st) = Blocked \<Longrightarrow> \<forall>env\<in>set envs. keeps_session self ps env \<Longrightarrow>
   \<forall>v\<in>set (published (outputs (worker_step self ps) (worker_out self ps) (True, st) envs)).
     view_state v = Blocked \<and> view_remediation v = p_remediation (shown st)"
proof (induction envs arbitrary: st a)
  case (Cons env envs)
  obtain st' b where turn: "worker_step self ps (True, st) env = (True, st')" "active st' = Some b"
    "p_state (shown st') = Blocked" "p_remediation (shown st') = p_remediation (shown st)"
    "set (published (worker_out self ps (True, st) env)) \<subseteq> {publish self (shown st')}"
    using keeps_session_turn [of self ps env st a] Cons.prems by auto
  have "view_state (publish self (shown st')) = Blocked \<and>
      view_remediation (publish self (shown st')) = p_remediation (shown st)"
    using turn(3,4) by (simp add: publish_def view_def with_checks_def with_game_present_def)
  with turn(5) have "\<forall>v\<in>set (published (worker_out self ps (True, st) env)).
      view_state v = Blocked \<and> view_remediation v = p_remediation (shown st)" by blast
  moreover have "\<forall>v\<in>set (published (outputs (worker_step self ps) (worker_out self ps) (True, st') envs)).
      view_state v = Blocked \<and> view_remediation v = p_remediation (shown st)"
    using Cons.IH [OF turn(2,3)] Cons.prems(3) turn(4) by simp
  moreover have "outputs (worker_step self ps) (worker_out self ps) (True, st) (env # envs) =
      worker_out self ps (True, st) env @ outputs (worker_step self ps) (worker_out self ps) (True, st') envs"
    using turn(1) by (simp del: worker_step_simps)
  ultimately show ?case by (auto simp del: worker_step_simps)
qed simp

text \<open>A turn that receives a job other than the order to stop.\<close>

definition brings_job :: "'v env \<Rightarrow> bool" where
  "brings_job env =
     (case received env of Got (Shutdown _) \<Rightarrow> False | Got _ \<Rightarrow> True | _ \<Rightarrow> False)"

lemma job_turn_no_heartbeat: "brings_job env \<Longrightarrow> HeartbeatBody r \<notin> set (posts (snd (iterate self ps env st)))"
  by (auto simp: brings_job_def posts_iterate turn_posts_def job_nonce_def
      split: received.splits Job.splits sum.splits if_splits)

lemma run_jobs_no_heartbeat:
  "\<forall>env\<in>set envs. brings_job env \<Longrightarrow>
   HeartbeatBody r \<notin> set (posts (outputs (worker_step self ps) (worker_out self ps) s envs))"
proof (induction envs arbitrary: s)
  case (Cons env envs)
  then show ?case
    by (cases s; cases "fst s") (auto simp: job_turn_no_heartbeat)
qed simp

lemma run_rechecks_active:
  "\<forall>env\<in>set envs. received env = Got Recheck \<Longrightarrow>
   active (snd (run (worker_step self ps) s envs)) = active (snd s)"
proof (induction envs arbitrary: s)
  case (Cons env envs)
  then have "active (snd (worker_step self ps s env)) = active (snd s)"
    by (cases s; cases "fst s") (simp_all add: on_recheck_def Let_def)
  with Cons show ?case by simp
qed simp

lemma stopped_run: "run (worker_step self ps) (False, st) envs = (False, st)"
  and stopped_out: "outputs (worker_step self ps) (worker_out self ps) (False, st) envs = []"
  by (induction envs) simp_all

text \<open>The same job with another nonce.\<close>

definition with_nonce :: "string \<Rightarrow> Job \<Rightarrow> Job" where
  "with_nonce nonce job =
     (case job of
        Collected p \<Rightarrow> Collected (p\<lparr>pending_nonce := nonce\<rparr>)
      | Local c \<Rightarrow> Local (c\<lparr>lac_nonce := nonce\<rparr>)
      | _ \<Rightarrow> job)"

lemma with_nonce_simps [simp]:
  "job_server_name (with_nonce n job) = job_server_name job"
  "nonce_line (with_nonce n job) name = nonce_line job name"
  by (simp_all add: with_nonce_def job_server_name_def nonce_line_def split: Job.split)

lemma with_nonce_nonce: "job_nonce job = Some m \<Longrightarrow> job_nonce (with_nonce n job) = Some n"
  by (simp add: with_nonce_def job_nonce_def split: Job.splits)

lemma on_snapshot_other_nonce:
  assumes "attest (serde_of ps) (send env') (wk_client self) (attestation_request n' snapshot) =
      attest (serde_of ps) (send env) (wk_client self) (attestation_request n snapshot)"
    and "\<And>sid w. outcome (serde_of ps) (send env') (wk_client self) sid w =
      outcome (serde_of ps) (send env) (wk_client self) sid w"
    and "now env' = now env"
  shows "log_lines (snd (on_snapshot self ps env' st n' snapshot)) =
      log_lines (snd (on_snapshot self ps env st n snapshot))"
    and "published (snd (on_snapshot self ps env' st n' snapshot)) =
      published (snd (on_snapshot self ps env st n snapshot))"
proof -
  have "on_outcome self env' = on_outcome self env"
    by (simp add: fun_eq_iff on_outcome_def assms(3))
  then show "log_lines (snd (on_snapshot self ps env' st n' snapshot)) =
      log_lines (snd (on_snapshot self ps env st n snapshot))"
    and "published (snd (on_snapshot self ps env' st n' snapshot)) =
      published (snd (on_snapshot self ps env st n snapshot))"
    by (simp_all add: on_snapshot_def Let_def assms(1,2) case_prod_beta split: sum.split)
qed


section \<open>Properties\<close>

text \<open>
  C2: the worker's loop implements the window's state machine: over any sequence of turns the
  window is in the state the machine reaches by the events those turns stand for, and nothing
  else moves it.
\<close>

theorem worker_refines_window:
  "window_state (run (worker_step self ps) s envs) =
     run next_state (window_state s) (outputs (worker_step self ps) (window_events self ps) s envs)"
  by (rule window.run_refines)

text \<open>
  A window that says Ready says so because of one turn of this run: a job brought a nonce, the
  machine was scanned, the backend acknowledged the report of that scan for that nonce and did
  not answer that it denied, and no turn after that one made a window event.
\<close>

lemma ready_means_acknowledged:
  assumes "window_state (run (worker_step self ps) (True, start_state self ps env0) envs) = Ready"
  shows "\<exists>before env after st job nonce snapshot ack. envs = before @ env # after \<and>
    run (worker_step self ps) (True, start_state self ps env0) before = (True, st) \<and>
    received env = Got job \<and> job_nonce job = Some nonce \<and> worker_scan self ps env 0 = Inr snapshot \<and>
    attest (serde_of ps) (send env) (wk_client self) (attestation_request nonce snapshot) = Inr ack \<and>
    (case outcome (serde_of ps) (send env) (wk_client self) (ack_session_id ack) OUTCOME_WAIT_SECONDS of
       Inr (Some verdict) \<Rightarrow> verdict_decision verdict \<noteq> Deny | _ \<Rightarrow> True) \<and>
    outputs (worker_step self ps) (window_events self ps)
      (run (worker_step self ps) (True, start_state self ps env0) (before @ [env])) after = []"
  using assms by (rule run_ready) (simp add: window_state_def start_state_def Presentation_new_def)

text \<open>
  The page is never stale: after any sequence of turns it shows exactly the presentation the
  worker holds, because every turn that changes what is shown sends the whole of it afterwards.
\<close>

lemma page_never_stale:
  "run show_action (publish self (shown (snd s)))
       (outputs (worker_step self ps) (worker_out self ps) s envs) =
     publish self (shown (snd (run (worker_step self ps) s envs)))"
  by (rule page.run_refines [symmetric])

text \<open>
  C31: between two turns the window is never left in Checking; Ready means a session is being kept
  alive, Idle that none is, and a session that is kept alive has an id of 36 characters and a
  heartbeat interval between five seconds and an hour.
\<close>

theorem state_and_session_agree:
  "let st = snd (run (worker_step self ps) (True, start_state self ps env0) envs)
   in (case p_state (shown st) of
         Idle \<Rightarrow> active st = None
       | Checking \<Rightarrow> False
       | Ready \<Rightarrow> active st \<noteq> None
       | Blocked \<Rightarrow> True) \<and>
      (case active st of
         None \<Rightarrow> True
       | Some a \<Rightarrow> length (session_id a) = 36 \<and> interval a \<in> {from_secs 5..from_secs 3600} \<and>
           last_nonce st \<noteq> None)"
  using session.inv_run [of "(True, start_state self ps env0)" envs self ps]
  by (simp add: Let_def state_ok_start)
    (simp add: state_ok_def session_ok_def split: WindowState.split option.splits)

text \<open>
  C18: as long as the jobs that bring a nonce bring 64 hexadecimal digits, every request of a run goes
  to the configured backend, to the path of its kind, in this protocol version; an attestation carries
  a well-formed nonce and no quote, a heartbeat this build's hash and a session id of 36 characters; and every view
  published carries this version and a remediation only when it is blocked.
\<close>

theorem worker_requests_and_views_well_formed:
  assumes "\<forall>env\<in>set envs. brings_nonce env"
  shows "list_all (\<lambda>(url, b). good_request self url b)
      (requests (outputs (worker_step self ps) (worker_out self ps) (True, start_state self ps env0) envs)) \<and>
    list_all (good_view self)
      (published (outputs (worker_step self ps) (worker_out self ps) (True, start_state self ps env0) envs))"
proof -
  have "good_action self a"
    if "a \<in> set (outputs (worker_step self ps) (worker_out self ps) (True, start_state self ps env0) envs)" for a
    using actions.outputs_good [OF _ assms that] by (simp add: state_ok_start)
  then show ?thesis
    by (fastforce simp: list_all_iff requests_def published_def map_filter_def good_action_def split: action.splits)
qed

text \<open>
  The requests of a turn, exactly: a new nonce is attested once, with this turn's scan, and its
  outcome asked for once if the report was acknowledged; a due heartbeat goes out for the live
  session with what a fresh scan says about the game; closing is announced only at shutdown and
  only for a live session; every other turn is silent.
\<close>

lemma requests_of_a_turn: "posts (snd (iterate self ps env st)) = turn_posts self ps env st"
  by (rule posts_iterate)

text \<open>
  Once a nonce was acknowledged it is not reported again, however often it is delivered, until
  another nonce arrives.
\<close>

lemma acknowledged_nonce_not_reported_again:
  assumes "last_nonce (snd s) = Some nonce"
    and "\<forall>env\<in>set envs. no_other_nonce nonce env"
  shows "AttestBody r \<notin> set (posts (outputs (worker_step self ps) (worker_out self ps) s envs))"
  using assms by (rule run_no_other_nonce)

text \<open>
  C17: what a new nonce leads to. A scan that fails blocks the window with its text and reports
  nothing; a report that fails blocks it with a text that tells an unreachable backend from a
  refusal; a denial blocks it with the server's remediation; none of these touches a session that
  is still being kept alive. Otherwise the window is ready and the acknowledged session is live,
  with its first heartbeat due one interval later.
\<close>

theorem new_nonce_result:
  assumes "received env = Got job" and "job_nonce job = Some nonce" and "last_nonce st \<noteq> Some nonce"
  shows "map_option (\<lambda>st'. (p_state (shown st'), p_remediation (shown st'), active st', last_nonce st'))
      (fst (iterate self ps env st)) = Some
    (case worker_scan self ps env 0 of
       Inl _ \<Rightarrow> (Blocked, Some SCAN_FAILED, active st, last_nonce st)
     | Inr snapshot \<Rightarrow>
         (case attest (serde_of ps) (send env) (wk_client self) (attestation_request nonce snapshot) of
            Inl (Unreachable _) \<Rightarrow> (Blocked, Some BACKEND_UNREACHABLE, active st, last_nonce st)
          | Inl _ \<Rightarrow> (Blocked, Some REPORT_REFUSED, active st, last_nonce st)
          | Inr ack \<Rightarrow>
              (let secs = nat (ack_heartbeat_interval_seconds ack);
                   live = Some \<lparr>session_id = ack_session_id ack, interval = secs * 10 ^ 9,
                     next_beat = now env + secs * 10 ^ 9\<rparr>
               in case outcome (serde_of ps) (send env) (wk_client self) (ack_session_id ack) 5 of
                    Inr (Some verdict) \<Rightarrow>
                      if verdict_decision verdict = Deny
                      then (Blocked, verdict_remediation verdict, active st, Some nonce)
                      else (Ready, None, live, Some nonce)
                  | _ \<Rightarrow> (Ready, None, live, Some nonce))))"
proof (cases "worker_scan self ps env 0")
  case (Inl e)
  with assms show ?thesis
    by (simp add: iterate_nonce on_nonce_def Let_def split: option.split)
next
  case (Inr snapshot)
  show ?thesis
  proof (cases "attest (serde_of ps) (send env) (wk_client self) (attestation_request nonce snapshot)")
    case (Inl e)
    with Inr assms show ?thesis
      by (cases e; cases "job_server_name job")
        (simp_all add: iterate_nonce on_nonce_def on_snapshot_def Let_def)
  next
    case ack: (Inr ack)
    then have "is_ok (validate_AttestationAck ack)" by (simp add: attest_call.call_ok)
    then have "seconds_or_default (ack_heartbeat_interval_seconds ack) = nat (ack_heartbeat_interval_seconds ack)"
      using ack_valid_interval by (force simp: seconds_or_default_def)
    then show ?thesis
      using Inr ack assms
      by (cases "job_server_name job")
        (auto simp: iterate_nonce on_nonce_def on_snapshot_def on_outcome_def Let_def case_prod_beta
          from_secs_def OUTCOME_WAIT_SECONDS_def split: sum.split option.split)
  qed
qed

text \<open>
  C21: the log gives nothing about a nonce: two turns that differ in the nonce alone, each new and
  answered alike, log the same lines and show the same views.
\<close>

theorem log_independent_of_nonce:
  assumes "received env = Got job" and "job_nonce job = Some n"
    and "last_nonce st \<noteq> Some n" and "last_nonce st \<noteq> Some n'"
    and "\<And>snapshot. attest (serde_of ps) snd' (wk_client self) (attestation_request n' snapshot) =
      attest (serde_of ps) (send env) (wk_client self) (attestation_request n snapshot)"
    and "\<And>sid w. outcome (serde_of ps) snd' (wk_client self) sid w =
      outcome (serde_of ps) (send env) (wk_client self) sid w"
  shows "log_lines (snd (iterate self ps (env\<lparr>received := Got (with_nonce n' job), send := snd'\<rparr>) st)) =
      log_lines (snd (iterate self ps env st)) \<and>
    published (snd (iterate self ps (env\<lparr>received := Got (with_nonce n' job), send := snd'\<rparr>) st)) =
      published (snd (iterate self ps env st))"
proof -
  let ?env = "env\<lparr>received := Got (with_nonce n' job), send := snd'\<rparr>"
  have new: "iterate self ps ?env st = (Some (fst (on_nonce self ps ?env st (with_nonce n' job) n')),
      snd (on_nonce self ps ?env st (with_nonce n' job) n'))"
    using assms(4) with_nonce_nonce [OF assms(2), of n'] by (simp add: iterate_nonce)
  have scan: "worker_scan self ps ?env 0 = worker_scan self ps env 0" by (simp add: worker_scan_def)
  have snapshot: "log_lines (snd (on_snapshot self ps ?env st' n' snapshot)) =
        log_lines (snd (on_snapshot self ps env st' n snapshot))"
    "published (snd (on_snapshot self ps ?env st' n' snapshot)) =
        published (snd (on_snapshot self ps env st' n snapshot))" for st' snapshot
    using assms(5,6) by (intro on_snapshot_other_nonce; simp)+
  show ?thesis
    unfolding new iterate_nonce [OF assms(1,2)]
    using assms(3) snapshot
    by (simp add: on_nonce_def scan Let_def case_prod_beta split: sum.split)
qed

text \<open>
  A network drop changes nothing the player sees: while heartbeats go unanswered, however many
  in a row, the presentation stays, no view is sent, and the session keeps its id and interval.
\<close>

lemma missed_heartbeats_change_nothing:
  assumes "active st = Some a" and "\<forall>env\<in>set envs. missed_beat self ps env"
  shows "\<exists>a'. run (worker_step self ps) (True, st) envs = (True, st\<lparr>active := Some a'\<rparr>) \<and>
    session_id a' = session_id a \<and> interval a' = interval a \<and>
    published (outputs (worker_step self ps) (worker_out self ps) (True, st) envs) = []"
  using assms by (rule run_missed)

text \<open>
  C39: a refusal met while a session is alive cannot be cleared by the player. When a second report
  is refused or its scan fails, the first session goes on being kept alive, and from then on every
  view says Blocked with that refusal's text, however often the player checks again and whatever
  those scans find, until the backend ends the session or another nonce comes.
\<close>

theorem refusal_outlives_recheck:
  assumes "active st = Some a" and "p_state (shown st) = Blocked"
    and "\<forall>env\<in>set envs. keeps_session self ps env"
    and "v \<in> set (published (outputs (worker_step self ps) (worker_out self ps) (True, st) envs))"
  shows "view_state v = Blocked \<and> view_remediation v = p_remediation (shown st)"
  using run_keeps_session [OF assms(1-3)] assms(4) by blast

text \<open>
  C34: jobs starve the heartbeat. A heartbeat goes out only in a turn whose wait timed out, and a
  wait that finds a job does not time out, not even a wait of length zero for a heartbeat long
  overdue: while every turn receives a job, no heartbeat is sent, whatever the clock says. If
  those jobs are rechecks, which the window's page can send without limit, the session is still
  there at the end and its heartbeat is still due at the same instant as before.
\<close>

theorem jobs_starve_heartbeats:
  assumes "\<forall>env\<in>set envs. brings_job env"
  shows "HeartbeatBody r \<notin> set (posts (outputs (worker_step self ps) (worker_out self ps) s envs)) \<and>
    ((\<forall>env\<in>set envs. received env = Got Recheck) \<longrightarrow>
      active (snd (run (worker_step self ps) s envs)) = active (snd s))"
  using run_jobs_no_heartbeat [OF assms] run_rechecks_active by blast

text \<open>
  Shutdown is the last thing that happens: a live session is reported as closing, once, the
  waiting thread is signalled after that and whatever the backend answered, and no later turn
  does anything.
\<close>

lemma shutdown_is_final:
  assumes "received env = Got (Shutdown tx)"
  shows "\<exists>line. outputs (worker_step self ps) (worker_out self ps) (True, st) (env # envs) =
    (case active st of
       None \<Rightarrow> [Signal tx]
     | Some a \<Rightarrow>
         [Post (base_url (wk_client self) @ ''/v1/sessions/heartbeat'')
            (HeartbeatBody (beat_request self env (session_id a) True (Some True))),
          Logged line, Signal tx])"
  using assms
  by (simp add: stopped_out on_shutdown_def announce_close_def posted_def Let_def split: option.split)

text \<open>
  The backend URL a local command names decides only whether the endpoint accepts it; the
  worker does the same whatever it is, so the report goes to the primary backend even when the
  game client named another trusted one.
\<close>

lemma named_backend_not_used:
  "iterate self ps (env\<lparr>received := Got (Local (c\<lparr>lac_backend_url := url\<rparr>))\<rparr>) st =
     iterate self ps (env\<lparr>received := Got (Local c)\<rparr>) st"
proof -
  let ?e = "\<lambda>c. env\<lparr>received := Got (Local c)\<rparr>"
  let ?c = "c\<lparr>lac_backend_url := url\<rparr>"
  have "on_outcome self (?e ?c) = on_outcome self (?e c)"
    by (intro ext) (simp add: on_outcome_def)
  then have "on_snapshot self ps (?e ?c) = on_snapshot self ps (?e c)"
    by (intro ext) (simp add: on_snapshot_def Let_def split: sum.split)
  moreover have "worker_scan self ps (?e ?c) = worker_scan self ps (?e c)"
    by (simp add: fun_eq_iff worker_scan_def)
  moreover have "nonce_line (Local ?c) = nonce_line (Local c)"
    by (simp add: fun_eq_iff nonce_line_def)
  ultimately show ?thesis
    by (simp add: iterate_def job_nonce_def on_nonce_def job_server_name_def Let_def case_prod_beta
        split: sum.split)
qed

text \<open>
  The collector hands the worker nothing but nonces of 64 hexadecimal digits, one per answer,
  stops only when nobody receives any more, and pauses five seconds after a failure.
\<close>

lemma collector_hands_on_nonces:
  "case collect_turn sd sj client receiver_alive of (continues, acts) \<Rightarrow>
     (\<forall>job. Sent job \<notin> set acts \<or> (\<exists>p. job = Collected p \<and> is_nonce (pending_nonce p))) \<and>
     (continues = False \<longleftrightarrow> \<not> receiver_alive \<and>
        (\<exists>p. poll_pending sd sj client 25 = Inr (Some p))) \<and>
     (Slept (5 * 10 ^ 9) \<in> set acts \<longleftrightarrow> (\<exists>e. poll_pending sd sj client 25 = Inl e))"
proof -
  have "i64_from_u32 COMPANION_POLL_TIMEOUT_SECONDS = 25"
    by (simp add: i64_from_u32_def COMPANION_POLL_TIMEOUT_SECONDS_def)
  then show ?thesis
    using poll_pending_nonce [of sd sj client 25]
    by (auto simp: collect_turn_def RETRY_def from_secs_def split: sum.split option.split)
qed


section \<open>An instance\<close>

text \<open>
  A world of one machine and one backend: the engine returns a snapshot, the backend acknowledges
  every report, has no outcome yet, and does not answer heartbeats.
\<close>

definition example_worker :: Worker where
  "example_worker =
     \<lparr>wk_client = Client_new ''https://api.example/'' ''0.1.0'', wk_version = ''0.1.0'',
      wk_build_hash = replicate 64 (CHR ''a'')\<rparr>"

definition example_snapshot :: SystemSnapshot where
  "example_snapshot =
     \<lparr>snap_schema_version = 1, snap_collected_at = ''2025-01-01T00:00:00'',
      snap_companion_version = ''0.1.0'', snap_companion_build_hash = replicate 64 (CHR ''a''),
      snap_os_build = ''26100'',
      snap_features =
        \<lparr>sf_secure_boot = FeatureState.Enabled, sf_hvci = FeatureState.Enabled,
         sf_test_signing = FeatureState.Disabled, sf_kernel_debugging = FeatureState.Unknown,
         sf_driver_blocklist = FeatureState.Enabled, sf_iommu = FeatureState.Disabled,
         sf_virtualization_based_security = FeatureState.Enabled\<rparr>,
      snap_tpm = \<lparr>tpm_present = True, tpm_manufacturer = None, tpm_spec_version = None,
        tpm_attestation_key_id = None\<rparr>,
      snap_game_process = None, snap_probe_errors = []\<rparr>"

definition example_ack :: AttestationAck where
  "example_ack =
     \<lparr>ack_accepted = True, ack_session_id = ''00000000-0000-0000-0000-000000000000'',
      ack_received_at = ''2025-01-01T00:00:00'', ack_heartbeat_interval_seconds = 120\<rparr>"

definition example_nonce :: string where
  "example_nonce = replicate 64 (CHR ''b'')"

definition example_poll :: CompanionPollResponse where
  "example_poll =
     \<lparr>cpr_pending = True, cpr_nonce = Some example_nonce, cpr_server_name = None, cpr_policy_tier = None,
      cpr_expires_at = None,
      cpr_protocol_version = 1\<rparr>"

definition example_parsers :: "nat parsers" where
  "example_parsers =
     \<lparr>serde_of =
        \<lparr>value_to_poll = (\<lambda>_. Inr example_poll), value_to_ack = (\<lambda>_. Inr example_ack),
         value_to_verdict = (\<lambda>_. Inl []), value_to_heartbeat = (\<lambda>_. Inl []), value_code = (\<lambda>_. None)\<rparr>,
      snapshot_of = (\<lambda>_. Inr example_snapshot)\<rparr>"

definition example_env :: "received \<Rightarrow> nat env" where
  "example_env r =
     \<lparr>received = r, engine_at = (\<lambda>_ _ _ _ _ _. (0, 0, [])), iso_at = (\<lambda>_. ''2025-01-01T00:00:00''),
      send = (\<lambda>_ b. case b of AttestBody _ \<Rightarrow> UreqOk 200 (Inr 0) | OutcomeBody _ \<Rightarrow> UreqOk 202 (Inr 0)
                    | _ \<Rightarrow> UreqTransport ''timed out''),
      now = 7, elapsed_secs = 60\<rparr>"

definition example_job :: Job where
  "example_job = Collected \<lparr>pending_nonce = example_nonce, pending_server_name = None\<rparr>"

lemma example_env_simps [simp]:
  "received (example_env r) = r" "now (example_env r) = 7"
  by (simp_all add: example_env_def)

lemma example_ack_ok: "is_ok (validate_AttestationAck example_ack)"
  by code_simp

lemma example_attest [simp]:
  "attest (serde_of example_parsers) (send (example_env r)) c q = Inr example_ack"
  using example_ack_ok
  by (simp add: attest_call.call_ok) (simp add: post_def post_raw_def Let_def example_env_def example_parsers_def)

lemma example_outcome [simp]:
  "outcome (serde_of example_parsers) (send (example_env r)) c sid w = Inr None"
  by (simp add: outcome_def post_raw_def Let_def example_env_def)

lemma example_scan [simp]: "worker_scan example_worker example_parsers (example_env r) k = Inr example_snapshot"
  by (simp add: worker_scan_def scan_def scan_loop.simps has_nul_def example_worker_def example_env_def
      example_parsers_def FIVEPROTECT_OK_def parse_snapshot_def string_from_utf8_def from_bytes_def
      utf8_check.simps)

lemma example_beat [simp]: "snd (beat example_worker example_parsers (example_env r) sid) = Inl (Unreachable ''timed out'')"
  by (simp add: beat_def Let_def heartbeat_def post_def post_raw_def example_env_def)

lemma example_job_nonce [simp]: "job_nonce example_job = Some example_nonce"
  by (simp add: example_job_def job_nonce_def)

lemma example_start [simp]:
  "p_state (shown (start_state self ps env)) = Idle" "last_nonce (start_state self ps env) = None"
  "active (start_state self ps env) = None"
  by (simp_all add: start_state_def Presentation_new_def)

abbreviation "example_run \<equiv> run (worker_step example_worker example_parsers)
  (True, start_state example_worker example_parsers (example_env TimedOut))"

lemma example_ready:
  "window_state (example_run [example_env (Got example_job), example_env TimedOut]) = Ready"
  unfolding window.run_refines
  by (simp add: window_events_def turn_events_nonce nonce_events_def window_state_def)
    (simp add: turn_events_def split: option.split)


lemma example_nonce_ok: "is_nonce example_nonce"
  by (simp add: is_nonce_def example_nonce_def list_all_iff is_ascii_hexdigit_def code_def)

lemma ready_means_acknowledged_witness:
  "\<exists>before env after st job nonce snapshot ack.
    [example_env (Got example_job), example_env TimedOut] = before @ env # after \<and>
    example_run before = (True, st) \<and>
    received env = Got job \<and> job_nonce job = Some nonce \<and>
    worker_scan example_worker example_parsers env 0 = Inr snapshot \<and>
    attest (serde_of example_parsers) (send env) (wk_client example_worker)
      (attestation_request nonce snapshot) = Inr ack \<and>
    (case outcome (serde_of example_parsers) (send env) (wk_client example_worker) (ack_session_id ack)
            OUTCOME_WAIT_SECONDS of
       Inr (Some verdict) \<Rightarrow> verdict_decision verdict \<noteq> Deny | _ \<Rightarrow> True) \<and>
    outputs (worker_step example_worker example_parsers) (window_events example_worker example_parsers)
      (example_run (before @ [env])) after = []"
  by (rule ready_means_acknowledged [OF example_ready])

lemma worker_requests_and_views_well_formed_witness:
  "list_all (\<lambda>(url, b). good_request example_worker url b)
      (requests (outputs (worker_step example_worker example_parsers) (worker_out example_worker example_parsers)
        (True, start_state example_worker example_parsers (example_env TimedOut))
        [example_env (Got example_job), example_env TimedOut])) \<and>
    AttestBody (attestation_request example_nonce example_snapshot) \<in> set (map snd
      (requests (outputs (worker_step example_worker example_parsers) (worker_out example_worker example_parsers)
        (True, start_state example_worker example_parsers (example_env TimedOut))
        [example_env (Got example_job), example_env TimedOut])))"
proof -
  have "\<forall>env\<in>set [example_env (Got example_job), example_env TimedOut]. brings_nonce env"
    by (simp add: brings_nonce_def example_nonce_ok)
  from worker_requests_and_views_well_formed [OF this, of example_worker example_parsers "example_env TimedOut"]
  have "list_all (\<lambda>(url, b). good_request example_worker url b)
      (requests (outputs (worker_step example_worker example_parsers) (worker_out example_worker example_parsers)
        (True, start_state example_worker example_parsers (example_env TimedOut))
        [example_env (Got example_job), example_env TimedOut]))" by (rule conjunct1)
  moreover have "AttestBody (attestation_request example_nonce example_snapshot) \<in> set (map snd
      (requests (worker_out example_worker example_parsers
        (True, start_state example_worker example_parsers (example_env TimedOut)) (example_env (Got example_job)))))"
    by (simp add: requests_def map_filter_def iterate_nonce on_nonce_def on_snapshot_def posted_def Let_def
        case_prod_beta split: action.split)
  ultimately show ?thesis by (simp add: requests_append del: worker_step_simps)
qed

lemma example_last_nonce:
  "last_nonce (snd (example_run [example_env (Got example_job)])) = Some example_nonce"
  by (simp add: iterate_nonce on_nonce_def on_snapshot_def Let_def case_prod_beta)

lemma acknowledged_nonce_not_reported_again_witness:
  "AttestBody (attestation_request example_nonce example_snapshot) \<notin>
     set (posts (outputs (worker_step example_worker example_parsers) (worker_out example_worker example_parsers)
       (example_run [example_env (Got example_job)])
       [example_env (Got example_job), example_env TimedOut, example_env (Got example_job)]))"
  by (rule acknowledged_nonce_not_reported_again [OF example_last_nonce]) (simp add: no_other_nonce_def)

lemma new_nonce_result_witness:
  "map_option (\<lambda>st'. (p_state (shown st'), p_remediation (shown st'), active st', last_nonce st'))
      (fst (iterate example_worker example_parsers (example_env (Got example_job))
         (start_state example_worker example_parsers (example_env TimedOut)))) =
    Some (Ready, None,
      Some \<lparr>session_id = ack_session_id example_ack, interval = 120000000000, next_beat = 120000000007\<rparr>,
      Some example_nonce)"
  by (subst new_nonce_result [where job = example_job and nonce = example_nonce])
    (simp_all add: Let_def example_ack_def)

lemma log_independent_of_nonce_witness:
  "log_lines (snd (iterate example_worker example_parsers
      ((example_env (Got example_job))
        \<lparr>received := Got (with_nonce (replicate 64 (CHR ''c'')) example_job), send := send (example_env TimedOut)\<rparr>)
      (start_state example_worker example_parsers (example_env TimedOut)))) =
    log_lines (snd (iterate example_worker example_parsers (example_env (Got example_job))
      (start_state example_worker example_parsers (example_env TimedOut)))) \<and>
   published (snd (iterate example_worker example_parsers
      ((example_env (Got example_job))
        \<lparr>received := Got (with_nonce (replicate 64 (CHR ''c'')) example_job), send := send (example_env TimedOut)\<rparr>)
      (start_state example_worker example_parsers (example_env TimedOut)))) =
    published (snd (iterate example_worker example_parsers (example_env (Got example_job))
      (start_state example_worker example_parsers (example_env TimedOut))))"
  by (rule log_independent_of_nonce [where job = example_job and n = example_nonce]) simp_all

definition example_session :: Active where
  "example_session =
     \<lparr>session_id = ack_session_id example_ack, interval = 120000000000, next_beat = 0\<rparr>"

definition example_state :: worker_state where
  "example_state = \<lparr>shown = Presentation_new\<lparr>p_state := Ready\<rparr>, active = Some example_session,
     last_nonce = Some example_nonce\<rparr>"

lemma missed_heartbeats_change_nothing_witness:
  "\<exists>a'. run (worker_step example_worker example_parsers) (True, example_state)
       [example_env TimedOut, example_env TimedOut] = (True, example_state\<lparr>active := Some a'\<rparr>) \<and>
     session_id a' = session_id example_session \<and> interval a' = interval example_session \<and>
     published (outputs (worker_step example_worker example_parsers)
       (worker_out example_worker example_parsers) (True, example_state)
       [example_env TimedOut, example_env TimedOut]) = []"
  by (rule missed_heartbeats_change_nothing) (simp_all add: example_state_def missed_beat_def)

lemma shutdown_is_final_witness:
  "\<exists>line. outputs (worker_step example_worker example_parsers) (worker_out example_worker example_parsers)
      (True, example_state) [example_env (Got (Shutdown 4)), example_env (Got Recheck)] =
    [Post (base_url (wk_client example_worker) @ ''/v1/sessions/heartbeat'')
       (HeartbeatBody (beat_request example_worker (example_env (Got (Shutdown 4)))
          (session_id example_session) True (Some True))),
     Logged line, Signal 4]"
  using shutdown_is_final [where env = "example_env (Got (Shutdown 4))" and tx = 4 and st = example_state
      and self = example_worker and ps = example_parsers and envs = "[example_env (Got Recheck)]"]
  by (simp add: example_state_def)

text \<open>Two rechecks with a heartbeat overdue since the start: none is sent.\<close>

lemma jobs_starve_heartbeats_witness:
  "HeartbeatBody (beat_request example_worker (example_env TimedOut) (session_id example_session) True None) \<notin>
     set (posts (outputs (worker_step example_worker example_parsers) (worker_out example_worker example_parsers)
       (True, example_state) [example_env (Got Recheck), example_env (Got Recheck)])) \<and>
   active (snd (run (worker_step example_worker example_parsers) (True, example_state)
     [example_env (Got Recheck), example_env (Got Recheck)])) = Some example_session \<and>
   wait_time example_state 0 = 0"
  using jobs_starve_heartbeats [where envs = "[example_env (Got Recheck), example_env (Got Recheck)]"
      and self = example_worker and ps = example_parsers and s = "(True, example_state)"
      and r = "beat_request example_worker (example_env TimedOut) (session_id example_session) True None"]
  by (simp add: brings_job_def example_state_def example_session_def wait_time_def)

text \<open>A session is alive, the scan for a second nonce fails once, and the next recheck's scan succeeds.\<close>

definition second_job :: Job where
  "second_job = Collected \<lparr>pending_nonce = replicate 64 (CHR ''c''), pending_server_name = None\<rparr>"

definition failing_env :: "nat env" where
  "failing_env = (example_env (Got second_job))\<lparr>engine_at := (\<lambda>_ _ _ _ _ _. (1, 0, []))\<rparr>"

lemma refusal_outlives_recheck_witness:
  "\<exists>st. worker_step example_worker example_parsers (True, example_state) failing_env = (True, st) \<and>
     (\<exists>v. v \<in> set (published (outputs (worker_step example_worker example_parsers)
         (worker_out example_worker example_parsers) (True, st) [example_env (Got Recheck)])) \<and>
       view_state v = Blocked \<and> view_remediation v = Some SCAN_FAILED)"
proof -
  let ?n = "replicate 64 (CHR ''c'')"
  have scan: "worker_scan example_worker example_parsers failing_env 0 = Inl (ScanError.Engine 1)"
    by (simp add: worker_scan_def scan_def scan_loop.simps has_nul_def example_worker_def failing_env_def
        example_env_def FIVEPROTECT_OK_def FIVEPROTECT_ERR_BUFFER_TOO_SMALL_def)
  have job: "received failing_env = Got second_job" "job_nonce second_job = Some ?n"
    "last_nonce example_state \<noteq> Some ?n"
    by (simp_all add: failing_env_def second_job_def job_nonce_def example_state_def example_nonce_def
        replicate_eq_replicate)
  let ?st = "fst (on_nonce example_worker example_parsers failing_env example_state second_job ?n)"
  have step: "worker_step example_worker example_parsers (True, example_state) failing_env = (True, ?st)"
    using job(3) by (simp add: iterate_nonce [OF job(1,2)])
  have st: "active ?st = Some example_session" "p_state (shown ?st) = Blocked"
    "p_remediation (shown ?st) = Some SCAN_FAILED"
    by (simp_all add: on_nonce_def scan Let_def example_state_def)
  have keeps: "\<forall>env\<in>set [example_env (Got Recheck)]. keeps_session example_worker example_parsers env"
    by (simp add: keeps_session_def)
  have "\<exists>v. v \<in> set (published (outputs (worker_step example_worker example_parsers)
         (worker_out example_worker example_parsers) (True, ?st) [example_env (Got Recheck)]))"
    by (auto simp: on_recheck_def Let_def)
  with refusal_outlives_recheck [OF st(1,2) keeps] st(3) step show ?thesis by metis
qed

end
