(* ===== verification/Desktop.thy ===== *)
theory Desktop
  imports Worker
begin

text \<open>
  The main thread, \<open>fiveprotect-companion/src/main.rs\<close>: the commands the two pages may send, what a
  click on the tray icon means, and the event loop that owns the windows. Screen positions are a
  type variable, because the loop only passes them on. The JSON parser and the access to the
  field are parameters of \<open>command_of\<close>.
\<close>

section \<open>Commands of the pages\<close>

definition KNOWN :: "string list" where
  "KNOWN = [''recheck'', ''export_diagnostics'', ''drag'', ''minimize'', ''close'', ''show'', ''quit'', ''dismiss'']"

definition command_of :: "(string \<Rightarrow> 'v option) \<Rightarrow> ('v \<Rightarrow> string option) \<Rightarrow> string \<Rightarrow> string option" where
  "command_of from_str command_field body =
     (case from_str body of
        None \<Rightarrow> None
      | Some parsed \<Rightarrow>
          (case command_field parsed of
             None \<Rightarrow> None
           | Some command \<Rightarrow> find (\<lambda>known. known = command) KNOWN))"

datatype 'p Wake =
    View WindowView
  | ShowWindow
  | HideWindow
  | ToggleMenu 'p 'p
  | HideMenu
  | WakeRecheck
  | Quit

text \<open>
  What a handler does besides waking the loop. A script that hands a view to the page is accepted by
  the web view (\<open>Scripted\<close>) or refused (\<open>ScriptFailed\<close>), and then the view is gone.
\<close>

datatype effect =
    Scripted WindowView
  | ScriptFailed WindowView
  | Queued Job
  | ExportedDiagnostics
  | LoggedLine string
  | DraggedWindow
  | WithdrewPort

text \<open>
  The window's page: commands that are queued or carried out at once, or a wake-up. \<open>export\<close> is what
  writing the diagnostics comes to: an error, or the path of the file.
\<close>

definition page_ipc :: "string + string \<Rightarrow> string option \<Rightarrow> 'p Wake list \<times> effect list" where
  "page_ipc export command =
     (if command = Some ''recheck'' then ([], [Queued Recheck])
      else if command = Some ''export_diagnostics'' then
        ([], [ExportedDiagnostics,
          LoggedLine (case export of
            Inr path \<Rightarrow> ''Diagnose gespeichert: '' @ path
          | Inl error \<Rightarrow> ''Diagnose fehlgeschlagen: '' @ error)])
      else if command = Some ''drag'' then ([], [DraggedWindow])
      else if command = Some ''minimize'' \<or> command = Some ''close'' then ([HideWindow], [])
      else ([], []))"

text \<open>The tray menu's page.\<close>

definition menu_ipc :: "string option \<Rightarrow> 'p Wake list" where
  "menu_ipc command =
     (if command = Some ''show'' then [ShowWindow]
      else if command = Some ''recheck'' then [WakeRecheck]
      else if command = Some ''quit'' then [Quit]
      else if command = Some ''dismiss'' then [HideMenu]
      else [])"

datatype MouseButton = MouseLeft | MouseRight | MouseMiddle

fun tray_click :: "MouseButton \<Rightarrow> 'p \<Rightarrow> 'p \<Rightarrow> 'p Wake list" where
  "tray_click MouseLeft x y = [ShowWindow]"
| "tray_click MouseRight x y = [ToggleMenu x y]"
| "tray_click MouseMiddle x y = []"

section \<open>The event loop\<close>

datatype 'p tao_event = UserEvent "'p Wake" | CloseRequested | OtherEvent

text \<open>\<open>menu_shown\<close> is \<open>None\<close> when the menu window could not be created.\<close>

record desktop =
  window_shown :: bool
  menu_shown :: "bool option"
  exited :: bool

definition hide_menu :: "desktop \<Rightarrow> desktop" where
  "hide_menu d = d\<lparr>menu_shown := map_option (\<lambda>_. False) (menu_shown d)\<rparr>"

text \<open>
  One event; after the exit the loop handles none. The channel of a shutdown is the model's
  number 0; the exit waits for its signal at most for the grace period, and goes on either way.
  \<open>evaluate\<close> is the error, if any, of running the script that hands a view to the page.
\<close>

definition on_event :: "(WindowView \<Rightarrow> string option) \<Rightarrow> desktop \<Rightarrow> 'p tao_event \<Rightarrow> desktop \<times> effect list" where
  "on_event evaluate d event =
     (if exited d then (d, [])
      else case event of
        UserEvent (View model) \<Rightarrow>
          (d, case evaluate model of
             None \<Rightarrow> [Scripted model]
           | Some error \<Rightarrow>
               [ScriptFailed model, LoggedLine (''Oberflaeche konnte nicht aktualisiert werden: '' @ error)])
      | UserEvent ShowWindow \<Rightarrow> ((hide_menu d)\<lparr>window_shown := True\<rparr>, [])
      | UserEvent HideWindow \<Rightarrow> ((hide_menu d)\<lparr>window_shown := False\<rparr>, [])
      | UserEvent (ToggleMenu x y) \<Rightarrow>
          (case menu_shown d of
             None \<Rightarrow> (d, [])
           | Some visible \<Rightarrow>
               if visible then (hide_menu d, []) else (d\<lparr>menu_shown := Some True\<rparr>, []))
      | UserEvent HideMenu \<Rightarrow> (hide_menu d, [])
      | UserEvent WakeRecheck \<Rightarrow> (hide_menu d, [Queued Recheck])
      | UserEvent Quit \<Rightarrow> (d\<lparr>exited := True\<rparr>, [Queued (Shutdown 0), WithdrewPort])
      | CloseRequested \<Rightarrow> (d\<lparr>window_shown := False\<rparr>, [])
      | OtherEvent \<Rightarrow> (d, []))"

definition desktop_step :: "(WindowView \<Rightarrow> string option) \<Rightarrow> desktop \<Rightarrow> 'p tao_event \<Rightarrow> desktop" where
  "desktop_step evaluate d event = fst (on_event evaluate d event)"

definition desktop_out :: "(WindowView \<Rightarrow> string option) \<Rightarrow> desktop \<Rightarrow> 'p tao_event \<Rightarrow> effect list" where
  "desktop_out evaluate d event = snd (on_event evaluate d event)"

text \<open>
  The menu's window and its page; without either there is no menu. It is made invisible.
  \<open>menu_ipc\<close> is its page's handler.
\<close>

definition menu_window :: "bool \<Rightarrow> bool \<Rightarrow> bool option" where
  "menu_window window_built webview_built = (if window_built \<and> webview_built then Some False else None)"

definition desktop_start :: "bool option \<Rightarrow> desktop" where
  "desktop_start menu = \<lparr>window_shown = True, menu_shown = menu, exited = False\<rparr>"

section \<open>Lemmas\<close>

lemma desktop_start_simps [simp]:
  "window_shown (desktop_start menu)" "menu_shown (desktop_start menu) = menu" "\<not> exited (desktop_start menu)"
  by (simp_all add: desktop_start_def)

lemma desktop_exited: "exited (desktop_step ev d e) \<longleftrightarrow> exited d \<or> e = UserEvent Quit"
  by (auto simp: desktop_step_def on_event_def hide_menu_def split: tao_event.splits Wake.splits option.splits)

lemma desktop_after_exit: "exited d \<Longrightarrow> desktop_step ev d e = d" "exited d \<Longrightarrow> desktop_out ev d e = []"
  by (simp_all add: desktop_step_def desktop_out_def on_event_def)

lemma run_after_exit: "exited d \<Longrightarrow> outputs (desktop_step ev) (desktop_out ev) d es = []"
  by (induction es) (simp_all add: desktop_after_exit)

lemma run_exited: "exited (run (desktop_step ev) d es) \<longleftrightarrow> exited d \<or> UserEvent Quit \<in> set es"
  by (induction es arbitrary: d) (auto simp: desktop_exited)

lemma shutdown_only_by_quit:
  "Queued (Shutdown t) \<in> set (desktop_out ev d e) \<Longrightarrow> e = UserEvent Quit"
  by (auto simp: desktop_out_def on_event_def split: if_splits tao_event.splits Wake.splits option.splits)

lemma find_KNOWN: "find (\<lambda>known. known = c) KNOWN = Some r \<longleftrightarrow> r = c \<and> c \<in> set KNOWN"
proof -
  have "find (\<lambda>x. x = c) xs = Some r \<longleftrightarrow> r = c \<and> c \<in> set xs" for xs :: "string list"
    by (induction xs) auto
  then show ?thesis .
qed

section \<open>Properties\<close>

text \<open>
  The program ends because somebody chose to quit, and for no other reason: after any events,
  the loop has exited exactly when a Quit was among them. Closing or minimising the window puts
  it away.
\<close>

lemma only_quit_exits:
  "exited (run (desktop_step ev) \<lparr>window_shown = w, menu_shown = m, exited = False\<rparr> es) \<longleftrightarrow>
     UserEvent Quit \<in> set es"
  by (simp add: run_exited)

text \<open>
  Quitting asks the worker to shut down first and withdraws the published port after that,
  once, and nothing the loop is woken with later has an effect.
\<close>

lemma quit_effects:
  "outputs (desktop_step ev) (desktop_out ev) \<lparr>window_shown = w, menu_shown = m, exited = False\<rparr>
     (UserEvent Quit # es) = [Queued (Shutdown 0), WithdrewPort]"
  by (simp add: run_after_exit desktop_exited) (simp add: desktop_out_def on_event_def)

text \<open>
  The window's page is the least trusted part: whatever it sends, the program neither exits nor
  queues anything but a recheck; the only wake-up it can cause is putting the window away.
\<close>

lemma page_cannot_quit:
  "exited (run (desktop_step ev) d
       (map UserEvent (concat (map (\<lambda>body. fst (page_ipc export (command_of from_str command_field body))) bodies)))) =
     exited d \<and>
   set (concat (map (\<lambda>body. snd (page_ipc export (command_of from_str command_field body))) bodies))
     \<subseteq> {Queued Recheck, ExportedDiagnostics, DraggedWindow} \<union> range LoggedLine"
proof -
  have "Quit \<notin> set (fst (page_ipc x c))"
    "set (snd (page_ipc x c)) \<subseteq> {Queued Recheck, ExportedDiagnostics, DraggedWindow} \<union> range LoggedLine" for x c
    by (auto simp: page_ipc_def)
  then show ?thesis by (fastforce simp: run_exited)
qed

text \<open>
  A page's message is a command only if its command field is exactly one of the known names; a
  text that merely contains one is none, and what is not JSON is none.
\<close>

lemma command_of_exact:
  "command_of from_str command_field body = Some c \<longleftrightarrow>
     (\<exists>parsed. from_str body = Some parsed \<and> command_field parsed = Some c) \<and>
     c \<in> {''recheck'', ''export_diagnostics'', ''drag'', ''minimize'', ''close'', ''show'', ''quit'', ''dismiss''}"
proof -
  have known: "{''recheck'', ''export_diagnostics'', ''drag'', ''minimize'', ''close'', ''show'', ''quit'', ''dismiss''} =
      set KNOWN"
    by (simp add: KNOWN_def)
  show ?thesis
    unfolding known
  proof (cases "from_str body")
    case (Some parsed)
    then show "command_of from_str command_field body = Some c \<longleftrightarrow>
        (\<exists>parsed. from_str body = Some parsed \<and> command_field parsed = Some c) \<and> c \<in> set KNOWN"
      by (cases "command_field parsed") (auto simp: command_of_def find_KNOWN)
  qed (simp add: command_of_def)
qed

end
