(* ===== verification/Identity.thy ===== *)
theory Identity
  imports Protocol_Check
begin

text \<open>
  What the companion says about itself, \<open>fiveprotect-companion/src/identity.rs\<close>: the hash of its
  own executable, read in pieces, and the timestamp. SHA-256 (crate \<open>sha2\<close>) is the record \<open>hasher\<close>,
  hex encoding and the formatting of a time (crates \<open>hex\<close> and \<open>time\<close>) are parameters. A file that
  is read is its contents with what each call of \<open>read\<close> gives: how many bytes, or an error.
\<close>

section \<open>The build hash\<close>

definition CHUNK :: nat where
  "CHUNK = 64 * 1024"

record 'h hasher =
  hasher_new :: 'h
  hasher_update :: "'h \<Rightarrow> bytes \<Rightarrow> 'h"
  hasher_finalize :: "'h \<Rightarrow> bytes"

text \<open>
  \<open>wanted n\<close> is how many bytes the n-th call would like to give. \<open>read\<close> gives at most the length
  of the buffer, and nothing only at the end of the file.
\<close>

record file_reads =
  contents :: bytes
  wanted :: "nat \<Rightarrow> nat"
  fails_with :: "nat \<Rightarrow> string option"

definition read_size :: "nat \<Rightarrow> nat" where
  "read_size n = max 1 (min n CHUNK)"

function hash_loop ::
    "'h hasher \<Rightarrow> (nat \<Rightarrow> nat) \<Rightarrow> (nat \<Rightarrow> string option) \<Rightarrow> nat \<Rightarrow> bytes \<Rightarrow> 'h \<Rightarrow> string + 'h" where
  "hash_loop sha want fails n rest h =
     (case fails n of
        Some e \<Rightarrow> Inl e
      | None \<Rightarrow>
          if rest = [] then Inr h
          else hash_loop sha want fails (Suc n) (drop (read_size (want n)) rest)
                 (hasher_update sha h (take (read_size (want n)) rest)))"
  by pat_completeness auto
termination
  by (relation "measure (\<lambda>(sha, want, fails, n, rest, h). length rest)") (auto simp: read_size_def)

declare hash_loop.simps [simp del]

definition hash_file ::
    "'h hasher \<Rightarrow> (bytes \<Rightarrow> string) \<Rightarrow> string + file_reads \<Rightarrow> string + string" where
  "hash_file sha hex_encode opened =
     (case opened of
        Inl e \<Rightarrow> Inl e
      | Inr file \<Rightarrow>
          (case hash_loop sha (wanted file) (fails_with file) 0 (contents file) (hasher_new sha) of
             Inl e \<Rightarrow> Inl e
           | Inr h \<Rightarrow> Inr (hex_encode (hasher_finalize sha h))))"

text \<open>\<open>exe\<close> is what \<open>current_exe\<close> gives, \<open>open_file\<close> what opening a path gives.\<close>

definition build_hash ::
    "'h hasher \<Rightarrow> (bytes \<Rightarrow> string) \<Rightarrow> (string \<Rightarrow> string + file_reads) \<Rightarrow> string + string \<Rightarrow> string + string" where
  "build_hash sha hex_encode open_file exe =
     (case exe of Inl e \<Rightarrow> Inl e | Inr path \<Rightarrow> hash_file sha hex_encode (open_file path))"

section \<open>The timestamp\<close>

definition TIMESTAMP :: string where
  "TIMESTAMP = ''[year]-[month]-[day]T[hour]:[minute]:[second].[subsecond digits:3]Z''"

definition now_iso :: "(string \<Rightarrow> 't \<Rightarrow> string option) \<Rightarrow> 't \<Rightarrow> string" where
  "now_iso format now = unwrap_or (format TIMESTAMP now) ''1970-01-01T00:00:00.000Z''"

section \<open>Lemmas\<close>

text \<open>A hash that can be fed in pieces.\<close>

definition streams :: "'h hasher \<Rightarrow> bool" where
  "streams sha \<longleftrightarrow>
     (\<forall>h a b. hasher_update sha (hasher_update sha h a) b = hasher_update sha h (a @ b)) \<and>
     (\<forall>h. hasher_update sha h [] = h)"

lemma hash_loop_ok:
  assumes "streams sha" and "\<forall>k. fails k = None"
  shows "hash_loop sha want fails n rest h = Inr (hasher_update sha h rest)"
  using assms
proof (induction sha want fails n rest h rule: hash_loop.induct)
  case (1 sha want fails n rest h)
  show ?case
  proof (cases "rest = []")
    case True
    with "1.prems" show ?thesis by (subst hash_loop.simps) (simp add: streams_def)
  next
    case False
    let ?k = "read_size (want n)"
    have "hasher_update sha (hasher_update sha h (take ?k rest)) (drop ?k rest) = hasher_update sha h rest"
      using "1.prems"(1) by (simp add: streams_def)
    moreover have "hash_loop sha want fails (Suc n) (drop ?k rest) (hasher_update sha h (take ?k rest)) =
        Inr (hasher_update sha (hasher_update sha h (take ?k rest)) (drop ?k rest))"
      using False "1.prems" by (intro "1.IH") auto
    moreover have "fails n = None" using "1.prems"(2) by blast
    ultimately show ?thesis using False by (subst hash_loop.simps) (simp only: option.case if_False)
  qed
qed

text \<open>The first error of a read is the loop's, and no hash is made of what came before it.\<close>

lemma hash_loop_error:
  assumes "fails n = Some e"
  shows "hash_loop sha want fails n rest h = Inl e"
  using assms by (simp add: hash_loop.simps [of sha want fails n])

lemma hash_loop_Inl: "hash_loop sha want fails n rest h = Inl e \<Longrightarrow> \<exists>k. fails k = Some e"
proof (induction sha want fails n rest h rule: hash_loop.induct)
  case (1 sha want fails n rest h)
  then show ?case
    by (auto simp: hash_loop.simps [of sha want fails n rest h] split: option.splits if_splits)
qed

text \<open>A decimal number padded with zeros to a width.\<close>

definition padded :: "nat \<Rightarrow> nat \<Rightarrow> string" where
  "padded width n = replicate (width - length (show_nat n)) (CHR ''0'') @ show_nat n"

lemma padded_digits: "list_all is_ascii_digit (padded w n)"
  using show_nat_digits by (auto simp: padded_def list_all_iff is_ascii_digit_def code_def)

lemma length_show_nat: "n < 10 ^ Suc w \<Longrightarrow> length (show_nat n) \<le> Suc w"
proof (induction w arbitrary: n)
  case 0
  then show ?case by (simp add: show_nat.simps [of n])
next
  case (Suc w)
  then show ?case by (cases "n < 10") (simp_all add: show_nat.simps [of n])
qed

lemma length_padded: "0 < w \<Longrightarrow> n < 10 ^ w \<Longrightarrow> length (padded w n) = w"
  using length_show_nat [of n "w - 1"] by (simp add: padded_def)


text \<open>Any text in the shape of the format description is a timestamp.\<close>

lemma datetime_shape:
  assumes "length y = 4" "length mo = 2" "length d = 2" "length h = 2" "length mi = 2" "length sec = 2"
    and "list_all is_ascii_digit (y @ mo @ d @ h @ mi @ sec)"
  shows "is_ok (check_datetime
    (y @ ''-'' @ mo @ ''-'' @ d @ ''T'' @ h @ '':'' @ mi @ '':'' @ sec @ rest) path)"
proof -
  obtain y1 y2 y3 y4 where "y = [y1, y2, y3, y4]"
    using assms(1) by (auto simp: length_Suc_conv numeral_eq_Suc)
  moreover have two: "\<exists>a b. xs = [a, b]" if "length xs = 2" for xs :: string
    using that by (auto simp: length_Suc_conv numeral_eq_Suc)
  moreover obtain mo1 mo2 d1 d2 h1 h2 mi1 mi2 s1 s2 where
    "mo = [mo1, mo2]" "d = [d1, d2]" "h = [h1, h2]" "mi = [mi1, mi2]" "sec = [s1, s2]"
    using two assms(2-6) by metis
  ultimately show ?thesis
    using assms(7) by (simp add: check_datetime_def datetime_SHAPE_def)
qed

lemma padded_no_nul: "CHR 0x00 \<notin> set (padded w n)"
  using padded_digits [of w n] by (auto simp: list_all_iff is_ascii_digit_def code_def)

section \<open>Properties\<close>

text \<open>
  The build hash of a file that can be opened and read is the hash of exactly its bytes, however
  the reads cut the file, and has the form the protocol wants of a hash.
\<close>

lemma build_hash_of_contents:
  assumes "streams sha"
    and digest: "\<And>h. length (hasher_finalize sha h) = 32"
    and hex: "\<And>bs. length (hex_encode bs) = 2 * length bs \<and> list_all is_ascii_hexdigit (hex_encode bs)"
    and "open_file path = Inr \<lparr>contents = bs, wanted = want, fails_with = (\<lambda>_. None)\<rparr>"
  shows "build_hash sha hex_encode open_file (Inr path) =
      Inr (hex_encode (hasher_finalize sha (hasher_update sha (hasher_new sha) bs))) \<and>
    (case build_hash sha hex_encode open_file (Inr path) of
       Inl _ \<Rightarrow> False
     | Inr hash \<Rightarrow> is_ok (check_length hash p (Some 64) (Some 64)) \<and> is_ok (check_hex hash p))"
proof -
  have "build_hash sha hex_encode open_file (Inr path) =
      Inr (hex_encode (hasher_finalize sha (hasher_update sha (hasher_new sha) bs)))"
    using assms(1,4) by (simp add: build_hash_def hash_file_def hash_loop_ok)
  with digest hex show ?thesis by (simp add: check_iff)
qed

text \<open>
  A timestamp satisfies the protocol's check of a datetime, when the clock's time is rendered
  as its format description says, and also when the formatting fails.
\<close>

lemma now_iso_is_a_datetime:
  assumes "format TIMESTAMP t \<in>
      {None, Some (padded 4 year @ ''-'' @ padded 2 month @ ''-'' @ padded 2 day @ ''T'' @ padded 2 hour @
        '':'' @ padded 2 minute @ '':'' @ padded 2 second @ ''.'' @ padded 3 milli @ ''Z'')}"
    and "year < 10000" "month \<le> 12" "day \<le> 31" "hour < 24" "minute < 60" "second < 60" "milli < 1000"
  shows "is_ok (check_datetime (now_iso format t) path) \<and> length (now_iso format t) = 24 \<and>
    CHR 0x00 \<notin> set (now_iso format t)"
proof (cases "format TIMESTAMP t")
  case None
  have "is_ok (check_datetime ''1970-01-01T00:00:00.000Z'' path)"
    using datetime_shape [of "''1970''" "''01''" "''01''" "''00''" "''00''" "''00''" "''.000Z''" path]
    by (simp add: is_ascii_digit_def code_def)
  with None show ?thesis by (simp add: now_iso_def)
next
  case (Some stamp)
  have widths: "length (padded 4 year) = 4" "length (padded 3 milli) = 3" "n < 100 \<Longrightarrow> length (padded 2 n) = 2" for n
    using assms(2,8) by (simp_all add: length_padded)
  have now: "now_iso format t = padded 4 year @ ''-'' @ padded 2 month @ ''-'' @ padded 2 day @ ''T'' @ padded 2 hour @
        '':'' @ padded 2 minute @ '':'' @ padded 2 second @ ''.'' @ padded 3 milli @ ''Z''"
    using Some assms(1) by (simp add: now_iso_def)
  have "is_ok (check_datetime (now_iso format t) path)"
    unfolding now by (rule datetime_shape) (use assms(3-7) in \<open>simp_all add: widths padded_digits\<close>)
  moreover have "length (now_iso format t) = 24" "CHR 0x00 \<notin> set (now_iso format t)"
    using assms(3-7) by (simp_all add: now widths padded_no_nul)
  ultimately show ?thesis by blast
qed

section \<open>An instance\<close>

lemma build_hash_of_contents_witness:
  "build_hash \<lparr>hasher_new = 0 :: nat, hasher_update = (\<lambda>h bs. h + length bs),
       hasher_finalize = (\<lambda>h. replicate 32 (word_of_nat h))\<rparr>
     (\<lambda>bs. replicate (2 * length bs) (CHR ''a''))
     (\<lambda>_. Inr \<lparr>contents = [1, 2, 3], wanted = (\<lambda>_. 2), fails_with = (\<lambda>_. None)\<rparr>) (Inr ''fiveprotect.exe'') =
   Inr (replicate 64 (CHR ''a''))"
proof -
  let ?sha = "\<lparr>hasher_new = 0 :: nat, hasher_update = (\<lambda>h bs. h + length bs),
       hasher_finalize = (\<lambda>h. replicate 32 (word_of_nat h))\<rparr>"
  have "streams ?sha" by (simp add: streams_def)
  from build_hash_of_contents [OF this, of "\<lambda>bs. replicate (2 * length bs) (CHR ''a'')"
      "\<lambda>_. Inr \<lparr>contents = [1, 2, 3], wanted = (\<lambda>_. 2), fails_with = (\<lambda>_. None)\<rparr>" "''fiveprotect.exe''"
      "[1, 2, 3]" "\<lambda>_. 2" "[]"]
  show ?thesis by (simp add: list_all_iff is_ascii_hexdigit_def code_def)
qed

lemma now_iso_is_a_datetime_witness:
  "is_ok (check_datetime (now_iso (\<lambda>_ _. Some (padded 4 2025 @ ''-'' @ padded 2 3 @ ''-'' @ padded 2 9 @ ''T'' @
     padded 2 7 @ '':'' @ padded 2 5 @ '':'' @ padded 2 0 @ ''.'' @ padded 3 42 @ ''Z'')) ()) ''collectedAt'')"
  using now_iso_is_a_datetime [of "\<lambda>_ _. Some (padded 4 2025 @ ''-'' @ padded 2 3 @ ''-'' @ padded 2 9 @ ''T'' @
     padded 2 7 @ '':'' @ padded 2 5 @ '':'' @ padded 2 0 @ ''.'' @ padded 3 42 @ ''Z'')" "()" 2025 3 9 7 5 0 42]
  by simp

end
