(* ===== verification/Companion.thy ===== *)
theory Companion
  imports Server Worker_Claims Desktop
begin

text \<open>
  The whole program: the threads that \<open>main\<close> and \<open>run_window\<close> of \<open>fiveprotect-companion/src/main.rs\<close>
  start, and the channels between them, as a step relation in which they interleave. One rule is
  one thing one thread does: the endpoint hands on a command, the bridge takes it and gives it on
  as a job, the collector polls, the worker takes a job (or its wait runs out) and carries out one
  action after the other, the view thread wakes the event loop, the loop handles an event, the page
  of the window has been parsed. A channel is the list of what was sent and not received yet. The
  last fields of the state are its history, which no thread reads.
\<close>

section \<open>State\<close>

text \<open>
  What becomes of a view handed to the page: the page takes it; the script runs before the page has
  finished parsing, and its guard (\<open>push_script\<close> of \<open>shell.rs\<close>) drops the view; or the script fails.
\<close>

datatype script_result = PageTook | TooEarly | ScriptError

definition guarded_push :: "bool \<Rightarrow> script_result" where
  "guarded_push parsed = (if parsed then PageTook else TooEarly)"

record 'v wiring =
  self_of :: Worker
  parsers_of :: "'v parsers"
  command_from_str :: from_str_command
  ack_to_string :: "LocalAttestAck \<Rightarrow> string option"
  allowed_of :: "string list"
  collector_client :: Client
  json_from_str :: "string \<Rightarrow> 'v option"
  command_field :: "'v \<Rightarrow> string option"

record ('v, 'p) companion =
  command_queue :: "LocalAttestCommand list"
  bridge_up :: bool
  bridge_hand :: "LocalAttestCommand option"
  job_queue :: "Job list"
  jobs_open :: bool
  worker_at :: "bool \<times> worker_state"
  to_do :: "action list"
  signalled :: bool
  collecting :: bool
  view_queue :: "WindowView list"
  view_hand :: "WindowView option"
  events :: "'p tao_event list"
  desk :: desktop
  page_parsed :: bool
  quitting :: bool
  withdrawn :: bool
  commands_accepted :: "LocalAttestCommand list"
  nonces_polled :: "Pending list"
  polls_posted :: "(string \<times> body) list"
  menu_commands :: "string option list"
  jobs_queued :: "Job list"
  jobs_taken :: "Job list"
  turns :: "'v env list"
  acted :: "action list"
  scripts_run :: "(WindowView \<times> script_result) list"

text \<open>The views the page was given.\<close>

definition took :: "(WindowView \<times> script_result) list \<Rightarrow> WindowView list" where
  "took rs = map fst (filter (\<lambda>(_, r). r = PageTook) rs)"

definition scripted :: "('v, 'p) companion \<Rightarrow> WindowView list" where
  "scripted s = took (scripts_run s)"

section \<open>What a thread does\<close>

text \<open>\<open>Sender::send\<close> on the job channel; it fails when the worker's end is gone.\<close>

definition send_job :: "Job \<Rightarrow> ('v, 'p) companion \<Rightarrow> ('v, 'p) companion" where
  "send_job j s =
     (if jobs_open s then s\<lparr>job_queue := job_queue s @ [j], jobs_queued := jobs_queued s @ [j]\<rparr> else s)"

definition perform :: "action \<Rightarrow> ('v, 'p) companion \<Rightarrow> ('v, 'p) companion" where
  "perform a s = (let s = s\<lparr>acted := acted s @ [a]\<rparr> in
     case a of
       Publish v \<Rightarrow> s\<lparr>view_queue := view_queue s @ [v]\<rparr>
     | Signal t \<Rightarrow> s\<lparr>signalled := True\<rparr>
     | _ \<Rightarrow> s)"

definition apply_effect :: "effect \<Rightarrow> ('v, 'p) companion \<Rightarrow> ('v, 'p) companion" where
  "apply_effect e s =
     (case e of
        Scripted v \<Rightarrow> s\<lparr>scripts_run := scripts_run s @ [(v, guarded_push (page_parsed s))]\<rparr>
      | ScriptFailed v \<Rightarrow> s\<lparr>scripts_run := scripts_run s @ [(v, ScriptError)]\<rparr>
      | Queued j \<Rightarrow> send_job j s
      | WithdrewPort \<Rightarrow> s\<lparr>withdrawn := True\<rparr>
      | _ \<Rightarrow> s)"

definition collected :: "Pending list \<Rightarrow> collector_action list \<Rightarrow> Pending list" where
  "collected ps acts = ps @ List.map_filter (\<lambda>a. case a of Sent (Collected p) \<Rightarrow> Some p | _ \<Rightarrow> None) acts"

definition jobs_sent :: "collector_action list \<Rightarrow> Job list" where
  "jobs_sent acts = List.map_filter (\<lambda>a. case a of Sent j \<Rightarrow> Some j | _ \<Rightarrow> None) acts"

text \<open>The request of a poll, \<open>poll_pending\<close> of \<open>backend.rs\<close>.\<close>

definition poll_post :: "Client \<Rightarrow> string \<times> body" where
  "poll_post client = (base_url client @ ''/v1/companion/pending'',
     PollBody (poll_request client (i64_from_u32 COMPANION_POLL_TIMEOUT_SECONDS)))"

inductive thread_step :: "'v wiring \<Rightarrow> ('v, 'p) companion \<Rightarrow> ('v, 'p) companion \<Rightarrow> bool"
  for w :: "'v wiring" where
  endpoint_serves:
    "fst (serve_one (command_from_str w) (ack_to_string w) cloned stream (allowed_of w) (wk_version (self_of w))) = Some c \<Longrightarrow>
     thread_step w s (s\<lparr>command_queue := (if bridge_up s then command_queue s @ [c] else []),
       commands_accepted := commands_accepted s @ [c]\<rparr>)"
| bridge_takes:
    "bridge_up s \<Longrightarrow> bridge_hand s = None \<Longrightarrow> command_queue s = c # cs \<Longrightarrow>
     thread_step w s (s\<lparr>command_queue := cs, bridge_hand := Some c\<rparr>)"
| bridge_gives:
    "bridge_hand s = Some c \<Longrightarrow> jobs_open s \<Longrightarrow>
     thread_step w s ((send_job (Local c) s)\<lparr>bridge_hand := None\<rparr>)"
| bridge_returns:
    "bridge_hand s = Some c \<Longrightarrow> \<not> jobs_open s \<Longrightarrow>
     thread_step w s (s\<lparr>bridge_up := False, bridge_hand := None, command_queue := []\<rparr>)"
| collector_polls:
    "collecting s \<Longrightarrow>
     collect_turn (serde_of (parsers_of w)) answer (collector_client w) (jobs_open s) = (go_on, acts) \<Longrightarrow>
     thread_step w s ((fold send_job (jobs_sent acts) s)\<lparr>collecting := go_on,
       nonces_polled := collected (nonces_polled s) acts,
       polls_posted := polls_posted s @ [poll_post (collector_client w)]\<rparr>)"
| worker_takes:
    "fst (worker_at s) \<Longrightarrow> to_do s = [] \<Longrightarrow> job_queue s = j # js \<Longrightarrow> received env = Got j \<Longrightarrow>
     thread_step w s (s\<lparr>job_queue := js, jobs_taken := jobs_taken s @ [j],
       turns := turns s @ [env],
       worker_at := worker_step (self_of w) (parsers_of w) (worker_at s) env,
       to_do := worker_out (self_of w) (parsers_of w) (worker_at s) env\<rparr>)"
| worker_waited:
    "fst (worker_at s) \<Longrightarrow> to_do s = [] \<Longrightarrow> job_queue s = [] \<Longrightarrow> received env = TimedOut \<Longrightarrow>
     thread_step w s (s\<lparr>turns := turns s @ [env], worker_at := worker_step (self_of w) (parsers_of w) (worker_at s) env,
       to_do := worker_out (self_of w) (parsers_of w) (worker_at s) env\<rparr>)"
| worker_acts:
    "to_do s = a # as \<Longrightarrow> thread_step w s (perform a (s\<lparr>to_do := as\<rparr>))"
| worker_returns:
    "\<not> fst (worker_at s) \<Longrightarrow> to_do s = [] \<Longrightarrow>
     thread_step w s (s\<lparr>jobs_open := False, job_queue := []\<rparr>)"
| views_takes:
    "view_hand s = None \<Longrightarrow> view_queue s = v # vs \<Longrightarrow>
     thread_step w s (s\<lparr>view_queue := vs, view_hand := Some v\<rparr>)"
| views_gives:
    "view_hand s = Some v \<Longrightarrow>
     thread_step w s (s\<lparr>view_hand := None, events := events s @ [UserEvent (View v)]\<rparr>)"
| page_parses:
    "thread_step w s (s\<lparr>page_parsed := True\<rparr>)"
| page_message:
    "\<not> quitting s \<Longrightarrow> handled = page_ipc export (command_of (json_from_str w) (command_field w) body) \<Longrightarrow>
     thread_step w s (fold apply_effect (snd handled) (s\<lparr>events := events s @ map UserEvent (fst handled)\<rparr>))"
| menu_message:
    "\<not> quitting s \<Longrightarrow> menu_shown (desk s) \<noteq> None \<Longrightarrow>
     thread_step w s (s\<lparr>events := events s @
       map UserEvent (menu_ipc (command_of (json_from_str w) (command_field w) body)),
       menu_commands := menu_commands s @ [command_of (json_from_str w) (command_field w) body]\<rparr>)"
| tray_clicked:
    "thread_step w s (s\<lparr>events := events s @ map UserEvent (tray_click button x y)\<rparr>)"
| window_event:
    "\<not> quitting s \<Longrightarrow> e = (CloseRequested :: 'p tao_event) \<or> e = OtherEvent \<Longrightarrow>
     thread_step w s (s\<lparr>desk := fst (on_event evaluate (desk s) e)\<rparr>)"
| loop_handles:
    "\<not> quitting s \<Longrightarrow> events s = e # es \<Longrightarrow> e \<noteq> UserEvent Quit \<Longrightarrow>
     thread_step w s (fold apply_effect (snd (on_event evaluate (desk s) e))
       (s\<lparr>events := es, desk := fst (on_event evaluate (desk s) e)\<rparr>))"
| loop_quits:
    "\<not> quitting s \<Longrightarrow> events s = UserEvent Quit # es \<Longrightarrow>
     thread_step w s ((send_job (Shutdown 0) s)\<lparr>events := es, quitting := True\<rparr>)"
| loop_exits:
    "quitting s \<Longrightarrow> thread_step w s (s\<lparr>desk := (desk s)\<lparr>exited := True\<rparr>, withdrawn := True\<rparr>)"

text \<open>Nothing happens in a process that has exited.\<close>

definition companion_step :: "'v wiring \<Rightarrow> ('v, 'p) companion \<Rightarrow> ('v, 'p) companion \<Rightarrow> bool" where
  "companion_step w s t \<longleftrightarrow> \<not> exited (desk s) \<and> thread_step w s t"

text \<open>
  All threads started; the worker has looked for the game and is about to publish its first view.
\<close>

definition companion_start :: "'v wiring \<Rightarrow> 'v env \<Rightarrow> bool option \<Rightarrow> ('v, 'p) companion" where
  "companion_start w env0 menu =
     \<lparr>command_queue = [], bridge_up = True, bridge_hand = None, job_queue = [], jobs_open = True,
      worker_at = (True, start_state (self_of w) (parsers_of w) env0),
      to_do = [Publish (publish (self_of w) (shown (start_state (self_of w) (parsers_of w) env0)))],
      signalled = False, collecting = True, view_queue = [], view_hand = None, events = [],
      desk = desktop_start menu, page_parsed = False, quitting = False, withdrawn = False,
      commands_accepted = [], nonces_polled = [], polls_posted = [], menu_commands = [], jobs_queued = [],
      jobs_taken = [], turns = [], acted = [], scripts_run = []\<rparr>"

definition started :: "'v wiring \<Rightarrow> 'v env \<Rightarrow> ('v, 'p) companion \<Rightarrow> bool" where
  "started w env0 s \<longleftrightarrow> (\<exists>window_built webview_built. s = companion_start w env0 (menu_window window_built webview_built))"

end
