(* ===== verification/Companion_Properties.thy ===== *)
theory Companion_Properties
  imports Companion "HOL-Library.Sublist"
begin

text \<open>
  What holds in every state the companion's threads can reach, whatever their interleaving and
  whatever the world answers. Invariants of the step relation are proved rule by rule, as
  interpretations of \<open>inductive_invariant\<close>: the worker's part of the program is a run of its loop
  (\<open>traced\<close>), the job channel keeps what was sent in order (\<open>fifo\<close>), so do commands (\<open>in_order\<close>),
  jobs have a cause (\<open>caused\<close>), every view is handed to the page once and in order, and lost there only
  before the page was parsed or when the script fails (\<open>views_ok\<close>), and every poll is the same
  request (\<open>polls_ok\<close>).
\<close>

section \<open>The fields an operation leaves alone\<close>

lemma send_job_simps [simp]:
  "command_queue (send_job j s) = command_queue s" "bridge_up (send_job j s) = bridge_up s"
  "bridge_hand (send_job j s) = bridge_hand s" "jobs_open (send_job j s) = jobs_open s"
  "worker_at (send_job j s) = worker_at s" "to_do (send_job j s) = to_do s"
  "signalled (send_job j s) = signalled s" "collecting (send_job j s) = collecting s"
  "view_queue (send_job j s) = view_queue s" "view_hand (send_job j s) = view_hand s"
  "events (send_job j s) = events s" "desk (send_job j s) = desk s" "quitting (send_job j s) = quitting s"
  "withdrawn (send_job j s) = withdrawn s" "commands_accepted (send_job j s) = commands_accepted s"
  "nonces_polled (send_job j s) = nonces_polled s" "menu_commands (send_job j s) = menu_commands s"
  "jobs_taken (send_job j s) = jobs_taken s" "turns (send_job j s) = turns s" "acted (send_job j s) = acted s"
  "scripts_run (send_job j s) = scripts_run s" "page_parsed (send_job j s) = page_parsed s"
  "polls_posted (send_job j s) = polls_posted s"
  "job_queue (send_job j s) = job_queue s @ (if jobs_open s then [j] else [])"
  "jobs_queued (send_job j s) = jobs_queued s @ (if jobs_open s then [j] else [])"
  by (simp_all add: send_job_def)

lemma fold_send_job [simp]:
  "command_queue (fold send_job js s) = command_queue s" "bridge_up (fold send_job js s) = bridge_up s"
  "bridge_hand (fold send_job js s) = bridge_hand s" "jobs_open (fold send_job js s) = jobs_open s"
  "worker_at (fold send_job js s) = worker_at s" "to_do (fold send_job js s) = to_do s"
  "view_queue (fold send_job js s) = view_queue s" "view_hand (fold send_job js s) = view_hand s"
  "events (fold send_job js s) = events s" "desk (fold send_job js s) = desk s"
  "quitting (fold send_job js s) = quitting s" "commands_accepted (fold send_job js s) = commands_accepted s"
  "nonces_polled (fold send_job js s) = nonces_polled s" "menu_commands (fold send_job js s) = menu_commands s"
  "jobs_taken (fold send_job js s) = jobs_taken s" "turns (fold send_job js s) = turns s" "acted (fold send_job js s) = acted s"
  "scripts_run (fold send_job js s) = scripts_run s" "page_parsed (fold send_job js s) = page_parsed s"
  "polls_posted (fold send_job js s) = polls_posted s" "signalled (fold send_job js s) = signalled s" "withdrawn (fold send_job js s) = withdrawn s"
  "job_queue (fold send_job js s) = job_queue s @ (if jobs_open s then js else [])"
  "jobs_queued (fold send_job js s) = jobs_queued s @ (if jobs_open s then js else [])"
  by (induction js arbitrary: s) simp_all

definition queued :: "effect list \<Rightarrow> Job list" where
  "queued effs = List.map_filter (\<lambda>e. case e of Queued j \<Rightarrow> Some j | _ \<Rightarrow> None) effs"

definition scripts :: "bool \<Rightarrow> effect list \<Rightarrow> (WindowView \<times> script_result) list" where
  "scripts parsed effs = List.map_filter (\<lambda>e. case e of
     Scripted v \<Rightarrow> Some (v, guarded_push parsed) | ScriptFailed v \<Rightarrow> Some (v, ScriptError) | _ \<Rightarrow> None) effs"

lemma effect_lists [simp]:
  "queued [] = []" "scripts b [] = []"
  "queued (e # es) = (case e of Queued j \<Rightarrow> [j] | _ \<Rightarrow> []) @ queued es"
  "scripts b (e # es) = (case e of Scripted v \<Rightarrow> [(v, guarded_push b)] | ScriptFailed v \<Rightarrow> [(v, ScriptError)] | _ \<Rightarrow> []) @
     scripts b es"
  by (simp_all add: queued_def scripts_def map_filter_simps split: effect.split)

lemma apply_effect_simps [simp]:
  "command_queue (apply_effect e s) = command_queue s" "bridge_up (apply_effect e s) = bridge_up s"
  "bridge_hand (apply_effect e s) = bridge_hand s" "jobs_open (apply_effect e s) = jobs_open s"
  "worker_at (apply_effect e s) = worker_at s" "to_do (apply_effect e s) = to_do s"
  "view_queue (apply_effect e s) = view_queue s" "view_hand (apply_effect e s) = view_hand s"
  "events (apply_effect e s) = events s" "desk (apply_effect e s) = desk s"
  "quitting (apply_effect e s) = quitting s" "commands_accepted (apply_effect e s) = commands_accepted s"
  "nonces_polled (apply_effect e s) = nonces_polled s" "menu_commands (apply_effect e s) = menu_commands s"
  "jobs_taken (apply_effect e s) = jobs_taken s" "turns (apply_effect e s) = turns s" "acted (apply_effect e s) = acted s"
  "signalled (apply_effect e s) = signalled s" "page_parsed (apply_effect e s) = page_parsed s"
  "polls_posted (apply_effect e s) = polls_posted s"
  "scripts_run (apply_effect e s) = scripts_run s @ scripts (page_parsed s) [e]"
  "jobs_queued (apply_effect e s) = jobs_queued s @ (if jobs_open s then queued [e] else [])"
  "job_queue (apply_effect e s) = job_queue s @ (if jobs_open s then queued [e] else [])"
  by (simp_all add: apply_effect_def split: effect.split)

lemma fold_apply_effect [simp]:
  "command_queue (fold apply_effect es s) = command_queue s" "bridge_up (fold apply_effect es s) = bridge_up s"
  "bridge_hand (fold apply_effect es s) = bridge_hand s" "jobs_open (fold apply_effect es s) = jobs_open s"
  "worker_at (fold apply_effect es s) = worker_at s" "to_do (fold apply_effect es s) = to_do s"
  "view_queue (fold apply_effect es s) = view_queue s" "view_hand (fold apply_effect es s) = view_hand s"
  "events (fold apply_effect es s) = events s" "desk (fold apply_effect es s) = desk s"
  "quitting (fold apply_effect es s) = quitting s" "commands_accepted (fold apply_effect es s) = commands_accepted s"
  "nonces_polled (fold apply_effect es s) = nonces_polled s" "menu_commands (fold apply_effect es s) = menu_commands s"
  "jobs_taken (fold apply_effect es s) = jobs_taken s" "turns (fold apply_effect es s) = turns s" "acted (fold apply_effect es s) = acted s"
  "signalled (fold apply_effect es s) = signalled s" "page_parsed (fold apply_effect es s) = page_parsed s"
  "polls_posted (fold apply_effect es s) = polls_posted s"
  by (induction es arbitrary: s) simp_all

lemma fold_apply_effect_more [simp]:
  "scripts_run (fold apply_effect es s) = scripts_run s @ scripts (page_parsed s) es"
  "job_queue (fold apply_effect es s) = job_queue s @ (if jobs_open s then queued es else [])"
  "jobs_queued (fold apply_effect es s) = jobs_queued s @ (if jobs_open s then queued es else [])"
  by (induction es arbitrary: s) (simp_all split: effect.splits)

lemma perform_simps [simp]:
  "command_queue (perform a s) = command_queue s" "bridge_up (perform a s) = bridge_up s"
  "bridge_hand (perform a s) = bridge_hand s" "jobs_open (perform a s) = jobs_open s"
  "job_queue (perform a s) = job_queue s"
  "worker_at (perform a s) = worker_at s" "to_do (perform a s) = to_do s"
  "view_hand (perform a s) = view_hand s" "events (perform a s) = events s" "desk (perform a s) = desk s"
  "quitting (perform a s) = quitting s" "withdrawn (perform a s) = withdrawn s"
  "collecting (perform a s) = collecting s" "commands_accepted (perform a s) = commands_accepted s"
  "nonces_polled (perform a s) = nonces_polled s" "menu_commands (perform a s) = menu_commands s"
  "jobs_taken (perform a s) = jobs_taken s" "turns (perform a s) = turns s" "scripts_run (perform a s) = scripts_run s"
  "page_parsed (perform a s) = page_parsed s" "jobs_queued (perform a s) = jobs_queued s"
  "polls_posted (perform a s) = polls_posted s"
  "acted (perform a s) = acted s @ [a]"
  "view_queue (perform a s) = view_queue s @ published [a]"
  "signalled (perform a s) \<longleftrightarrow> signalled s \<or> (\<exists>t. a = Signal t)"
  by (simp_all add: perform_def published_def map_filter_simps Let_def split: action.split)

text \<open>What the pages and the loop can queue or script.\<close>

lemma page_queued: "queued (snd (page_ipc x c)) = (if c = Some ''recheck'' then [Recheck] else [])"
  by (simp add: page_ipc_def)

lemma page_scripts: "scripts b (snd (page_ipc x c)) = []"
  by (simp add: page_ipc_def)

lemma page_wakes: "set (fst (page_ipc x c)) \<subseteq> {HideWindow}"
  by (simp add: page_ipc_def)

lemma loop_queued: "e \<noteq> UserEvent Quit \<Longrightarrow> set (queued (snd (on_event ev d e))) \<subseteq> {Recheck}"
  by (auto simp: on_event_def split: tao_event.splits Wake.splits option.splits)

lemma loop_scripts:
  "\<not> exited d \<Longrightarrow> scripts b (snd (on_event ev d e)) =
     (case e of UserEvent (View v) \<Rightarrow> [(v, if ev v = None then guarded_push b else ScriptError)] | _ \<Rightarrow> [])"
  by (auto simp: on_event_def split: tao_event.splits Wake.splits option.splits)

lemma loop_exited: "e \<noteq> UserEvent Quit \<Longrightarrow> exited (fst (on_event ev d e)) = exited d"
  by (auto simp: on_event_def hide_menu_def split: tao_event.splits Wake.splits option.splits)

text \<open>
  The two steps in which the loop quits, asking the worker and then leaving, do together what
  the event does in the loop's own model.
\<close>

lemma quit_in_two_steps:
  "\<not> exited (desk s) \<Longrightarrow>
   fold apply_effect (snd (on_event ev (desk s) (UserEvent Quit))) (s\<lparr>desk := fst (on_event ev (desk s) (UserEvent Quit))\<rparr>) =
   (send_job (Shutdown 0) s)\<lparr>desk := (desk s)\<lparr>exited := True\<rparr>, withdrawn := True\<rparr>"
  by (simp add: on_event_def apply_effect_def send_job_def)

section \<open>The worker's part is a run of its loop\<close>

definition jobs_of :: "'v env list \<Rightarrow> Job list" where
  "jobs_of envs = List.map_filter (\<lambda>env. case received env of Got j \<Rightarrow> Some j | _ \<Rightarrow> None) envs"

definition first_view :: "'v wiring \<Rightarrow> 'v env \<Rightarrow> WindowView" where
  "first_view w env0 = publish (self_of w) (shown (start_state (self_of w) (parsers_of w) env0))"

definition worker_run :: "'v wiring \<Rightarrow> 'v env \<Rightarrow> 'v env list \<Rightarrow> bool \<times> worker_state" where
  "worker_run w env0 envs = run (worker_step (self_of w) (parsers_of w))
     (True, start_state (self_of w) (parsers_of w) env0) envs"

definition worker_acts :: "'v wiring \<Rightarrow> 'v env \<Rightarrow> 'v env list \<Rightarrow> action list" where
  "worker_acts w env0 envs = outputs (worker_step (self_of w) (parsers_of w)) (worker_out (self_of w) (parsers_of w))
     (True, start_state (self_of w) (parsers_of w) env0) envs"

definition traced :: "'v wiring \<Rightarrow> 'v env \<Rightarrow> ('v, 'p) companion \<Rightarrow> bool" where
  "traced w env0 s \<longleftrightarrow> worker_at s = worker_run w env0 (turns s) \<and>
     acted s @ to_do s = Publish (first_view w env0) # worker_acts w env0 (turns s) \<and>
     jobs_taken s = jobs_of (turns s) \<and>
     (signalled s \<longleftrightarrow> (\<exists>t. Signal t \<in> set (acted s)))"

lemma worker_run_snoc:
  "worker_run w env0 (envs @ [env]) =
     worker_step (self_of w) (parsers_of w) (worker_run w env0 envs) env"
  "worker_acts w env0 (envs @ [env]) =
     worker_acts w env0 envs @ worker_out (self_of w) (parsers_of w) (worker_run w env0 envs) env"
  by (simp_all add: worker_run_def worker_acts_def outputs_append)

lemma jobs_of_snoc:
  "jobs_of (envs @ [env]) = jobs_of envs @ (case received env of Got j \<Rightarrow> [j] | _ \<Rightarrow> [])"
  by (simp add: jobs_of_def map_filter_def split: received.split)

lemma thread_step_traced:
  assumes "thread_step w s t" and "traced w env0 s"
  shows "traced w env0 t"
  using assms by cases (auto simp: traced_def worker_run_snoc jobs_of_snoc)

interpretation trace: inductive_invariant "started (w :: 'v wiring) env0" "companion_step w" "traced w env0"
proof
  fix s :: "('v, 'p) companion"
  assume "started w env0 s"
  then show "traced w env0 s"
    by (auto simp: traced_def started_def companion_start_def worker_run_def worker_acts_def jobs_of_def first_view_def map_filter_def)
qed (auto simp: companion_step_def intro: thread_step_traced)

section \<open>The job channel\<close>

text \<open>
  What was sent is what was taken and what is waiting, in this order, until the worker has returned.
\<close>

definition fifo :: "('v, 'p) companion \<Rightarrow> bool" where
  "fifo s \<longleftrightarrow> prefix (jobs_taken s) (jobs_queued s) \<and>
     (if jobs_open s then jobs_queued s = jobs_taken s @ job_queue s else \<not> fst (worker_at s))"

lemma thread_step_fifo:
  assumes "thread_step w s t" and "fifo s"
  shows "fifo t"
  using assms
  by cases (auto simp: fifo_def worker_step_def split: if_splits option.splits)

interpretation channel: inductive_invariant "started (w :: 'v wiring) env0" "companion_step w" fifo
proof
  show "started w env0 s \<Longrightarrow> fifo s" for s :: "('v, 'p) companion"
    by (auto simp: started_def companion_start_def fifo_def)
qed (auto simp: companion_step_def intro: thread_step_fifo)

text \<open>The worker only ends by a shutdown.\<close>

definition ends_by_shutdown :: "('v, 'p) companion \<Rightarrow> bool" where
  "ends_by_shutdown s \<longleftrightarrow> fst (worker_at s) \<or> (\<exists>t. Shutdown t \<in> set (jobs_taken s))"

lemma thread_step_ends:
  assumes "thread_step w s t" and "ends_by_shutdown s"
  shows "ends_by_shutdown t"
  using assms(1)
proof cases
  case (worker_takes j js env)
  with assms(2) show ?thesis
    by (cases "worker_at s"; cases j)
      (auto simp: ends_by_shutdown_def worker_step_def iterate_def job_nonce_def split: prod.splits if_splits)
next
  case (worker_waited env)
  with assms(2) show ?thesis
    by (cases "worker_at s") (auto simp: ends_by_shutdown_def worker_step_def iterate_def split: prod.splits)
qed (use assms(2) in \<open>auto simp: ends_by_shutdown_def\<close>)

interpretation ending: inductive_invariant "started (w :: 'v wiring) env0" "companion_step w" ends_by_shutdown
proof
  show "started w env0 s \<Longrightarrow> ends_by_shutdown s" for s :: "('v, 'p) companion"
    by (auto simp: started_def companion_start_def ends_by_shutdown_def)
qed (auto simp: companion_step_def intro: thread_step_ends)

section \<open>Polls\<close>

text \<open>
  A poll looks at the answer to one request only: \<open>poll_post\<close> is what it posts.
\<close>

lemma poll_pending_posts:
  "case_prod answer (poll_post client) = case_prod answer' (poll_post client) \<Longrightarrow>
   collect_turn sd answer client alive = collect_turn sd answer' client alive"
  by (simp add: collect_turn_def poll_pending_def poll_post_def post_def post_raw_def Let_def)

definition polls_ok :: "'v wiring \<Rightarrow> ('v, 'p) companion \<Rightarrow> bool" where
  "polls_ok w s \<longleftrightarrow> set (polls_posted s) \<subseteq> {poll_post (collector_client w)}"

lemma thread_step_polls: "thread_step w s t \<Longrightarrow> polls_ok w s \<Longrightarrow> polls_ok w t"
  by (induction rule: thread_step.induct) (auto simp: polls_ok_def)

interpretation polls: inductive_invariant "started (w :: 'v wiring) env0" "companion_step w" "polls_ok w"
proof
  show "started w env0 s \<Longrightarrow> polls_ok w s" for s :: "('v, 'p) companion"
    by (auto simp: started_def companion_start_def polls_ok_def)
qed (auto simp: companion_step_def intro: thread_step_polls)

section \<open>Commands keep their order\<close>

definition local_commands :: "Job list \<Rightarrow> LocalAttestCommand list" where
  "local_commands js = List.map_filter (\<lambda>j. case j of Local c \<Rightarrow> Some c | _ \<Rightarrow> None) js"

lemma local_commands_simps [simp]:
  "local_commands [] = []" "local_commands (js @ ks) = local_commands js @ local_commands ks"
  "local_commands (j # js) = (case j of Local c \<Rightarrow> [c] | _ \<Rightarrow> []) @ local_commands js"
  by (simp_all add: local_commands_def map_filter_def split: Job.split)

lemma in_local_commands: "c \<in> set (local_commands js) \<longleftrightarrow> Local c \<in> set js"
  by (induction js) (auto split: Job.splits)

lemma local_commands_none: "\<forall>j\<in>set js. \<forall>c. j \<noteq> Local c \<Longrightarrow> local_commands js = []"
  by (induction js) (auto split: Job.splits)

lemma collector_not_local:
  "collect_turn sd sj client alive = (go_on, acts) \<Longrightarrow> local_commands (jobs_sent acts) = []"
  by (auto simp: collect_turn_def jobs_sent_def map_filter_def split: sum.splits option.splits if_splits)

lemma page_effects: "set (queued (snd (page_ipc x c))) \<subseteq> {Recheck}"
  by (auto simp: page_queued)

lemma effects_not_local: "set (queued effs) \<subseteq> {Recheck} \<Longrightarrow> local_commands (queued effs) = []"
  by (intro local_commands_none) auto

fun in_hand :: "'a option \<Rightarrow> 'a list" where
  "in_hand None = []"
| "in_hand (Some x) = [x]"

definition in_order :: "('v, 'p) companion \<Rightarrow> bool" where
  "in_order s \<longleftrightarrow>
     prefix (local_commands (jobs_taken s)) (commands_accepted s) \<and>
     (if jobs_open s
      then bridge_up s \<and> commands_accepted s =
        local_commands (jobs_taken s) @ local_commands (job_queue s) @ in_hand (bridge_hand s) @ command_queue s
      else \<not> fst (worker_at s))"

lemma thread_step_in_order:
  assumes "thread_step w s t" and "in_order s"
  shows "in_order t"
  using assms(1)
proof cases
  case (collector_polls answer go_on acts)
  with assms(2) collector_not_local show ?thesis by (auto simp: in_order_def)
next
  case (page_message handled export body)
  then have "local_commands (queued (snd handled)) = []" using effects_not_local page_effects by blast
  with page_message assms(2) show ?thesis by (auto simp: in_order_def)
next
  case (loop_handles e es evaluate)
  then have "local_commands (queued (snd (on_event evaluate (desk s) e))) = []"
    using effects_not_local loop_queued by blast
  with loop_handles assms(2) show ?thesis by (auto simp: in_order_def)
qed (use assms(2) in \<open>auto simp: in_order_def worker_step_def split: if_splits Job.splits option.splits\<close>)

interpretation order: inductive_invariant "started (w :: 'v wiring) env0" "companion_step w" in_order
proof
  show "started w env0 s \<Longrightarrow> in_order s" for s :: "('v, 'p) companion"
    by (auto simp: started_def companion_start_def in_order_def)
qed (auto simp: companion_step_def intro: thread_step_in_order)

section \<open>Every job has a cause\<close>

definition pendings :: "Job list \<Rightarrow> Pending list" where
  "pendings js = List.map_filter (\<lambda>j. case j of Collected p \<Rightarrow> Some p | _ \<Rightarrow> None) js"

definition shutdowns :: "Job list \<Rightarrow> nat list" where
  "shutdowns js = List.map_filter (\<lambda>j. case j of Shutdown t \<Rightarrow> Some t | _ \<Rightarrow> None) js"

lemma job_lists [simp]:
  "pendings [] = []" "shutdowns [] = []"
  "pendings (js @ ks) = pendings js @ pendings ks" "shutdowns (js @ ks) = shutdowns js @ shutdowns ks"
  "pendings (j # js) = (case j of Collected p \<Rightarrow> [p] | _ \<Rightarrow> []) @ pendings js"
  "shutdowns (j # js) = (case j of Shutdown t \<Rightarrow> [t] | _ \<Rightarrow> []) @ shutdowns js"
  by (simp_all add: pendings_def shutdowns_def map_filter_def split: Job.split)

lemma in_job_lists:
  "p \<in> set (pendings js) \<longleftrightarrow> Collected p \<in> set js" "t \<in> set (shutdowns js) \<longleftrightarrow> Shutdown t \<in> set js"
  by (induction js; auto split: Job.splits)+

lemma only_rechecks: "set js \<subseteq> {Recheck} \<Longrightarrow> pendings js = [] \<and> shutdowns js = []"
  by (induction js) auto

lemma collector_jobs:
  "collect_turn sd sj client alive = (go_on, acts) \<Longrightarrow>
   shutdowns (jobs_sent acts) = [] \<and> collected ps acts = ps @ pendings (jobs_sent acts) \<and>
   (\<forall>p\<in>set (pendings (jobs_sent acts)).
      poll_pending sd sj client (i64_from_u32 COMPANION_POLL_TIMEOUT_SECONDS) = Inr (Some p))"
  by (auto simp: collect_turn_def jobs_sent_def collected_def map_filter_def
      split: sum.splits option.splits if_splits)

definition quit_caused :: "('v, 'p) companion \<Rightarrow> bool" where
  "quit_caused s \<longleftrightarrow>
     (if quitting s \<or> UserEvent Quit \<in> set (events s) then Some ''quit'' \<in> set (menu_commands s) else True) \<and>
     (if exited (desk s) then quitting s \<and> withdrawn s else True)"

definition command_from :: "'v wiring \<Rightarrow> LocalAttestCommand \<Rightarrow> bool" where
  "command_from w c \<longleftrightarrow> (\<exists>cloned stream.
     fst (serve_one (command_from_str w) (ack_to_string w) cloned stream (allowed_of w) (wk_version (self_of w))) = Some c)"

definition nonce_from :: "'v wiring \<Rightarrow> Pending \<Rightarrow> bool" where
  "nonce_from w p \<longleftrightarrow> (\<exists>answer.
     poll_pending (serde_of (parsers_of w)) answer (collector_client w) (i64_from_u32 COMPANION_POLL_TIMEOUT_SECONDS) =
       Inr (Some p))"

definition caused :: "'v wiring \<Rightarrow> ('v, 'p) companion \<Rightarrow> bool" where
  "caused w s \<longleftrightarrow>
     set (pendings (jobs_taken s @ job_queue s)) \<subseteq> set (nonces_polled s) \<and>
     set (shutdowns (jobs_taken s @ job_queue s)) \<subseteq> (if quitting s then {0} else {}) \<and>
     quit_caused s \<and>
     (\<forall>c\<in>set (commands_accepted s). command_from w c) \<and>
     (\<forall>p\<in>set (nonces_polled s). nonce_from w p)"

lemma menu_quit: "Quit \<in> set (menu_ipc c) \<longleftrightarrow> c = Some ''quit''"
  by (simp add: menu_ipc_def)

lemma thread_step_caused:
  assumes "thread_step w s t" and "caused w s"
  shows "caused w t"
  using assms(1)
proof cases
  case (collector_polls answer go_on acts)
  with assms(2) collector_jobs [OF collector_polls(3), of "nonces_polled s"] show ?thesis
    by (auto simp: caused_def quit_caused_def nonce_from_def split: if_splits)
next
  case (page_message handled export body)
  then have "set (queued (snd handled)) \<subseteq> {Recheck}" "Quit \<notin> set (fst handled)"
    using page_effects page_wakes [of export "command_of (json_from_str w) (command_field w) body"] by auto
  with page_message assms(2) only_rechecks show ?thesis
    by (auto simp: caused_def quit_caused_def split: if_splits)
next
  case (loop_handles e es evaluate)
  then have "set (queued (snd (on_event evaluate (desk s) e))) \<subseteq> {Recheck}"
    "exited (fst (on_event evaluate (desk s) e)) = exited (desk s)"
    using loop_queued loop_exited by blast+
  with loop_handles assms(2) only_rechecks show ?thesis
    by (auto simp: caused_def quit_caused_def split: if_splits)
next
  case (endpoint_serves cloned stream c)
  then have "command_from w c" unfolding command_from_def by blast
  with endpoint_serves assms(2) show ?thesis by (auto simp: caused_def quit_caused_def split: if_splits)
next
  case (tray_clicked button x y)
  then have "Quit \<notin> set (tray_click button x y)" by (cases button) simp_all
  with tray_clicked assms(2) show ?thesis by (auto simp: caused_def quit_caused_def split: if_splits)
next
  case (window_event e evaluate)
  then have "exited (fst (on_event evaluate (desk s) e)) = exited (desk s)" by (intro loop_exited) auto
  with window_event assms(2) show ?thesis by (auto simp: caused_def quit_caused_def split: if_splits)
qed (use assms(2) in \<open>auto simp: caused_def quit_caused_def menu_quit split: if_splits Job.splits\<close>)

interpretation cause: inductive_invariant "started (w :: 'v wiring) env0" "companion_step w" "caused w"
proof
  show "started w env0 s \<Longrightarrow> caused w s" for s :: "('v, 'p) companion"
    by (auto simp: started_def companion_start_def caused_def quit_caused_def)
qed (auto simp: companion_step_def intro: thread_step_caused)

section \<open>Views on their way to the page\<close>

definition views_in :: "'p tao_event list \<Rightarrow> WindowView list" where
  "views_in es = List.map_filter (\<lambda>e. case e of UserEvent (View v) \<Rightarrow> Some v | _ \<Rightarrow> None) es"

lemma views_in_simps [simp]:
  "views_in [] = []" "views_in (es @ fs) = views_in es @ views_in fs"
  "views_in (e # es) = (case e of UserEvent (View v) \<Rightarrow> [v] | _ \<Rightarrow> []) @ views_in es"
  by (simp_all add: views_in_def map_filter_def split: tao_event.split Wake.split)

lemma views_in_none: "(\<And>v. View v \<notin> set ws) \<Longrightarrow> views_in (map UserEvent ws) = []"
  by (induction ws) (auto split: Wake.splits)

text \<open>Once the page has taken a view, none comes too early.\<close>

definition parsed_once :: "script_result list \<Rightarrow> bool" where
  "parsed_once rs = sorted_wrt (\<lambda>r r'. \<not> (r = PageTook \<and> r' = TooEarly)) rs"

definition views_ok :: "('v, 'p) companion \<Rightarrow> bool" where
  "views_ok s \<longleftrightarrow>
     map fst (scripts_run s) @ views_in (events s) @ in_hand (view_hand s) @ view_queue s = published (acted s) \<and>
     parsed_once (map snd (scripts_run s)) \<and>
     (page_parsed s \<or> PageTook \<notin> set (map snd (scripts_run s)))"

lemma took_simps [simp]:
  "took [] = []" "took (xs @ ys) = took xs @ took ys"
  "took ((v, r) # rs) = (if r = PageTook then [v] else []) @ took rs"
  by (simp_all add: took_def)

lemma in_took: "v \<in> set (took rs) \<Longrightarrow> v \<in> set (map fst rs)"
  by (auto simp: took_def)

lemma early_and_later:
  "parsed_once (map snd rs) \<Longrightarrow> \<exists>early later. rs = early @ later \<and> took early = [] \<and> TooEarly \<notin> set (map snd later)"
proof (induction rs)
  case (Cons x rs)
  obtain v r where x: "x = (v, r)" by (cases x)
  show ?case
  proof (cases "r = PageTook")
    case True
    with Cons.prems x have "TooEarly \<notin> set (map snd (x # rs))" by (auto simp: parsed_once_def)
    then show ?thesis by (intro exI [of _ "[]"] exI [of _ "x # rs"]) simp
  next
    case False
    from Cons obtain early later where "rs = early @ later" "took early = []" "TooEarly \<notin> set (map snd later)"
      by (auto simp: parsed_once_def)
    with False x show ?thesis by (intro exI [of _ "x # early"] exI [of _ later]) simp
  qed
qed (simp add: parsed_once_def)

lemma scripted_subseq: "subseq (scripted s) (map fst (scripts_run s))"
  by (simp add: scripted_def took_def subseq_map)

lemma published_append [simp]: "published (as @ bs) = published as @ published bs"
  by (simp add: published_def map_filter_def)

lemma no_view_wakes:
  "views_in (map UserEvent (menu_ipc c)) = []" "views_in (map UserEvent (tray_click b y z)) = []"
  "views_in (map UserEvent (fst (page_ipc x c))) = []"
  using page_wakes [of x c] by (cases b; auto simp: menu_ipc_def intro!: views_in_none)+

lemma companion_step_views:
  assumes "companion_step w s t" and "views_ok s"
  shows "views_ok t"
proof -
  have "thread_step w s t" "\<not> exited (desk s)" using assms(1) by (simp_all add: companion_step_def)
  then show ?thesis
  proof cases
    case (page_message handled export body)
    then have "views_in (map UserEvent (fst handled)) = []" "scripts (page_parsed s) (snd handled) = []"
      by (simp_all add: no_view_wakes page_scripts)
    with page_message assms(2) show ?thesis by (simp add: views_ok_def)
  next
    case (loop_handles e es evaluate)
    from loop_scripts [OF \<open>\<not> exited (desk s)\<close>, of "page_parsed s" evaluate e] loop_handles assms(2)
    show ?thesis
      by (auto simp: views_ok_def parsed_once_def sorted_wrt_append guarded_push_def
          split: tao_event.splits Wake.splits if_splits)
  qed (use assms(2) in \<open>auto simp: views_ok_def no_view_wakes\<close>)
qed

interpretation pages: inductive_invariant "started (w :: 'v wiring) env0" "companion_step w" views_ok
proof
  show "started w env0 s \<Longrightarrow> views_ok s" for s :: "('v, 'p) companion"
    by (auto simp: started_def companion_start_def views_ok_def parsed_once_def published_def map_filter_def)
qed (rule companion_step_views)

section \<open>What a turn of the worker does, by cause\<close>

lemma in_posts: "b \<in> set (posts acts) \<longleftrightarrow> (\<exists>url. Post url b \<in> set acts)"
  by (induction acts) (auto simp: posts_def map_filter_simps split: action.splits)

lemma in_published: "v \<in> set (published acts) \<longleftrightarrow> Publish v \<in> set acts"
  by (induction acts) (auto simp: published_def map_filter_simps split: action.splits)

lemma in_jobs_of: "j \<in> set (jobs_of envs) \<longleftrightarrow> (\<exists>env\<in>set envs. received env = Got j)"
  by (induction envs) (auto simp: jobs_of_def map_filter_simps split: received.splits)

lemma worker_out_alive: "a \<in> set (worker_out self ps s env) \<Longrightarrow> \<exists>st. s = (True, st) \<and> a \<in> set (snd (iterate self ps env st))"
  by (cases s) (auto simp: worker_out_def split: if_splits)

lemma turn_attests:
  "AttestBody r \<in> set (turn_posts self ps env st) \<Longrightarrow>
   \<exists>job. received env = Got job \<and> job_nonce job = Some (arq_nonce r)"
  by (auto simp: turn_posts_def attestation_request_def
      split: received.splits option.splits if_splits sum.splits Job.splits)

lemma turn_closes:
  "HeartbeatBody r \<in> set (turn_posts self ps env st) \<Longrightarrow> hrq_closing r = Some True \<Longrightarrow>
   \<exists>t. received env = Got (Shutdown t)"
  by (auto simp: turn_posts_def beat_request_def
      split: received.splits option.splits if_splits sum.splits Job.splits)

lemma view_state_publish [simp]: "view_state (publish self p) = p_state p"
  by (simp add: publish_def view_simps)

lemma on_outcome_actions:
  "Publish v \<notin> set (snd (snd (on_outcome self env p a ack answer)))"
  "Signal t \<notin> set (snd (snd (on_outcome self env p a ack answer)))"
  by (auto simp: on_outcome_def Let_def split: sum.splits option.splits if_splits)

lemma turn_signals:
  "Signal t \<in> set (snd (iterate self ps env st)) \<Longrightarrow> received env = Got (Shutdown t)"
proof (rule turn_cases [where env = env and st = st])
  assume "Signal t \<in> set (snd (iterate self ps env st))" "received env = TimedOut"
  then show ?thesis
    using fst_beat [of self ps env "session_id (the (active st))"]
    by (cases "beat self ps env (session_id (the (active st)))")
      (auto simp: on_timeout_def posted_def Let_def split: option.splits sum.splits if_splits)
next
  fix job nonce
  assume "Signal t \<in> set (snd (iterate self ps env st))"
    "received env = Got job" "job_nonce job = Some nonce" "last_nonce st \<noteq> Some nonce"
  then show ?thesis
    by (auto simp: iterate_nonce on_nonce_def on_snapshot_def posted_def Let_def case_prod_beta on_outcome_actions
        split: sum.splits)
qed (auto simp: on_shutdown_def announce_close_def posted_def on_recheck_def Let_def iterate_nonce split: option.splits)

lemma turn_shows_ready:
  assumes "Publish v \<in> set (snd (iterate self ps env st))" and "view_state v = Ready"
  shows "p_state (shown st) = Ready \<or> (\<exists>job nonce snapshot ack.
    received env = Got job \<and> job_nonce job = Some nonce \<and> worker_scan self ps env 0 = Inr snapshot \<and>
    attest (serde_of ps) (send env) (wk_client self) (attestation_request nonce snapshot) = Inr ack)"
proof (rule turn_cases [where env = env and st = st])
  assume "received env = TimedOut"
  with assms show ?thesis
    using fst_beat [of self ps env "session_id (the (active st))"]
    by (cases "beat self ps env (session_id (the (active st)))"; cases "p_state (shown st)")
      (auto simp: on_timeout_def posted_def Let_def split: option.splits sum.splits if_splits)
next
  assume "received env = Got Recheck"
  with assms show ?thesis
    by (cases "p_state (shown st)") (auto simp: on_recheck_def Let_def split: sum.splits if_splits)
next
  fix job nonce
  assume job: "received env = Got job" "job_nonce job = Some nonce" "last_nonce st \<noteq> Some nonce"
  with assms show ?thesis
    by (auto simp: iterate_nonce on_nonce_def on_snapshot_def posted_def Let_def case_prod_beta on_outcome_actions
        split: sum.splits option.splits)
qed (use assms in \<open>auto simp: on_shutdown_def announce_close_def posted_def Let_def iterate_nonce split: option.splits\<close>)

lemma step_alive: "fst (worker_step self ps s env) \<Longrightarrow> fst s \<and> received env \<noteq> Got (Shutdown t)"
proof -
  assume alive: "fst (worker_step self ps s env)"
  obtain a st where "s = (a, st)" by (cases s)
  with alive show ?thesis by (cases a) auto
qed

lemma alive_not_shut_down:
  "fst (run (worker_step self ps) s envs) \<Longrightarrow> env \<in> set envs \<Longrightarrow> received env \<noteq> Got (Shutdown t)"
proof (induction envs rule: rev_induct)
  case (snoc e es)
  let ?s = "run (worker_step self ps) s es"
  have alive: "fst ?s" "received e \<noteq> Got (Shutdown t)"
    using snoc.prems(1) step_alive [of self ps ?s e t] by simp_all
  with snoc.IH snoc.prems(2) show ?case by auto
qed simp

lemma prefix_upto:
  "prefix xs (ys @ y # zs) \<Longrightarrow> y \<in> set xs \<Longrightarrow> y \<notin> set ys \<Longrightarrow> prefix (ys @ [y]) xs"
proof (induction ys arbitrary: xs)
  case Nil
  then show ?case by (cases xs) auto
next
  case (Cons a ys)
  then show ?case by (cases xs) auto
qed

end
