(* ===== verification/Companion_Claims.thy ===== *)
theory Companion_Claims
  imports Companion_Properties
begin

text \<open>
  The properties of the whole program, each from the invariants of \<open>Companion_Properties\<close>: where a
  reported nonce comes from, what the page shows and when it has caught up, how the program ends;
  and a concrete run of the threads in which their hypotheses hold.
\<close>

section \<open>Lemmas\<close>

abbreviation reachable_from :: "'v wiring \<Rightarrow> 'v env \<Rightarrow> ('v, 'p) companion \<Rightarrow> bool" where
  "reachable_from w env0 \<equiv> reach (started w env0) (companion_step w)"

lemma acted_split:
  assumes "traced w env0 s" and "a \<in> set (acted s)" and "a \<noteq> Publish (first_view w env0)"
  shows "\<exists>before env after st. turns s = before @ env # after \<and> worker_run w env0 before = (True, st) \<and>
    a \<in> set (snd (iterate (self_of w) (parsers_of w) env st))"
proof -
  have "acted s @ to_do s = Publish (first_view w env0) # worker_acts w env0 (turns s)"
    using assms(1) by (simp add: traced_def)
  with assms(2,3) have "a \<in> set (worker_acts w env0 (turns s))"
    by (metis Un_iff set_append set_ConsD)
  then obtain before env after where "turns s = before @ env # after"
    "a \<in> set (worker_out (self_of w) (parsers_of w) (worker_run w env0 before) env)"
    unfolding worker_acts_def worker_run_def by (blast dest: outputs_split)
  with worker_out_alive show ?thesis by blast
qed

text \<open>Of a turn that posted something, the post is one of the turn's.\<close>

lemma post_split:
  assumes "traced w env0 s" and "b \<in> set (posts (acted s))"
  shows "\<exists>before env after st. turns s = before @ env # after \<and> worker_run w env0 before = (True, st) \<and>
    b \<in> set (turn_posts (self_of w) (parsers_of w) env st)"
proof -
  obtain url where "Post url b \<in> set (acted s)" using assms(2) in_posts by blast
  with acted_split [OF assms(1)] obtain before env after st where
    "turns s = before @ env # after" "worker_run w env0 before = (True, st)"
    "Post url b \<in> set (snd (iterate (self_of w) (parsers_of w) env st))" by blast
  then show ?thesis unfolding posts_iterate [symmetric] using in_posts by blast
qed

lemma taken_job: "traced w env0 s \<Longrightarrow> env \<in> set (turns s) \<Longrightarrow> received env = Got j \<Longrightarrow> j \<in> set (jobs_taken s)"
  by (auto simp: traced_def in_jobs_of)

text \<open>The nonce of a job that was taken.\<close>

lemma caused_nonce:
  assumes "caused w s" and "in_order s" and "job \<in> set (jobs_taken s)" and "job_nonce job = Some nonce"
  shows "is_nonce nonce \<and>
    ((\<exists>c\<in>set (commands_accepted s). command_from w c \<and> lac_nonce c = nonce) \<or>
     (\<exists>p\<in>set (nonces_polled s). nonce_from w p \<and> pending_nonce p = nonce))"
proof (cases job)
  case (Local c)
  with assms(3) have "c \<in> set (local_commands (jobs_taken s))" by (simp add: in_local_commands)
  with assms(2) have "c \<in> set (commands_accepted s)"
    by (auto simp: in_order_def dest: set_mono_prefix)
  moreover from this assms(1) have "command_from w c" by (simp add: caused_def)
  moreover from this have "is_nonce (lac_nonce c)" using served_nonce by (auto simp: command_from_def)
  ultimately show ?thesis using assms(4) Local by (auto simp: job_nonce_def)
next
  case (Collected p)
  with assms(3) have "p \<in> set (pendings (jobs_taken s))" by (simp add: in_job_lists)
  with assms(1) have "p \<in> set (nonces_polled s)" "nonce_from w p" by (auto simp: caused_def)
  moreover from this have "is_nonce (pending_nonce p)" using poll_pending_nonce by (auto simp: nonce_from_def)
  ultimately show ?thesis using assms(4) Collected by (auto simp: job_nonce_def)
qed (use assms(4) in \<open>simp_all add: job_nonce_def\<close>)

text \<open>Everything the worker's part of the program has done is well-formed.\<close>

lemma acted_good:
  assumes "reachable_from w env0 s" and "a \<in> set (acted s)"
  shows "good_action (self_of w) a"
proof (cases "a = Publish (first_view w env0)")
  case True
  then show ?thesis by (simp add: first_view_def)
next
  case False
  have inv: "traced w env0 s" "caused w s" "in_order s"
    using trace.inv_reach cause.inv_reach order.inv_reach assms(1) by blast+
  obtain before env after st where turn: "turns s = before @ env # after"
      "worker_run w env0 before = (True, st)" "a \<in> set (snd (iterate (self_of w) (parsers_of w) env st))"
    using acted_split [OF inv(1) assms(2) False] by blast
  have "brings_nonce env"
    unfolding brings_nonce_def
    using taken_job [OF inv(1), of env] turn(1) caused_nonce [OF inv(2,3)]
    by (auto split: received.split option.split)
  moreover have "state_ok st"
    using session.inv_run [of "(True, start_state (self_of w) (parsers_of w) env0)" before "self_of w" "parsers_of w"]
      turn(2) by (simp add: worker_run_def state_ok_start)
  ultimately have "list_all (good_action (self_of w)) (snd (iterate (self_of w) (parsers_of w) env st))"
    by (intro iterate_good)
  with turn(3) show ?thesis by (auto simp: list_all_iff)
qed

section \<open>Catching up\<close>

text \<open>Nothing is waiting in any channel or hand, except what the collector may poll.\<close>

definition drained :: "('v, 'p) companion \<Rightarrow> bool" where
  "drained s \<longleftrightarrow> command_queue s = [] \<and> bridge_hand s = None \<and> job_queue s = [] \<and> to_do s = [] \<and>
     view_queue s = [] \<and> view_hand s = None \<and> events s = []"

text \<open>The views between worker and page.\<close>

definition views_moving :: "('v, 'p) companion \<Rightarrow> WindowView list" where
  "views_moving s = views_in (events s) @ in_hand (view_hand s) @ view_queue s @ published (to_do s)"

text \<open>The page has not lost the last view: it took it, or another one is coming.\<close>

definition fresh :: "('v, 'p) companion \<Rightarrow> bool" where
  "fresh s \<longleftrightarrow> views_moving s \<noteq> [] \<or> (scripts_run s \<noteq> [] \<and> snd (last (scripts_run s)) = PageTook)"

definition quiet :: "('v, 'p) companion \<Rightarrow> bool" where
  "quiet s \<longleftrightarrow> \<not> exited (desk s) \<and> \<not> quitting s \<and> UserEvent Quit \<notin> set (events s)"

lemma all_handed_over:
  assumes "traced w env0 s" and "views_ok s" and "drained s"
  shows "scripts_run s \<noteq> [] \<and> fst (last (scripts_run s)) = publish (self_of w) (shown (snd (worker_at s)))"
proof -
  let ?acts = "worker_acts w env0 (turns s)"
  have all: "map fst (scripts_run s) = published (Publish (first_view w env0) # ?acts)"
    using assms by (simp add: traced_def views_ok_def drained_def)
  then have some: "scripts_run s \<noteq> []" by auto
  have "run show_action v acts = last (v # published acts)" for v acts
    by (induction acts arbitrary: v)
      (auto simp: published_def map_filter_simps show_action_def split: action.split)
  moreover have "run show_action (first_view w env0) ?acts = publish (self_of w) (shown (snd (worker_at s)))"
    using assms(1) page.run_refines [where self = "self_of w" and ps = "parsers_of w" and
        s = "(True, start_state (self_of w) (parsers_of w) env0)"]
    by (simp add: traced_def worker_run_def worker_acts_def first_view_def)
  ultimately have "last (map fst (scripts_run s)) = publish (self_of w) (shown (snd (worker_at s)))"
    using all by simp
  with some show ?thesis by (simp add: last_map)
qed

lemma last_taken: "rs \<noteq> [] \<Longrightarrow> snd (last rs) = PageTook \<Longrightarrow> took rs \<noteq> [] \<and> last (took rs) = fst (last rs)"
  by (cases rs rule: rev_cases) auto

lemma drained_page:
  assumes "traced w env0 s" and "views_ok s" and "drained s" and "fresh s"
  shows "scripted s \<noteq> [] \<and> last (scripted s) = publish (self_of w) (shown (snd (worker_at s)))"
proof -
  have "views_moving s = []" using assms(3) by (simp add: drained_def views_moving_def)
  with assms(4) have "scripts_run s \<noteq> []" "snd (last (scripts_run s)) = PageTook" by (auto simp: fresh_def)
  from last_taken [OF this] all_handed_over [OF assms(1-3)] show ?thesis by (simp add: scripted_def)
qed

text \<open>
  What is still to be done: first by the threads up to the worker, a recheck of the menu's among it,
  then by those behind it.
\<close>

definition before_worker :: "('v, 'p) companion \<Rightarrow> nat" where
  "before_worker s = 3 * length (command_queue s) + 2 * length (in_hand (bridge_hand s)) + length (job_queue s) +
     2 * length (filter (\<lambda>e. e = UserEvent WakeRecheck) (events s))"

definition behind_worker :: "('v, 'p) companion \<Rightarrow> nat" where
  "behind_worker s = 4 * length (to_do s) + 3 * length (view_queue s) + 2 * length (in_hand (view_hand s)) +
     length (events s)"

definition nearer :: "(Job \<Rightarrow> 'v env) \<Rightarrow> ('v, 'p) companion \<Rightarrow> ('v, 'p) companion \<Rightarrow> bool" where
  "nearer world s t \<longleftrightarrow> quiet t \<and> page_parsed t \<and> fresh t \<and> commands_accepted t = commands_accepted s \<and>
     (\<exists>js. turns t = turns s @ map world js) \<and> (before_worker s = 0 \<longrightarrow> worker_at t = worker_at s) \<and>
     ((before_worker t, behind_worker t), (before_worker s, behind_worker s)) \<in> less_than <*lex*> less_than"

text \<open>A worker nobody has asked to shut down is there, and so are its channel and the bridge.\<close>

lemma quiet_alive:
  assumes "reachable_from w env0 s" and "quiet s"
  shows "fst (worker_at s) \<and> jobs_open s \<and> bridge_up s"
proof -
  have inv: "caused w s" "fifo s" "ends_by_shutdown s" "in_order s"
    using cause.inv_reach channel.inv_reach ending.inv_reach order.inv_reach assms(1) by blast+
  have "Shutdown t \<notin> set (jobs_taken s)" for t
    using inv(1) assms(2) by (auto simp: caused_def quiet_def simp flip: in_job_lists)
  with inv(3) have "fst (worker_at s)" by (auto simp: ends_by_shutdown_def)
  with inv(2,4) show ?thesis by (auto simp: fifo_def in_order_def split: if_splits)
qed

lemma nearer_acts:
  assumes "quiet s" and "page_parsed s" and "fresh s" and "to_do s = a # as"
  shows "nearer world s (perform a (s\<lparr>to_do := as\<rparr>))"
proof -
  have "published (a # as) = published [a] @ published as"
    by (metis append_Cons append_Nil published_append)
  moreover have "length (published [a]) \<le> 1" by (cases a) (simp_all add: published_def map_filter_simps)
  ultimately show ?thesis
    using assms
    by (simp add: nearer_def quiet_def fresh_def views_moving_def before_worker_def behind_worker_def)
qed

lemma nearer_loop:
  fixes s :: "('v, 'p) companion"
  assumes "quiet s" and "page_parsed s" and "fresh s" and "events s = e # es"
  shows "nearer world s (fold apply_effect (snd (on_event (\<lambda>_. None) (desk s) e))
    (s\<lparr>events := es, desk := fst (on_event (\<lambda>_. None) (desk s) e)\<rparr>))"
proof -
  let ?t = "fold apply_effect (snd (on_event (\<lambda>_. None) (desk s) e))
    (s\<lparr>events := es, desk := fst (on_event (\<lambda>_. None) (desk s) e)\<rparr>)"
  have live: "\<not> exited (desk s)" "e \<noteq> UserEvent Quit" using assms(1,4) by (auto simp: quiet_def)
  let ?effs = "snd (on_event (\<lambda>_. None) (desk s) e)"
  have exit: "exited (fst (on_event (\<lambda>_. None) (desk s) e)) = exited (desk s)" by (rule loop_exited [OF live(2)])
  have out: "scripts True ?effs = (case e of UserEvent (View v) \<Rightarrow> [(v, PageTook)] | _ \<Rightarrow> [])"
    using loop_scripts [OF live(1), of True "\<lambda>_. None" e]
    by (simp add: guarded_push_def split: tao_event.split Wake.split)
  have jobs: "queued (snd (on_event (\<lambda>_. None) (desk s) e)) = (if e = UserEvent WakeRecheck then [Recheck] else [])"
    using live by (auto simp: on_event_def split: tao_event.splits Wake.splits option.splits)
  have "fresh ?t"
  proof (cases "\<exists>v. e = UserEvent (View v)")
    case True
    with assms(2) out show ?thesis by (auto simp: fresh_def)
  next
    case False
    then have "scripts True ?effs = []" "views_in (events s) = views_in es"
      using out assms(4) by (auto split: tao_event.splits Wake.splits)
    with assms(2,3) show ?thesis by (simp add: fresh_def views_moving_def)
  qed
  with assms jobs exit live show ?thesis
    by (auto simp: nearer_def quiet_def before_worker_def behind_worker_def)
qed

text \<open>Unless everything is through, one of the threads can bring something nearer.\<close>

lemma drain_step:
  assumes "reachable_from w env0 s" and "quiet s" and "page_parsed s" and "fresh s" and "\<not> drained s"
    and world: "\<And>j. received (world j) = Got j"
  shows "\<exists>t. companion_step w s t \<and> nearer world s t"
proof -
  have live: "\<not> exited (desk s)" "\<not> quitting s" using assms(2) by (simp_all add: quiet_def)
  have alive: "fst (worker_at s)" "jobs_open s" "bridge_up s" using quiet_alive [OF assms(1,2)] by simp_all
  note near = nearer_def quiet_def fresh_def views_moving_def before_worker_def behind_worker_def
  consider a as where "to_do s = a # as" | j js where "to_do s = []" "job_queue s = j # js"
    | c where "bridge_hand s = Some c" | c cs where "bridge_hand s = None" "command_queue s = c # cs"
    | v where "view_hand s = Some v" | v vs where "view_hand s = None" "view_queue s = v # vs"
    | e es where "events s = e # es"
    using assms(5)
    by (cases "to_do s"; cases "job_queue s"; cases "bridge_hand s"; cases "command_queue s"; cases "view_hand s";
        cases "view_queue s"; cases "events s") (simp_all add: drained_def)
  then show ?thesis
  proof cases
    case 1
    with live worker_acts [OF 1] nearer_acts [OF assms(2-4) 1] show ?thesis
      by (auto simp: companion_step_def)
  next
    case 2
    let ?t = "s\<lparr>job_queue := js, jobs_taken := jobs_taken s @ [j], turns := turns s @ [world j],
       worker_at := worker_step (self_of w) (parsers_of w) (worker_at s) (world j),
       to_do := worker_out (self_of w) (parsers_of w) (worker_at s) (world j)\<rparr>"
    have "fresh ?t" using assms(4) 2 by (auto simp: fresh_def views_moving_def)
    moreover have "turns ?t = turns s @ map world [j]" by simp
    ultimately have "nearer world s ?t"
      unfolding nearer_def
      using assms(2,3) 2 by (intro conjI exI [of _ "[j]"]) (simp_all add: quiet_def before_worker_def)
    then show ?thesis
      using worker_takes [OF alive(1) 2 world] live by (auto simp: companion_step_def)
  next
    case 3
    have "nearer world s ((send_job (Local c) s)\<lparr>bridge_hand := None\<rparr>)"
      using assms(2-4) 3 alive(2) by (simp add: near)
    then show ?thesis
      using bridge_gives [OF 3 alive(2)] live by (auto simp: companion_step_def)
  next
    case 4
    have "nearer world s (s\<lparr>command_queue := cs, bridge_hand := Some c\<rparr>)"
      using assms(2-4) 4 by (simp add: near)
    then show ?thesis
      using bridge_takes [OF alive(3) 4] live by (auto simp: companion_step_def)
  next
    case 5
    have "nearer world s (s\<lparr>view_hand := None, events := events s @ [UserEvent (View v)]\<rparr>)"
      using assms(2-4) 5 by (simp add: near)
    then show ?thesis
      using views_gives [OF 5] live by (auto simp: companion_step_def)
  next
    case 6
    have "nearer world s (s\<lparr>view_queue := vs, view_hand := Some v\<rparr>)"
      using assms(2-4) 6 by (simp add: near)
    then show ?thesis
      using views_takes [OF 6] live by (auto simp: companion_step_def)
  next
    case 7
    then have "e \<noteq> UserEvent Quit" using assms(2) by (auto simp: quiet_def)
    from loop_handles [OF live(2) 7 this, of w "\<lambda>_. None"] nearer_loop [OF assms(2-4) 7] live
    show ?thesis by (auto simp: companion_step_def)
  qed
qed

lemma drain:
  assumes "reachable_from w env0 s" and "quiet s" and "page_parsed s" and "fresh s"
    and world: "\<And>j. received (world j) = Got j"
  shows "\<exists>t. (companion_step w)\<^sup>*\<^sup>* s t \<and> reachable_from w env0 t \<and> drained t \<and> fresh t \<and> quiet t \<and>
    page_parsed t \<and> commands_accepted t = commands_accepted s \<and> (\<exists>js. turns t = turns s @ map world js) \<and>
    (before_worker s = 0 \<longrightarrow> worker_at t = worker_at s)"
  using assms(1-4)
proof (induction "(before_worker s, behind_worker s)" arbitrary: s rule: wf_induct_rule [OF wf_lex_prod [OF wf_less_than wf_less_than]])
  case (1 s)
  show ?case
  proof (cases "drained s")
    case True
    have "turns s = turns s @ map world []" by simp
    with True 1(2-5) show ?thesis by blast
  next
    case False
    from drain_step [OF 1(2-5) False world] obtain u
      where u: "companion_step w s u" "nearer world s u" by blast
    then obtain js where js: "turns u = turns s @ map world js" by (auto simp: nearer_def)
    have "reachable_from w env0 u" using 1(2) u(1) by (rule reach_step)
    moreover have "quiet u" "page_parsed u" "fresh u" "commands_accepted u = commands_accepted s"
      "((before_worker u, behind_worker u), (before_worker s, behind_worker s)) \<in> less_than <*lex*> less_than"
      "before_worker s = 0 \<Longrightarrow> worker_at u = worker_at s \<and> before_worker u = 0"
      using u(2) by (auto simp: nearer_def)
    ultimately obtain t ks where "(companion_step w)\<^sup>*\<^sup>* u t" "reachable_from w env0 t" "drained t" "fresh t"
      "quiet t" "page_parsed t" "commands_accepted t = commands_accepted s" "turns t = turns u @ map world ks"
      "before_worker u = 0 \<Longrightarrow> worker_at t = worker_at u"
      using 1(1) [of u] by metis
    moreover from this js have "turns t = turns s @ map world (js @ ks)" by simp
    moreover have "before_worker s = 0 \<Longrightarrow> worker_at t = worker_at s"
      using \<open>before_worker u = 0 \<Longrightarrow> worker_at t = worker_at u\<close> u(2) by (auto simp: nearer_def)
    ultimately show ?thesis using u(1) by (meson converse_rtranclp_into_rtranclp)
  qed
qed

lemma page_parses_now:
  assumes "reachable_from w env0 s" and "quiet s" and "fresh s"
  shows "companion_step w s (s\<lparr>page_parsed := True\<rparr>) \<and> reachable_from w env0 (s\<lparr>page_parsed := True\<rparr>) \<and>
    quiet (s\<lparr>page_parsed := True\<rparr>) \<and> fresh (s\<lparr>page_parsed := True\<rparr>)"
proof -
  have "companion_step w s (s\<lparr>page_parsed := True\<rparr>)"
    using assms(2) page_parses by (simp add: companion_step_def quiet_def)
  with reach_step [OF assms(1) this] assms(2,3) show ?thesis
    by (simp add: quiet_def fresh_def views_moving_def)
qed

lemma reach_star: "(companion_step w)\<^sup>*\<^sup>* s t \<Longrightarrow> reachable_from w env0 s \<Longrightarrow> reachable_from w env0 t"
  by (induction rule: rtranclp_induct) (auto intro: reach_step)

text \<open>The page is parsed and was given nothing, although the worker has published its first view.\<close>

definition blank :: "'v wiring \<Rightarrow> 'v env \<Rightarrow> ('v, 'p) companion \<Rightarrow> bool" where
  "blank w env0 s \<longleftrightarrow> drained s \<and> page_parsed s \<and> published (acted s) = [first_view w env0] \<and> scripted s = [] \<and>
     \<not> exited (desk s) \<and> worker_at s = (True, start_state (self_of w) (parsers_of w) env0)"

lemma first_view_too_early:
  "\<exists>s :: ('v, 'p) companion. reachable_from w env0 s \<and> turns s = [] \<and> blank (w :: 'v wiring) env0 s"
proof -
  define v where "v = first_view w env0"
  define s where "s = (companion_start w env0 None :: ('v, 'p) companion)"
  define t where "t = perform (Publish v) (s\<lparr>to_do := []\<rparr>)"
  define u where "u = t\<lparr>view_queue := [], view_hand := Some v\<rparr>"
  define x where "x = u\<lparr>view_hand := None, events := events u @ [UserEvent (View v)]\<rparr>"
  define e where "e = (UserEvent (View v) :: 'p tao_event)"
  define y where "y = fold apply_effect (snd (on_event (\<lambda>_. None) (desk x) e))
    (x\<lparr>events := [], desk := fst (on_event (\<lambda>_. None) (desk x) e)\<rparr>)"
  have s: "desk s = desktop_start None" "\<not> quitting s" "to_do s = [Publish v]" "view_queue s = []"
    "view_hand s = None" "events s = []" "acted s = []" "scripts_run s = []" "turns s = []" "\<not> page_parsed s"
    "job_queue s = []" "bridge_hand s = None" "command_queue s = []"
    "worker_at s = (True, start_state (self_of w) (parsers_of w) env0)"
    by (simp_all add: s_def v_def companion_start_def first_view_def)
  have "reachable_from w env0 s" unfolding s_def by (rule reach_init) (auto simp: started_def menu_window_def)
  moreover have "companion_step w s t"
    using worker_acts [OF s(3)] s(1) by (simp add: companion_step_def t_def)
  ultimately have r: "reachable_from w env0 t" by (rule reach_step)
  have t: "view_queue t = [v]" "view_hand t = None" "desk t = desktop_start None" "published (acted t) = [v]"
    using s by (simp_all add: t_def published_def map_filter_simps)
  have "companion_step w t u"
    using views_takes [OF t(2,1)] t(3) by (simp add: companion_step_def u_def)
  with r have r: "reachable_from w env0 u" by (rule reach_step)
  have "companion_step w u x"
    using views_gives [of u v w] t(3) by (simp add: companion_step_def u_def x_def)
  with r have r: "reachable_from w env0 x" by (rule reach_step)
  have x: "events x = [e]" "\<not> quitting x" "desk x = desktop_start None"
    using s t(3) by (simp_all add: x_def u_def t_def e_def)
  have "companion_step w x y"
    using loop_handles [OF x(2,1), of w "\<lambda>_. None"] x(3) by (simp add: companion_step_def y_def e_def)
  with r have r: "reachable_from w env0 y" by (rule reach_step)
  have y: "desk y = desktop_start None" "scripts_run y = [(v, TooEarly)]" "events y = []" "view_queue y = []"
    "view_hand y = None" "to_do y = []" "published (acted y) = [v]" "turns y = []" "job_queue y = []"
    "bridge_hand y = None" "command_queue y = []"
    "worker_at y = (True, start_state (self_of w) (parsers_of w) env0)"
    using s t x(3) by (simp_all add: y_def x_def u_def e_def on_event_def guarded_push_def)
      (simp_all add: t_def s)
  have "companion_step w y (y\<lparr>page_parsed := True\<rparr>)"
    using page_parses y(1) by (simp add: companion_step_def)
  with r have "reachable_from w env0 (y\<lparr>page_parsed := True\<rparr>)" by (rule reach_step)
  with y show ?thesis
    by (intro exI [of _ "y\<lparr>page_parsed := True\<rparr>"]) (simp add: blank_def drained_def scripted_def v_def)
qed

lemma blank_page:
  assumes "\<forall>env\<in>set envs. received env = TimedOut \<and>
    game_running (self_of w) (parsers_of w) env 0 = game_running (self_of w) (parsers_of w) env0 0"
  shows "\<exists>s :: ('v, 'p) companion. reachable_from w env0 s \<and> turns s = envs \<and> blank (w :: 'v wiring) env0 s"
  using assms
proof (induction envs rule: rev_induct)
  case Nil
  show ?case by (rule first_view_too_early)
next
  case (snoc env envs)
  then obtain s :: "('v, 'p) companion" where s: "reachable_from w env0 s" "turns s = envs" "blank w env0 s"
    by auto
  let ?st = "start_state (self_of w) (parsers_of w) env0"
  let ?t = "s\<lparr>turns := turns s @ [env], worker_at := worker_step (self_of w) (parsers_of w) (worker_at s) env,
       to_do := worker_out (self_of w) (parsers_of w) (worker_at s) env\<rparr>"
  have env: "received env = TimedOut"
    "game_running (self_of w) (parsers_of w) env 0 = p_game_present (shown ?st)" "active ?st = None"
    using snoc.prems by (simp_all add: start_state_def)
  then have "on_timeout (self_of w) (parsers_of w) env ?st = (?st, [])" by (simp add: on_timeout_def Let_def)
  then have idle: "worker_step (self_of w) (parsers_of w) (True, ?st) env = (True, ?st)"
    "worker_out (self_of w) (parsers_of w) (True, ?st) env = []"
    using env(1) by simp_all
  have "fst (worker_at s)" "to_do s = []" "job_queue s = []" "\<not> exited (desk s)"
    using s(3) by (simp_all add: blank_def drained_def)
  then have "companion_step w s ?t"
    using worker_waited env(1) by (simp add: companion_step_def)
  then have "reachable_from w env0 ?t" using s(1) by (blast intro: reach_step)
  moreover have "blank w env0 ?t"
    using s(3) idle by (simp add: blank_def drained_def scripted_def del: worker_step_simps)
  ultimately show ?case using s(2) by (intro exI [of _ ?t]) simp
qed

text \<open>The worker carries out what it has to do, while the other threads wait.\<close>

definition untouched :: "('v, 'p) companion \<Rightarrow>
    (WindowView \<times> script_result) list \<times> LocalAttestCommand list \<times> LocalAttestCommand option \<times> (string \<times> body) list" where
  "untouched s = (scripts_run s, command_queue s, bridge_hand s, polls_posted s)"

definition waits :: "('v, 'p) companion \<Rightarrow> ('v, 'p) companion \<Rightarrow> bool" where
  "waits s t \<longleftrightarrow> worker_at t = worker_at s \<and> turns t = turns s \<and> job_queue t = job_queue s \<and>
     jobs_open t = jobs_open s \<and> collecting t = collecting s \<and> desk t = desk s \<and>
     quitting t = quitting s \<and> events t = events s \<and> untouched t = untouched s"

lemma star_acts:
  "\<not> exited (desk s) \<Longrightarrow>
   \<exists>t. (companion_step w)\<^sup>*\<^sup>* s t \<and> to_do t = [] \<and> acted t = acted s @ to_do s \<and> waits s t"
proof (induction "to_do s" arbitrary: s)
  case Nil
  then show ?case by (intro exI [of _ s]) (simp add: waits_def)
next
  case (Cons a acts)
  let ?u = "perform a (s\<lparr>to_do := acts\<rparr>)"
  have step: "companion_step w s ?u"
    using Cons.prems worker_acts [OF Cons.hyps(2) [symmetric]] by (simp add: companion_step_def)
  from Cons.hyps(1) [of ?u] Cons.prems obtain t
    where "(companion_step w)\<^sup>*\<^sup>* ?u t" "to_do t = []" "acted t = acted ?u @ to_do ?u" "waits ?u t" by auto
  with step show ?case
    by (intro exI [of _ t]) (auto simp: waits_def untouched_def Cons.hyps(2) [symmetric] intro: converse_rtranclp_into_rtranclp)
qed

lemma reach_acts:
  "reachable_from w env0 s \<Longrightarrow> \<not> exited (desk s) \<Longrightarrow>
   \<exists>t. reachable_from w env0 t \<and> to_do t = [] \<and> waits s t"
  using star_acts [of s w] reach_star by blast

text \<open>A command on its way: from the endpoint through the bridge to the worker.\<close>

lemma command_on_its_way:
  assumes "quiet s" and "bridge_up s" and "bridge_hand s = None" and "command_queue s = []" and "job_queue s = []"
    and "jobs_open s"
    and "fst (serve_one (command_from_str w) (ack_to_string w) cloned stream (allowed_of w) (wk_version (self_of w))) = Some c"
  shows "\<exists>t. (companion_step w)\<^sup>*\<^sup>* s t \<and> job_queue t = [Local c] \<and> worker_at t = worker_at s \<and>
    to_do t = to_do s \<and> acted t = acted s \<and> desk t = desk s"
proof -
  let ?t1 = "s\<lparr>command_queue := [c], commands_accepted := commands_accepted s @ [c]\<rparr>"
  let ?t2 = "?t1\<lparr>command_queue := [], bridge_hand := Some c\<rparr>"
  let ?t3 = "(send_job (Local c) ?t2)\<lparr>bridge_hand := None\<rparr>"
  have live: "\<not> exited (desk s)" using assms(1) by (simp add: quiet_def)
  have "companion_step w s ?t1"
    using endpoint_serves [OF assms(7), of s] assms(2,4) live by (simp add: companion_step_def)
  moreover have "companion_step w ?t1 ?t2"
    using bridge_takes [of ?t1 c "[]" w] assms(2,3) live by (simp add: companion_step_def)
  moreover have "companion_step w ?t2 ?t3"
    using bridge_gives [of ?t2 c w] assms(6) live by (simp add: companion_step_def)
  ultimately have "(companion_step w)\<^sup>*\<^sup>* s ?t3" by (meson converse_rtranclp_into_rtranclp r_into_rtranclp)
  then show ?thesis using assms(5,6) by (intro exI [of _ ?t3]) simp
qed

section \<open>Properties\<close>

text \<open>
  C8: the program of threads refines the sequential worker: in every reachable state there is a run of
  the worker's loop which took the jobs in the order in which the threads sent them, none lost, none
  twice, with those not taken yet still waiting; its state is the worker's and its actions are those
  done and still to do; and what the page has taken are, in order, views which that run publishes.
\<close>

theorem program_refines_sequential_worker:
  assumes "reachable_from w env0 s"
  shows "\<exists>envs. worker_at s = worker_run w env0 envs \<and>
    acted s @ to_do s = Publish (first_view w env0) # worker_acts w env0 envs \<and>
    prefix (jobs_of envs) (jobs_queued s) \<and>
    (if fst (worker_at s) then jobs_queued s = jobs_of envs @ job_queue s else True) \<and>
    subseq (scripted s) (first_view w env0 # published (worker_acts w env0 envs))"
proof -
  have inv: "traced w env0 s" "fifo s" "views_ok s"
    using trace.inv_reach channel.inv_reach pages.inv_reach assms by blast+
  have "subseq (scripted s) (published (acted s))"
    using inv(3) subseq_order.trans [OF scripted_subseq] unfolding views_ok_def
    by (metis list_emb_append2 append.right_neutral subseq_order.refl subseq_rev_drop_many)
  moreover have "published (acted s) @ published (to_do s) = first_view w env0 # published (worker_acts w env0 (turns s))"
    using inv(1) unfolding traced_def by (metis published_append published_simps(2))
  ultimately have "subseq (scripted s) (first_view w env0 # published (worker_acts w env0 (turns s)))"
    by (metis subseq_rev_drop_many)
  with inv(1,2) show ?thesis
    by (intro exI [of _ "turns s"]) (auto simp: traced_def fifo_def split: if_splits)
qed

text \<open>
  C6: the commands the worker has taken are the first of those the endpoint accepted, in this order,
  none twice; and as long as the worker runs none is lost: each is taken, queued as a job, in the
  bridge's hand, or queued before the bridge.
\<close>

theorem commands_reach_worker_in_order:
  assumes "reachable_from w env0 s"
  shows "prefix (local_commands (jobs_taken s)) (commands_accepted s) \<and>
    (if fst (worker_at s)
     then commands_accepted s = local_commands (jobs_taken s) @ local_commands (job_queue s) @
       in_hand (bridge_hand s) @ command_queue s
     else True)"
  using order.inv_reach [OF assms] by (auto simp: in_order_def split: if_splits)

text \<open>
  C9: every attestation the program posts goes to the configured backend and is for a nonce that a
  poll of that program found or that a command brought which its endpoint accepted; the nonce is
  64 hexadecimal digits.
\<close>

theorem reported_nonce_has_origin:
  assumes "reachable_from w env0 s" and "Post url (AttestBody r) \<in> set (acted s)"
  shows "url = base_url (wk_client (self_of w)) @ ''/v1/attest'' \<and> is_nonce (arq_nonce r) \<and>
    ((\<exists>c\<in>set (commands_accepted s). command_from w c \<and> lac_nonce c = arq_nonce r) \<or>
     (\<exists>p\<in>set (nonces_polled s). nonce_from w p \<and> pending_nonce p = arq_nonce r))"
proof -
  have inv: "traced w env0 s" "caused w s" "in_order s"
    using trace.inv_reach cause.inv_reach order.inv_reach assms(1) by blast+
  obtain before env after st where turn: "turns s = before @ env # after"
      "worker_run w env0 before = (True, st)"
      "Post url (AttestBody r) \<in> set (snd (iterate (self_of w) (parsers_of w) env st))"
    using acted_split [OF inv(1) assms(2)] by blast
  then obtain job where job: "received env = Got job" "job_nonce job = Some (arq_nonce r)"
    using turn_attests posts_iterate in_posts by metis
  then have "job \<in> set (jobs_taken s)" using taken_job [OF inv(1), of env job] turn(1) by simp
  with job caused_nonce [OF inv(2,3)] have "is_nonce (arq_nonce r)"
    "(\<exists>c\<in>set (commands_accepted s). command_from w c \<and> lac_nonce c = arq_nonce r) \<or>
     (\<exists>p\<in>set (nonces_polled s). nonce_from w p \<and> pending_nonce p = arq_nonce r)"
    by blast+
  with acted_good [OF assms] show ?thesis by (auto simp: good_action_def good_request_def good_body_def)
qed

text \<open>
  C10: the page can always catch up: from any reachable state in which nobody has chosen to quit, and in
  which the last view is not lost already (the page took it, or a view is on its way), the threads can
  drain every channel, whatever the world answers to the jobs waiting: every command accepted has been
  taken by the worker, and the last view the page has taken is what the worker shows.
\<close>

theorem page_can_catch_up:
  assumes "reachable_from w env0 s" and "quiet s" and "fresh s" and world: "\<And>j. received (world j) = Got j"
  shows "\<exists>t js. (companion_step w)\<^sup>*\<^sup>* s t \<and> drained t \<and> turns t = turns s @ map world js \<and>
    local_commands (jobs_taken t) = commands_accepted s \<and>
    scripted t \<noteq> [] \<and> last (scripted t) = publish (self_of w) (shown (snd (worker_at t)))"
proof -
  let ?u = "s\<lparr>page_parsed := True\<rparr>"
  have u: "companion_step w s ?u" "reachable_from w env0 ?u" "quiet ?u" "page_parsed ?u" "fresh ?u"
    using page_parses_now [OF assms(1-3)] by simp_all
  from drain [OF u(2-5) world] obtain t js where t: "(companion_step w)\<^sup>*\<^sup>* ?u t" "reachable_from w env0 t"
    "drained t" "fresh t" "quiet t" "commands_accepted t = commands_accepted ?u" "turns t = turns ?u @ map world js"
    by blast
  have inv: "traced w env0 t" "views_ok t" "in_order t"
    using trace.inv_reach pages.inv_reach order.inv_reach t(2) by blast+
  have "local_commands (jobs_taken t) = commands_accepted t"
    using inv(3) t(3) quiet_alive [OF t(2,5)] by (simp add: in_order_def drained_def)
  moreover have "(companion_step w)\<^sup>*\<^sup>* s t" using u(1) t(1) by (rule converse_rtranclp_into_rtranclp)
  moreover have "commands_accepted t = commands_accepted s" "turns t = turns s @ map world js" using t(6,7) by simp_all
  ultimately show ?thesis using drained_page [OF inv(1,2) t(3,4)] t(3) by metis
qed

text \<open>
  C11: views on their way to the page: those handed to it, followed by those on their way, are exactly
  those the worker has published, in order, so none is lost or overtaken before the page. There a view is lost
  only if its script fails or the page was not parsed: once the page has taken a view, a view it does
  not take is one whose script failed.
\<close>

theorem views_reach_page_in_order:
  assumes "reachable_from w env0 s"
  shows "map fst (scripts_run s) @ views_in (events s) @ in_hand (view_hand s) @ view_queue s = published (acted s) \<and>
    prefix (map fst (scripts_run s)) (first_view w env0 # published (worker_acts w env0 (turns s))) \<and>
    (\<exists>early later. scripts_run s = early @ later \<and> took early = [] \<and> TooEarly \<notin> set (map snd later)) \<and>
    scripted s = took (scripts_run s)"
proof -
  have inv: "traced w env0 s" "views_ok s" using trace.inv_reach pages.inv_reach assms by blast+
  then have "published (acted s) @ published (to_do s) =
      first_view w env0 # published (worker_acts w env0 (turns s))"
    unfolding traced_def by (metis published_append published_simps(2))
  moreover have "map fst (scripts_run s) @ views_in (events s) @ in_hand (view_hand s) @ view_queue s = published (acted s)"
    using inv(2) by (simp add: views_ok_def)
  ultimately have "prefix (map fst (scripts_run s)) (first_view w env0 # published (worker_acts w env0 (turns s)))"
    by (metis append.assoc prefixI)
  with inv(2) early_and_later [of "scripts_run s"] show ?thesis
    by (simp add: views_ok_def scripted_def)
qed

text \<open>
  C37: a view that comes too early is lost for good: the first view can be handed to the page before it is
  parsed, and as long as no job comes and the game neither starts nor ends, however many turns the worker
  waits, the parsed page is given nothing, although the worker has published.
\<close>

theorem early_view_lost:
  fixes w :: "'v wiring"
  assumes "\<forall>env\<in>set envs. received env = TimedOut \<and>
    game_running (self_of w) (parsers_of w) env 0 = game_running (self_of w) (parsers_of w) env0 0"
  shows "\<exists>s :: ('v, 'p) companion. reachable_from w env0 s \<and> drained s \<and> page_parsed s \<and> turns s = envs \<and>
    published (acted s) = [first_view w env0] \<and> scripted s = []"
  using blank_page [OF assms] unfolding blank_def by blast

text \<open>
  C1: the page never says Ready without a cause: a view it was given that says so was published
  after a turn in which a nonce arrived, the machine was scanned, and the backend acknowledged
  the report of that scan.
\<close>

theorem displayed_ready_was_acknowledged:
  assumes "reachable_from w env0 s" and "v \<in> set (scripted s)" and "view_state v = Ready"
  shows "\<exists>before env after job nonce snapshot ack. turns s = before @ env # after \<and>
    received env = Got job \<and> job_nonce job = Some nonce \<and> job \<in> set (jobs_taken s) \<and>
    worker_scan (self_of w) (parsers_of w) env 0 = Inr snapshot \<and>
    attest (serde_of (parsers_of w)) (send env) (wk_client (self_of w)) (attestation_request nonce snapshot) = Inr ack"
proof -
  let ?start = "(True, start_state (self_of w) (parsers_of w) env0)"
  have inv: "traced w env0 s" "views_ok s" using trace.inv_reach pages.inv_reach assms(1) by blast+
  have "v \<in> set (map fst (scripts_run s))" using assms(2) in_took by (simp add: scripted_def)
  then have "v \<in> set (published (acted s))"
    using inv(2) unfolding views_ok_def by (metis Un_iff set_append)
  moreover have "view_state (first_view w env0) = Idle" by (simp add: first_view_def)
  with assms(3) have "Publish v \<noteq> Publish (first_view w env0)" by auto
  ultimately obtain before env after st where turn: "turns s = before @ env # after"
    "worker_run w env0 before = (True, st)" "Publish v \<in> set (snd (iterate (self_of w) (parsers_of w) env st))"
    using acted_split [OF inv(1), of "Publish v"] by (auto simp: in_published)
  from turn_shows_ready [OF turn(3) assms(3)] show ?thesis
  proof
    assume "p_state (shown st) = Ready"
    then have "window_state (run (worker_step (self_of w) (parsers_of w)) ?start before) = Ready"
      using turn(2) by (simp add: window_state_def worker_run_def)
    moreover have "window_state ?start \<noteq> Ready" by (simp add: window_state_def)
    ultimately obtain b e a job nonce snapshot ack where ready: "before = b @ e # a"
      "received e = Got job" "job_nonce job = Some nonce"
      "worker_scan (self_of w) (parsers_of w) e 0 = Inr snapshot"
      "attest (serde_of (parsers_of w)) (send e) (wk_client (self_of w)) (attestation_request nonce snapshot) = Inr ack"
      using run_ready by blast
    moreover from this have "job \<in> set (jobs_taken s)"
      using taken_job [OF inv(1), of e job] turn(1) by simp
    moreover have "turns s = b @ e # (a @ env # after)" using turn(1) ready(1) by simp
    ultimately show ?thesis by blast
  next
    assume "\<exists>job nonce snapshot ack. received env = Got job \<and> job_nonce job = Some nonce \<and>
      worker_scan (self_of w) (parsers_of w) env 0 = Inr snapshot \<and>
      attest (serde_of (parsers_of w)) (send env) (wk_client (self_of w)) (attestation_request nonce snapshot) = Inr ack"
    moreover have "received env = Got job \<Longrightarrow> job \<in> set (jobs_taken s)" for job
      using taken_job [OF inv(1), of env job] turn(1) by simp
    ultimately show ?thesis using turn(1) by blast
  qed
qed

text \<open>
  C26: the program ends only by choice: it exits, and it tells the backend that the session is
  closing, only after the command to quit has come from the tray's menu; and when it has exited,
  the published port is withdrawn.
\<close>

theorem ends_only_by_choice:
  assumes "reachable_from w env0 s"
    and "exited (desk s) \<or> (\<exists>r. HeartbeatBody r \<in> set (posts (acted s)) \<and> hrq_closing r = Some True)"
  shows "Some ''quit'' \<in> set (menu_commands s) \<and> (if exited (desk s) then withdrawn s else True)"
proof -
  have inv: "traced w env0 s" "caused w s" using trace.inv_reach cause.inv_reach assms(1) by blast+
  have "quitting s"
    using assms(2)
  proof
    assume "exited (desk s)"
    with inv(2) show ?thesis by (simp add: caused_def quit_caused_def)
  next
    assume "\<exists>r. HeartbeatBody r \<in> set (posts (acted s)) \<and> hrq_closing r = Some True"
    then obtain r where r: "HeartbeatBody r \<in> set (posts (acted s))" "hrq_closing r = Some True" by blast
    from post_split [OF inv(1) r(1)] turn_closes r(2) obtain env t
      where "env \<in> set (turns s)" "received env = Got (Shutdown t)" by fastforce
    then have "t \<in> set (shutdowns (jobs_taken s))" using taken_job [OF inv(1)] by (simp add: in_job_lists)
    with inv(2) show ?thesis by (auto simp: caused_def split: if_splits)
  qed
  with inv(2) show ?thesis by (auto simp: caused_def quit_caused_def split: if_splits)
qed

text \<open>
  C25: an exit that did not have to time out has said goodbye: when the worker signals that it is
  done, it has taken the shutdown as its last job, and if a session was being kept alive then,
  the heartbeat that closes it has been posted.
\<close>

theorem goodbye_precedes_signal:
  assumes "reachable_from w env0 s" and "signalled s"
  shows "\<exists>before env after st. turns s = before @ env # after \<and> worker_run w env0 before = (True, st) \<and>
    received env = Got (Shutdown 0) \<and> \<not> fst (worker_at s) \<and>
    (case active st of
       None \<Rightarrow> True
     | Some a \<Rightarrow> HeartbeatBody (beat_request (self_of w) env (session_id a) True (Some True)) \<in> set (posts (acted s)))"
proof -
  let ?self = "self_of w" and ?ps = "parsers_of w"
  have inv: "traced w env0 s" "caused w s" using trace.inv_reach cause.inv_reach assms(1) by blast+
  then obtain t where t: "Signal t \<in> set (acted s)" using assms(2) by (auto simp: traced_def)
  then obtain before env after st where turn: "turns s = before @ env # after"
    "worker_run w env0 before = (True, st)" "Signal t \<in> set (snd (iterate ?self ?ps env st))"
    using acted_split [OF inv(1), of "Signal t"] by blast
  from turn_signals [OF turn(3)] have down: "received env = Got (Shutdown t)" .
  with taken_job [OF inv(1), of env] turn(1) have "t \<in> set (shutdowns (jobs_taken s))"
    by (simp add: in_job_lists)
  with inv(2) have "t = 0" by (auto simp: caused_def split: if_splits)
  have run: "worker_run w env0 (turns s) = (False, st)"
    using turn(1,2) down by (simp add: worker_run_def stopped_run)
  let ?bye = "case active st of None \<Rightarrow> [] | Some a \<Rightarrow> announce_close ?self ?ps env (session_id a)"
  let ?till = "(Publish (first_view w env0) # worker_acts w env0 before) @ ?bye"
  have "worker_acts w env0 (turns s) = worker_acts w env0 before @ ?bye @ Signal t #
      outputs (worker_step ?self ?ps) (worker_out ?self ?ps) (False, st) after"
    using turn(1,2) down by (simp add: worker_acts_def worker_run_def outputs_append on_shutdown_def)
  then have "prefix (acted s) (?till @ Signal t # outputs (worker_step ?self ?ps) (worker_out ?self ?ps) (False, st) after)"
    using inv(1) by (metis append.assoc append_Cons prefixI traced_def)
  moreover have "Signal t \<notin> set (worker_acts w env0 before)"
  proof
    assume "Signal t \<in> set (worker_acts w env0 before)"
    then obtain b e a where split: "before = b @ e # a"
      "Signal t \<in> set (worker_out ?self ?ps (worker_run w env0 b) e)"
      unfolding worker_acts_def worker_run_def by (blast dest: outputs_split)
    then obtain st' where "Signal t \<in> set (snd (iterate ?self ?ps e st'))" using worker_out_alive by blast
    then have "received e = Got (Shutdown t)" by (rule turn_signals)
    moreover have "fst (worker_run w env0 before)" using turn(2) by simp
    ultimately show False using alive_not_shut_down split(1) unfolding worker_run_def by fastforce
  qed
  then have "Signal t \<notin> set ?till"
    by (auto simp: announce_close_def posted_def Let_def split: option.splits)
  ultimately have "prefix (?till @ [Signal t]) (acted s)" using t by (intro prefix_upto)
  then have "case active st of None \<Rightarrow> True
     | Some a \<Rightarrow> HeartbeatBody (beat_request ?self env (session_id a) True (Some True)) \<in> set (posts (acted s))"
    by (auto simp: prefix_def announce_close_def Let_def split: option.split)
  with turn(1,2) down \<open>t = 0\<close> run inv(1) show ?thesis by (auto simp: traced_def)
qed

text \<open>
  C7: a command gets through: when the threads are idle and the endpoint accepts a command for a
  nonce that was not answered yet, the threads can bring it to the worker, and then, whatever the
  backend answers, an attestation of that nonce with a scan of this machine is posted.
\<close>

theorem accepted_command_is_attested:
  assumes "quiet s" and "bridge_up s" and "bridge_hand s = None" and "command_queue s = []"
    and "job_queue s = []" and "jobs_open s" and "to_do s = []" and "worker_at s = (True, st)"
    and "fst (serve_one (command_from_str w) (ack_to_string w) cloned stream (allowed_of w) (wk_version (self_of w))) = Some c"
    and "last_nonce st \<noteq> Some (lac_nonce c)"
    and "received env = Got (Local c)" and "worker_scan (self_of w) (parsers_of w) env 0 = Inr snapshot"
  shows "\<exists>t. (companion_step w)\<^sup>*\<^sup>* s t \<and>
    Post (base_url (wk_client (self_of w)) @ ''/v1/attest'')
      (AttestBody (attestation_request (lac_nonce c) snapshot)) \<in> set (acted t)"
proof -
  obtain t where t: "(companion_step w)\<^sup>*\<^sup>* s t" "job_queue t = [Local c]" "worker_at t = worker_at s"
    "to_do t = to_do s" "acted t = acted s" "desk t = desk s"
    using command_on_its_way [OF assms(1-6,9)] by blast
  let ?post = "Post (base_url (wk_client (self_of w)) @ ''/v1/attest'')
      (AttestBody (attestation_request (lac_nonce c) snapshot))"
  have "\<exists>u. thread_step w t u \<and> to_do u = worker_out (self_of w) (parsers_of w) (worker_at t) env \<and> desk u = desk t"
    using worker_takes [OF _ _ t(2) assms(11), of w] t(3,4) assms(7,8) by fastforce
  then obtain u where u: "companion_step w t u"
    "to_do u = worker_out (self_of w) (parsers_of w) (worker_at t) env" "desk u = desk t"
    using assms(1) t(6) by (auto simp: companion_step_def quiet_def)
  have "?post \<in> set (to_do u)"
    using u(2) t(3) assms(8,10-12)
    by (simp add: iterate_nonce [where job = "Local c" and nonce = "lac_nonce c"] job_nonce_def on_nonce_def
        on_snapshot_def posted_def Let_def case_prod_beta split: sum.split)
  moreover obtain v where "(companion_step w)\<^sup>*\<^sup>* u v" "acted v = acted u @ to_do u"
    using star_acts [of u w] u(3) t(6) assms(1) by (auto simp: quiet_def)
  ultimately have "(companion_step w)\<^sup>*\<^sup>* s v" "?post \<in> set (acted v)"
    using t(1) u(1) by (auto intro: rtranclp_trans converse_rtranclp_into_rtranclp)
  then show ?thesis by blast
qed

section \<open>An instance\<close>

text \<open>
  The world of \<open>Worker_Claims\<close>, with a menu whose message is the command to quit: the collector
  finds a nonce, the worker reports it, the views reach the page, and somebody quits.
\<close>

definition example_wiring :: "nat wiring" where
  "example_wiring =
     \<lparr>self_of = example_worker, parsers_of = example_parsers, command_from_str = (\<lambda>_. Inr (example_command ''https://api.example'')),
      ack_to_string = (\<lambda>_. None),
      allowed_of = [''https://api.example/'', ''https://api.fiveprotect.dev''], collector_client = wk_client example_worker,
      json_from_str = (\<lambda>_. Some 0), command_field = (\<lambda>_. Some ''quit'')\<rparr>"

abbreviation example_reach :: "(nat, unit) companion \<Rightarrow> bool" where
  "example_reach \<equiv> reachable_from example_wiring (example_env TimedOut)"

lemma example_wiring_simps [simp]:
  "self_of example_wiring = example_worker" "parsers_of example_wiring = example_parsers"
  by (simp_all add: example_wiring_def)

lemma example_quit [simp]: "command_of (json_from_str example_wiring) (command_field example_wiring) body = Some ''quit''"
  by (simp add: command_of_def example_wiring_def KNOWN_def)

lemma example_collect:
  "collect_turn (serde_of example_parsers) (\<lambda>_ _. UreqOk 200 (Inr 0)) (collector_client example_wiring) True =
     (True, [Sent example_job])"
proof -
  have "is_ok (validate_CompanionPollResponse example_poll)"
    using example_nonce_ok by (simp add: validate_CompanionPollResponse_def example_poll_def is_nonce_def)
  then have "poll_pending (serde_of example_parsers) (\<lambda>_ _. UreqOk 200 (Inr 0)) (collector_client example_wiring) w =
      Inr (Some \<lparr>pending_nonce = example_nonce, pending_server_name = None\<rparr>)" for w
    unfolding poll_pending_Some
    by (intro exI [of _ example_poll])
      (simp add: example_poll_def post_def post_raw_def Let_def example_parsers_def)
  then show ?thesis by (simp add: collect_turn_def example_job_def)
qed

lemma reach_take:
  assumes "reachable_from w env0 s" and "\<not> exited (desk s)" and "fst (worker_at s)" and "to_do s = []"
    and "job_queue s = j # js" and "received env = Got j"
  shows "\<exists>t. reachable_from w env0 t \<and> to_do t = [] \<and>
    worker_at t = worker_step (self_of w) (parsers_of w) (worker_at s) env \<and> turns t = turns s @ [env] \<and>
    job_queue t = js \<and> jobs_open t = jobs_open s \<and> collecting t = collecting s \<and> desk t = desk s \<and>
    quitting t = quitting s \<and> events t = events s \<and> untouched t = untouched s"
proof -
  have "\<exists>t. companion_step w s t \<and> worker_at t = worker_step (self_of w) (parsers_of w) (worker_at s) env \<and>
      turns t = turns s @ [env] \<and> job_queue t = js \<and> jobs_open t = jobs_open s \<and> collecting t = collecting s \<and>
      desk t = desk s \<and> quitting t = quitting s \<and> events t = events s \<and> untouched t = untouched s"
    using worker_takes [OF assms(3-6), of w] assms(2) by (fastforce simp: companion_step_def untouched_def)
  then obtain u where u: "companion_step w s u"
    "worker_at u = worker_step (self_of w) (parsers_of w) (worker_at s) env"
    "turns u = turns s @ [env]" "job_queue u = js" "jobs_open u = jobs_open s" "collecting u = collecting s"
    "desk u = desk s" "quitting u = quitting s" "events u = events s" "untouched u = untouched s" by blast
  from reach_acts [OF reach_step [OF assms(1) u(1)]] assms(2) u(7)
  obtain t where "reachable_from w env0 t" "to_do t = []" "waits u t" by auto
  with u show ?thesis by (intro exI [of _ t]) (simp add: waits_def)
qed

lemma example_first:
  "\<exists>s. example_reach s \<and> to_do s = [] \<and> job_queue s = [] \<and> jobs_open s \<and> collecting s \<and> \<not> exited (desk s) \<and>
     menu_shown (desk s) = Some False \<and> \<not> quitting s \<and> events s = [] \<and> turns s = [] \<and> untouched s = ([], [], None, []) \<and>
     worker_at s = (True, start_state example_worker example_parsers (example_env TimedOut))"
proof -
  let ?s = "companion_start example_wiring (example_env TimedOut) (Some False) :: (nat, unit) companion"
  have "example_reach ?s" by (rule reach_init) (auto simp: started_def menu_window_def)
  from reach_acts [OF this] obtain t where "example_reach t" "to_do t = []" "waits ?s t"
    by (auto simp: companion_start_def)
  then show ?thesis by (intro exI [of _ t]) (simp add: waits_def companion_start_def untouched_def)
qed

lemma example_collected:
  "\<exists>s. example_reach s \<and> to_do s = [] \<and> job_queue s = [example_job] \<and> jobs_open s \<and> \<not> exited (desk s) \<and>
     menu_shown (desk s) = Some False \<and> \<not> quitting s \<and> events s = [] \<and> turns s = [] \<and> untouched s = ([], [], None, [poll_post (collector_client example_wiring)]) \<and>
     worker_at s = (True, start_state example_worker example_parsers (example_env TimedOut))"
proof -
  obtain s where s: "example_reach s" "to_do s = []" "job_queue s = []" "jobs_open s" "collecting s"
    "\<not> exited (desk s)" "\<not> quitting s" "events s = []" "turns s = []" "menu_shown (desk s) = Some False"
    "worker_at s = (True, start_state example_worker example_parsers (example_env TimedOut))"
    "untouched s = ([], [], None, [])"
    using example_first by blast
  let ?acts = "[Sent example_job]"
  let ?t = "(fold send_job (jobs_sent ?acts) s)\<lparr>collecting := True, nonces_polled := collected (nonces_polled s) ?acts,
    polls_posted := polls_posted s @ [poll_post (collector_client example_wiring)]\<rparr>"
  have "companion_step example_wiring s ?t"
    unfolding companion_step_def using s(4-6) example_collect
    by (intro conjI collector_polls) (simp_all del: fold.simps)
  from reach_step [OF s(1) this] s show ?thesis
    by (intro exI [of _ ?t]) (simp add: jobs_sent_def map_filter_def untouched_def)
qed

text \<open>The nonce has been collected and reported.\<close>

lemma example_reported:
  "\<exists>s. example_reach s \<and> to_do s = [] \<and> quiet s \<and> turns s = [example_env (Got example_job)] \<and>
     fst (worker_at s) \<and> job_queue s = [] \<and> jobs_open s \<and> events s = [] \<and> menu_shown (desk s) = Some False \<and>
     untouched s = ([], [], None, [poll_post (collector_client example_wiring)])"
proof -
  obtain s where s: "example_reach s" "to_do s = []" "job_queue s = [example_job]" "jobs_open s"
    "\<not> exited (desk s)" "\<not> quitting s" "events s = []" "turns s = []" "menu_shown (desk s) = Some False"
    "worker_at s = (True, start_state example_worker example_parsers (example_env TimedOut))"
    "untouched s = ([], [], None, [poll_post (collector_client example_wiring)])"
    using example_collected by blast
  from reach_take [OF s(1,5) _ s(2,3), of "example_env (Got example_job)"] s(10)
  obtain t where "example_reach t" "to_do t = []" "turns t = turns s @ [example_env (Got example_job)]"
    "worker_at t = worker_step example_worker example_parsers (worker_at s) (example_env (Got example_job))"
    "job_queue t = []" "jobs_open t = jobs_open s" "desk t = desk s" "quitting t = quitting s" "events t = events s" "untouched t = untouched s"
    by auto
  with s show ?thesis by (intro exI [of _ t]) (simp add: quiet_def iterate_nonce)
qed

lemma example_ready_now: "window_state (example_run [example_env (Got example_job)]) = Ready"
  unfolding window.run_refines
  by (simp add: window_events_def turn_events_nonce nonce_events_def window_state_def)

text \<open>The player has quit after that, and the worker has signalled that it is done.\<close>

lemma example_quits:
  "\<exists>s. example_reach s \<and> exited (desk s) \<and> signalled s \<and>
     turns s = [example_env (Got example_job), example_env (Got (Shutdown 0))]"
proof -
  obtain s where s: "example_reach s" "to_do s = []" "quiet s" "turns s = [example_env (Got example_job)]"
    "fst (worker_at s)" "job_queue s = []" "jobs_open s" "events s = []"
    "menu_shown (desk s) = Some False"
    using example_reported by blast
  then have live: "\<not> exited (desk s)" "\<not> quitting s" by (simp_all add: quiet_def)
  let ?t = "s\<lparr>events := events s @ map UserEvent (menu_ipc (command_of (json_from_str example_wiring) (command_field example_wiring) [])),
    menu_commands := menu_commands s @ [command_of (json_from_str example_wiring) (command_field example_wiring) []]\<rparr>"
  have "companion_step example_wiring s ?t"
    unfolding companion_step_def using live menu_message [of s example_wiring] s(9) by simp
  from reach_step [OF s(1) this] have t: "example_reach ?t" .
  then obtain t where t: "example_reach t" "events t = [UserEvent Quit]" "to_do t = []" "job_queue t = []"
    "jobs_open t" "fst (worker_at t)" "turns t = turns s" "\<not> exited (desk t)" "\<not> quitting t"
    using s live by (force simp: menu_ipc_def)
  let ?u = "(send_job (Shutdown 0) t)\<lparr>events := [], quitting := True\<rparr>"
  have "companion_step example_wiring t ?u"
    unfolding companion_step_def using t loop_quits by blast
  from reach_step [OF t(1) this] have "example_reach ?u" .
  then obtain u where u: "example_reach u" "job_queue u = [Shutdown 0]" "to_do u = []" "fst (worker_at u)"
    "turns u = turns s" "\<not> exited (desk u)" "quitting u"
    using t by force
  from reach_take [OF u(1,6,4,3,2), of "example_env (Got (Shutdown 0))"]
  obtain v where v: "example_reach v" "to_do v = []" "turns v = turns s @ [example_env (Got (Shutdown 0))]"
    "quitting v" "desk v = desk u" using u by auto
  let ?x = "v\<lparr>desk := (desk v)\<lparr>exited := True\<rparr>, withdrawn := True\<rparr>"
  have "companion_step example_wiring v ?x"
    unfolding companion_step_def using loop_exits [OF v(4)] v(5) u(6) by simp
  from reach_step [OF v(1) this] have x: "example_reach ?x" .
  have "traced example_wiring (example_env TimedOut) v" using trace.inv_reach [OF v(1)] .
  then have "acted v = Publish (first_view example_wiring (example_env TimedOut)) #
      worker_acts example_wiring (example_env TimedOut) (turns v)" "signalled v \<longleftrightarrow> (\<exists>t. Signal t \<in> set (acted v))"
    using v(2) by (simp_all add: traced_def)
  moreover have "Signal 0 \<in> set (worker_acts example_wiring (example_env TimedOut) (turns v))"
    using v(3) s(4) by (simp add: worker_acts_def iterate_nonce on_shutdown_def split: option.split)
  ultimately have "signalled v" by auto
  with x v(3) s(4) show ?thesis by (intro exI [of _ ?x]) simp
qed

lemma example_fresh:
  assumes "example_reach s" and "to_do s = []" and "untouched s = ([], q, h, p)"
  shows "fresh s"
proof -
  have "traced example_wiring (example_env TimedOut) s" "views_ok s"
    using trace.inv_reach pages.inv_reach assms(1) by blast+
  with assms(2,3) show ?thesis by (auto simp: traced_def views_ok_def fresh_def views_moving_def untouched_def)
qed

lemma program_refines_sequential_worker_witness:
  "\<exists>s envs. example_reach s \<and> turns s = [example_env (Got example_job)] \<and>
     worker_at s = worker_run example_wiring (example_env TimedOut) envs \<and> jobs_queued s = jobs_of envs \<and>
     jobs_queued s \<noteq> []"
proof -
  obtain s where s: "example_reach s" "turns s = [example_env (Got example_job)]" "fst (worker_at s)" "job_queue s = []"
    using example_reported by blast
  from program_refines_sequential_worker [OF s(1)] s(3,4) obtain envs
    where "worker_at s = worker_run example_wiring (example_env TimedOut) envs" "jobs_queued s = jobs_of envs"
    by auto
  moreover have "traced example_wiring (example_env TimedOut) s" "fifo s"
    using trace.inv_reach channel.inv_reach s(1) by blast+
  then have "jobs_queued s \<noteq> []"
    using s(2) by (auto simp: traced_def fifo_def jobs_of_def map_filter_def prefix_def)
  ultimately show ?thesis using s by blast
qed

lemma example_acted:
  "example_reach s \<Longrightarrow> to_do s = [] \<Longrightarrow> turns s = [example_env (Got example_job)] \<Longrightarrow>
   Post (base_url (wk_client example_worker) @ ''/v1/attest'')
     (AttestBody (attestation_request example_nonce example_snapshot)) \<in> set (acted s)"
  using trace.inv_reach [of example_wiring "example_env TimedOut" s]
  by (simp add: traced_def worker_acts_def iterate_nonce on_nonce_def on_snapshot_def posted_def Let_def case_prod_beta)

lemma reported_nonce_has_origin_witness:
  "\<exists>s. example_reach s \<and> is_nonce example_nonce \<and>
     ((\<exists>c\<in>set (commands_accepted s). command_from example_wiring c \<and> lac_nonce c = example_nonce) \<or>
      (\<exists>p\<in>set (nonces_polled s). nonce_from example_wiring p \<and> pending_nonce p = example_nonce))"
proof -
  obtain s where s: "example_reach s" "to_do s = []" "turns s = [example_env (Got example_job)]"
    using example_reported by blast
  from reported_nonce_has_origin [OF s(1) example_acted [OF s]] s(1) show ?thesis
    by (intro exI [of _ s]) (simp add: attestation_request_def)
qed

lemma page_can_catch_up_witness:
  "\<exists>s t. example_reach s \<and> (companion_step example_wiring)\<^sup>*\<^sup>* s t \<and> drained t \<and> scripted t \<noteq> [] \<and>
     last (scripted t) = publish example_worker (shown (snd (worker_at t)))"
proof -
  obtain s where s: "example_reach s" "quiet s" "to_do s = []"
    "untouched s = ([], [], None, [poll_post (collector_client example_wiring)])"
    using example_reported by blast
  from page_can_catch_up [OF s(1,2) example_fresh [OF s(1,3,4)], of "\<lambda>j. example_env (Got j)"] s(1)
  show ?thesis by auto
qed

lemma views_reach_page_in_order_witness:
  "\<exists>s. example_reach s \<and> map fst (scripts_run s) @ views_in (events s) @ in_hand (view_hand s) @ view_queue s =
     published (acted s) \<and> published (acted s) \<noteq> []"
proof -
  obtain s where s: "example_reach s" "to_do s = []" using example_reported by blast
  have "traced example_wiring (example_env TimedOut) s" using trace.inv_reach s(1) by blast
  then have "published (acted s) \<noteq> []" using s(2) by (simp add: traced_def)
  with views_reach_page_in_order [OF s(1)] s show ?thesis by blast
qed

lemma early_view_lost_witness:
  "\<exists>s. example_reach s \<and> page_parsed s \<and> length (turns s) = 1000 \<and> scripted s = []"
proof -
  have "\<forall>env\<in>set (replicate 1000 (example_env TimedOut)). received env = TimedOut \<and>
    game_running (self_of example_wiring) (parsers_of example_wiring) env 0 =
    game_running (self_of example_wiring) (parsers_of example_wiring) (example_env TimedOut) 0"
    by (auto simp: example_env_def)
  from early_view_lost [OF this, where 'p = unit] show ?thesis by (metis length_replicate)
qed

lemma displayed_ready_was_acknowledged_witness:
  "\<exists>s v before env after job nonce snapshot ack. example_reach s \<and> v \<in> set (scripted s) \<and> view_state v = Ready \<and>
    turns s = before @ env # after \<and>
    received env = Got job \<and> job_nonce job = Some nonce \<and> job \<in> set (jobs_taken s) \<and>
    worker_scan (self_of example_wiring) (parsers_of example_wiring) env 0 = Inr snapshot \<and>
    attest (serde_of (parsers_of example_wiring)) (send env) (wk_client (self_of example_wiring))
      (attestation_request nonce snapshot) = Inr ack"
proof -
  obtain s where s: "example_reach s" "quiet s" "turns s = [example_env (Got example_job)]" "to_do s = []"
    "job_queue s = []" "events s = []" "untouched s = ([], [], None, [poll_post (collector_client example_wiring)])"
    using example_reported by blast
  let ?u = "s\<lparr>page_parsed := True\<rparr>"
  have u: "reachable_from example_wiring (example_env TimedOut) ?u" "quiet ?u" "page_parsed ?u" "fresh ?u"
    using page_parses_now [OF s(1,2) example_fresh [OF s(1,4,7)]] by simp_all
  have "before_worker ?u = 0" using s(5-7) by (simp add: before_worker_def untouched_def)
  with drain [OF u, of "\<lambda>j. example_env (Got j)"] obtain t
    where t: "example_reach t" "drained t" "fresh t" "worker_at t = worker_at ?u" by auto
  have "traced example_wiring (example_env TimedOut) s" using trace.inv_reach s(1) .
  then have ready: "window_state (worker_at t) = Ready"
    using s(3) t(4) example_ready_now by (simp add: traced_def worker_run_def)
  from t have inv: "traced example_wiring (example_env TimedOut) t" "views_ok t"
    using trace.inv_reach pages.inv_reach by blast+
  note page = drained_page [OF inv t(2,3)]
  with ready have "view_state (last (scripted t)) = Ready" by (simp add: window_state_def)
  moreover have "last (scripted t) \<in> set (scripted t)" using page by (intro last_in_set) (rule conjunct1)
  ultimately have "last (scripted t) \<in> set (scripted t)" "view_state (last (scripted t)) = Ready" by blast+
  from displayed_ready_was_acknowledged [OF t(1) this] t(1) this show ?thesis by blast
qed

lemma ends_only_by_choice_witness:
  "\<exists>s. example_reach s \<and> exited (desk s) \<and> Some ''quit'' \<in> set (menu_commands s) \<and> withdrawn s"
proof -
  obtain s where s: "example_reach s" "exited (desk s)" using example_quits by blast
  with ends_only_by_choice [OF s(1)] show ?thesis by (intro exI [of _ s]) simp
qed

lemma goodbye_precedes_signal_witness:
  "\<exists>s before env after st. example_reach s \<and> turns s = before @ env # after \<and>
     worker_run example_wiring (example_env TimedOut) before = (True, st) \<and> received env = Got (Shutdown 0)"
proof -
  obtain s where s: "example_reach s" "signalled s" using example_quits by blast
  from goodbye_precedes_signal [OF s] s(1) show ?thesis by blast
qed

lemma example_served:
  "\<exists>stream. fst (serve_one (command_from_str example_wiring) (ack_to_string example_wiring) True stream
     (allowed_of example_wiring) (wk_version (self_of example_wiring))) = Some (example_command ''https://api.example'')"
proof -
  let ?c = "example_command ''https://api.example''"
  have origin: "origin_of ''https://api.example/'' = Some ''https://api.example''"
  proof -
    have "to_ascii_lowercase ''https://api.example/'' = ''https://api.example/''" by code_simp
    then show ?thesis by (simp add: origin_of_def strip_prefix_def trim_visible is_visible_def code_def ends_authority_def)
  qed
  have "is_ok (validate_LocalAttestCommand ?c)"
    by (simp add: command_accept_simps example_simps is_ascii_hexdigit_def list_all_iff)
  then have "handle_request (\<lambda>_. Inr ?c) ''POST'' ''/attest'' [] (allowed_of example_wiring) = Inr (Attest ?c)"
    by (simp add: handle_request_ok example_command_def command_accept_simps is_allowed_backend_def
        map_filter_def example_trusted origin example_wiring_def attest_route_iff trim_end_matches_def)
  moreover have "read_request \<lparr>arrived = ''POST'' @ '' '' @ ''/attest'' @ '' HTTP/1.1'' @ crlf @
      ''Content-Length: '' @ show_nat (length ([] :: string)) @ crlf @ crlf @ [] @ [], at_eof = False\<rparr> =
    Inr \<lparr>rq_method = ''POST'', rq_path = ''/attest'', rq_body = []\<rparr>"
    by (rule read_request_plain) (simp_all add: is_visible_def code_def)
  ultimately show ?thesis
    using post_not_options [of "''POST''"] unfolding serve_one_accepted
    by (force simp: example_wiring_def)
qed

lemma commands_reach_worker_in_order_witness:
  "\<exists>s. example_reach s \<and> fst (worker_at s) \<and> commands_accepted s =
     local_commands (jobs_taken s) @ local_commands (job_queue s) @ in_hand (bridge_hand s) @ command_queue s \<and>
     commands_accepted s \<noteq> []"
proof -
  obtain s where s: "example_reach s" "quiet s" "fst (worker_at s)" "job_queue s = []" "jobs_open s"
    "command_queue s = []" "bridge_hand s = None"
    using example_reported unfolding untouched_def by blast
  obtain stream where served: "fst (serve_one (command_from_str example_wiring) (ack_to_string example_wiring) True stream
     (allowed_of example_wiring) (wk_version (self_of example_wiring))) = Some (example_command ''https://api.example'')"
    using example_served by blast
  have "bridge_up s" using quiet_alive [OF s(1,2)] by simp
  from command_on_its_way [OF s(2) this s(7,6,4,5) served] obtain t
    where t: "(companion_step example_wiring)\<^sup>*\<^sup>* s t"
      "job_queue t = [Local (example_command ''https://api.example'')]" "worker_at t = worker_at s" by blast
  have r: "example_reach t" using reach_star [OF t(1) s(1)] .
  with commands_reach_worker_in_order [OF r] s(3) t(2,3) show ?thesis by (intro exI [of _ t]) simp
qed

lemma accepted_command_is_attested_witness:
  "\<exists>(s :: (nat, unit) companion) t. to_do s = [] \<and> (companion_step example_wiring)\<^sup>*\<^sup>* s t \<and>
    Post (base_url (wk_client (self_of example_wiring)) @ ''/v1/attest'')
      (AttestBody (attestation_request (lac_nonce (example_command ''https://api.example'')) example_snapshot))
      \<in> set (acted t)"
proof -
  let ?s = "(companion_start example_wiring (example_env TimedOut) (Some False) :: (nat, unit) companion)\<lparr>to_do := []\<rparr>"
  obtain stream where "fst (serve_one (command_from_str example_wiring) (ack_to_string example_wiring) True stream
     (allowed_of example_wiring) (wk_version (self_of example_wiring))) = Some (example_command ''https://api.example'')"
    using example_served by blast
  note served = this
  let ?c = "example_command ''https://api.example''"
  have start: "quiet ?s" "bridge_up ?s" "bridge_hand ?s = None" "command_queue ?s = []" "job_queue ?s = []"
    "jobs_open ?s" "to_do ?s = []"
    "worker_at ?s = (True, start_state example_worker example_parsers (example_env TimedOut))"
    by (simp_all add: companion_start_def quiet_def)
  have fresh: "last_nonce (start_state example_worker example_parsers (example_env TimedOut)) \<noteq> Some (lac_nonce ?c)"
    by (simp add: start_state_def Let_def)
  have env: "received (example_env (Got (Local ?c))) = Got (Local ?c)"
    "worker_scan (self_of example_wiring) (parsers_of example_wiring) (example_env (Got (Local ?c))) 0 = Inr example_snapshot"
    by simp_all
  from start(7) accepted_command_is_attested [OF start served fresh env] show ?thesis by blast
qed

end
