(* ===== verification/Registry.thy ===== *)
theory Registry
  imports Rust_Prelude
begin

text \<open>
  The published port, \<open>fiveprotect-companion/src/registry.rs\<close>: the calls of the Win32 registry a
  publication and a withdrawal make, in order, with the status each returns as a parameter. A key
  is a handle of any type; names are given as text (\<open>wide\<close> only changes their encoding).
\<close>

section \<open>Operations\<close>

definition SUBKEY :: string where
  "SUBKEY = ''Software'' @ [CHR 0x5C] @ ''FiveProtect''"

definition VALUE_NAME :: string where
  "VALUE_NAME = ''Port''"

datatype 'h registry_call =
    CreateKey string
  | SetDword 'h string u32
  | DeleteValue 'h string
  | CloseKey 'h

text \<open>\<open>create\<close> is the status of \<open>RegCreateKeyExW\<close> and the handle it stored; 0 is success.\<close>

definition open_key :: "int \<times> 'h \<Rightarrow> 'h option \<times> 'h registry_call list" where
  "open_key create =
     (case create of (status, key) \<Rightarrow> (if status = 0 then Some key else None, [CreateKey SUBKEY]))"

definition publish_port :: "int \<times> 'h \<Rightarrow> int \<Rightarrow> u16 \<Rightarrow> bool \<times> 'h registry_call list" where
  "publish_port create set_status port =
     (case open_key create of
        (None, calls) \<Rightarrow> (False, calls)
      | (Some key, calls) \<Rightarrow>
          (set_status = 0, calls @ [SetDword key VALUE_NAME (ucast port), CloseKey key]))"

definition withdraw_port :: "int \<times> 'h \<Rightarrow> 'h registry_call list" where
  "withdraw_port create =
     (case open_key create of
        (None, calls) \<Rightarrow> calls
      | (Some key, calls) \<Rightarrow> calls @ [DeleteValue key VALUE_NAME, CloseKey key])"

section \<open>What the registry holds\<close>

text \<open>The value under the key, after calls that returned success.\<close>

fun registry_after :: "u32 option \<Rightarrow> 'h registry_call list \<Rightarrow> u32 option" where
  "registry_after v [] = v"
| "registry_after v (SetDword key name data # cs) = registry_after (Some data) cs"
| "registry_after v (DeleteValue key name # cs) = registry_after None cs"
| "registry_after v (_ # cs) = registry_after v cs"

text \<open>Every handle that was opened is used and then closed, once, and none is used after that.\<close>

fun closes_properly :: "'h option \<Rightarrow> 'h registry_call list \<Rightarrow> bool" where
  "closes_properly None [] = True"
| "closes_properly (Some h) [] = False"
| "closes_properly h (CreateKey name # cs) = closes_properly h cs"
| "closes_properly (Some h) (SetDword h' name data # cs) = (h' = h \<and> closes_properly (Some h) cs)"
| "closes_properly (Some h) (DeleteValue h' name # cs) = (h' = h \<and> closes_properly (Some h) cs)"
| "closes_properly (Some h) (CloseKey h' # cs) = (h' = h \<and> closes_properly None cs)"
| "closes_properly None (_ # cs) = False"

lemma handles_closed:
  "closes_properly (fst (open_key create)) (snd (publish_port create set_status port))"
  "closes_properly (fst (open_key create)) (withdraw_port create)"
  by (auto simp: publish_port_def withdraw_port_def open_key_def split: prod.split)

text \<open>
  What is published is the port, unchanged by its widening to four bytes, and a withdrawal removes
  it; when the key cannot be opened nothing is changed, and the publication says so. Each handle
  that was opened is closed, once, after its last use.
\<close>

lemma published_port_is_withdrawn:
  "(if status = 0
    then registry_after v (snd (publish_port (status, key) set_status port)) = Some (ucast port) \<and>
      unat (ucast port :: u32) = unat port \<and>
      registry_after v (snd (publish_port (status, key) set_status port) @ withdraw_port (status, key)) = None
    else \<not> fst (publish_port (status, key) set_status port) \<and>
      registry_after v (snd (publish_port (status, key) set_status port) @ withdraw_port (status, key)) = v) \<and>
   closes_properly (fst (open_key create)) (snd (publish_port create set_status port)) \<and>
   closes_properly (fst (open_key create)) (withdraw_port create)"
proof -
  have "unat (ucast port :: u32) = unat port"
    by (simp add: unsigned_ucast_eq take_bit_nat_eq_self order.strict_trans [OF unsigned_less])
  then show ?thesis
    by (simp add: handles_closed) (simp add: publish_port_def withdraw_port_def open_key_def)
qed

end
