(* ===== verification/Startup.thy ===== *)
theory Startup
  imports Companion_Claims Settings Registry
begin

text \<open>
  Starting the program, \<open>main\<close> and the beginning of \<open>run_window\<close> of \<open>fiveprotect-companion/src/main.rs\<close>:
  the steps in their order, each of which can end the process, the lines the main thread logs
  on the way, and the threads' shared configuration when all went well. What the system answers
  is the record \<open>boot\<close>.
\<close>

section \<open>Operations\<close>

record boot =
  hash_read :: "string + string"
  settings_loaded :: Settings
  engine_text :: "string option"
  port_listen :: "u16 \<Rightarrow> string + unit"
  registry_create :: "int \<times> nat"
  registry_set :: int
  spawn_error :: "string \<Rightarrow> string option"
  window_error :: "string option"
  webview_error :: "string option"

record running =
  run_port :: u16
  run_worker :: Worker
  run_collector :: Client
  run_allowed :: "string list"

text \<open>\<open>spawn\<close>, for one thread after the other: the line with which the first failure ends the process.\<close>

fun spawn_all :: "(string \<Rightarrow> string option) \<Rightarrow> string list \<Rightarrow> string option" where
  "spawn_all fails [] = None"
| "spawn_all fails (name # names) =
     (case fails name of
        Some error \<Rightarrow> Some (''Thread '' @ name @ '' konnte nicht gestartet werden: '' @ error)
      | None \<Rightarrow> spawn_all fails names)"

text \<open>Where the page's profile goes; the base is written with its separator, \<open>makes_dir\<close> creates a directory.\<close>

definition web_context_dir :: "string option \<Rightarrow> (string \<Rightarrow> bool) \<Rightarrow> string option" where
  "web_context_dir local_app_data makes_dir =
     (case local_app_data of
        None \<Rightarrow> None
      | Some base \<Rightarrow>
          (let dir = base @ ''FiveProtect/'' @ ''WebView2'' in if makes_dir dir then Some dir else None))"

text \<open>\<open>run_window\<close> up to the event loop: the line with which it ends the process, if it does.\<close>

definition open_window :: "boot \<Rightarrow> string option" where
  "open_window b =
     (case window_error b of
        Some error \<Rightarrow> Some (''Fenster konnte nicht geoeffnet werden: '' @ error)
      | None \<Rightarrow>
          (case webview_error b of
             Some error \<Rightarrow> Some (''Oberflaeche konnte nicht geladen werden: '' @ error)
           | None \<Rightarrow> spawn_all (spawn_error b) [''fiveprotect-views'']))"

definition boot_lines :: "boot \<Rightarrow> string \<Rightarrow> string list" where
  "boot_lines b hash =
     [''Version '' @ VERSION @ '', Scan-Engine '' @ engine_version (engine_text b),
      ''Build-Hash '' @ hash,
      ''Vertraute Backends: '' @ join '', '' (allowed_backends (settings_loaded b)) @
        (case source (settings_loaded b) of
           Some path \<Rightarrow> '' (erweitert durch '' @ path @ '')''
         | None \<Rightarrow> [])]"

text \<open>The threads of \<open>main\<close>; the bridge is started while the endpoint's closure is put together.\<close>

definition start_threads :: "boot \<Rightarrow> string option" where
  "start_threads b = spawn_all (spawn_error b)
     [''fiveprotect-bridge'', ''fiveprotect-endpoint'', ''fiveprotect-collector'', ''fiveprotect-worker'']"

definition startup :: "boot \<Rightarrow> string list \<times> running option" where
  "startup b =
     (case hash_read b of
        Inl error \<Rightarrow> ([''Der eigene Programm-Hash konnte nicht gelesen werden: '' @ error], None)
      | Inr hash \<Rightarrow>
          (case primary_backend (settings_loaded b) of
             None \<Rightarrow> (boot_lines b hash @ [''Kein Backend konfiguriert.''], None)
           | Some primary \<Rightarrow>
               (case bind_endpoint (port_listen b) of
                  Inl error \<Rightarrow>
                    (boot_lines b hash @ [''Kein freier Port im Bereich 52800-52899: '' @ error], None)
                | Inr port \<Rightarrow>
                    (let lines = boot_lines b hash @ [''Lauscht auf 127.0.0.1:'' @ show_nat (unat port)] @
                           (if fst (publish_port (registry_create b) (registry_set b) port) then []
                            else [''Der Port konnte nicht in die Registry geschrieben werden.'']);
                         client = Client_new primary VERSION
                     in case start_threads b of
                          Some line \<Rightarrow> (lines @ [line], None)
                        | None \<Rightarrow>
                            (case open_window b of
                               Some line \<Rightarrow> (lines @ [line], None)
                             | None \<Rightarrow>
                                 (lines, Some
                                    \<lparr>run_port = port,
                                     run_worker = \<lparr>wk_client = client, wk_version = VERSION, wk_build_hash = hash\<rparr>,
                                     run_collector = client, run_allowed = allowed_backends (settings_loaded b)\<rparr>))))))"

text \<open>The threads of a program that runs, with the libraries they call.\<close>

definition wiring_of ::
    "running \<Rightarrow> 'v parsers \<Rightarrow> from_str_command \<Rightarrow> (LocalAttestAck \<Rightarrow> string option) \<Rightarrow>
     (string \<Rightarrow> 'v option) \<Rightarrow> ('v \<Rightarrow> string option) \<Rightarrow> 'v wiring" where
  "wiring_of r ps from_str to_string json field =
     \<lparr>self_of = run_worker r, parsers_of = ps, command_from_str = from_str, ack_to_string = to_string,
      allowed_of = run_allowed r, collector_client = run_collector r, json_from_str = json, command_field = field\<rparr>"

section \<open>Lemmas\<close>

lemma startup_Some:
  "startup b = (lines, Some r) \<longleftrightarrow>
     (\<exists>hash primary port. hash_read b = Inr hash \<and> primary_backend (settings_loaded b) = Some primary \<and>
        bind_endpoint (port_listen b) = Inr port \<and> start_threads b = None \<and> open_window b = None \<and>
        lines = boot_lines b hash @ [''Lauscht auf 127.0.0.1:'' @ show_nat (unat port)] @
          (if fst (publish_port (registry_create b) (registry_set b) port) then []
           else [''Der Port konnte nicht in die Registry geschrieben werden.'']) \<and>
        r = \<lparr>run_port = port,
             run_worker = \<lparr>wk_client = Client_new primary VERSION, wk_version = VERSION, wk_build_hash = hash\<rparr>,
             run_collector = Client_new primary VERSION, run_allowed = allowed_backends (settings_loaded b)\<rparr>)"
  by (auto simp: startup_def Let_def split: sum.splits option.splits)

lemma spawn_all_None: "spawn_all fails names = None \<longleftrightarrow> (\<forall>n\<in>set names. fails n = None)"
  by (induction names) (auto split: option.split)

lemma bound_port:
  "bind_endpoint listen = Inr p \<Longrightarrow> 52800 \<le> unat p \<and> unat p \<le> 52899 \<and> is_ok (listen p)"
  using port_range_split by (fastforce simp: bind_endpoint_def bind_loop_Inr)

definition thread_names :: "string set" where
  "thread_names = {''fiveprotect-bridge'', ''fiveprotect-endpoint'', ''fiveprotect-collector'',
     ''fiveprotect-worker'', ''fiveprotect-views''}"

definition all_up :: "boot \<Rightarrow> bool" where
  "all_up b \<longleftrightarrow> window_error b = None \<and> webview_error b = None \<and> (\<forall>n\<in>thread_names. spawn_error b n = None)"

lemma all_up_iff: "start_threads b = None \<and> open_window b = None \<longleftrightarrow> all_up b"
  by (auto simp: start_threads_def open_window_def all_up_def thread_names_def spawn_all_None
      simp del: spawn_all.simps split: option.splits)

lemma primary_min:
  "settings_loaded b = load exe_dir is_file read_to_string from_str \<Longrightarrow>
   primary_backend (settings_loaded b) = Some (Min (set (allowed_backends (settings_loaded b))))"
  using load_allowed [of exe_dir is_file read_to_string from_str]
  unfolding primary_backend_def by (intro first_of_sorted) (auto simp: BUILT_IN_def)

lemma startup_run:
  assumes "settings_loaded b = load exe_dir is_file read_to_string from_str" and "startup b = (lines, Some r)"
  shows "hash_read b = Inr (wk_build_hash (run_worker r)) \<and>
    wk_client (run_worker r) = run_collector r \<and>
    base_url (run_collector r) = trim_end_matches (CHR ''/'') (Min (set (run_allowed r))) \<and>
    run_allowed r = allowed_backends (settings_loaded b) \<and>
    client_version (run_collector r) = VERSION \<and> wk_version (run_worker r) = VERSION \<and>
    52800 \<le> unat (run_port r) \<and> unat (run_port r) \<le> 52899 \<and> is_ok (port_listen b (run_port r))"
  using assms(2) primary_min [OF assms(1)] bound_port unfolding startup_Some by (auto simp: Client_new_def)

section \<open>Properties\<close>

text \<open>
  The program runs exactly when its own hash could be read, a port of the range could be bound,
  and the window and every thread came up; otherwise the process ends, and not without a line in
  the log. A program that runs reports the hash that was read, has its worker and its collector
  talk to the same backend, the least of the trusted ones, and listens on a port of the range.
\<close>

lemma startup_configuration:
  assumes "settings_loaded b = load exe_dir is_file read_to_string from_str"
  shows "(snd (startup b) \<noteq> None \<longleftrightarrow>
       is_ok (hash_read b) \<and> is_ok (bind_endpoint (port_listen b)) \<and> all_up b) \<and>
     fst (startup b) \<noteq> [] \<and>
     (case snd (startup b) of
        None \<Rightarrow> True
      | Some r \<Rightarrow>
          hash_read b = Inr (wk_build_hash (run_worker r)) \<and>
          wk_client (run_worker r) = run_collector r \<and>
          base_url (run_collector r) = trim_end_matches (CHR ''/'') (Min (set (run_allowed r))) \<and>
          run_allowed r = allowed_backends (settings_loaded b) \<and>
          client_version (run_collector r) = VERSION \<and> wk_version (run_worker r) = VERSION \<and>
          52800 \<le> unat (run_port r) \<and> unat (run_port r) \<le> 52899 \<and> is_ok (port_listen b (run_port r)))"
proof -
  have "snd (startup b) \<noteq> None \<longleftrightarrow>
      is_ok (hash_read b) \<and> is_ok (bind_endpoint (port_listen b)) \<and> all_up b"
    using primary_min [OF assms] unfolding all_up_iff [symmetric]
    by (auto simp: startup_def Let_def split: sum.split option.split)
  moreover have "fst (startup b) \<noteq> []"
    using primary_min [OF assms] by (auto simp: startup_def boot_lines_def Let_def split: sum.split option.split)
  ultimately show ?thesis
    using startup_run [OF assms, of "fst (startup b)"]
    by (cases "startup b"; cases "snd (startup b)") simp_all
qed

text \<open>
  C12: a running program talks to one backend: whatever its threads do, every request it makes, the worker's
  and the polls of its collector, goes to a path of the least trusted backend that belongs to its
  content; every heartbeat carries the hash that was read at the start and every poll the version.
\<close>

theorem program_talks_to_primary:
  assumes "settings_loaded b = load exe_dir is_file read_to_string from_str"
    and "startup b = (lines, Some r)"
    and "reachable_from (wiring_of r ps command_json ack_json json field) env0 s"
    and "Post url content \<in> set (acted s) \<or> (url, content) \<in> set (polls_posted s)"
  shows "url = trim_end_matches (CHR ''/'') (Min (set (allowed_backends (settings_loaded b)))) @
      (case content of
         AttestBody _ \<Rightarrow> ''/v1/attest''
       | OutcomeBody _ \<Rightarrow> ''/v1/companion/outcome''
       | HeartbeatBody _ \<Rightarrow> ''/v1/sessions/heartbeat''
       | PollBody _ \<Rightarrow> ''/v1/companion/pending'') \<and>
    (case content of
       HeartbeatBody q \<Rightarrow> hash_read b = Inr (hrq_companion_build_hash q)
     | PollBody q \<Rightarrow> cpq_companion_version q = VERSION
     | _ \<Rightarrow> True)"
proof -
  from startup_run [OF assms(1,2)]
  have r: "base_url (run_collector r) =
      trim_end_matches (CHR ''/'') (Min (set (allowed_backends (settings_loaded b))))"
    "wk_client (run_worker r) = run_collector r"
    "hash_read b = Inr (wk_build_hash (run_worker r))" "client_version (run_collector r) = VERSION" by auto
  from assms(4) show ?thesis
  proof
    assume "Post url content \<in> set (acted s)"
    from acted_good [OF assms(3) this] have "good_action (run_worker r) (Post url content)"
      by (simp add: wiring_of_def)
    then obtain path where "url = base_url (wk_client (run_worker r)) @ path" "good_body (run_worker r) path content"
      by (auto simp: good_action_def good_request_def)
    with r show ?thesis by (cases content) (auto simp: good_body_def)
  next
    assume "(url, content) \<in> set (polls_posted s)"
    with polls.inv_reach [OF assms(3)] have "(url, content) = poll_post (run_collector r)"
      by (auto simp: polls_ok_def wiring_of_def)
    with r show ?thesis by (simp add: poll_post_def poll_request_def)
  qed
qed

section \<open>An instance\<close>

text \<open>A settings file adds a backend that sorts before the one compiled in.\<close>

definition example_settings :: Settings where
  "example_settings = load (Some []) (\<lambda>_. True) (\<lambda>_. Some [])
     (\<lambda>_. Some \<lparr>file_allowed_backends = [''https://api.example/'']\<rparr>)"

definition example_boot :: boot where
  "example_boot =
     \<lparr>hash_read = Inr (replicate 64 (CHR ''a'')), settings_loaded = example_settings,
      engine_text = None, port_listen = (\<lambda>_. Inr ()), registry_create = (0, 1), registry_set = 0,
      spawn_error = (\<lambda>_. None), window_error = None, webview_error = None\<rparr>"

lemma example_backends: "allowed_backends example_settings = [''https://api.example/'', ''https://api.fiveprotect.dev'']"
  by code_simp

lemma example_loaded:
  "settings_loaded example_boot = load (Some []) (\<lambda>_. True) (\<lambda>_. Some [])
     (\<lambda>_. Some \<lparr>file_allowed_backends = [''https://api.example/'']\<rparr>)"
  by (simp add: example_boot_def example_settings_def)

lemma example_bound: "is_ok (bind_endpoint (port_listen example_boot))"
proof -
  have "port_range \<noteq> []" using port_range_at [of 52800] by auto
  then have "\<not> list_all (\<lambda>q. \<not> is_ok (port_listen example_boot q)) port_range"
    by (auto simp: example_boot_def list_all_iff)
  then have "bind_endpoint (port_listen example_boot) \<noteq> Inl error" for error
    unfolding bind_endpoint_def bind_loop_Inl by blast
  then have "bind_endpoint (port_listen example_boot) \<notin> range Inl" by blast
  then show ?thesis by (cases "bind_endpoint (port_listen example_boot)") auto
qed

lemma example_up: "all_up example_boot"
  by (simp add: example_boot_def all_up_def)

lemma startup_configuration_witness:
  "\<exists>r. snd (startup example_boot) = Some r \<and>
     base_url (run_collector r) = trim_end_matches (CHR ''/'') (Min (set (run_allowed r)))"
proof -
  note runs = startup_configuration [OF example_loaded]
  have "is_ok (hash_read example_boot)" by (simp add: example_boot_def)
  with runs example_bound example_up have "snd (startup example_boot) \<noteq> None" by blast
  then obtain r where "snd (startup example_boot) = Some r" by blast
  with runs show ?thesis by (intro exI [of _ r]) simp
qed

lemma example_runs:
  "\<exists>lines r. startup example_boot = (lines, Some r) \<and>
     wiring_of r example_parsers (\<lambda>_. Inr (example_command ''https://api.example'')) (\<lambda>_. None) (\<lambda>_. Some 0) (\<lambda>_. Some ''quit'') = example_wiring"
proof -
  obtain port where port: "bind_endpoint (port_listen example_boot) = Inr port"
    using example_bound by (cases "bind_endpoint (port_listen example_boot)") simp_all
  have "startup example_boot = (lines, Some r) \<Longrightarrow> wiring_of r example_parsers (\<lambda>_. Inr (example_command ''https://api.example'')) (\<lambda>_. None)
      (\<lambda>_. Some 0) (\<lambda>_. Some ''quit'') = example_wiring" for lines r
    unfolding startup_Some
    by (auto simp: wiring_of_def example_wiring_def example_boot_def example_backends primary_backend_def
        example_worker_def VERSION_def)
  moreover have "\<exists>lines r. startup example_boot = (lines, Some r)"
    using port example_up unfolding startup_Some all_up_iff [symmetric]
    by (simp add: example_boot_def example_backends primary_backend_def)
  ultimately show ?thesis by blast
qed

lemma program_talks_to_primary_witness:
  "\<exists>s :: (nat, unit) companion. example_reach s \<and> polls_posted s \<noteq> [] \<and>
     Post (base_url (wk_client example_worker) @ ''/v1/attest'')
       (AttestBody (attestation_request example_nonce example_snapshot)) \<in> set (acted s) \<and>
     base_url (wk_client example_worker) @ ''/v1/attest'' =
       trim_end_matches (CHR ''/'') (Min (set (allowed_backends (settings_loaded example_boot)))) @ ''/v1/attest''"
proof -
  obtain s where s: "example_reach s" "to_do s = []" "turns s = [example_env (Got example_job)]"
    "untouched s = ([], [], None, [poll_post (collector_client example_wiring)])"
    using example_reported by blast
  obtain lines r where r: "startup example_boot = (lines, Some r)"
    "wiring_of r example_parsers (\<lambda>_. Inr (example_command ''https://api.example'')) (\<lambda>_. None) (\<lambda>_. Some 0) (\<lambda>_. Some ''quit'') = example_wiring"
    using example_runs by blast
  note post = example_acted [OF s(1-3)]
  have "reachable_from (wiring_of r example_parsers (\<lambda>_. Inr (example_command ''https://api.example''))
      (\<lambda>_. None) (\<lambda>_. Some 0) (\<lambda>_. Some ''quit'')) (example_env TimedOut) s"
    unfolding r(2) by (rule s(1))
  from program_talks_to_primary [OF example_loaded r(1) this disjI1 [OF post]]
  have "base_url (wk_client example_worker) @ ''/v1/attest'' =
      trim_end_matches (CHR ''/'') (Min (set (allowed_backends (settings_loaded example_boot)))) @ ''/v1/attest''"
    by simp
  moreover have "polls_posted s \<noteq> []" using s(4) by (simp add: untouched_def)
  ultimately show ?thesis using s(1) post by blast
qed

end
