(* ===== verification/Shell.thy ===== *)
theory Shell
  imports Base64_Codec Window_State
begin

text \<open>
  The pages, \<open>fiveprotect-companion/src/shell.rs\<close>: two documents put together by replacing text, the
  transformation of a module into a classic script, and the script that hands a view to the page.
  The files of \<open>apps/companion/ui\<close> that are compiled in are the record \<open>assets\<close>; the JSON writer is
  a parameter. The lemmas say what a replacement does to a text in which the pattern occurs once,
  and that the transformation of the script works line by line.
\<close>

section \<open>Replacing\<close>

text \<open>\<open>s.replace(p, r)\<close> for a pattern that is not empty: all matches from the left.\<close>

function replace_str :: "string \<Rightarrow> string \<Rightarrow> string \<Rightarrow> string" where
  "replace_str p r s =
     (if p = [] \<or> s = [] then s
      else case strip_prefix p s of
        Some rest \<Rightarrow> r @ replace_str p r rest
      | None \<Rightarrow> hd s # replace_str p r (tl s))"
  by pat_completeness auto
termination
  by (relation "measure (\<lambda>(p, r, s). length s)") (auto simp: strip_prefix_Some)

declare replace_str.simps [simp del]

section \<open>The pages\<close>

record assets =
  index_html :: string
  styles_css :: string
  app_js :: string
  font_file :: bytes
  menu_html :: string
  menu_css :: string
  menu_js :: string

definition classic :: "string \<Rightarrow> string" where
  "classic source =
     replace_str (newline # ''export const '') (newline # ''const '')
       (replace_str (newline # ''export function '') (newline # ''function '') source)"

definition inlined_font :: "string \<Rightarrow> bytes \<Rightarrow> string" where
  "inlined_font css font =
     replace_str ''url('assets/manrope-variable-latin.woff2')''
       (''url('data:font/woff2;base64,'' @ base64 font @ [CHR 0x27] @ '')'') css"

definition style_element :: "string \<Rightarrow> string" where
  "style_element styles = ''<style>'' @ [newline] @ styles @ [newline] @ ''</style>''"

definition script_element :: "string \<Rightarrow> string" where
  "script_element source = ''<script>'' @ [newline] @ source @ [newline] @ ''</script>''"

definition page_link :: string where
  "page_link = ''<link rel=\"stylesheet\" href=\"styles.css\" />''"

definition page_module :: string where
  "page_module = ''<script type=\"module\" src=\"app.js\"></script>''"

definition page_policy :: string where
  "page_policy = ''content=\"default-src 'none'; style-src 'self'; script-src 'self'; font-src 'self'; img-src 'self' data:; connect-src ipc: http://ipc.localhost\"''"

definition page_policy_inline :: string where
  "page_policy_inline = ''content=\"default-src 'none'; style-src 'unsafe-inline'; script-src 'unsafe-inline'; font-src data:; img-src data:; connect-src ipc: http://ipc.localhost\"''"

definition page :: "assets \<Rightarrow> string" where
  "page a =
     replace_str page_policy page_policy_inline
       (replace_str page_module (script_element (classic (app_js a)))
         (replace_str page_link (style_element (inlined_font (styles_css a) (font_file a))) (index_html a)))"

definition menu_link :: string where
  "menu_link = ''<link rel=\"stylesheet\" href=\"menu.css\" />''"

definition menu_module :: string where
  "menu_module = ''<script type=\"module\" src=\"menu.js\"></script>''"

definition menu_policy :: string where
  "menu_policy = ''content=\"default-src 'none'; style-src 'self'; script-src 'self'; font-src 'self'\"''"

definition menu_policy_inline :: string where
  "menu_policy_inline = ''content=\"default-src 'none'; style-src 'unsafe-inline'; script-src 'unsafe-inline'; font-src data:\"''"

definition menu_page :: "assets \<Rightarrow> string" where
  "menu_page a =
     replace_str menu_policy menu_policy_inline
       (replace_str menu_module (script_element (classic (menu_js a)))
         (replace_str menu_link (style_element (inlined_font (menu_css a) (font_file a))) (menu_html a)))"

definition push_script :: "(WindowView \<Rightarrow> string option) \<Rightarrow> WindowView \<Rightarrow> string" where
  "push_script to_string model =
     (let json = (case to_string model of Some json \<Rightarrow> json | None \<Rightarrow> ''null'')
      in ''window.__fiveprotect && window.__fiveprotect.push('' @ json @ '');'')"

section \<open>Lemmas\<close>

lemma replace_str_Nil [simp]: "replace_str p r [] = []"
  by (subst replace_str.simps) simp

lemma replace_str_match: "p \<noteq> [] \<Longrightarrow> replace_str p r (p @ s) = r @ replace_str p r s"
  by (subst replace_str.simps) simp

lemma replace_str_skip: "strip_prefix p (c # s) = None \<Longrightarrow> replace_str p r (c # s) = c # replace_str p r s"
  by (subst replace_str.simps) (auto simp: strip_prefix_def)

lemma strip_prefix_None: "strip_prefix p s = None \<longleftrightarrow> (\<forall>r. s \<noteq> p @ r)"
  by (cases "strip_prefix p s") (auto simp: strip_prefix_Some)

text \<open>A pattern that starts with a character the text does not have is not found in it.\<close>

lemma replace_str_before:
  "c \<notin> set s \<Longrightarrow> replace_str (c # q) r (s @ t) = s @ replace_str (c # q) r t"
proof (induction s)
  case (Cons d s)
  then have "strip_prefix (c # q) (d # s @ t) = None" by (auto simp: strip_prefix_None)
  with Cons show ?case by (simp add: replace_str_skip)
qed simp

text \<open>A pattern that occurs nowhere but at the end of \<open>s\<close>.\<close>

lemma replace_str_first:
  assumes "p \<noteq> []" and "\<forall>u v. s @ butlast p \<noteq> u @ p @ v"
  shows "replace_str p r (s @ p @ t) = s @ r @ replace_str p r t"
  using assms(2)
proof (induction s)
  case Nil
  then show ?case using assms(1) by (simp add: replace_str_match)
next
  case (Cons c s)
  have "strip_prefix p (c # s @ p @ t) = None"
    unfolding strip_prefix_None
  proof
    fix x
    show "c # s @ p @ t \<noteq> p @ x"
    proof
      assume eq: "c # s @ p @ t = p @ x"
      have "take (length p) (c # s @ p @ t) = p" unfolding eq by simp
      moreover have "length p \<le> length (c # s @ butlast p)" by (cases p) simp_all
      moreover have "c # s @ p @ t = (c # s @ butlast p) @ last p # t"
        using assms(1) by (metis append.assoc append_Cons append_Nil append_butlast_last_id)
      ultimately have "take (length p) (c # s @ butlast p) = p" by (metis append_take_drop_id take_append diff_is_0_eq' take0 append_Nil2)
      then have "c # s @ butlast p = [] @ p @ drop (length p) (c # s @ butlast p)"
        by (metis append_Nil append_take_drop_id)
      with Cons.prems show False by (metis append_Cons)
    qed
  qed
  moreover have "\<forall>u v. s @ butlast p \<noteq> u @ p @ v" using Cons.prems by (metis append_Cons)
  ultimately show ?case using Cons.IH by (simp add: replace_str_skip)
qed

lemma replace_str_absent:
  assumes "\<forall>u v. s \<noteq> u @ p @ v"
  shows "replace_str p r s = s"
  using assms
proof (induction s)
  case (Cons c s)
  then have "strip_prefix p (c # s) = None" unfolding strip_prefix_None by (metis append_Nil)
  moreover have "\<forall>u v. s \<noteq> u @ p @ v" using Cons.prems by (metis append_Cons)
  ultimately show ?case using Cons.IH by (simp add: replace_str_skip)
qed simp

text \<open>A pattern with a single occurrence: it is exchanged, and nothing else changes.\<close>

definition occurs_once :: "string \<Rightarrow> string \<Rightarrow> string \<Rightarrow> bool" where
  "occurs_once p s t \<longleftrightarrow> p \<noteq> [] \<and> (\<forall>u v. s @ butlast p \<noteq> u @ p @ v) \<and> (\<forall>u v. t \<noteq> u @ p @ v)"

lemma replace_str_once: "occurs_once p s t \<Longrightarrow> replace_str p r (s @ p @ t) = s @ r @ t"
  by (simp add: occurs_once_def replace_str_first replace_str_absent)

section \<open>A text as its lines\<close>

fun unlines :: "string list \<Rightarrow> string" where
  "unlines [] = []"
| "unlines [l] = l"
| "unlines (l # m # ls) = l @ newline # unlines (m # ls)"

definition lines_of :: "string \<Rightarrow> string list" where
  "lines_of = split_on (\<lambda>c. c = newline)"

lemma unlines_Cons: "unlines (l # ls) = l @ concat (map (\<lambda>m. newline # m) ls)"
  by (induction ls arbitrary: l) simp_all

lemma unlines_lines_of: "unlines (lines_of s) = s"
proof (induction s)
  case (Cons c s)
  then show ?case
    by (cases "split_on (\<lambda>c. c = newline) s") (auto simp: lines_of_def unlines_Cons)
qed (simp add: lines_of_def)

lemma lines_of_no_newline: "l \<in> set (lines_of s) \<Longrightarrow> newline \<notin> set l"
proof (induction s arbitrary: l)
  case (Cons c s)
  then show ?case
    by (cases "split_on (\<lambda>c. c = newline) s") (auto simp: lines_of_def split: if_splits)
qed (simp add: lines_of_def)

lemma lines_of_unlines:
  "ls \<noteq> [] \<Longrightarrow> \<forall>l\<in>set ls. newline \<notin> set l \<Longrightarrow> lines_of (unlines ls) = ls"
proof (induction ls rule: unlines.induct)
  case (2 l)
  then show ?case unfolding lines_of_def unlines.simps by (intro split_on_no_sep) auto
next
  case (3 l m ls)
  then have "\<forall>c\<in>set l. \<not> c = newline" by auto
  with 3 show ?case by (simp add: lines_of_def split_on_append_sep)
qed simp

text \<open>One replacement of a pattern that begins at the beginning of a line.\<close>

definition at_start :: "string \<Rightarrow> string \<Rightarrow> string \<Rightarrow> string" where
  "at_start q q' l = (case strip_prefix q l of Some rest \<Rightarrow> q' @ rest | None \<Rightarrow> l)"

lemma newline_free_prefix:
  assumes "newline \<notin> set q" and "newline \<notin> set l" and "l @ rest = q @ x"
    and "rest = [] \<or> hd rest = newline"
  shows "\<exists>y. l = q @ y"
proof -
  from assms(3) obtain us where "l = q @ us \<or> (q = l @ us \<and> rest = us @ x)"
    by (auto simp: append_eq_append_conv2)
  then consider y where "l = q @ y" | y where "y \<noteq> []" "q = l @ y" "rest = y @ x"
    by (cases "us = []") auto
  then show ?thesis
  proof cases
    case 2
    then have "newline \<in> set q" using assms(4) by (cases y) auto
    with assms(1) show ?thesis by blast
  qed blast
qed

lemma replace_lines:
  assumes "newline \<notin> set q" and "\<forall>l\<in>set ls. newline \<notin> set l"
  shows "replace_str (newline # q) (newline # q') (concat (map (\<lambda>l. newline # l) ls)) =
     concat (map (\<lambda>l. newline # at_start q q' l) ls)"
  using assms(2)
proof (induction ls)
  case (Cons l ls)
  let ?p = "newline # q" and ?rest = "concat (map (\<lambda>l. newline # l) ls)"
  have rest: "?rest = [] \<or> hd ?rest = newline" by (cases ls) simp_all
  have l: "newline \<notin> set l" using Cons.prems by simp
  show ?case
  proof (cases "strip_prefix q l")
    case (Some x)
    then have lx: "l = q @ x" by (simp add: strip_prefix_Some)
    then have "replace_str ?p (newline # q') (newline # l @ ?rest) =
        (newline # q') @ replace_str ?p (newline # q') (x @ ?rest)"
      using replace_str_match [of ?p "newline # q'" "x @ ?rest"] by simp
    also have "\<dots> = (newline # q') @ x @ replace_str ?p (newline # q') ?rest"
      using l lx by (simp add: replace_str_before)
    finally show ?thesis using Cons Some by (simp add: at_start_def)
  next
    case None
    have "strip_prefix ?p (newline # l @ ?rest) = None"
      unfolding strip_prefix_None
      using newline_free_prefix [OF assms(1) l _ rest] None by (auto simp: strip_prefix_None)
    with Cons None l show ?thesis
      by (simp add: replace_str_skip replace_str_before at_start_def)
  qed
qed simp

lemma replace_unlines:
  assumes "newline \<notin> set q" and "\<forall>m\<in>set (l # ls). newline \<notin> set m"
  shows "replace_str (newline # q) (newline # q') (unlines (l # ls)) = unlines (l # map (at_start q q') ls)"
  using assms by (simp add: unlines_Cons replace_str_before replace_lines comp_def)

section \<open>Properties\<close>

definition unexport :: "string \<Rightarrow> string" where
  "unexport l = at_start ''export const '' ''const '' (at_start ''export function '' ''function '' l)"

text \<open>
  The transformation of the script works by lines: every line but the first loses the keyword
  in front of an exported function or constant, and nothing else in the script changes.
\<close>

lemma classic_by_lines:
  "lines_of (classic source) = hd (lines_of source) # map unexport (tl (lines_of source))"
proof -
  obtain l ls where ls: "lines_of source = l # ls" by (cases "lines_of source") (simp_all add: lines_of_def)
  then have free: "\<forall>m\<in>set (l # ls). newline \<notin> set m" using lines_of_no_newline by metis
  have keeps: "newline \<notin> set m \<Longrightarrow> newline \<notin> set (at_start ''export function '' ''function '' m)"
    "newline \<notin> set m \<Longrightarrow> newline \<notin> set (at_start ''export const '' ''const '' m)" for m
    by (auto simp: at_start_def strip_prefix_Some newline_def split: option.split)
  have "newline \<notin> set ''export function ''" "newline \<notin> set ''export const ''" by (simp_all add: newline_def)
  note lines = replace_unlines [OF this(1)] replace_unlines [OF this(2)]
  have "classic source = classic (unlines (l # ls))" using unlines_lines_of [of source] ls by simp
  also have "\<dots> = unlines (l # map unexport ls)"
    using free keeps by (simp add: classic_def lines unexport_def [abs_def] comp_def)
  finally have "lines_of (classic source) = lines_of (unlines (l # map unexport ls))" by simp
  also have "\<dots> = l # map unexport ls"
    using free keeps by (intro lines_of_unlines) (auto simp: unexport_def)
  finally show ?thesis using ls by simp
qed

text \<open>
  When each of the three marks occurs once, the page is the document with the style sheet, the
  script and the policy in their places, whatever the assets hold.
\<close>

lemma page_assembled:
  assumes "index_html a = p @ page_policy @ q @ page_link @ r @ page_module @ s"
    and "occurs_once page_link (p @ page_policy @ q) (r @ page_module @ s)"
    and "occurs_once page_module
      (p @ page_policy @ q @ style_element (inlined_font (styles_css a) (font_file a)) @ r) s"
    and "occurs_once page_policy p
      (q @ style_element (inlined_font (styles_css a) (font_file a)) @ r @
       script_element (classic (app_js a)) @ s)"
  shows "page a = p @ page_policy_inline @ q @
    style_element (inlined_font (styles_css a) (font_file a)) @ r @
    script_element (classic (app_js a)) @ s"
  using replace_str_once [OF assms(2)] replace_str_once [OF assms(3)] replace_str_once [OF assms(4)]
  by (simp add: page_def assms(1))

end
