(* ===== verification/Log_File.thy ===== *)
theory Log_File
  imports Worker_Claims Shell
begin

text \<open>
  The log, \<open>fiveprotect-companion/src/log.rs\<close>: opening it on first use, keeping one generation of a
  file that has grown too large, and writing a line. What the operating system answers is the
  record \<open>log_io\<close>; of a write it says how many bytes fit. No failure is reported to the caller. The
  lemmas say what the file holds after any number of lines, and what a line break in a message
  does to it.
\<close>

section \<open>State and operations\<close>

definition MAX_BYTES :: nat where
  "MAX_BYTES = 512 * 1024"

text \<open>\<open>path\<close>: the base is a directory, written with its separator.\<close>

definition log_path :: "string option \<Rightarrow> string \<Rightarrow> string" where
  "log_path local_app_data temp_dir =
     (case local_app_data of Some base \<Rightarrow> base | None \<Rightarrow> temp_dir) @ ''FiveProtect/'' @ ''companion.log''"

record log_io =
  makes_dir :: bool
  renames :: bool
  opens :: bool
  locks :: bool
  fits :: nat

record log_files =
  current :: "string option"
  previous :: "string option"

text \<open>\<open>opened\<close> is the cell \<open>SINK\<close>: not initialised, without a file, or with one.\<close>

record logger =
  opened :: "bool option"
  files :: log_files
  stderr_lines :: "string list"

definition sink :: "log_io \<Rightarrow> log_files \<Rightarrow> bool \<times> log_files" where
  "sink io fs =
     (if \<not> makes_dir io then (False, fs)
      else
        (let fs' = (case current fs of
              Some old \<Rightarrow>
                if MAX_BYTES < length old \<and> renames io then \<lparr>current = None, previous = Some old\<rparr> else fs
            | None \<Rightarrow> fs)
         in if opens io
            then (True, fs'\<lparr>current := Some (case current fs' of None \<Rightarrow> [] | Some kept \<Rightarrow> kept)\<rparr>)
            else (False, fs')))"

definition get_or_init :: "log_io \<Rightarrow> logger \<Rightarrow> logger" where
  "get_or_init io lg =
     (case opened lg of
        Some _ \<Rightarrow> lg
      | None \<Rightarrow> (case sink io (files lg) of (ok, fs) \<Rightarrow> lg\<lparr>opened := Some ok, files := fs\<rparr>))"

definition append_to :: "string option \<Rightarrow> string \<Rightarrow> string option" where
  "append_to file added = Some ((case file of None \<Rightarrow> [] | Some kept \<Rightarrow> kept) @ added)"

definition log_line :: "log_io \<Rightarrow> string \<Rightarrow> string \<Rightarrow> logger \<Rightarrow> logger" where
  "log_line io stamp message lg =
     (let stamped = stamp @ '' '' @ message;
          lg1 = get_or_init io (lg\<lparr>stderr_lines := stderr_lines lg @ [''[FiveProtect] '' @ message]\<rparr>)
      in if opened lg1 = Some True \<and> locks io
         then lg1\<lparr>files := (files lg1)\<lparr>current := append_to (current (files lg1)) (take (fits io) (stamped @ [newline]))\<rparr>\<rparr>
         else lg1)"

fun log_all :: "log_io \<Rightarrow> (string \<times> string) list \<Rightarrow> logger \<Rightarrow> logger" where
  "log_all io [] lg = lg"
| "log_all io ((stamp, message) # rest) lg = log_all io rest (log_line io stamp message lg)"

section \<open>Lemmas\<close>

definition stamped_lines :: "(string \<times> string) list \<Rightarrow> string" where
  "stamped_lines ms = concat (map (\<lambda>(stamp, message). stamp @ '' '' @ message @ [newline]) ms)"

definition works :: "log_io \<Rightarrow> (string \<times> string) list \<Rightarrow> bool" where
  "works io ms \<longleftrightarrow> makes_dir io \<and> renames io \<and> opens io \<and> locks io \<and>
     (\<forall>(stamp, message)\<in>set ms. length stamp + length message + 2 \<le> fits io)"

lemma log_line_open:
  assumes "opened lg = Some True" and "current (files lg) = Some text'" and "works io [(stamp, message)]"
  shows "opened (log_line io stamp message lg) = Some True"
    and "current (files (log_line io stamp message lg)) = Some (text' @ stamp @ '' '' @ message @ [newline])"
    and "previous (files (log_line io stamp message lg)) = previous (files lg)"
proof -
  have "take (fits io) ((stamp @ '' '' @ message) @ [newline]) = (stamp @ '' '' @ message) @ [newline]"
    using assms(3) by (intro take_all) (simp add: works_def)
  with assms show "opened (log_line io stamp message lg) = Some True"
    "current (files (log_line io stamp message lg)) = Some (text' @ stamp @ '' '' @ message @ [newline])"
    "previous (files (log_line io stamp message lg)) = previous (files lg)"
    by (simp_all add: log_line_def get_or_init_def append_to_def works_def Let_def del: take_append)
qed

lemma log_all_open:
  assumes "opened lg = Some True" and "current (files lg) = Some text'" and "works io ms"
  shows "current (files (log_all io ms lg)) = Some (text' @ stamped_lines ms) \<and>
    previous (files (log_all io ms lg)) = previous (files lg)"
  using assms
proof (induction ms arbitrary: lg text')
  case (Cons m ms)
  obtain stamp message where m: "m = (stamp, message)" by (cases m)
  have "works io [(stamp, message)]" "works io ms" using Cons.prems(3) by (auto simp: works_def m)
  with Cons.IH log_line_open [OF Cons.prems(1,2)] show ?case
    by (simp add: m stamped_lines_def)
qed (simp add: stamped_lines_def)

definition rotated :: "log_files \<Rightarrow> log_files" where
  "rotated fs =
     (case current fs of
        None \<Rightarrow> \<lparr>current = Some [], previous = previous fs\<rparr>
      | Some old \<Rightarrow>
          if MAX_BYTES < length old then \<lparr>current = Some [], previous = Some old\<rparr>
          else \<lparr>current = Some old, previous = previous fs\<rparr>)"

lemma rotated_current: "\<exists>kept. current (rotated fs) = Some kept"
  by (auto simp: rotated_def split: option.split)

lemma sink_works: "works io ms \<Longrightarrow> sink io fs = (True, rotated fs)"
  by (cases fs) (auto simp: sink_def works_def rotated_def Let_def split: option.split)

lemma log_all_first:
  assumes "opened lg = None" and "works io ms" and "ms \<noteq> []"
  shows "log_all io ms lg = log_all io ms (lg\<lparr>opened := Some True, files := rotated (files lg)\<rparr>)"
proof -
  obtain stamp message rest where "ms = (stamp, message) # rest" using assms(3) by (cases ms) auto
  then show ?thesis
    using assms(1) sink_works [OF assms(2), of "files lg"]
    by (cases lg) (simp add: log_line_def get_or_init_def Let_def)
qed

text \<open>Text that ends with a line break, and what comes after it.\<close>

lemma lines_of_append: "lines_of (a @ newline # b) = lines_of a @ lines_of b"
proof (induction a)
  case (Cons c a)
  then show ?case
    by (cases "split_on (\<lambda>c. c = newline) a") (auto simp: lines_of_def)
qed (simp add: lines_of_def)

section \<open>Properties\<close>

text \<open>
  While the file can be written, the log holds every line of a run, in order, after what was
  there before; a file that was larger than 512 KiB at the first line is kept as the previous
  generation and the log begins anew.
\<close>

lemma log_keeps_every_line:
  assumes "opened lg = None" and "works io ms" and "ms \<noteq> []"
  shows "files (log_all io ms lg) =
    (case current (files lg) of
       None \<Rightarrow> \<lparr>current = Some (stamped_lines ms), previous = previous (files lg)\<rparr>
     | Some old \<Rightarrow>
         if MAX_BYTES < length old then \<lparr>current = Some (stamped_lines ms), previous = Some old\<rparr>
         else \<lparr>current = Some (old @ stamped_lines ms), previous = previous (files lg)\<rparr>)"
proof -
  let ?lg = "lg\<lparr>opened := Some True, files := rotated (files lg)\<rparr>"
  obtain text' where "current (rotated (files lg)) = Some text'" using rotated_current by blast
  with log_all_open [of ?lg text' io ms] assms(2)
  have "current (files (log_all io ms ?lg)) = Some (text' @ stamped_lines ms)"
    "previous (files (log_all io ms ?lg)) = previous (rotated (files lg))" by simp_all
  with log_all_first [OF assms] \<open>current (rotated (files lg)) = Some text'\<close> show ?thesis
    by (cases "files (log_all io ms lg)") (auto simp: rotated_def split: option.splits if_splits)
qed

text \<open>
  C38: the log can be made to lie by whoever may send a command: a server name with a line break
  in it is written as it is, so the text after the break stands in the log as a line of its own.
\<close>

theorem server_name_forges_log_line:
  assumes "handle_request from_str method path body allowed = Inr (Attest c)"
    and "lac_server_name c = Some (shown_part @ newline # forged)" and "newline \<notin> set forged"
    and "received env = Got (Local c)" and "last_nonce st \<noteq> Some (lac_nonce c)"
    and "opened lg = Some True" and "current (files lg) = Some kept"
  shows "\<exists>message. Logged message \<in> set (snd (iterate self ps env st)) \<and>
    (if works io [(time, message)]
     then (case current (files (log_line io time message lg)) of
        None \<Rightarrow> False | Some log_text \<Rightarrow> forged \<in> set (lines_of log_text))
     else True)"
proof -
  let ?m = "nonce_line (Local c) (Some (shown_part @ newline # forged))"
  have "Logged ?m \<in> set (snd (iterate self ps env st))"
    using assms(2,4,5)
    by (simp add: iterate_nonce [where job = "Local c" and nonce = "lac_nonce c"] job_nonce_def on_nonce_def
        job_server_name_def Let_def case_prod_beta split: sum.split)
  moreover have "forged \<in> set (lines_of log_text)"
    if "works io [(time, ?m)]" "current (files (log_line io time ?m lg)) = Some log_text" for log_text
  proof -
    let ?a = "''Nonce erhalten ('' @ ''vom Spielclient'' @ ''), Server '' @ shown_part"
    have m: "?m = ?a @ newline # forged" by (simp add: nonce_line_def)
    from log_line_open(2) [OF assms(6,7) that(1)] that(2)
    have "log_text = (kept @ time @ '' '' @ ?a) @ newline # forged @ newline # []"
      unfolding m by simp
    then have "lines_of log_text = lines_of (kept @ time @ '' '' @ ?a) @ lines_of forged @ lines_of []"
      by (simp only: lines_of_append)
    moreover have "lines_of forged = [forged]"
      using assms(3) unfolding lines_of_def by (intro split_on_no_sep) auto
    ultimately show ?thesis by simp
  qed
  ultimately show ?thesis
    using log_line_open(2) [OF assms(6,7)] by (intro exI [of _ ?m]) auto
qed

section \<open>An instance\<close>

definition example_io :: log_io where
  "example_io = \<lparr>makes_dir = True, renames = True, opens = True, locks = True, fits = 100000\<rparr>"

definition example_logger :: "bool option \<Rightarrow> logger" where
  "example_logger state = \<lparr>opened = state, files = \<lparr>current = Some [], previous = None\<rparr>, stderr_lines = []\<rparr>"

lemma log_keeps_every_line_witness:
  "files (log_all example_io [(''2025'', ''Version 0.1.0'')] (example_logger None)) =
     \<lparr>current = Some (''2025 Version 0.1.0'' @ [newline]), previous = None\<rparr>"
  by (subst log_keeps_every_line)
    (simp_all add: example_logger_def works_def example_io_def MAX_BYTES_def stamped_lines_def)

definition forging_command :: LocalAttestCommand where
  "forging_command = (example_command ''https://api.example'')
     \<lparr>lac_server_name := Some (''x'' @ newline # ''2025 Meldung angenommen'')\<rparr>"

lemma forging_accepted:
  "handle_request (\<lambda>_. Inr forging_command) ''POST'' ''/attest'' [] [''https://api.example''] =
     Inr (Attest forging_command)"
proof -
  have "attest_route ''POST'' ''/attest''"
    by (simp add: attest_route_def)
  moreover have "is_ok (validate_LocalAttestCommand forging_command)"
    by (simp add: forging_command_def command_accept_simps example_simps is_ascii_hexdigit_def list_all_iff)
  ultimately show ?thesis
    by (simp add: handle_request_ok forging_command_def example_command_def command_accept_simps
        is_allowed_backend_def map_filter_def example_trusted)
qed

lemma server_name_forges_log_line_witness:
  "\<exists>message. Logged message \<in> set (snd (iterate example_worker example_parsers
      (example_env (Got (Local forging_command)))
      (start_state example_worker example_parsers (example_env TimedOut)))) \<and>
    (if works example_io [(''2025'', message)]
     then (case current (files (log_line example_io ''2025'' message (example_logger (Some True)))) of
        None \<Rightarrow> False | Some log_text \<Rightarrow> ''2025 Meldung angenommen'' \<in> set (lines_of log_text))
     else True)"
  by (rule server_name_forges_log_line [OF forging_accepted, where shown_part = "''x''" and kept = "[]"])
    (simp_all add: forging_command_def newline_def example_logger_def)

end
