(* ===== verification/Diagnostics.thy ===== *)
theory Diagnostics
  imports Scan_Engine Settings Identity
begin

text \<open>
  The file a player hands to support, \<open>fiveprotect-companion/src/diagnostics.rs\<close>: what is written
  into it, line by line, and where it goes. What the lines are made of (the time, the scan, the log,
  the JSON writer) is the record \<open>findings\<close>; any write can fail.
\<close>

section \<open>Operations\<close>

definition DIAGNOSTICS_NAME :: string where
  "DIAGNOSTICS_NAME = ''FiveProtect-Diagnose.txt''"

record findings =
  created_at :: string
  scanned_at :: string
  raw_engine_version :: "string option"
  own_hash :: "string + string"
  own_settings :: Settings
  scan_engine :: engine_fn
  snapshot_from_str :: from_str_snapshot
  pretty :: "SystemSnapshot \<Rightarrow> string + string"
  log_read :: "(string + string) option"

definition ue_utf8 :: string where
  "ue_utf8 = [CHR 0xC3, CHR 0xBC]"

text \<open>The hash the scan is run with is a placeholder.\<close>

definition diagnostics_scan :: "findings \<Rightarrow> ScanError + SystemSnapshot" where
  "diagnostics_scan f = snd (scan (scan_engine f) (snapshot_from_str f) VERSION (replicate 64 (CHR ''0'')) (scanned_at f))"

text \<open>The arguments of the \<open>writeln!\<close> calls, in their order.\<close>

definition composed_lines :: "findings \<Rightarrow> string list" where
  "composed_lines f =
     [''FiveProtect Diagnose'',
      ''Erstellt: '' @ created_at f,
      ''Version: '' @ VERSION,
      ''Scan-Engine: '' @ engine_version (raw_engine_version f),
      (case own_hash f of
         Inr hash \<Rightarrow> ''Build-Hash: '' @ hash
       | Inl error \<Rightarrow> ''Build-Hash: nicht lesbar ('' @ error @ '')''),
      ''Backends: '' @ join '', '' (allowed_backends (own_settings f)),
      newline # ''--- Systempr'' @ ue_utf8 @ ''fung ---'',
      (case diagnostics_scan f of
         Inr snapshot \<Rightarrow>
           (case pretty f snapshot of
              Inr pretty_text \<Rightarrow> pretty_text
            | Inl error \<Rightarrow> ''konnte nicht formatiert werden: '' @ error)
       | Inl error \<Rightarrow> ''Systempr'' @ ue_utf8 @ ''fung fehlgeschlagen: '' @ show_ScanError error)]"

definition log_lines_part :: "findings \<Rightarrow> string list" where
  "log_lines_part f =
     [newline # ''--- Protokoll ---'',
      (case log_read f of
         Some (Inr log_text) \<Rightarrow> log_text
       | Some (Inl error) \<Rightarrow> ''Protokoll nicht lesbar: '' @ error
       | None \<Rightarrow> ''Kein Protokollpfad'')]"

text \<open>
  Writing line after line; \<open>fails n\<close> is the error of the n-th \<open>writeln!\<close>, if it has one, with the number
  of bytes that were written before it.
\<close>

fun write_lines :: "(nat \<Rightarrow> (nat \<times> string) option) \<Rightarrow> nat \<Rightarrow> string list \<Rightarrow> string \<times> (string + unit)" where
  "write_lines fails n [] = ([], Inr ())"
| "write_lines fails n (l # ls) =
     (case fails n of
        Some (k, e) \<Rightarrow> (take k (l @ [newline]), Inl e)
      | None \<Rightarrow> (case write_lines fails (Suc n) ls of (written, r) \<Rightarrow> (l @ newline # written, r)))"

text \<open>What is in the file afterwards, and the result; \<open>dir\<close> is written with its separator.\<close>

definition export_into ::
    "string \<Rightarrow> string + unit \<Rightarrow> (nat \<Rightarrow> (nat \<times> string) option) \<Rightarrow> string + unit \<Rightarrow> findings \<Rightarrow>
     string option \<times> (string + string)" where
  "export_into dir create fails flush f =
     (let target = dir @ DIAGNOSTICS_NAME
      in case create of
           Inl e \<Rightarrow> (None, Inl e)
         | Inr _ \<Rightarrow>
             (case write_lines fails 0 (composed_lines f @ log_lines_part f) of
                (written, Inl e) \<Rightarrow> (Some written, Inl e)
              | (written, Inr _) \<Rightarrow>
                  (case flush of
                     Inl e \<Rightarrow> (Some written, Inl e)
                   | Inr _ \<Rightarrow> (Some written, Inr target))))"

definition desktop_dir :: "string option \<Rightarrow> (string \<Rightarrow> bool) \<Rightarrow> string \<Rightarrow> string" where
  "desktop_dir user_profile is_dir temp_dir =
     (case user_profile of
        Some profile \<Rightarrow> (let desktop = profile @ ''Desktop/'' in if is_dir desktop then desktop else profile)
      | None \<Rightarrow> temp_dir)"

text \<open>\<open>export\<close>, as the window's page sets it off.\<close>

definition export_diagnostics ::
    "string option \<Rightarrow> (string \<Rightarrow> bool) \<Rightarrow> string \<Rightarrow> string + unit \<Rightarrow> (nat \<Rightarrow> (nat \<times> string) option) \<Rightarrow>
     string + unit \<Rightarrow> findings \<Rightarrow> string option \<times> (string + string)" where
  "export_diagnostics user_profile is_dir temp_dir create fails flush f =
     export_into (desktop_dir user_profile is_dir temp_dir) create fails flush f"

section \<open>Lemmas\<close>

lemma write_lines_all:
  "\<forall>k < length ls. fails (n + k) = None \<Longrightarrow>
   write_lines fails n ls = (concat (map (\<lambda>l. l @ [newline]) ls), Inr ())"
proof (induction ls arbitrary: n)
  case (Cons l ls)
  have "fails n = None" using Cons.prems by (metis add_0_right length_greater_0_conv list.discI)
  moreover have "\<forall>k < length ls. fails (Suc n + k) = None"
    using Cons.prems by (metis Suc_less_eq add_Suc_right add_Suc length_Cons)
  ultimately show ?case using Cons.IH by simp
qed simp

lemma write_lines_fails:
  "k < length ls \<Longrightarrow> fails (n + k) = Some (part, e) \<Longrightarrow> \<forall>j < k. fails (n + j) = None \<Longrightarrow>
   write_lines fails n ls = (concat (map (\<lambda>l. l @ [newline]) (take k ls)) @ take part (ls ! k @ [newline]), Inl e)"
proof (induction ls arbitrary: n k)
  case (Cons l ls)
  show ?case
  proof (cases k)
    case 0
    with Cons.prems show ?thesis by simp
  next
    case (Suc j)
    then have "fails n = None" using Cons.prems(3) by (metis add_0_right zero_less_Suc)
    moreover have "\<forall>i < j. fails (Suc n + i) = None"
      using Cons.prems(3) Suc by (metis Suc_less_eq add_Suc_right add_Suc)
    ultimately show ?thesis using Cons.IH [of j "Suc n"] Cons.prems(1,2) Suc by simp
  qed
qed simp

lemma ten_lines: "length (composed_lines f @ log_lines_part f) = 10"
  by (simp add: composed_lines_def log_lines_part_def)

section \<open>Properties\<close>

text \<open>
  The export reports a path only when the whole file is there: the ten lines in their order, the
  log last. When a write fails, its error is reported and the file holds the lines before it and at
  most a part of the line it stopped in; a file that cannot be made is not there, and an error of
  the last flush is reported too.
\<close>

lemma export_is_whole_or_fails:
  "export_into dir create fails flush f =
     (case create of
        Inl e \<Rightarrow> (None, Inl e)
      | Inr _ \<Rightarrow>
          (case find (\<lambda>k. fails k \<noteq> None) [0..<10] of
             None \<Rightarrow> (Some (concat (map (\<lambda>l. l @ [newline]) (composed_lines f @ log_lines_part f))),
               case flush of Inl e \<Rightarrow> Inl e | Inr _ \<Rightarrow> Inr (dir @ DIAGNOSTICS_NAME))
           | Some k \<Rightarrow> (Some (concat (map (\<lambda>l. l @ [newline]) (take k (composed_lines f @ log_lines_part f))) @
               take (fst (the (fails k))) ((composed_lines f @ log_lines_part f) ! k @ [newline])),
               Inl (snd (the (fails k))))))"
proof (cases "find (\<lambda>k. fails k \<noteq> None) [0..<10]")
  case None
  then have "\<forall>k < 10. fails k = None" by (simp add: find_None_iff del: not_None_eq)
  with None write_lines_all [of "composed_lines f @ log_lines_part f" fails 0] ten_lines [of f]
  show ?thesis by (simp add: export_into_def split: sum.split)
next
  case (Some k)
  then have k: "k < 10" "fails k \<noteq> None" "\<forall>j < k. fails j = None"
    by (auto simp: find_Some_iff simp del: not_None_eq)
  then obtain part e where "fails k = Some (part, e)" by auto
  with k Some write_lines_fails [of k "composed_lines f @ log_lines_part f" fails 0 part e] ten_lines [of f]
  show ?thesis by (simp add: export_into_def split: sum.split)
qed

end
