(* ===== verification/Tray_Icon.thy ===== *)
theory Tray_Icon
  imports Desktop
begin

text \<open>
  What hangs the window on the desktop: the border Windows draws around it
  (\<open>fiveprotect-companion/src/chrome.rs\<close>), the tray icon's pixels (\<open>tray.rs\<close>) and the icon itself
  (\<open>tray_icon\<close> in \<open>main.rs\<close>). The PNG decoder and the crate that owns the icon are parameters. The
  property says what the program is without the icon: \<open>shell_step\<close> is the main thread with its
  queue of events, in which the icon's clicks are there only if the icon is.
\<close>

section \<open>The border\<close>

definition BORDER :: u32 where
  "BORDER = 0x0037302B"

datatype dwm_call = ImmersiveDarkMode int u32 | BorderColor int u32

text \<open>\<open>apply\<close>, as the calls of \<open>DwmSetWindowAttribute\<close> it makes.\<close>

definition set_dark_mode :: "int \<Rightarrow> dwm_call" where
  "set_dark_mode handle = ImmersiveDarkMode handle 1"

definition set_border :: "int \<Rightarrow> dwm_call" where
  "set_border handle = BorderColor handle BORDER"

definition apply_chrome :: "int \<Rightarrow> dwm_call list" where
  "apply_chrome handle = (if handle = 0 then [] else [set_dark_mode handle, set_border handle])"

text \<open>A COLORREF has the red byte lowest; the stylesheet's border is \<open>#2b3037\<close>.\<close>

definition colorref :: "u8 \<Rightarrow> u8 \<Rightarrow> u8 \<Rightarrow> u32" where
  "colorref red green blue = ucast red + push_bit 8 (ucast green) + push_bit 16 (ucast blue)"

lemma border_is_the_stylesheets: "BORDER = colorref 0x2B 0x30 0x37"
  by (simp add: BORDER_def colorref_def push_bit_eq_mult)

section \<open>The icon\<close>

text \<open>A decoded frame as the PNG crate reports it, and the decoder.\<close>

record frame_info =
  fr_width :: u32
  fr_height :: u32
  fr_is_rgba :: bool
  fr_buffer_size :: nat

record 'r png_decoder =
  read_info :: "bytes \<Rightarrow> 'r option"
  output_buffer_size :: "'r \<Rightarrow> nat"
  next_frame :: "'r \<Rightarrow> bytes \<Rightarrow> (frame_info \<times> bytes) option"

definition icon_rgba :: "'r png_decoder \<Rightarrow> bytes \<Rightarrow> (bytes \<times> u32) option" where
  "icon_rgba png png_bytes =
     (case read_info png png_bytes of
        None \<Rightarrow> None
      | Some reader \<Rightarrow>
          (case next_frame png reader (replicate (output_buffer_size png reader) 0) of
             None \<Rightarrow> None
           | Some (info, buffer) \<Rightarrow>
               if fr_width info \<noteq> fr_height info then None
               else (let truncated = take (fr_buffer_size info) buffer
                     in if fr_is_rgba info then Some (truncated, fr_width info) else None)))"

text \<open>
  \<open>tray_icon\<close>: \<open>from_rgba\<close> makes an icon of pixels, width and height, \<open>build\<close> puts it in the
  notification area. \<open>windows\<close> says for which system the program was built.
\<close>

definition tray_icon ::
    "bool \<Rightarrow> 'r png_decoder \<Rightarrow> (bytes \<Rightarrow> u32 \<Rightarrow> u32 \<Rightarrow> 'i option) \<Rightarrow> ('i \<Rightarrow> 't option) \<Rightarrow> bytes \<Rightarrow> 't option" where
  "tray_icon windows png from_rgba build tray_png =
     (if \<not> windows then None
      else case icon_rgba png tray_png of
        None \<Rightarrow> None
      | Some (rgba, edge) \<Rightarrow>
          (case from_rgba rgba edge edge of
             None \<Rightarrow> None
           | Some icon \<Rightarrow> build icon))"

text \<open>A frame whose buffer holds four bytes for each pixel gives as many bytes as the icon needs.\<close>

lemma icon_rgba_size:
  assumes "icon_rgba png b = Some (rgba, edge)"
    and "\<And>r buffer info buffer'. next_frame png r buffer = Some (info, buffer') \<Longrightarrow> fr_is_rgba info \<Longrightarrow>
      fr_buffer_size info = 4 * unat (fr_width info) * unat (fr_height info) \<and>
      fr_buffer_size info \<le> length buffer'"
  shows "length rgba = 4 * unat edge * unat edge"
proof -
  obtain r info buffer where frame: "next_frame png r (replicate (output_buffer_size png r) 0) = Some (info, buffer)"
    "fr_is_rgba info" "rgba = take (fr_buffer_size info) buffer" "edge = fr_width info" "fr_height info = fr_width info"
    using assms(1) by (auto simp: icon_rgba_def Let_def split: option.splits if_splits)
  from assms(2) [OF frame(1,2)] show ?thesis by (simp add: frame(3-))
qed

section \<open>The main thread and the icon\<close>

text \<open>
  A state is the desktop and the events waiting. The window's page may send anything; the menu's
  page sends a choice when it is clicked, which takes a visible menu, and \<open>dismiss\<close> at any time.
\<close>

inductive shell_step ::
    "(WindowView \<Rightarrow> string option) \<Rightarrow> 't option \<Rightarrow> desktop \<times> 'p tao_event list \<Rightarrow> desktop \<times> 'p tao_event list \<Rightarrow> bool"
  for evaluate :: "WindowView \<Rightarrow> string option" and tray :: "'t option" where
  page_says: "shell_step evaluate tray (d, q) (d, q @ map UserEvent (fst (page_ipc export command)))"
| menu_says:
    "menu_shown d = Some True \<or> command = Some ''dismiss'' \<Longrightarrow>
     shell_step evaluate tray (d, q) (d, q @ map UserEvent (menu_ipc command))"
| icon_clicked:
    "tray \<noteq> None \<Longrightarrow> shell_step evaluate tray (d, q) (d, q @ map UserEvent (tray_click button x y))"
| view_arrives: "shell_step evaluate tray (d, q) (d, q @ [UserEvent (View v)])"
| system_event:
    "e = (CloseRequested :: 'p tao_event) \<or> e = OtherEvent \<Longrightarrow> shell_step evaluate tray (d, q) (desktop_step evaluate d e, q)"
| handled: "shell_step evaluate tray (d, e # q) (desktop_step evaluate d e, q)"

definition shell_start :: "desktop \<times> 'p tao_event list \<Rightarrow> bool" where
  "shell_start s \<longleftrightarrow> (case s of (d, q) \<Rightarrow> window_shown d \<and> menu_shown d \<noteq> Some True \<and> \<not> exited d \<and> q = [])"

text \<open>What only a click on the icon can set off.\<close>

definition needs_icon :: "'p tao_event \<Rightarrow> bool" where
  "needs_icon e \<longleftrightarrow>
     (case e of UserEvent w \<Rightarrow> (case w of ShowWindow \<Rightarrow> True | ToggleMenu _ _ \<Rightarrow> True | WakeRecheck \<Rightarrow> True
        | Quit \<Rightarrow> True | _ \<Rightarrow> False) | _ \<Rightarrow> False)"

definition on_its_own :: "desktop \<times> 'p tao_event list \<Rightarrow> bool" where
  "on_its_own s \<longleftrightarrow>
     menu_shown (fst s) \<noteq> Some True \<and> \<not> exited (fst s) \<and> list_all (\<lambda>e. \<not> needs_icon e) (snd s)"

lemma shell_starts: "shell_start (desktop_start (menu_window window_built webview_built), [])"
  by (simp add: shell_start_def desktop_start_def menu_window_def)

lemma needs_icon_simps [simp]:
  "\<not> needs_icon CloseRequested" "\<not> needs_icon OtherEvent" "\<not> needs_icon (UserEvent (View v))"
  "\<not> needs_icon (UserEvent HideWindow)" "\<not> needs_icon (UserEvent HideMenu)"
  by (simp_all add: needs_icon_def)

lemma own_event:
  assumes "\<not> needs_icon e" and "menu_shown d \<noteq> Some True" and "\<not> exited d"
  shows "menu_shown (desktop_step ev d e) \<noteq> Some True \<and> \<not> exited (desktop_step ev d e) \<and>
    (window_shown (desktop_step ev d e) \<longrightarrow> window_shown d)"
  using assms
  by (cases "menu_shown d")
    (auto simp: needs_icon_def desktop_step_def on_event_def hide_menu_def split: tao_event.splits Wake.splits)

lemma own_step:
  assumes "shell_step ev (None :: 't option) s t" and "on_its_own s"
  shows "on_its_own t \<and> (window_shown (fst t) \<longrightarrow> window_shown (fst s))"
  using assms
proof (cases rule: shell_step.cases)
  case (page_says d q export command)
  with assms(2) show ?thesis by (simp add: on_its_own_def page_ipc_def)
next
  case (menu_says d command q)
  with assms(2) show ?thesis by (auto simp: on_its_own_def menu_ipc_def)
next
  case (system_event e d q)
  with assms(2) own_event [of e d ev] show ?thesis by (auto simp: on_its_own_def)
next
  case (handled d e q)
  with assms(2) own_event [of e d ev] show ?thesis by (simp add: on_its_own_def)
qed (simp_all add: on_its_own_def)

interpretation lone: inductive_invariant shell_start "shell_step ev (None :: 't option)" on_its_own
proof unfold_locales
  show "shell_start s \<Longrightarrow> on_its_own s" for s :: "desktop \<times> 'p tao_event list"
    by (auto simp: shell_start_def on_its_own_def)
qed (use own_step in blast)

lemma stays_hidden:
  "(shell_step ev (None :: 't option))\<^sup>*\<^sup>* s t \<Longrightarrow> on_its_own s \<Longrightarrow> \<not> window_shown (fst s) \<Longrightarrow>
   on_its_own t \<and> \<not> window_shown (fst t)"
  by (induction rule: rtranclp_induct) (use own_step in blast)+

section \<open>Properties\<close>

text \<open>
  Without the tray icon the window cannot be brought back and the program cannot be ended: if
  the icon could not be made, then once the window is put away, which the window's own close
  button does, it stays hidden and the program goes on running, whatever the page sends, whatever
  views arrive and whatever the system asks.
\<close>

lemma no_icon_no_way_back:
  assumes "tray_icon windows png from_rgba build tray_png = (None :: 't option)"
    and "reach shell_start (shell_step ev (tray_icon windows png from_rgba build tray_png)) s"
    and "\<not> window_shown (fst s)"
    and "(shell_step ev (tray_icon windows png from_rgba build tray_png))\<^sup>*\<^sup>* s t"
  shows "\<not> window_shown (fst t) \<and> \<not> exited (fst t)"
proof -
  have "on_its_own s" using lone.inv_reach assms(2) unfolding assms(1) .
  with assms(3,4) stays_hidden show ?thesis unfolding assms(1) on_its_own_def by blast
qed

text \<open>An asset that is no PNG: the player closes the window and then clicks wherever he likes.\<close>

definition no_png :: "unit png_decoder" where
  "no_png = \<lparr>read_info = \<lambda>_. None, output_buffer_size = \<lambda>_. 0, next_frame = \<lambda>_ _. None\<rparr>"

definition example_desktop :: desktop where
  "example_desktop = \<lparr>window_shown = True, menu_shown = Some False, exited = False\<rparr>"

lemma no_icon_no_way_back_witness:
  "\<exists>(s :: desktop \<times> nat tao_event list) t.
     reach shell_start (shell_step (\<lambda>_. None) (tray_icon True no_png (\<lambda>_ _ _. Some ()) (\<lambda>_. Some ()) [])) s \<and>
     (shell_step (\<lambda>_. None) (tray_icon True no_png (\<lambda>_ _ _. Some ()) (\<lambda>_. Some ()) []))\<^sup>*\<^sup>* s t \<and>
     snd t = [UserEvent HideMenu] \<and> \<not> window_shown (fst t) \<and> \<not> exited (fst t)"
proof -
  let ?tray = "tray_icon True no_png (\<lambda>_ _ _. Some ()) (\<lambda>_. Some ()) []"
  let ?step = "shell_step (\<lambda>_. None) ?tray :: desktop \<times> nat tao_event list \<Rightarrow> _"
  let ?d = "example_desktop\<lparr>window_shown := False\<rparr>"
  have none: "?tray = None" by (simp add: tray_icon_def icon_rgba_def no_png_def)
  have "?step (example_desktop, []) (example_desktop, [UserEvent HideWindow])"
    using page_says [of "\<lambda>_. None" ?tray example_desktop "[]" "Inl []" "Some ''close''"] by (simp add: page_ipc_def)
  moreover have "?step (example_desktop, [UserEvent HideWindow]) (?d, [])"
    using handled [of "\<lambda>_. None" ?tray example_desktop "UserEvent HideWindow" "[]"]
    by (simp add: desktop_step_def on_event_def hide_menu_def example_desktop_def)
  moreover have "shell_start (example_desktop, [] :: nat tao_event list)"
    by (simp add: shell_start_def example_desktop_def)
  ultimately have r: "reach shell_start ?step (?d, [])" by (blast intro: reach.intros)
  have "?step (?d, []) (?d, [UserEvent HideMenu])"
    using menu_says [of ?d "Some ''dismiss''" "\<lambda>_. None" ?tray "[]"] by (simp add: menu_ipc_def)
  then have star: "?step\<^sup>*\<^sup>* (?d, []) (?d, [UserEvent HideMenu])" by blast
  from no_icon_no_way_back [OF none r _ star] r star show ?thesis by fastforce
qed

end
