(* ===== verification/Worker_Pacing.thy ===== *)
theory Worker_Pacing
  imports Worker_Claims
begin

text \<open>
  How often the worker talks to the backend. A run is given with its clock: the instant at which a
  turn begins to wait, and the instant \<open>now\<close> of the turn's environment, at which it has done its
  work. The clock never goes back, and a wait that times out has lasted as long as it was asked
  to (\<open>recv_timeout\<close>). The lemmas bound heartbeats by a potential: each one moves the next one's due
  time by at least five seconds. From below they are bounded for a worker that goes back to waiting at
  once and whose wait and work end at most \<open>delay\<close> after the time it asked to wait (\<open>prompt\<close>).
\<close>

section \<open>Runs with a clock\<close>

fun clocked :: "Worker \<Rightarrow> 'v parsers \<Rightarrow> bool \<times> worker_state \<Rightarrow> nat \<Rightarrow> (nat \<times> 'v env) list \<Rightarrow> bool" where
  "clocked self ps s t [] = True"
| "clocked self ps s t ((instant, env) # steps) =
     (t \<le> instant \<and> instant \<le> now env \<and>
      (if received env = TimedOut then instant + wait_time (snd s) instant \<le> now env else True) \<and>
      clocked self ps (worker_step self ps s env) (now env) steps)"

fun end_time :: "nat \<Rightarrow> (nat \<times> 'v env) list \<Rightarrow> nat" where
  "end_time t [] = t"
| "end_time t ((instant, env) # steps) = end_time (now env) steps"

text \<open>Heartbeats, without the one that says goodbye.\<close>

definition is_beat :: "body \<Rightarrow> bool" where
  "is_beat b = (case b of HeartbeatBody r \<Rightarrow> hrq_closing r = None | _ \<Rightarrow> False)"

definition beats :: "action list \<Rightarrow> nat" where
  "beats acts = length (filter is_beat (posts acts))"

lemma beats_simps [simp]: "beats [] = 0" "beats (as @ bs) = beats as + beats bs"
  by (simp_all add: beats_def)

section \<open>The potential\<close>

text \<open>After \<open>k\<close> heartbeats since the instant \<open>b\<close>, at the instant \<open>t\<close>.\<close>

definition paced :: "nat \<Rightarrow> nat \<Rightarrow> nat \<Rightarrow> worker_state \<Rightarrow> bool" where
  "paced b t k st \<longleftrightarrow> b + k * from_secs 5 \<le> t \<and>
     (case active st of
        None \<Rightarrow> True
      | Some a \<Rightarrow> b + (k + 1) * from_secs 5 \<le> next_beat a \<and> next_beat a \<le> t + from_secs 3600)"

lemma paced_later: "paced b t k st \<Longrightarrow> t \<le> t' \<Longrightarrow> paced b t' k st"
  by (auto simp: paced_def split: option.splits)

lemma paced_same_session:
  "paced b t k st \<Longrightarrow> t \<le> t' \<Longrightarrow> active st' = active st \<Longrightarrow> paced b t' k st'"
  using paced_later by (simp add: paced_def)

lemma paced_new_session:
  assumes "paced b t k st" and "t \<le> t'" and "active st' = Some a" and "session_ok a"
    and "next_beat a = t' + interval a"
  shows "paced b t' k st'"
  using assms by (auto simp: paced_def session_ok_def split: option.splits)

lemma paced_beat:
  assumes "paced b t k st" and "active st = Some a" and "next_beat a \<le> t'" and "t \<le> t'"
    and "active st' = None \<or>
      (\<exists>a'. active st' = Some a' \<and> session_ok a' \<and> next_beat a' = t' + interval a')"
  shows "paced b t' (Suc k) st'"
  using assms by (auto simp: paced_def session_ok_def)

lemma on_snapshot_session:
  assumes "active st' = active st"
  shows "active (fst (on_snapshot self ps env st' nonce snapshot)) = active st \<or>
   (\<exists>a. active (fst (on_snapshot self ps env st' nonce snapshot)) = Some a \<and> session_ok a \<and>
      next_beat a = now env + interval a)"
proof (cases "attest (serde_of ps) (send env) (wk_client self) (attestation_request nonce snapshot)")
  case (Inr ack)
  then have "is_ok (validate_AttestationAck ack)" by (simp add: attest_call.call_ok)
  note live_session_ok [OF this]
  with Inr assms show ?thesis
    by (auto simp: on_snapshot_def on_outcome_def Let_def split: sum.split option.split)
qed (simp add: on_snapshot_def Let_def assms)

lemma on_nonce_session:
  "active (fst (on_nonce self ps env st job nonce)) = active st \<or>
   (\<exists>a. active (fst (on_nonce self ps env st job nonce)) = Some a \<and> session_ok a \<and>
      next_beat a = now env + interval a)"
proof (cases "worker_scan self ps env 0")
  case (Inr snapshot)
  then show ?thesis
    by (simp add: on_nonce_def Let_def case_prod_beta) (rule on_snapshot_session, simp)
qed (simp add: on_nonce_def Let_def)

lemma on_timeout_session:
  assumes "state_ok st" and "active st = Some a"
  shows "active (fst (on_timeout self ps env st)) = None \<or>
   (\<exists>a'. active (fst (on_timeout self ps env st)) = Some a' \<and> session_ok a' \<and>
      next_beat a' = now env + interval a')"
proof -
  have ok: "state_ok (fst (on_timeout self ps env st))" using on_timeout_ok [OF assms(1)] .
  obtain acts r where b: "beat self ps env (session_id a) = (acts, r)"
    by (cases "beat self ps env (session_id a)")
  have "active (fst (on_timeout self ps env st)) = None \<or>
    (\<exists>a'. active (fst (on_timeout self ps env st)) = Some a' \<and> next_beat a' = now env + interval a')"
  proof (cases r)
    case (Inl e)
    with b assms(2) show ?thesis by (simp add: on_timeout_def)
  next
    case (Inr again)
    with b assms(2) show ?thesis by (cases again) (simp_all add: on_timeout_def Let_def)
  qed
  with ok show ?thesis by (auto simp: state_ok_def)
qed

lemma beats_iterate:
  "beats (snd (iterate self ps env st)) = (if received env = TimedOut \<and> active st \<noteq> None then 1 else 0)"
proof -
  have posts: "beats (snd (iterate self ps env st)) = length (filter is_beat (turn_posts self ps env st))"
    by (simp only: beats_def posts_iterate)
  show ?thesis
    unfolding posts
  proof (rule turn_cases [where env = env and st = st])
    fix tx
    assume "received env = Got (Shutdown tx)"
    then show "length (filter is_beat (turn_posts self ps env st)) =
        (if received env = TimedOut \<and> active st \<noteq> None then 1 else 0)"
      by (cases "active st") (simp_all add: turn_posts_def job_nonce_def is_beat_def beat_request_def)
  next
    assume "received env = TimedOut"
    then show "length (filter is_beat (turn_posts self ps env st)) =
        (if received env = TimedOut \<and> active st \<noteq> None then 1 else 0)"
      by (cases "active st") (simp_all add: turn_posts_def is_beat_def beat_request_def)
  next
    fix job nonce
    assume "received env = Got job" "job_nonce job = Some nonce" "last_nonce st \<noteq> Some nonce"
    then show "length (filter is_beat (turn_posts self ps env st)) =
        (if received env = TimedOut \<and> active st \<noteq> None then 1 else 0)"
      by (simp add: turn_posts_def is_beat_def split: sum.split)
  qed (simp_all add: turn_posts_def job_nonce_def)
qed

text \<open>A turn that is not a heartbeat keeps the session or starts one.\<close>

lemma other_turn_session:
  assumes "received env \<noteq> TimedOut \<or> active st = None"
  shows "active (snd (worker_step self ps (True, st) env)) = active st \<or>
   (\<exists>a. active (snd (worker_step self ps (True, st) env)) = Some a \<and> session_ok a \<and>
      next_beat a = now env + interval a)"
proof (rule turn_cases [where env = env and st = st])
  fix job nonce
  assume "received env = Got job" "job_nonce job = Some nonce" "last_nonce st \<noteq> Some nonce"
  then have "snd (worker_step self ps (True, st) env) = fst (on_nonce self ps env st job nonce)"
    by (simp add: iterate_nonce)
  then show ?thesis using on_nonce_session [of self ps env st job nonce] by simp
next
  assume "received env = TimedOut"
  with assms show ?thesis by (simp add: on_timeout_def Let_def)
qed (simp_all add: on_recheck_def Let_def iterate_nonce)

lemma paced_turn:
  assumes "state_ok st" and "paced b t k st" and "t \<le> instant" and "instant \<le> now env"
    and "received env = TimedOut \<Longrightarrow> instant + wait_time st instant \<le> now env"
  shows "paced b (now env) (k + beats (snd (iterate self ps env st)))
    (snd (worker_step self ps (True, st) env))"
proof (cases "received env = TimedOut \<and> active st \<noteq> None")
  case False
  then have "beats (snd (iterate self ps env st)) = 0" using beats_iterate [of self ps env st] by argo
  moreover have "t \<le> now env" using assms(3,4) by simp
  moreover have "received env \<noteq> TimedOut \<or> active st = None" using False by blast
  ultimately show ?thesis
    using other_turn_session [of env st self ps] paced_same_session [OF assms(2)] paced_new_session [OF assms(2)]
    by (metis add_0_right)
next
  case True
  then obtain a where a: "active st = Some a" by blast
  have "beats (snd (iterate self ps env st)) = 1" using beats_iterate [of self ps env st] True by argo
  moreover have "next_beat a \<le> now env" using assms(5) True a by (simp add: wait_time_def)
  moreover have "t \<le> now env" using assms(3,4) by simp
  moreover have "snd (worker_step self ps (True, st) env) = fst (on_timeout self ps env st)"
    using True by simp
  ultimately show ?thesis
    using paced_beat [OF assms(2) a _ _ on_timeout_session [OF assms(1) a]] by (metis add.commute plus_1_eq_Suc)
qed

lemma clocked_ends: "clocked self ps s t steps \<Longrightarrow> t \<le> end_time t steps"
proof (induction steps arbitrary: s t)
  case (Cons step steps)
  then show ?case by (cases step) (fastforce)
qed simp

lemma paced_run:
  "clocked self ps s t steps \<Longrightarrow> state_ok (snd s) \<Longrightarrow> paced b t k (snd s) \<Longrightarrow>
   paced b (end_time t steps) (k + beats (outputs (worker_step self ps) (worker_out self ps) s (map snd steps)))
     (snd (run (worker_step self ps) s (map snd steps)))"
proof (induction steps arbitrary: s t k)
  case (Cons step steps)
  obtain instant env where step: "step = (instant, env)" by (cases step)
  obtain alive st where s: "s = (alive, st)" by (cases s)
  have next_ok: "state_ok (snd (worker_step self ps s env))"
    using session.inv_step [OF Cons.prems(2)] by simp
  have "paced b (now env) (k + beats (worker_out self ps s env)) (snd (worker_step self ps s env))"
  proof (cases alive)
    case True
    with Cons.prems paced_turn [of st b t k instant env self ps] show ?thesis
      by (simp add: step s del: worker_step_simps(3) split: if_splits)
  next
    case False
    with Cons.prems paced_later show ?thesis by (auto simp: step s)
  qed
  with Cons.IH [OF _ next_ok this] Cons.prems(1) show ?case
    by (simp add: step add.assoc del: worker_step_simps)
qed simp

section \<open>While no job comes\<close>

fun prompt :: "nat \<Rightarrow> Worker \<Rightarrow> 'v parsers \<Rightarrow> bool \<times> worker_state \<Rightarrow> nat \<Rightarrow> (nat \<times> 'v env) list \<Rightarrow> bool" where
  "prompt delay self ps s t [] = True"
| "prompt delay self ps s t ((instant, env) # steps) =
     (instant = t \<and> now env \<le> instant + wait_time (snd s) instant + delay \<and>
      prompt delay self ps (worker_step self ps s env) (now env) steps)"

definition idle_steps :: "(nat \<times> 'v env) list \<Rightarrow> bool" where
  "idle_steps steps = list_all (\<lambda>(_, env). received env = TimedOut) steps"

lemma idle_steps_simps [simp]:
  "idle_steps []" "idle_steps ((i, env) # steps) \<longleftrightarrow> received env = TimedOut \<and> idle_steps steps"
  by (simp_all add: idle_steps_def)

lemma clocked_append:
  "clocked self ps s t (xs @ ys) \<longleftrightarrow>
   clocked self ps s t xs \<and> clocked self ps (run (worker_step self ps) s (map snd xs)) (end_time t xs) ys"
  by (induction self ps s t xs rule: clocked.induct) simp_all

lemma end_time_append [simp]: "end_time t (xs @ ys) = end_time (end_time t xs) ys"
  by (induction t xs rule: end_time.induct) simp_all

text \<open>A session that has ended does not come back without a job.\<close>

lemma idle_without_session:
  "idle_steps steps \<Longrightarrow> active st = None \<Longrightarrow>
   active (snd (run (worker_step self ps) (True, st) (map snd steps))) = None"
proof (induction steps arbitrary: st)
  case (Cons step steps)
  obtain i env where step: "step = (i, env)" by (cases step)
  have "active (fst (on_timeout self ps env st)) = None"
    using Cons.prems(2) by (simp add: on_timeout_def Let_def)
  with Cons step show ?case by simp
qed simp

lemma idle_run:
  assumes "clocked self ps (True, st) t steps" and "prompt delay self ps (True, st) t steps" and "idle_steps steps"
    and "state_ok st" and "paced b t k st"
    and "active (snd (run (worker_step self ps) (True, st) (map snd steps))) \<noteq> None"
  shows "beats (outputs (worker_step self ps) (worker_out self ps) (True, st) (map snd steps)) = length steps \<and>
    end_time t steps \<le> t + length steps * (from_secs 3600 + delay)"
  using assms
proof (induction steps arbitrary: st t k)
  case (Cons step steps)
  obtain i env where step: "step = (i, env)" by (cases step)
  have env: "received env = TimedOut" "i = t" "now env \<le> t + wait_time st t + delay"
    using Cons.prems(2,3) step by auto
  obtain a where a: "active st = Some a"
    using idle_without_session [OF Cons.prems(3), of st] Cons.prems(6) by fastforce
  let ?st = "fst (on_timeout self ps env st)"
  have moved: "worker_step self ps (True, st) env = (True, ?st)" using env(1) by simp
  have "paced b (now env) (k + beats (snd (iterate self ps env st))) (snd (worker_step self ps (True, st) env))"
    using Cons.prems(1,4,5) step env(1) by (intro paced_turn [where instant = i]) auto
  then have "paced b (now env) (k + beats (snd (iterate self ps env st))) ?st" by (simp only: moved snd_conv)
  moreover have "state_ok ?st" using on_timeout_ok [OF Cons.prems(4)] .
  ultimately have IH: "beats (outputs (worker_step self ps) (worker_out self ps) (True, ?st) (map snd steps)) = length steps"
    "end_time (now env) steps \<le> now env + length steps * (from_secs 3600 + delay)"
    using Cons.IH [of ?st "now env"] Cons.prems(1-3,6) step moved by (simp_all del: worker_step_simps)
  have "beats (worker_out self ps (True, st) env) = 1"
    unfolding worker_step_simps(4) using beats_iterate [of self ps env st] env(1) a by simp
  moreover have "wait_time st t \<le> from_secs 3600"
    using Cons.prems(5) a by (auto simp: paced_def wait_time_def)
  ultimately show ?case
    using IH env(3) step moved by (simp del: worker_step_simps)
qed simp

section \<open>Reports\<close>

text \<open>The collector's loop over the answers its polls get, as long as the worker receives.\<close>

fun collect_run :: "'v serde \<Rightarrow> Client \<Rightarrow> 'v send_json list \<Rightarrow> collector_action list" where
  "collect_run sd client [] = []"
| "collect_run sd client (answer # answers) =
     (case collect_turn sd answer client True of
        (go_on, acts) \<Rightarrow> acts @ (if go_on then collect_run sd client answers else []))"

definition is_report :: "body \<Rightarrow> bool" where
  "is_report b = (case b of AttestBody _ \<Rightarrow> True | _ \<Rightarrow> False)"

definition reports :: "action list \<Rightarrow> nat" where
  "reports acts = length (filter is_report (posts acts))"

lemma reports_simps [simp]: "reports [] = 0" "reports (as @ bs) = reports as + reports bs"
  by (simp_all add: reports_def)

text \<open>A turn that takes this nonce, scans, and whose report the backend does not acknowledge.\<close>

definition refused_turn :: "Worker \<Rightarrow> 'v parsers \<Rightarrow> Pending \<Rightarrow> 'v env \<Rightarrow> bool" where
  "refused_turn self ps p env \<longleftrightarrow> received env = Got (Collected p) \<and>
     (case worker_scan self ps env 0 of
        Inl _ \<Rightarrow> False
      | Inr snapshot \<Rightarrow> \<not> is_ok (attest (serde_of ps) (send env) (wk_client self)
          (attestation_request (pending_nonce p) snapshot)))"

lemma collect_run_pending:
  "\<forall>answer\<in>set answers. poll_pending sd answer client (i64_from_u32 COMPANION_POLL_TIMEOUT_SECONDS) = Inr (Some p) \<Longrightarrow>
   collect_run sd client answers = replicate (length answers) (Sent (Collected p))"
  by (induction answers) (simp_all add: collect_turn_def)

lemma refused_turn_step:
  assumes "refused_turn self ps p env" and "last_nonce st \<noteq> Some (pending_nonce p)"
  shows "\<exists>st'. worker_step self ps (True, st) env = (True, st') \<and> last_nonce st' = last_nonce st \<and>
    reports (worker_out self ps (True, st) env) = 1"
proof -
  obtain snapshot e where turn: "received env = Got (Collected p)" "worker_scan self ps env 0 = Inr snapshot"
    "attest (serde_of ps) (send env) (wk_client self) (attestation_request (pending_nonce p) snapshot) = Inl e"
  proof (cases "worker_scan self ps env 0")
    case (Inr snapshot)
    with assms(1) show ?thesis
      by (cases "attest (serde_of ps) (send env) (wk_client self) (attestation_request (pending_nonce p) snapshot)")
        (auto simp: refused_turn_def intro: that)
  qed (use assms(1) in \<open>simp add: refused_turn_def\<close>)
  have nonce: "job_nonce (Collected p) = Some (pending_nonce p)" by (simp add: job_nonce_def)
  have "reports (snd (iterate self ps env st)) = 1"
    unfolding reports_def posts_iterate
    using turn assms(2) nonce by (simp add: turn_posts_def is_report_def)
  moreover have "fst (iterate self ps env st) = Some (fst (on_nonce self ps env st (Collected p) (pending_nonce p)))"
    using assms(2) by (simp add: iterate_nonce [OF turn(1) nonce])
  moreover have "last_nonce (fst (on_nonce self ps env st (Collected p) (pending_nonce p))) = last_nonce st"
    using turn(2,3) by (simp add: on_nonce_def on_snapshot_def Let_def)
  ultimately show ?thesis by (simp del: iterate_simps)
qed

lemma run_refused:
  "\<forall>env\<in>set envs. refused_turn self ps p env \<Longrightarrow> last_nonce st \<noteq> Some (pending_nonce p) \<Longrightarrow>
   reports (outputs (worker_step self ps) (worker_out self ps) (True, st) envs) = length envs"
proof (induction envs arbitrary: st)
  case (Cons env envs)
  then obtain st' where "worker_step self ps (True, st) env = (True, st')" "last_nonce st' = last_nonce st"
    "reports (worker_out self ps (True, st) env) = 1"
    using refused_turn_step [of self ps p env st] by auto
  with Cons show ?case by (simp del: worker_step_simps)
qed simp

section \<open>Properties\<close>

text \<open>
  C19: heartbeats are paced: in any run, whatever is asked of the worker and whatever the backend
  answers, there are at most as many heartbeats as five-second spans have passed, so the backend
  cannot make the companion flood it; and between turns the worker never waits longer than an hour.
\<close>

theorem heartbeats_are_paced:
  assumes "clocked self ps (True, start_state self ps env0) start steps"
  shows "beats (outputs (worker_step self ps) (worker_out self ps) (True, start_state self ps env0) (map snd steps)) *
      from_secs 5 \<le> end_time start steps - start \<and>
    wait_time (snd (run (worker_step self ps) (True, start_state self ps env0) (map snd steps))) (end_time start steps)
      \<le> from_secs 3600"
proof -
  have "paced start start 0 (snd (True, start_state self ps env0))"
    by (simp add: paced_def)
  from paced_run [OF assms _ this] have "paced start (end_time start steps)
      (beats (outputs (worker_step self ps) (worker_out self ps) (True, start_state self ps env0) (map snd steps)))
      (snd (run (worker_step self ps) (True, start_state self ps env0) (map snd steps)))"
    by (simp add: state_ok_start)
  then show ?thesis
    by (auto simp: paced_def wait_time_def IDLE_WATCH_def split: option.splits)
qed

text \<open>
  C20: a session is kept alive: however a run went before, as long as no job comes and the session is
  not ended, every turn of a worker that is at most \<open>delay\<close> late sends one heartbeat; so over any
  time there is at least one for every hour, the longest interval a backend can ask for, and \<open>delay\<close>.
\<close>

theorem idle_session_keeps_beating:
  assumes "clocked self ps (True, start_state self ps env0) start (before @ idle)"
    and "run (worker_step self ps) (True, start_state self ps env0) (map snd before) = (True, st)"
    and "prompt delay self ps (True, st) (end_time start before) idle" and "idle_steps idle"
    and "active (snd (run (worker_step self ps) (True, st) (map snd idle))) \<noteq> None"
  shows "beats (outputs (worker_step self ps) (worker_out self ps) (True, st) (map snd idle)) = length idle \<and>
    end_time start (before @ idle) - end_time start before \<le>
      beats (outputs (worker_step self ps) (worker_out self ps) (True, st) (map snd idle)) * (from_secs 3600 + delay)"
proof -
  let ?s = "(True, start_state self ps env0)"
  have split: "clocked self ps ?s start before" "clocked self ps (True, st) (end_time start before) idle"
    using assms(1,2) by (simp_all add: clocked_append)
  have "paced start start 0 (snd ?s)" by (simp add: paced_def)
  from paced_run [OF split(1) _ this] assms(2) obtain k where paced: "paced start (end_time start before) k st"
    by (auto simp: state_ok_start)
  have "state_ok st"
    using session.inv_run [of ?s "map snd before" self ps] assms(2) by (simp add: state_ok_start)
  from idle_run [OF split(2) assms(3,4) this paced assms(5)] show ?thesis by (simp add: le_diff_conv add.commute)
qed

text \<open>
  C35: reports are not paced. While the backend goes on answering polls with a pending nonce, which it
  does until a report consumes it, the collector queues the nonce again at once for every answer and
  never waits; and while the reports of it are refused, every copy is scanned for and reported
  again.
\<close>

theorem refused_nonce_is_hammered:
  assumes "\<forall>answer\<in>set answers.
      poll_pending sd answer client (i64_from_u32 COMPANION_POLL_TIMEOUT_SECONDS) = Inr (Some p)"
    and "\<forall>env\<in>set envs. refused_turn self ps p env"
    and "last_nonce st \<noteq> Some (pending_nonce p)"
  shows "collect_run sd client answers = replicate (length answers) (Sent (Collected p)) \<and>
    reports (outputs (worker_step self ps) (worker_out self ps) (True, st) envs) = length envs"
  using collect_run_pending [OF assms(1)] run_refused [OF assms(2,3)] by blast

section \<open>An instance\<close>

text \<open>A nonce is reported, and the heartbeat goes out as soon as it is due, two minutes later.\<close>

definition due_env :: "nat env" where
  "due_env = (example_env TimedOut)\<lparr>now := 7 + from_secs 120\<rparr>"

definition example_steps :: "(nat \<times> nat env) list" where
  "example_steps = [(0, example_env (Got example_job)), (7, due_env)]"

abbreviation "example_live \<equiv> fst (on_nonce example_worker example_parsers (example_env (Got example_job))
  (start_state example_worker example_parsers (example_env TimedOut)) example_job example_nonce)"

lemma example_live:
  "worker_step example_worker example_parsers
     (True, start_state example_worker example_parsers (example_env TimedOut)) (example_env (Got example_job)) =
     (True, example_live)"
  "\<exists>a. active example_live = Some a \<and> next_beat a = 7 + from_secs 120"
proof -
  show "worker_step example_worker example_parsers
     (True, start_state example_worker example_parsers (example_env TimedOut)) (example_env (Got example_job)) =
     (True, example_live)"
    by (simp add: iterate_nonce)
  show "\<exists>a. active example_live = Some a \<and> next_beat a = 7 + from_secs 120"
    by (simp add: on_nonce_def on_snapshot_def on_outcome_def Let_def example_ack_def seconds_or_default_def)
qed

lemma heartbeats_are_paced_witness:
  "beats (outputs (worker_step example_worker example_parsers) (worker_out example_worker example_parsers)
       (True, start_state example_worker example_parsers (example_env TimedOut)) (map snd example_steps)) = 1 \<and>
   1 * from_secs 5 \<le> end_time 0 example_steps - 0"
proof -
  let ?s = "(True, start_state example_worker example_parsers (example_env TimedOut))"
  have "clocked example_worker example_parsers ?s 0 example_steps"
    using example_live(2)
    by (auto simp: example_steps_def example_live(1) due_env_def wait_time_def simp del: worker_step_simps(3))
  note paced = heartbeats_are_paced [OF this]
  have "beats (worker_out example_worker example_parsers ?s (example_env (Got example_job))) = 0"
    unfolding worker_step_simps(4) beats_iterate by simp
  moreover have "beats (worker_out example_worker example_parsers (True, example_live) due_env) = 1"
    unfolding worker_step_simps(4) beats_iterate using example_live(2) by (auto simp: due_env_def)
  ultimately have "beats (outputs (worker_step example_worker example_parsers)
      (worker_out example_worker example_parsers) ?s (map snd example_steps)) = 1"
    by (simp add: example_steps_def example_live(1) del: worker_step_simps(3,4))
  with conjunct1 [OF paced] show ?thesis by (simp only: simp_thms)
qed

lemma example_retry:
  assumes "active st = Some a"
  shows "active (fst (on_timeout example_worker example_parsers ((example_env r)\<lparr>now := n\<rparr>) st)) =
    Some (a\<lparr>next_beat := n + interval a\<rparr>)"
proof -
  have "snd (beat example_worker example_parsers ((example_env r)\<lparr>now := n\<rparr>) (session_id a)) = Inl (Unreachable ''timed out'')"
    by (simp add: beat_def Let_def heartbeat_def post_def post_raw_def example_env_def)
  then show ?thesis
    using assms
    by (cases "beat example_worker example_parsers ((example_env r)\<lparr>now := n\<rparr>) (session_id a)")
      (simp add: on_timeout_def)
qed

text \<open>The heartbeat is sent, and although it fails the session goes on, so the next is sent as well.\<close>

definition late_env :: "nat env" where
  "late_env = (example_env TimedOut)\<lparr>now := 9 + from_secs 240\<rparr>"

lemma idle_session_keeps_beating_witness:
  "beats (outputs (worker_step example_worker example_parsers) (worker_out example_worker example_parsers)
     (True, example_live) [due_env, late_env]) = 2 \<and>
   9 + from_secs 240 - 7 \<le> 2 * (from_secs 3600 + 2)"
proof -
  let ?idle = "[(7, due_env), (7 + from_secs 120, late_env)]"
  let ?again = "fst (on_timeout example_worker example_parsers due_env example_live)"
  let ?late = "fst (on_timeout example_worker example_parsers late_env ?again)"
  obtain a where live: "active example_live = Some a" "next_beat a = 7 + from_secs 120" "interval a = from_secs 120"
    by (simp add: on_nonce_def on_snapshot_def on_outcome_def Let_def example_ack_def seconds_or_default_def)
  have again: "active ?again = Some (a\<lparr>next_beat := 7 + from_secs 120 + from_secs 120\<rparr>)"
    using example_retry [OF live(1), where r = TimedOut and n = "7 + from_secs 120"] live(3) by (simp add: due_env_def)
  have late: "active ?late \<noteq> None"
    using example_retry [OF again, where r = TimedOut and n = "9 + from_secs 240"] by (simp add: late_env_def)
  have now: "received due_env = TimedOut" "now due_env = 7 + from_secs 120" "received late_env = TimedOut"
    "now late_env = 9 + from_secs 240"
    by (simp_all add: due_env_def late_env_def)
  have steps: "worker_step example_worker example_parsers (True, example_live) due_env = (True, ?again)"
    "worker_step example_worker example_parsers (True, ?again) late_env = (True, ?late)"
    using now by simp_all
  have "wait_time example_live 7 = from_secs 120" "wait_time ?again (7 + from_secs 120) = from_secs 120"
    using live again by (simp_all add: wait_time_def)
  note facts = example_live(1) steps now this
  have clocked: "clocked example_worker example_parsers
      (True, start_state example_worker example_parsers (example_env TimedOut)) 0
      ([(0, example_env (Got example_job))] @ ?idle)"
    by (simp add: facts del: worker_step_simps(3)) (simp add: from_secs_def)
  have prompt: "prompt 2 example_worker example_parsers (True, example_live)
      (end_time 0 [(0, example_env (Got example_job))]) ?idle"
    by (simp add: facts del: worker_step_simps(3)) (simp add: from_secs_def)
  have idle: "idle_steps ?idle" using now by simp
  have live_on: "active (snd (run (worker_step example_worker example_parsers) (True, example_live) (map snd ?idle))) \<noteq> None"
    using late by (simp add: steps del: worker_step_simps(3))
  have one: "run (worker_step example_worker example_parsers)
      (True, start_state example_worker example_parsers (example_env TimedOut))
      (map snd [(0 :: nat, example_env (Got example_job))]) = (True, example_live)"
    by (simp only: list.map snd_conv run.simps example_live(1))
  note kept = idle_session_keeps_beating [OF clocked one prompt idle live_on]
  then have two: "beats (outputs (worker_step example_worker example_parsers) (worker_out example_worker example_parsers)
      (True, example_live) (map snd ?idle)) = 2"
    by (simp only: list.size)
  have "9 + from_secs 240 - 7 \<le> 2 * (from_secs 3600 + 2)"
    using conjunct2 [OF kept] unfolding two by (simp add: now(4))
  with two show ?thesis by (simp only: list.map snd_conv simp_thms)
qed

text \<open>Three polls answered with the nonce, whose reports then meet a backend that is out of reach.\<close>

definition example_pending :: Pending where
  "example_pending = \<lparr>pending_nonce = example_nonce, pending_server_name = None\<rparr>"

definition away_env :: "nat env" where
  "away_env = (example_env (Got (Collected example_pending)))\<lparr>send := (\<lambda>_ _. UreqTransport ''timed out'')\<rparr>"

lemma refused_nonce_is_hammered_witness:
  "collect_run (serde_of example_parsers) (wk_client example_worker) (replicate 3 (\<lambda>_ _. UreqOk 200 (Inr 0))) =
     replicate 3 (Sent (Collected example_pending)) \<and>
   reports (outputs (worker_step example_worker example_parsers) (worker_out example_worker example_parsers)
     (True, start_state example_worker example_parsers (example_env TimedOut)) (replicate 3 away_env)) = 3"
proof -
  have "is_ok (validate_CompanionPollResponse example_poll)"
    using example_nonce_ok by (simp add: validate_CompanionPollResponse_def example_poll_def is_nonce_def)
  then have poll: "poll_pending (serde_of example_parsers) (\<lambda>_ _. UreqOk 200 (Inr 0)) (wk_client example_worker) w =
      Inr (Some example_pending)" for w
    unfolding poll_pending_Some
    by (intro exI [of _ example_poll])
      (simp add: example_poll_def post_def post_raw_def Let_def example_parsers_def example_pending_def)
  have "worker_scan example_worker example_parsers away_env 0 = Inr example_snapshot"
    using example_scan [of "Got (Collected example_pending)" 0]
    by (simp add: worker_scan_def away_env_def)
  then have "refused_turn example_worker example_parsers example_pending away_env"
    by (simp add: refused_turn_def) (simp add: away_env_def attest_def post_def post_raw_def Let_def)
  with poll refused_nonce_is_hammered [where p = example_pending and self = example_worker and ps = example_parsers
      and st = "start_state example_worker example_parsers (example_env TimedOut)"
      and envs = "replicate 3 away_env" and answers = "replicate 3 (\<lambda>_ _. UreqOk 200 (Inr 0))"
      and sd = "serde_of example_parsers" and client = "wk_client example_worker"]
  show ?thesis by simp
qed

end
