(* ===== verification/Json.thy ===== *)
theory Json
  imports Interfaces
begin

text \<open>
  JSON values, and what the attributes of the program's \<open>serde\<close> derives mean for them. The program
  derives \<open>Serialize\<close> and \<open>Deserialize\<close> for every message it exchanges, with the name of each field, the
  fields that may be absent (\<open>default\<close>, \<open>skip_serializing_if\<close>) and \<open>deny_unknown_fields\<close>; what the derived
  code does is serde's documented behaviour, given here once. Texts are left to the parser and
  printer of \<open>serde_json\<close>. Which of several errors is reported is not modelled.
\<close>

section \<open>Values\<close>

text \<open>
  A number is an \<open>i64\<close> or one of the others, given by its text; an object is the list of its members
  in the order of the text.
\<close>

datatype json =
    JNull
  | JBool bool
  | JInt i64
  | JNumber string
  | JString string
  | JArray "json list"
  | JObject "(string \<times> json) list"

datatype de_error =
    InvalidType
  | InvalidLength
  | UnknownVariant string
  | UnknownField string
  | DuplicateField
  | MissingField string

text \<open>Equality of values: the members of an object have no order.\<close>

fun same_json :: "json \<Rightarrow> json \<Rightarrow> bool" where
  "same_json (JArray xs) (JArray ys) \<longleftrightarrow> list_all2 same_json xs ys"
| "same_json (JObject ms) (JObject ns) \<longleftrightarrow>
     length ms = length ns \<and>
     list_all (\<lambda>(k, v). (case map_of ns k of None \<Rightarrow> False | Some w \<Rightarrow> same_json v w)) ms"
| "same_json v w \<longleftrightarrow> v = w"

section \<open>Deserializing\<close>

type_synonym 'a de = "json \<Rightarrow> de_error + 'a"

definition and_then :: "'e + 'a \<Rightarrow> ('a \<Rightarrow> 'e + 'b) \<Rightarrow> 'e + 'b" where
  "and_then r f = (case r of Inl e \<Rightarrow> Inl e | Inr x \<Rightarrow> f x)"

definition de_string :: "string de" where
  "de_string v = (case v of JString s \<Rightarrow> Inr s | _ \<Rightarrow> Inl InvalidType)"

definition de_bool :: "bool de" where
  "de_bool v = (case v of JBool b \<Rightarrow> Inr b | _ \<Rightarrow> Inl InvalidType)"

definition de_i64 :: "i64 de" where
  "de_i64 v = (case v of JInt i \<Rightarrow> Inr i | _ \<Rightarrow> Inl InvalidType)"

fun de_list :: "'a de \<Rightarrow> json list \<Rightarrow> de_error + 'a list" where
  "de_list d [] = Inr []"
| "de_list d (v # vs) = and_then (d v) (\<lambda>x. and_then (de_list d vs) (\<lambda>xs. Inr (x # xs)))"

definition de_vec :: "'a de \<Rightarrow> 'a list de" where
  "de_vec d v = (case v of JArray vs \<Rightarrow> de_list d vs | _ \<Rightarrow> Inl InvalidType)"

definition de_option :: "'a de \<Rightarrow> 'a option de" where
  "de_option d v = (if v = JNull then Inr None else and_then (d v) (\<lambda>x. Inr (Some x)))"

text \<open>
  An enum of unit variants: a variant's name, or an object whose only member has that name and is null.
\<close>

definition de_variant :: "'a list \<Rightarrow> ('a \<Rightarrow> string) \<Rightarrow> string \<Rightarrow> de_error + 'a" where
  "de_variant variants wire_name s =
     (case find (\<lambda>x. wire_name x = s) variants of Some x \<Rightarrow> Inr x | None \<Rightarrow> Inl (UnknownVariant s))"

definition de_enum :: "'a list \<Rightarrow> ('a \<Rightarrow> string) \<Rightarrow> 'a de" where
  "de_enum variants wire_name v =
     (case v of
        JString s \<Rightarrow> de_variant variants wire_name s
      | JObject [(s, JNull)] \<Rightarrow> de_variant variants wire_name s
      | _ \<Rightarrow> Inl InvalidType)"

text \<open>
  A struct: the value of each field, by name. An object may come in any order, but with every field
  at most once and, for \<open>deny_unknown_fields\<close>, no other member. An array gives the fields in the
  order of their declaration, the last ones may be missing.
\<close>

definition de_struct :: "bool \<Rightarrow> string list \<Rightarrow> json \<Rightarrow> de_error + (string \<times> json option) list" where
  "de_struct deny_unknown fields v =
     (case v of
        JObject members \<Rightarrow>
          (if \<not> distinct (filter (\<lambda>f. f \<in> set fields) (map fst members)) then Inl DuplicateField
           else case find (\<lambda>m. deny_unknown \<and> fst m \<notin> set fields) members of
             Some m \<Rightarrow> Inl (UnknownField (fst m))
           | None \<Rightarrow> Inr (map (\<lambda>f. (f, map_of members f)) fields))
      | JArray vs \<Rightarrow>
          (if length fields < length vs then Inl InvalidLength
           else Inr (map (\<lambda>f. (f, map_of (zip fields vs) f)) fields))
      | _ \<Rightarrow> Inl InvalidType)"

definition required :: "'a de \<Rightarrow> string \<times> json option \<Rightarrow> de_error + 'a" where
  "required d field = (case field of (name, None) \<Rightarrow> Inl (MissingField name) | (_, Some v) \<Rightarrow> d v)"

text \<open>\<open>default\<close>, and any field of an \<open>Option\<close> type.\<close>

definition defaulted :: "'a \<Rightarrow> 'a de \<Rightarrow> string \<times> json option \<Rightarrow> de_error + 'a" where
  "defaulted x d field = (case field of (_, None) \<Rightarrow> Inr x | (_, Some v) \<Rightarrow> d v)"

definition optional :: "'a de \<Rightarrow> string \<times> json option \<Rightarrow> de_error + 'a option" where
  "optional d = defaulted None (de_option d)"

section \<open>Serializing\<close>

text \<open>\<open>None\<close> stands for a field that is skipped.\<close>

definition ser_struct :: "string list \<Rightarrow> json option list \<Rightarrow> json" where
  "ser_struct fields vs =
     JObject (List.map_filter (\<lambda>(f, v). map_option (Pair f) v) (zip fields vs))"

section \<open>Lemmas\<close>

lemma and_then_simps [simp]: "and_then (Inr x) f = f x" "and_then (Inl e) f = Inl e"
  by (simp_all add: and_then_def)

lemma de_simps [simp]:
  "de_string (JString s) = Inr s" "de_bool (JBool b) = Inr b" "de_i64 (JInt i) = Inr i"
  "de_vec d (JArray vs) = de_list d vs"
  by (simp_all add: de_string_def de_bool_def de_i64_def de_vec_def)

lemma required_Some [simp]: "required d (f, Some v) = d v" "required d (f, None) = Inl (MissingField f)"
  by (simp_all add: required_def)

lemma optional_simps [simp]:
  "optional d (f, None) = Inr None" "optional d (f, Some v) = de_option d v"
  "defaulted x d' (f, None) = Inr x" "defaulted x d' (f, Some v) = d' v"
  by (simp_all add: optional_def defaulted_def)

lemma de_option_Some: "d v = Inr x \<Longrightarrow> v \<noteq> JNull \<Longrightarrow> de_option d v = Inr (Some x)"
  by (simp add: de_option_def)

lemma ser_struct_not_null [simp]: "ser_struct fields vs \<noteq> JNull"
  by (simp add: ser_struct_def)

lemma de_variant_found:
  assumes "x \<in> set variants" and "inj_on wire_name (set variants)"
  shows "de_variant variants wire_name (wire_name x) = Inr x"
proof -
  have "find (\<lambda>y. wire_name y = wire_name x) variants = Some x"
    using assms by (induction variants) (auto dest: inj_onD)
  then show ?thesis by (simp add: de_variant_def)
qed

lemma de_enum_back:
  "set variants = UNIV \<Longrightarrow> inj wire_name \<Longrightarrow> de_enum variants wire_name (JString (wire_name x)) = Inr x"
  by (simp add: de_enum_def de_variant_found)

lemma ser_struct_members:
  "map fst (List.map_filter (\<lambda>(f, v). map_option (Pair f) v) (zip fields vs)) =
     map fst (filter (\<lambda>p. snd p \<noteq> None) (zip fields vs))"
proof (induction fields arbitrary: vs)
  case (Cons f fields)
  then show ?case by (cases vs) (auto simp: map_filter_def)
qed (simp add: map_filter_def)

lemma map_of_members:
  "distinct fields \<Longrightarrow> length vs = length fields \<Longrightarrow>
   map_of (List.map_filter (\<lambda>(f, v). map_option (Pair f) v) (zip fields vs)) f =
     (case map_of (zip fields vs) f of Some (Some v) \<Rightarrow> Some v | _ \<Rightarrow> None)"
proof (induction fields arbitrary: vs)
  case (Cons g fields)
  then obtain v ws where vs: "vs = v # ws" by (cases vs) auto
  have "g \<notin> set (map fst (filter (\<lambda>p. snd p \<noteq> None) (zip fields ws)))"
    using Cons.prems(1) by (auto dest: set_zip_leftD)
  then have "map_of (List.map_filter (\<lambda>(f, v). map_option (Pair f) v) (zip fields ws)) g = None"
    unfolding ser_struct_members [symmetric] by (simp add: map_of_eq_None_iff)
  with Cons vs show ?case by (cases v) (auto simp: map_filter_simps)
qed (simp add: map_filter_def)

lemma zip_fields:
  "distinct fields \<Longrightarrow> length vs = length fields \<Longrightarrow> map (\<lambda>f. (f, map_of (zip fields vs) f)) fields =
     zip fields (map Some vs)"
proof (induction fields arbitrary: vs)
  case (Cons g fields)
  then obtain v ws where vs: "vs = v # ws" by (cases vs) auto
  have "map (\<lambda>f. (f, map_of (zip (g # fields) vs) f)) fields = map (\<lambda>f. (f, map_of (zip fields ws) f)) fields"
    using Cons.prems(1) vs by (intro map_cong) auto
  with Cons vs show ?case by simp
qed simp

lemma struct_back:
  assumes "distinct fields" and "length vs = length fields"
  shows "de_struct deny fields (ser_struct fields vs) = Inr (zip fields vs)"
proof -
  let ?ms = "List.map_filter (\<lambda>(f, v). map_option (Pair f) v) (zip fields vs)"
  have "distinct (filter (\<lambda>f. f \<in> set fields) (map fst ?ms))"
    unfolding ser_struct_members using assms
    by (auto intro!: distinct_map_filter distinct_filter)
  moreover have "find (\<lambda>m. deny \<and> fst m \<notin> set fields) ?ms = None"
  proof -
    have "fst ` set ?ms \<subseteq> set fields"
      unfolding set_map [symmetric] ser_struct_members by (auto dest: set_zip_leftD)
    then show ?thesis by (auto simp: find_None_iff)
  qed
  moreover have "map (\<lambda>f. (f, map_of ?ms f)) fields = zip fields vs"
  proof -
    have "map (\<lambda>f. (f, map_of ?ms f)) fields =
        map (\<lambda>(f, v). (f, case v of Some (Some x) \<Rightarrow> Some x | _ \<Rightarrow> None)) (map (\<lambda>f. (f, map_of (zip fields vs) f)) fields)"
      by (simp add: map_of_members [OF assms])
    also have "\<dots> = map (\<lambda>(f, v). (f, case v of Some (Some x) \<Rightarrow> Some x | _ \<Rightarrow> None)) (zip fields (map Some vs))"
      by (simp only: zip_fields [OF assms])
    also have "\<dots> = zip fields vs"
      using assms(2) by (intro nth_equalityI) (auto split: option.split)
    finally show ?thesis .
  qed
  ultimately show ?thesis by (simp add: de_struct_def ser_struct_def)
qed

text \<open>A member the message does not have.\<close>

lemma unknown_member:
  assumes "f \<in> set (map fst members)" and "f \<notin> set fields"
  shows "\<exists>e. de_struct True fields (JObject members) = Inl e"
proof (cases "find (\<lambda>m. True \<and> fst m \<notin> set fields) members")
  case None
  with assms show ?thesis by (auto simp: find_None_iff)
qed (simp add: de_struct_def)

section \<open>Types with both derives\<close>

text \<open>
  A type that derives \<open>Serialize\<close> and \<open>Deserialize\<close>: what is written is read back, and it is not the
  null that stands for an absent \<open>Option\<close>. What holds for the type then holds for a field, an optional
  field and a list of it.
\<close>

definition ser_vec :: "('a \<Rightarrow> json) \<Rightarrow> 'a list \<Rightarrow> json" where
  "ser_vec ser xs = JArray (map ser xs)"

lemma ser_vec_not_null [simp]: "ser_vec ser xs \<noteq> JNull"
  by (simp add: ser_vec_def)

locale wire_type =
  fixes ser :: "'a \<Rightarrow> json" and de :: "'a de"
  assumes read_back [simp]: "de (ser x) = Inr x"
    and not_null [simp]: "ser x \<noteq> JNull"
begin

lemma required_back [simp]: "required de (f, Some (ser x)) = Inr x"
  by simp

lemma optional_back [simp]: "optional de (f, map_option ser x) = Inr x"
  by (cases x) (simp_all add: de_option_Some)

lemma vec_back [simp]: "de_vec de (ser_vec ser xs) = Inr xs"
  unfolding ser_vec_def by (induction xs) simp_all

lemma optional_vec_back [simp]: "optional (de_vec de) (f, map_option (ser_vec ser) x) = Inr x"
  by (cases x) (simp_all add: de_option_Some)

end

definition reads :: "'a de \<Rightarrow> json \<Rightarrow> 'a option" where
  "reads d v = (case d v of Inl e \<Rightarrow> None | Inr x \<Rightarrow> Some x)"

sublocale wire_type \<subseteq> as_codec: codec ser "reads de"
  by unfold_locales (simp add: reads_def)

section \<open>Types that read nothing away\<close>

text \<open>
  Serde accepts more than one form of a value: a struct as an array, an enum's variant as an object,
  null for an absent \<open>Option\<close>. The \<open>shape\<close> of a type rules these out at every depth, and only these.
\<close>

type_synonym shape = "json \<Rightarrow> bool"

definition any_shape :: shape where
  "any_shape v = True"

definition enum_shape :: shape where
  "enum_shape v = (case v of JString s \<Rightarrow> True | _ \<Rightarrow> False)"

definition vec_shape :: "shape \<Rightarrow> shape" where
  "vec_shape sh v = (case v of JArray vs \<Rightarrow> list_all sh vs | _ \<Rightarrow> False)"

definition struct_shape :: "string list \<Rightarrow> shape list \<Rightarrow> shape" where
  "struct_shape fields shapes v =
     (case v of
        JObject members \<Rightarrow>
          list_all2 (\<lambda>f sh. pred_option (\<lambda>w. w \<noteq> JNull \<and> sh w) (map_of members f)) fields shapes
      | _ \<Rightarrow> False)"

named_theorems field_same \<open>a field and the member it was read from\<close>

locale exact_type = wire_type +
  fixes shape :: shape
  assumes exact: "shape v \<Longrightarrow> de v = Inr x \<Longrightarrow> same_json (ser x) v"
begin

lemma required_same [field_same]:
  "required de (f, o') = Inr x \<Longrightarrow> pred_option (\<lambda>w. w \<noteq> JNull \<and> shape w) o' \<Longrightarrow>
   rel_option same_json (Some (ser x)) o'"
  by (cases o') (simp_all add: exact)

lemma optional_same [field_same]:
  "optional de (f, o') = Inr x \<Longrightarrow> pred_option (\<lambda>w. w \<noteq> JNull \<and> shape w) o' \<Longrightarrow>
   rel_option same_json (map_option ser x) o'"
  by (cases o') (auto simp: de_option_def and_then_def exact split: sum.splits)

lemma list_same: "list_all shape vs \<Longrightarrow> de_list de vs = Inr xs \<Longrightarrow> list_all2 same_json (map ser xs) vs"
  by (induction vs arbitrary: xs) (auto simp: and_then_def exact split: sum.splits)

lemma vec_same: "vec_shape shape v \<Longrightarrow> de_vec de v = Inr xs \<Longrightarrow> same_json (ser_vec ser xs) v"
  by (cases v) (auto simp: vec_shape_def ser_vec_def de_vec_def intro: list_same)

lemma vec_exact: "exact_type (ser_vec ser) (de_vec de) (vec_shape shape)"
  by unfold_locales (auto intro: vec_same)

end

interpretation json_string: exact_type JString de_string any_shape
  by unfold_locales (simp_all add: de_string_def split: json.splits)

interpretation json_bool: exact_type JBool de_bool any_shape
  by unfold_locales (simp_all add: de_bool_def split: json.splits)

interpretation json_i64: exact_type JInt de_i64 any_shape
  by unfold_locales (simp_all add: de_i64_def split: json.splits)

lemma enum_same:
  "enum_shape v \<Longrightarrow> de_enum variants wire_name v = Inr x \<Longrightarrow> v = JString (wire_name x)"
  by (cases v) (auto simp: enum_shape_def de_enum_def de_variant_def find_Some_iff split: option.splits)

lemma enum_exact:
  "set variants = UNIV \<Longrightarrow> inj wire_name \<Longrightarrow>
   exact_type (\<lambda>x. JString (wire_name x)) (de_enum variants wire_name) enum_shape"
  by unfold_locales (auto simp: de_enum_back dest: enum_same)

lemma and_then_Inr: "and_then r f = Inr y \<longleftrightarrow> (\<exists>x. r = Inr x \<and> f x = Inr y)"
  by (cases r) simp_all

lemma strict_struct:
  assumes "de_struct True fields (JObject members) = Inr vs"
  shows "vs = map (\<lambda>f. (f, map_of members f)) fields"
    and "distinct (map fst members)" and "fst ` set members \<subseteq> set fields"
proof -
  let ?known = "filter (\<lambda>f. f \<in> set fields) (map fst members)"
  have d: "distinct ?known" and n: "find (\<lambda>m. True \<and> fst m \<notin> set fields) members = None"
    and v: "vs = map (\<lambda>f. (f, map_of members f)) fields"
    using assms by (auto simp: de_struct_def split: if_splits option.splits)
  from n show "fst ` set members \<subseteq> set fields" by (auto simp: find_None_iff)
  then have "?known = map fst members" by (intro filter_True) auto
  with d show "distinct (map fst members)" by simp
  from v show "vs = map (\<lambda>f. (f, map_of members f)) fields" .
qed

text \<open>Of two objects without a repeated member, it is enough to compare the members of the fields.\<close>

lemma struct_same:
  assumes de: "de_struct True fields (JObject members) = Inr vs" and dist: "distinct fields"
    and outs: "list_all2 (\<lambda>f out. rel_option same_json out (map_of members f)) fields outs"
  shows "same_json (ser_struct fields outs) (JObject members)"
proof -
  let ?ms = "List.map_filter (\<lambda>(f, v). map_option (Pair f) v) (zip fields outs)"
  have len: "length outs = length fields" using outs by (simp add: list_all2_lengthD)
  have rel: "rel_option same_json out (map_of members f)" if "(f, out) \<in> set (zip fields outs)" for f out
    using outs that by (auto simp: list_all2_iff)
  have out: "(f, v) \<in> set ?ms \<longleftrightarrow> (f, Some v) \<in> set (zip fields outs)" for f v
    by (auto simp: map_filter_def image_iff; force)
  have keys: "fst ` set ?ms = fst ` set members"
  proof (intro equalityI subsetI)
    fix f assume "f \<in> fst ` set ?ms"
    then obtain v where "(f, Some v) \<in> set (zip fields outs)" using out by (auto simp del: set_zip)
    from rel [OF this] show "f \<in> fst ` set members"
      by (auto simp: option_rel_Some1 dest: map_of_SomeD intro: rev_image_eqI)
  next
    fix f assume f: "f \<in> fst ` set members"
    then have "f \<in> set fields" using strict_struct(3) [OF de] by blast
    then obtain out' where o': "(f, out') \<in> set (zip fields outs)"
      using len by (metis in_set_impl_in_set_zip1)
    obtain v where "map_of members f = Some v" using f by (metis map_of_eq_None_iff not_None_eq)
    with rel [OF o'] obtain w where "out' = Some w" by (auto simp: option_rel_Some2)
    with o' have "(f, w) \<in> set ?ms" unfolding out by blast
    then show "f \<in> fst ` set ?ms" by (rule rev_image_eqI) simp
  qed
  have "distinct (map fst ?ms)"
    unfolding ser_struct_members using dist len by (auto intro!: distinct_map_filter)
  then have "length ?ms = card (fst ` set ?ms)" by (metis distinct_card length_map set_map)
  moreover have "length members = card (fst ` set members)"
    using strict_struct(2) [OF de] by (metis distinct_card length_map set_map)
  moreover have "case map_of members f of None \<Rightarrow> False | Some w \<Rightarrow> same_json v w"
    if "(f, v) \<in> set ?ms" for f v
    using rel [of f "Some v"] that unfolding out by (auto simp: option_rel_Some1)
  ultimately show ?thesis unfolding ser_struct_def by (auto simp: keys list_all_iff)
qed

interpretation json_strings: exact_type "ser_vec JString" "de_vec de_string" "vec_shape any_shape"
  by (rule json_string.vec_exact)

interpretation json_i64s: exact_type "ser_vec JInt" "de_vec de_i64" "vec_shape any_shape"
  by (rule json_i64.vec_exact)

lemma strict_shape:
  assumes "struct_shape fields shapes v" and "de_struct True fields v = Inr vs"
  obtains members where "v = JObject members" and "de_struct True fields (JObject members) = Inr vs"
    and "vs = map (\<lambda>f. (f, map_of members f)) fields"
    and "list_all2 (\<lambda>f sh. pred_option (\<lambda>w. w \<noteq> JNull \<and> sh w) (map_of members f)) fields shapes"
proof -
  from assms(1) obtain members where v: "v = JObject members"
    by (cases v) (simp_all add: struct_shape_def)
  with assms have de: "de_struct True fields (JObject members) = Inr vs"
    and sh: "list_all2 (\<lambda>f sh. pred_option (\<lambda>w. w \<noteq> JNull \<and> sh w) (map_of members f)) fields shapes"
    by (simp_all add: struct_shape_def)
  from v de strict_struct(1) [OF de] sh show thesis by (rule that)
qed

end
