(* ===== verification/Protocol_Json.thy ===== *)
theory Protocol_Json
  imports Json Protocol_Check
begin

text \<open>
  The JSON form of every enum and message of the wire protocol: the names and attributes in
  \<open>packages/protocol/generated/rust/protocol.rs\<close>, with serde's meaning of them (theory \<open>Json\<close>). A
  message's \<open>FIELDS\<close> are its \<open>rename\<close> names in the order of the declaration. Every type is shown to be
  a \<open>wire_type\<close>, so whatever a companion sends is read back as it was.
\<close>

section \<open>Enums\<close>

lemma inj_wire_name: "set xs = UNIV \<Longrightarrow> distinct (map f xs) \<Longrightarrow> inj f"
  by (metis distinct_map)

text \<open>Each enum also has a \<open>Display\<close> implementation, here \<open>fmt\<close>, that writes the wire name.\<close>

definition PolicyTier_fmt :: "PolicyTier \<Rightarrow> string" where
  "PolicyTier_fmt self = PolicyTier_as_wire_str self"

definition PolicyTier_to_value :: "PolicyTier \<Rightarrow> json" where
  "PolicyTier_to_value x = JString (PolicyTier_as_wire_str x)"

definition PolicyTier_from_value :: "PolicyTier de" where
  "PolicyTier_from_value = de_enum PolicyTier_ALL PolicyTier_as_wire_str"

lemma inj_PolicyTier: "inj PolicyTier_as_wire_str"
  by (rule inj_wire_name [OF set_PolicyTier_ALL]) (simp add: PolicyTier_ALL_def)

interpretation PolicyTier: exact_type PolicyTier_to_value PolicyTier_from_value enum_shape
  unfolding PolicyTier_to_value_def [abs_def] PolicyTier_from_value_def
  by (rule enum_exact [OF set_PolicyTier_ALL inj_PolicyTier])

definition FailMode_fmt :: "FailMode \<Rightarrow> string" where
  "FailMode_fmt self = FailMode_as_wire_str self"

definition FailMode_to_value :: "FailMode \<Rightarrow> json" where
  "FailMode_to_value x = JString (FailMode_as_wire_str x)"

definition FailMode_from_value :: "FailMode de" where
  "FailMode_from_value = de_enum FailMode_ALL FailMode_as_wire_str"

lemma inj_FailMode: "inj FailMode_as_wire_str"
  by (rule inj_wire_name [OF set_FailMode_ALL]) (simp add: FailMode_ALL_def)

interpretation FailMode: exact_type FailMode_to_value FailMode_from_value enum_shape
  unfolding FailMode_to_value_def [abs_def] FailMode_from_value_def
  by (rule enum_exact [OF set_FailMode_ALL inj_FailMode])

definition FeatureState_fmt :: "FeatureState \<Rightarrow> string" where
  "FeatureState_fmt self = FeatureState_as_wire_str self"

definition FeatureState_to_value :: "FeatureState \<Rightarrow> json" where
  "FeatureState_to_value x = JString (FeatureState_as_wire_str x)"

definition FeatureState_from_value :: "FeatureState de" where
  "FeatureState_from_value = de_enum FeatureState_ALL FeatureState_as_wire_str"

lemma inj_FeatureState: "inj FeatureState_as_wire_str"
  by (rule inj_wire_name [OF set_FeatureState_ALL]) (simp add: FeatureState_ALL_def)

interpretation FeatureState: exact_type FeatureState_to_value FeatureState_from_value enum_shape
  unfolding FeatureState_to_value_def [abs_def] FeatureState_from_value_def
  by (rule enum_exact [OF set_FeatureState_ALL inj_FeatureState])

definition SessionState_fmt :: "SessionState \<Rightarrow> string" where
  "SessionState_fmt self = SessionState_as_wire_str self"

definition SessionState_to_value :: "SessionState \<Rightarrow> json" where
  "SessionState_to_value x = JString (SessionState_as_wire_str x)"

definition SessionState_from_value :: "SessionState de" where
  "SessionState_from_value = de_enum SessionState_ALL SessionState_as_wire_str"

lemma inj_SessionState: "inj SessionState_as_wire_str"
  by (rule inj_wire_name [OF set_SessionState_ALL]) (simp add: SessionState_ALL_def)

interpretation SessionState: exact_type SessionState_to_value SessionState_from_value enum_shape
  unfolding SessionState_to_value_def [abs_def] SessionState_from_value_def
  by (rule enum_exact [OF set_SessionState_ALL inj_SessionState])

definition VerdictDecision_fmt :: "VerdictDecision \<Rightarrow> string" where
  "VerdictDecision_fmt self = VerdictDecision_as_wire_str self"

definition VerdictDecision_to_value :: "VerdictDecision \<Rightarrow> json" where
  "VerdictDecision_to_value x = JString (VerdictDecision_as_wire_str x)"

definition VerdictDecision_from_value :: "VerdictDecision de" where
  "VerdictDecision_from_value = de_enum VerdictDecision_ALL VerdictDecision_as_wire_str"

lemma inj_VerdictDecision: "inj VerdictDecision_as_wire_str"
  by (rule inj_wire_name [OF set_VerdictDecision_ALL]) (simp add: VerdictDecision_ALL_def)

interpretation VerdictDecision: exact_type VerdictDecision_to_value VerdictDecision_from_value enum_shape
  unfolding VerdictDecision_to_value_def [abs_def] VerdictDecision_from_value_def
  by (rule enum_exact [OF set_VerdictDecision_ALL inj_VerdictDecision])

definition RequirementId_fmt :: "RequirementId \<Rightarrow> string" where
  "RequirementId_fmt self = RequirementId_as_wire_str self"

definition RequirementId_to_value :: "RequirementId \<Rightarrow> json" where
  "RequirementId_to_value x = JString (RequirementId_as_wire_str x)"

definition RequirementId_from_value :: "RequirementId de" where
  "RequirementId_from_value = de_enum RequirementId_ALL RequirementId_as_wire_str"

lemma inj_RequirementId: "inj RequirementId_as_wire_str"
  by (rule inj_wire_name [OF set_RequirementId_ALL]) (simp add: RequirementId_ALL_def)

interpretation RequirementId: exact_type RequirementId_to_value RequirementId_from_value enum_shape
  unfolding RequirementId_to_value_def [abs_def] RequirementId_from_value_def
  by (rule enum_exact [OF set_RequirementId_ALL inj_RequirementId])

definition RequirementStatus_fmt :: "RequirementStatus \<Rightarrow> string" where
  "RequirementStatus_fmt self = RequirementStatus_as_wire_str self"

definition RequirementStatus_to_value :: "RequirementStatus \<Rightarrow> json" where
  "RequirementStatus_to_value x = JString (RequirementStatus_as_wire_str x)"

definition RequirementStatus_from_value :: "RequirementStatus de" where
  "RequirementStatus_from_value = de_enum RequirementStatus_ALL RequirementStatus_as_wire_str"

lemma inj_RequirementStatus: "inj RequirementStatus_as_wire_str"
  by (rule inj_wire_name [OF set_RequirementStatus_ALL]) (simp add: RequirementStatus_ALL_def)

interpretation RequirementStatus: exact_type RequirementStatus_to_value RequirementStatus_from_value enum_shape
  unfolding RequirementStatus_to_value_def [abs_def] RequirementStatus_from_value_def
  by (rule enum_exact [OF set_RequirementStatus_ALL inj_RequirementStatus])

definition DenyReason_fmt :: "DenyReason \<Rightarrow> string" where
  "DenyReason_fmt self = DenyReason_as_wire_str self"

definition DenyReason_to_value :: "DenyReason \<Rightarrow> json" where
  "DenyReason_to_value x = JString (DenyReason_as_wire_str x)"

definition DenyReason_from_value :: "DenyReason de" where
  "DenyReason_from_value = de_enum DenyReason_ALL DenyReason_as_wire_str"

lemma inj_DenyReason: "inj DenyReason_as_wire_str"
  by (rule inj_wire_name [OF set_DenyReason_ALL]) (simp add: DenyReason_ALL_def)

interpretation DenyReason: exact_type DenyReason_to_value DenyReason_from_value enum_shape
  unfolding DenyReason_to_value_def [abs_def] DenyReason_from_value_def
  by (rule enum_exact [OF set_DenyReason_ALL inj_DenyReason])

section \<open>Messages\<close>

definition SecurityFeatures_FIELDS :: "string list" where
  "SecurityFeatures_FIELDS =
     [''secureBoot'',
      ''hvci'',
      ''testSigning'',
      ''kernelDebugging'',
      ''driverBlocklist'',
      ''iommu'',
      ''virtualizationBasedSecurity'']"

definition SecurityFeatures_to_value :: "SecurityFeatures \<Rightarrow> json" where
  "SecurityFeatures_to_value m = ser_struct SecurityFeatures_FIELDS
     [Some (FeatureState_to_value (sf_secure_boot m)),
      Some (FeatureState_to_value (sf_hvci m)),
      Some (FeatureState_to_value (sf_test_signing m)),
      Some (FeatureState_to_value (sf_kernel_debugging m)),
      Some (FeatureState_to_value (sf_driver_blocklist m)),
      Some (FeatureState_to_value (sf_iommu m)),
      Some (FeatureState_to_value (sf_virtualization_based_security m))]"

definition SecurityFeatures_from_value :: "SecurityFeatures de" where
  "SecurityFeatures_from_value v =
     and_then (de_struct True SecurityFeatures_FIELDS v) (\<lambda>vs.
       and_then (required FeatureState_from_value (vs ! 0)) (\<lambda>secure_boot.
       and_then (required FeatureState_from_value (vs ! 1)) (\<lambda>hvci.
       and_then (required FeatureState_from_value (vs ! 2)) (\<lambda>test_signing.
       and_then (required FeatureState_from_value (vs ! 3)) (\<lambda>kernel_debugging.
       and_then (required FeatureState_from_value (vs ! 4)) (\<lambda>driver_blocklist.
       and_then (required FeatureState_from_value (vs ! 5)) (\<lambda>iommu.
       and_then (required FeatureState_from_value (vs ! 6)) (\<lambda>virtualization_based_security.
       Inr \<lparr>sf_secure_boot = secure_boot,
         sf_hvci = hvci,
         sf_test_signing = test_signing,
         sf_kernel_debugging = kernel_debugging,
         sf_driver_blocklist = driver_blocklist,
         sf_iommu = iommu,
         sf_virtualization_based_security = virtualization_based_security\<rparr>))))))))"

interpretation SecurityFeatures: wire_type SecurityFeatures_to_value SecurityFeatures_from_value
  by unfold_locales
    (simp_all add: SecurityFeatures_from_value_def SecurityFeatures_to_value_def SecurityFeatures_FIELDS_def struct_back)

definition SecurityFeatures_shape :: shape where
  "SecurityFeatures_shape = struct_shape SecurityFeatures_FIELDS
     [enum_shape, enum_shape, enum_shape, enum_shape, enum_shape, enum_shape, enum_shape]"

interpretation SecurityFeatures: exact_type SecurityFeatures_to_value SecurityFeatures_from_value SecurityFeatures_shape
  by unfold_locales
    (auto simp: SecurityFeatures_shape_def SecurityFeatures_from_value_def SecurityFeatures_to_value_def and_then_Inr elim!: strict_shape;
      auto simp: SecurityFeatures_FIELDS_def intro!: struct_same field_same)

definition TpmInfo_FIELDS :: "string list" where
  "TpmInfo_FIELDS =
     [''present'',
      ''manufacturer'',
      ''specVersion'',
      ''attestationKeyId'']"

definition TpmInfo_to_value :: "TpmInfo \<Rightarrow> json" where
  "TpmInfo_to_value m = ser_struct TpmInfo_FIELDS
     [Some (JBool (tpm_present m)),
      map_option JString (tpm_manufacturer m),
      map_option JString (tpm_spec_version m),
      map_option JString (tpm_attestation_key_id m)]"

definition TpmInfo_from_value :: "TpmInfo de" where
  "TpmInfo_from_value v =
     and_then (de_struct True TpmInfo_FIELDS v) (\<lambda>vs.
       and_then (required de_bool (vs ! 0)) (\<lambda>present.
       and_then (optional de_string (vs ! 1)) (\<lambda>manufacturer.
       and_then (optional de_string (vs ! 2)) (\<lambda>spec_version.
       and_then (optional de_string (vs ! 3)) (\<lambda>attestation_key_id.
       Inr \<lparr>tpm_present = present,
         tpm_manufacturer = manufacturer,
         tpm_spec_version = spec_version,
         tpm_attestation_key_id = attestation_key_id\<rparr>)))))"

interpretation TpmInfo: wire_type TpmInfo_to_value TpmInfo_from_value
  by unfold_locales
    (simp_all add: TpmInfo_from_value_def TpmInfo_to_value_def TpmInfo_FIELDS_def struct_back)

definition TpmInfo_shape :: shape where
  "TpmInfo_shape = struct_shape TpmInfo_FIELDS
     [any_shape, any_shape, any_shape, any_shape]"

interpretation TpmInfo: exact_type TpmInfo_to_value TpmInfo_from_value TpmInfo_shape
  by unfold_locales
    (auto simp: TpmInfo_shape_def TpmInfo_from_value_def TpmInfo_to_value_def and_then_Inr elim!: strict_shape;
      auto simp: TpmInfo_FIELDS_def intro!: struct_same field_same)

definition GameProcessEvidence_FIELDS :: "string list" where
  "GameProcessEvidence_FIELDS =
     [''pid'',
      ''startedAtUnixMs'',
      ''imageName'',
      ''mainWindowPresent'']"

definition GameProcessEvidence_to_value :: "GameProcessEvidence \<Rightarrow> json" where
  "GameProcessEvidence_to_value m = ser_struct GameProcessEvidence_FIELDS
     [Some (JInt (gpe_pid m)),
      Some (JInt (gpe_started_at_unix_ms m)),
      Some (JString (gpe_image_name m)),
      Some (JBool (gpe_main_window_present m))]"

definition GameProcessEvidence_from_value :: "GameProcessEvidence de" where
  "GameProcessEvidence_from_value v =
     and_then (de_struct True GameProcessEvidence_FIELDS v) (\<lambda>vs.
       and_then (required de_i64 (vs ! 0)) (\<lambda>pid.
       and_then (required de_i64 (vs ! 1)) (\<lambda>started_at_unix_ms.
       and_then (required de_string (vs ! 2)) (\<lambda>image_name.
       and_then (required de_bool (vs ! 3)) (\<lambda>main_window_present.
       Inr \<lparr>gpe_pid = pid,
         gpe_started_at_unix_ms = started_at_unix_ms,
         gpe_image_name = image_name,
         gpe_main_window_present = main_window_present\<rparr>)))))"

interpretation GameProcessEvidence: wire_type GameProcessEvidence_to_value GameProcessEvidence_from_value
  by unfold_locales
    (simp_all add: GameProcessEvidence_from_value_def GameProcessEvidence_to_value_def GameProcessEvidence_FIELDS_def struct_back)

definition GameProcessEvidence_shape :: shape where
  "GameProcessEvidence_shape = struct_shape GameProcessEvidence_FIELDS
     [any_shape, any_shape, any_shape, any_shape]"

interpretation GameProcessEvidence: exact_type GameProcessEvidence_to_value GameProcessEvidence_from_value GameProcessEvidence_shape
  by unfold_locales
    (auto simp: GameProcessEvidence_shape_def GameProcessEvidence_from_value_def GameProcessEvidence_to_value_def and_then_Inr elim!: strict_shape;
      auto simp: GameProcessEvidence_FIELDS_def intro!: struct_same field_same)

definition SystemSnapshot_FIELDS :: "string list" where
  "SystemSnapshot_FIELDS =
     [''schemaVersion'',
      ''collectedAt'',
      ''companionVersion'',
      ''companionBuildHash'',
      ''osBuild'',
      ''features'',
      ''tpm'',
      ''gameProcess'',
      ''probeErrors'']"

definition SystemSnapshot_to_value :: "SystemSnapshot \<Rightarrow> json" where
  "SystemSnapshot_to_value m = ser_struct SystemSnapshot_FIELDS
     [Some (JInt (snap_schema_version m)),
      Some (JString (snap_collected_at m)),
      Some (JString (snap_companion_version m)),
      Some (JString (snap_companion_build_hash m)),
      Some (JString (snap_os_build m)),
      Some (SecurityFeatures_to_value (snap_features m)),
      Some (TpmInfo_to_value (snap_tpm m)),
      map_option GameProcessEvidence_to_value (snap_game_process m),
      Some ((ser_vec JString) (snap_probe_errors m))]"

definition SystemSnapshot_from_value :: "SystemSnapshot de" where
  "SystemSnapshot_from_value v =
     and_then (de_struct True SystemSnapshot_FIELDS v) (\<lambda>vs.
       and_then (required de_i64 (vs ! 0)) (\<lambda>schema_version.
       and_then (required de_string (vs ! 1)) (\<lambda>collected_at.
       and_then (required de_string (vs ! 2)) (\<lambda>companion_version.
       and_then (required de_string (vs ! 3)) (\<lambda>companion_build_hash.
       and_then (required de_string (vs ! 4)) (\<lambda>os_build.
       and_then (required SecurityFeatures_from_value (vs ! 5)) (\<lambda>features.
       and_then (required TpmInfo_from_value (vs ! 6)) (\<lambda>tpm.
       and_then (optional GameProcessEvidence_from_value (vs ! 7)) (\<lambda>game_process.
       and_then (required (de_vec de_string) (vs ! 8)) (\<lambda>probe_errors.
       Inr \<lparr>snap_schema_version = schema_version,
         snap_collected_at = collected_at,
         snap_companion_version = companion_version,
         snap_companion_build_hash = companion_build_hash,
         snap_os_build = os_build,
         snap_features = features,
         snap_tpm = tpm,
         snap_game_process = game_process,
         snap_probe_errors = probe_errors\<rparr>))))))))))"

interpretation SystemSnapshot: wire_type SystemSnapshot_to_value SystemSnapshot_from_value
  by unfold_locales
    (simp_all add: SystemSnapshot_from_value_def SystemSnapshot_to_value_def SystemSnapshot_FIELDS_def struct_back)

definition SystemSnapshot_shape :: shape where
  "SystemSnapshot_shape = struct_shape SystemSnapshot_FIELDS
     [any_shape, any_shape, any_shape, any_shape, any_shape, SecurityFeatures_shape, TpmInfo_shape, GameProcessEvidence_shape, vec_shape any_shape]"

interpretation SystemSnapshot: exact_type SystemSnapshot_to_value SystemSnapshot_from_value SystemSnapshot_shape
  by unfold_locales
    (auto simp: SystemSnapshot_shape_def SystemSnapshot_from_value_def SystemSnapshot_to_value_def and_then_Inr elim!: strict_shape;
      auto simp: SystemSnapshot_FIELDS_def intro!: struct_same field_same)

definition AttestationQuote_FIELDS :: "string list" where
  "AttestationQuote_FIELDS =
     [''akPublicKeyId'',
      ''pcrSelection'',
      ''pcrDigest'',
      ''quoteBlob'',
      ''signature'']"

definition AttestationQuote_to_value :: "AttestationQuote \<Rightarrow> json" where
  "AttestationQuote_to_value m = ser_struct AttestationQuote_FIELDS
     [Some (JString (quote_ak_public_key_id m)),
      Some ((ser_vec JInt) (quote_pcr_selection m)),
      Some (JString (quote_pcr_digest m)),
      Some (JString (quote_quote_blob m)),
      Some (JString (quote_signature m))]"

definition AttestationQuote_from_value :: "AttestationQuote de" where
  "AttestationQuote_from_value v =
     and_then (de_struct True AttestationQuote_FIELDS v) (\<lambda>vs.
       and_then (required de_string (vs ! 0)) (\<lambda>ak_public_key_id.
       and_then (required (de_vec de_i64) (vs ! 1)) (\<lambda>pcr_selection.
       and_then (required de_string (vs ! 2)) (\<lambda>pcr_digest.
       and_then (required de_string (vs ! 3)) (\<lambda>quote_blob.
       and_then (required de_string (vs ! 4)) (\<lambda>signature.
       Inr \<lparr>quote_ak_public_key_id = ak_public_key_id,
         quote_pcr_selection = pcr_selection,
         quote_pcr_digest = pcr_digest,
         quote_quote_blob = quote_blob,
         quote_signature = signature\<rparr>))))))"

interpretation AttestationQuote: wire_type AttestationQuote_to_value AttestationQuote_from_value
  by unfold_locales
    (simp_all add: AttestationQuote_from_value_def AttestationQuote_to_value_def AttestationQuote_FIELDS_def struct_back)

definition AttestationQuote_shape :: shape where
  "AttestationQuote_shape = struct_shape AttestationQuote_FIELDS
     [any_shape, vec_shape any_shape, any_shape, any_shape, any_shape]"

interpretation AttestationQuote: exact_type AttestationQuote_to_value AttestationQuote_from_value AttestationQuote_shape
  by unfold_locales
    (auto simp: AttestationQuote_shape_def AttestationQuote_from_value_def AttestationQuote_to_value_def and_then_Inr elim!: strict_shape;
      auto simp: AttestationQuote_FIELDS_def intro!: struct_same field_same)

definition PlayerIdentifiers_FIELDS :: "string list" where
  "PlayerIdentifiers_FIELDS =
     [''license'',
      ''steam'',
      ''discord'',
      ''ip'']"

definition PlayerIdentifiers_to_value :: "PlayerIdentifiers \<Rightarrow> json" where
  "PlayerIdentifiers_to_value m = ser_struct PlayerIdentifiers_FIELDS
     [Some (JString (pid_license m)),
      map_option JString (pid_steam m),
      map_option JString (pid_discord m),
      Some (JString (pid_ip m))]"

definition PlayerIdentifiers_from_value :: "PlayerIdentifiers de" where
  "PlayerIdentifiers_from_value v =
     and_then (de_struct True PlayerIdentifiers_FIELDS v) (\<lambda>vs.
       and_then (required de_string (vs ! 0)) (\<lambda>license.
       and_then (optional de_string (vs ! 1)) (\<lambda>steam.
       and_then (optional de_string (vs ! 2)) (\<lambda>discord.
       and_then (required de_string (vs ! 3)) (\<lambda>ip.
       Inr \<lparr>pid_license = license,
         pid_steam = steam,
         pid_discord = discord,
         pid_ip = ip\<rparr>)))))"

interpretation PlayerIdentifiers: wire_type PlayerIdentifiers_to_value PlayerIdentifiers_from_value
  by unfold_locales
    (simp_all add: PlayerIdentifiers_from_value_def PlayerIdentifiers_to_value_def PlayerIdentifiers_FIELDS_def struct_back)

definition PlayerIdentifiers_shape :: shape where
  "PlayerIdentifiers_shape = struct_shape PlayerIdentifiers_FIELDS
     [any_shape, any_shape, any_shape, any_shape]"

interpretation PlayerIdentifiers: exact_type PlayerIdentifiers_to_value PlayerIdentifiers_from_value PlayerIdentifiers_shape
  by unfold_locales
    (auto simp: PlayerIdentifiers_shape_def PlayerIdentifiers_from_value_def PlayerIdentifiers_to_value_def and_then_Inr elim!: strict_shape;
      auto simp: PlayerIdentifiers_FIELDS_def intro!: struct_same field_same)

definition NonceRequest_FIELDS :: "string list" where
  "NonceRequest_FIELDS =
     [''serverId'',
      ''player'',
      ''gameBuild'',
      ''protocolVersion'']"

definition NonceRequest_to_value :: "NonceRequest \<Rightarrow> json" where
  "NonceRequest_to_value m = ser_struct NonceRequest_FIELDS
     [Some (JString (nrq_server_id m)),
      Some (PlayerIdentifiers_to_value (nrq_player m)),
      map_option JString (nrq_game_build m),
      Some (JInt (nrq_protocol_version m))]"

definition NonceRequest_from_value :: "NonceRequest de" where
  "NonceRequest_from_value v =
     and_then (de_struct True NonceRequest_FIELDS v) (\<lambda>vs.
       and_then (required de_string (vs ! 0)) (\<lambda>server_id.
       and_then (required PlayerIdentifiers_from_value (vs ! 1)) (\<lambda>player.
       and_then (optional de_string (vs ! 2)) (\<lambda>game_build.
       and_then (required de_i64 (vs ! 3)) (\<lambda>protocol_version.
       Inr \<lparr>nrq_server_id = server_id,
         nrq_player = player,
         nrq_game_build = game_build,
         nrq_protocol_version = protocol_version\<rparr>)))))"

interpretation NonceRequest: wire_type NonceRequest_to_value NonceRequest_from_value
  by unfold_locales
    (simp_all add: NonceRequest_from_value_def NonceRequest_to_value_def NonceRequest_FIELDS_def struct_back)

definition NonceRequest_shape :: shape where
  "NonceRequest_shape = struct_shape NonceRequest_FIELDS
     [any_shape, PlayerIdentifiers_shape, any_shape, any_shape]"

interpretation NonceRequest: exact_type NonceRequest_to_value NonceRequest_from_value NonceRequest_shape
  by unfold_locales
    (auto simp: NonceRequest_shape_def NonceRequest_from_value_def NonceRequest_to_value_def and_then_Inr elim!: strict_shape;
      auto simp: NonceRequest_FIELDS_def intro!: struct_same field_same)

definition NonceResponse_FIELDS :: "string list" where
  "NonceResponse_FIELDS =
     [''nonce'',
      ''sessionId'',
      ''expiresAt'',
      ''policyTier'',
      ''backendUrl'',
      ''protocolVersion'']"

definition NonceResponse_to_value :: "NonceResponse \<Rightarrow> json" where
  "NonceResponse_to_value m = ser_struct NonceResponse_FIELDS
     [Some (JString (nrs_nonce m)),
      Some (JString (nrs_session_id m)),
      Some (JString (nrs_expires_at m)),
      Some (PolicyTier_to_value (nrs_policy_tier m)),
      Some (JString (nrs_backend_url m)),
      Some (JInt (nrs_protocol_version m))]"

definition NonceResponse_from_value :: "NonceResponse de" where
  "NonceResponse_from_value v =
     and_then (de_struct True NonceResponse_FIELDS v) (\<lambda>vs.
       and_then (required de_string (vs ! 0)) (\<lambda>nonce.
       and_then (required de_string (vs ! 1)) (\<lambda>session_id.
       and_then (required de_string (vs ! 2)) (\<lambda>expires_at.
       and_then (required PolicyTier_from_value (vs ! 3)) (\<lambda>policy_tier.
       and_then (required de_string (vs ! 4)) (\<lambda>backend_url.
       and_then (required de_i64 (vs ! 5)) (\<lambda>protocol_version.
       Inr \<lparr>nrs_nonce = nonce,
         nrs_session_id = session_id,
         nrs_expires_at = expires_at,
         nrs_policy_tier = policy_tier,
         nrs_backend_url = backend_url,
         nrs_protocol_version = protocol_version\<rparr>)))))))"

interpretation NonceResponse: wire_type NonceResponse_to_value NonceResponse_from_value
  by unfold_locales
    (simp_all add: NonceResponse_from_value_def NonceResponse_to_value_def NonceResponse_FIELDS_def struct_back)

definition NonceResponse_shape :: shape where
  "NonceResponse_shape = struct_shape NonceResponse_FIELDS
     [any_shape, any_shape, any_shape, enum_shape, any_shape, any_shape]"

interpretation NonceResponse: exact_type NonceResponse_to_value NonceResponse_from_value NonceResponse_shape
  by unfold_locales
    (auto simp: NonceResponse_shape_def NonceResponse_from_value_def NonceResponse_to_value_def and_then_Inr elim!: strict_shape;
      auto simp: NonceResponse_FIELDS_def intro!: struct_same field_same)

definition AttestationRequest_FIELDS :: "string list" where
  "AttestationRequest_FIELDS =
     [''nonce'',
      ''snapshot'',
      ''quote'',
      ''protocolVersion'']"

definition AttestationRequest_to_value :: "AttestationRequest \<Rightarrow> json" where
  "AttestationRequest_to_value m = ser_struct AttestationRequest_FIELDS
     [Some (JString (arq_nonce m)),
      Some (SystemSnapshot_to_value (arq_snapshot m)),
      map_option AttestationQuote_to_value (arq_quote m),
      Some (JInt (arq_protocol_version m))]"

definition AttestationRequest_from_value :: "AttestationRequest de" where
  "AttestationRequest_from_value v =
     and_then (de_struct True AttestationRequest_FIELDS v) (\<lambda>vs.
       and_then (required de_string (vs ! 0)) (\<lambda>nonce.
       and_then (required SystemSnapshot_from_value (vs ! 1)) (\<lambda>snapshot.
       and_then (optional AttestationQuote_from_value (vs ! 2)) (\<lambda>quote.
       and_then (required de_i64 (vs ! 3)) (\<lambda>protocol_version.
       Inr \<lparr>arq_nonce = nonce,
         arq_snapshot = snapshot,
         arq_quote = quote,
         arq_protocol_version = protocol_version\<rparr>)))))"

interpretation AttestationRequest: wire_type AttestationRequest_to_value AttestationRequest_from_value
  by unfold_locales
    (simp_all add: AttestationRequest_from_value_def AttestationRequest_to_value_def AttestationRequest_FIELDS_def struct_back)

definition AttestationRequest_shape :: shape where
  "AttestationRequest_shape = struct_shape AttestationRequest_FIELDS
     [any_shape, SystemSnapshot_shape, AttestationQuote_shape, any_shape]"

interpretation AttestationRequest: exact_type AttestationRequest_to_value AttestationRequest_from_value AttestationRequest_shape
  by unfold_locales
    (auto simp: AttestationRequest_shape_def AttestationRequest_from_value_def AttestationRequest_to_value_def and_then_Inr elim!: strict_shape;
      auto simp: AttestationRequest_FIELDS_def intro!: struct_same field_same)

definition AttestationAck_FIELDS :: "string list" where
  "AttestationAck_FIELDS =
     [''accepted'',
      ''sessionId'',
      ''receivedAt'',
      ''heartbeatIntervalSeconds'']"

definition AttestationAck_to_value :: "AttestationAck \<Rightarrow> json" where
  "AttestationAck_to_value m = ser_struct AttestationAck_FIELDS
     [Some (JBool (ack_accepted m)),
      Some (JString (ack_session_id m)),
      Some (JString (ack_received_at m)),
      Some (JInt (ack_heartbeat_interval_seconds m))]"

definition AttestationAck_from_value :: "AttestationAck de" where
  "AttestationAck_from_value v =
     and_then (de_struct True AttestationAck_FIELDS v) (\<lambda>vs.
       and_then (required de_bool (vs ! 0)) (\<lambda>accepted.
       and_then (required de_string (vs ! 1)) (\<lambda>session_id.
       and_then (required de_string (vs ! 2)) (\<lambda>received_at.
       and_then (required de_i64 (vs ! 3)) (\<lambda>heartbeat_interval_seconds.
       Inr \<lparr>ack_accepted = accepted,
         ack_session_id = session_id,
         ack_received_at = received_at,
         ack_heartbeat_interval_seconds = heartbeat_interval_seconds\<rparr>)))))"

interpretation AttestationAck: wire_type AttestationAck_to_value AttestationAck_from_value
  by unfold_locales
    (simp_all add: AttestationAck_from_value_def AttestationAck_to_value_def AttestationAck_FIELDS_def struct_back)

definition AttestationAck_shape :: shape where
  "AttestationAck_shape = struct_shape AttestationAck_FIELDS
     [any_shape, any_shape, any_shape, any_shape]"

interpretation AttestationAck: exact_type AttestationAck_to_value AttestationAck_from_value AttestationAck_shape
  by unfold_locales
    (auto simp: AttestationAck_shape_def AttestationAck_from_value_def AttestationAck_to_value_def and_then_Inr elim!: strict_shape;
      auto simp: AttestationAck_FIELDS_def intro!: struct_same field_same)

definition RequirementResult_FIELDS :: "string list" where
  "RequirementResult_FIELDS =
     [''requirement'',
      ''status'',
      ''detail'']"

definition RequirementResult_to_value :: "RequirementResult \<Rightarrow> json" where
  "RequirementResult_to_value m = ser_struct RequirementResult_FIELDS
     [Some (RequirementId_to_value (rr_requirement m)),
      Some (RequirementStatus_to_value (rr_status m)),
      map_option JString (rr_detail m)]"

definition RequirementResult_from_value :: "RequirementResult de" where
  "RequirementResult_from_value v =
     and_then (de_struct True RequirementResult_FIELDS v) (\<lambda>vs.
       and_then (required RequirementId_from_value (vs ! 0)) (\<lambda>requirement.
       and_then (required RequirementStatus_from_value (vs ! 1)) (\<lambda>status.
       and_then (optional de_string (vs ! 2)) (\<lambda>detail.
       Inr \<lparr>rr_requirement = requirement,
         rr_status = status,
         rr_detail = detail\<rparr>))))"

interpretation RequirementResult: wire_type RequirementResult_to_value RequirementResult_from_value
  by unfold_locales
    (simp_all add: RequirementResult_from_value_def RequirementResult_to_value_def RequirementResult_FIELDS_def struct_back)

definition RequirementResult_shape :: shape where
  "RequirementResult_shape = struct_shape RequirementResult_FIELDS
     [enum_shape, enum_shape, any_shape]"

interpretation RequirementResult: exact_type RequirementResult_to_value RequirementResult_from_value RequirementResult_shape
  by unfold_locales
    (auto simp: RequirementResult_shape_def RequirementResult_from_value_def RequirementResult_to_value_def and_then_Inr elim!: strict_shape;
      auto simp: RequirementResult_FIELDS_def intro!: struct_same field_same)

interpretation DenyReasons: exact_type "ser_vec DenyReason_to_value" "de_vec DenyReason_from_value" "vec_shape enum_shape"
  by (rule DenyReason.vec_exact)

interpretation RequirementResults: exact_type "ser_vec RequirementResult_to_value" "de_vec RequirementResult_from_value" "vec_shape RequirementResult_shape"
  by (rule RequirementResult.vec_exact)

definition Verdict_FIELDS :: "string list" where
  "Verdict_FIELDS =
     [''decision'',
      ''sessionId'',
      ''reasons'',
      ''requirements'',
      ''remediation'',
      ''policyTier'',
      ''evaluatedAt'',
      ''failOpen'']"

definition Verdict_to_value :: "Verdict \<Rightarrow> json" where
  "Verdict_to_value m = ser_struct Verdict_FIELDS
     [Some (VerdictDecision_to_value (verdict_decision m)),
      Some (JString (verdict_session_id m)),
      Some ((ser_vec DenyReason_to_value) (verdict_reasons m)),
      Some ((ser_vec RequirementResult_to_value) (verdict_requirements m)),
      map_option JString (verdict_remediation m),
      Some (PolicyTier_to_value (verdict_policy_tier m)),
      Some (JString (verdict_evaluated_at m)),
      Some (JBool (verdict_fail_open m))]"

definition Verdict_from_value :: "Verdict de" where
  "Verdict_from_value v =
     and_then (de_struct True Verdict_FIELDS v) (\<lambda>vs.
       and_then (required VerdictDecision_from_value (vs ! 0)) (\<lambda>decision.
       and_then (required de_string (vs ! 1)) (\<lambda>session_id.
       and_then (required (de_vec DenyReason_from_value) (vs ! 2)) (\<lambda>reasons.
       and_then (required (de_vec RequirementResult_from_value) (vs ! 3)) (\<lambda>requirements.
       and_then (optional de_string (vs ! 4)) (\<lambda>remediation.
       and_then (required PolicyTier_from_value (vs ! 5)) (\<lambda>policy_tier.
       and_then (required de_string (vs ! 6)) (\<lambda>evaluated_at.
       and_then (required de_bool (vs ! 7)) (\<lambda>fail_open.
       Inr \<lparr>verdict_decision = decision,
         verdict_session_id = session_id,
         verdict_reasons = reasons,
         verdict_requirements = requirements,
         verdict_remediation = remediation,
         verdict_policy_tier = policy_tier,
         verdict_evaluated_at = evaluated_at,
         verdict_fail_open = fail_open\<rparr>)))))))))"

interpretation Verdict: wire_type Verdict_to_value Verdict_from_value
  by unfold_locales
    (simp_all add: Verdict_from_value_def Verdict_to_value_def Verdict_FIELDS_def struct_back)

definition Verdict_shape :: shape where
  "Verdict_shape = struct_shape Verdict_FIELDS
     [enum_shape, any_shape, vec_shape enum_shape, vec_shape RequirementResult_shape, any_shape, enum_shape, any_shape, any_shape]"

interpretation Verdict: exact_type Verdict_to_value Verdict_from_value Verdict_shape
  by unfold_locales
    (auto simp: Verdict_shape_def Verdict_from_value_def Verdict_to_value_def and_then_Inr elim!: strict_shape;
      auto simp: Verdict_FIELDS_def intro!: struct_same field_same)

definition LivenessResponse_FIELDS :: "string list" where
  "LivenessResponse_FIELDS =
     [''sessionId'',
      ''state'',
      ''lastHeartbeatAt'',
      ''graceExpiresAt'',
      ''shouldKick'',
      ''reason'']"

definition LivenessResponse_to_value :: "LivenessResponse \<Rightarrow> json" where
  "LivenessResponse_to_value m = ser_struct LivenessResponse_FIELDS
     [Some (JString (live_session_id m)),
      Some (SessionState_to_value (live_state m)),
      map_option JString (live_last_heartbeat_at m),
      map_option JString (live_grace_expires_at m),
      Some (JBool (live_should_kick m)),
      map_option DenyReason_to_value (live_reason m)]"

definition LivenessResponse_from_value :: "LivenessResponse de" where
  "LivenessResponse_from_value v =
     and_then (de_struct True LivenessResponse_FIELDS v) (\<lambda>vs.
       and_then (required de_string (vs ! 0)) (\<lambda>session_id.
       and_then (required SessionState_from_value (vs ! 1)) (\<lambda>state.
       and_then (optional de_string (vs ! 2)) (\<lambda>last_heartbeat_at.
       and_then (optional de_string (vs ! 3)) (\<lambda>grace_expires_at.
       and_then (required de_bool (vs ! 4)) (\<lambda>should_kick.
       and_then (optional DenyReason_from_value (vs ! 5)) (\<lambda>reason.
       Inr \<lparr>live_session_id = session_id,
         live_state = state,
         live_last_heartbeat_at = last_heartbeat_at,
         live_grace_expires_at = grace_expires_at,
         live_should_kick = should_kick,
         live_reason = reason\<rparr>)))))))"

interpretation LivenessResponse: wire_type LivenessResponse_to_value LivenessResponse_from_value
  by unfold_locales
    (simp_all add: LivenessResponse_from_value_def LivenessResponse_to_value_def LivenessResponse_FIELDS_def struct_back)

definition LivenessResponse_shape :: shape where
  "LivenessResponse_shape = struct_shape LivenessResponse_FIELDS
     [any_shape, enum_shape, any_shape, any_shape, any_shape, enum_shape]"

interpretation LivenessResponse: exact_type LivenessResponse_to_value LivenessResponse_from_value LivenessResponse_shape
  by unfold_locales
    (auto simp: LivenessResponse_shape_def LivenessResponse_from_value_def LivenessResponse_to_value_def and_then_Inr elim!: strict_shape;
      auto simp: LivenessResponse_FIELDS_def intro!: struct_same field_same)

definition LocalAttestCommand_FIELDS :: "string list" where
  "LocalAttestCommand_FIELDS =
     [''nonce'',
      ''backendUrl'',
      ''serverName'',
      ''protocolVersion'']"

definition LocalAttestCommand_to_value :: "LocalAttestCommand \<Rightarrow> json" where
  "LocalAttestCommand_to_value m = ser_struct LocalAttestCommand_FIELDS
     [Some (JString (lac_nonce m)),
      Some (JString (lac_backend_url m)),
      map_option JString (lac_server_name m),
      Some (JInt (lac_protocol_version m))]"

definition LocalAttestCommand_from_value :: "LocalAttestCommand de" where
  "LocalAttestCommand_from_value v =
     and_then (de_struct True LocalAttestCommand_FIELDS v) (\<lambda>vs.
       and_then (required de_string (vs ! 0)) (\<lambda>nonce.
       and_then (required de_string (vs ! 1)) (\<lambda>backend_url.
       and_then (optional de_string (vs ! 2)) (\<lambda>server_name.
       and_then (required de_i64 (vs ! 3)) (\<lambda>protocol_version.
       Inr \<lparr>lac_nonce = nonce,
         lac_backend_url = backend_url,
         lac_server_name = server_name,
         lac_protocol_version = protocol_version\<rparr>)))))"

interpretation LocalAttestCommand: wire_type LocalAttestCommand_to_value LocalAttestCommand_from_value
  by unfold_locales
    (simp_all add: LocalAttestCommand_from_value_def LocalAttestCommand_to_value_def LocalAttestCommand_FIELDS_def struct_back)

definition LocalAttestCommand_shape :: shape where
  "LocalAttestCommand_shape = struct_shape LocalAttestCommand_FIELDS
     [any_shape, any_shape, any_shape, any_shape]"

interpretation LocalAttestCommand: exact_type LocalAttestCommand_to_value LocalAttestCommand_from_value LocalAttestCommand_shape
  by unfold_locales
    (auto simp: LocalAttestCommand_shape_def LocalAttestCommand_from_value_def LocalAttestCommand_to_value_def and_then_Inr elim!: strict_shape;
      auto simp: LocalAttestCommand_FIELDS_def intro!: struct_same field_same)

definition LocalAttestAck_FIELDS :: "string list" where
  "LocalAttestAck_FIELDS =
     [''accepted'',
      ''companionVersion'',
      ''protocolVersion'']"

definition LocalAttestAck_to_value :: "LocalAttestAck \<Rightarrow> json" where
  "LocalAttestAck_to_value m = ser_struct LocalAttestAck_FIELDS
     [Some (JBool (laa_accepted m)),
      Some (JString (laa_companion_version m)),
      Some (JInt (laa_protocol_version m))]"

definition LocalAttestAck_from_value :: "LocalAttestAck de" where
  "LocalAttestAck_from_value v =
     and_then (de_struct True LocalAttestAck_FIELDS v) (\<lambda>vs.
       and_then (required de_bool (vs ! 0)) (\<lambda>accepted.
       and_then (required de_string (vs ! 1)) (\<lambda>companion_version.
       and_then (required de_i64 (vs ! 2)) (\<lambda>protocol_version.
       Inr \<lparr>laa_accepted = accepted,
         laa_companion_version = companion_version,
         laa_protocol_version = protocol_version\<rparr>))))"

interpretation LocalAttestAck: wire_type LocalAttestAck_to_value LocalAttestAck_from_value
  by unfold_locales
    (simp_all add: LocalAttestAck_from_value_def LocalAttestAck_to_value_def LocalAttestAck_FIELDS_def struct_back)

definition LocalAttestAck_shape :: shape where
  "LocalAttestAck_shape = struct_shape LocalAttestAck_FIELDS
     [any_shape, any_shape, any_shape]"

interpretation LocalAttestAck: exact_type LocalAttestAck_to_value LocalAttestAck_from_value LocalAttestAck_shape
  by unfold_locales
    (auto simp: LocalAttestAck_shape_def LocalAttestAck_from_value_def LocalAttestAck_to_value_def and_then_Inr elim!: strict_shape;
      auto simp: LocalAttestAck_FIELDS_def intro!: struct_same field_same)

definition CompanionPollRequest_FIELDS :: "string list" where
  "CompanionPollRequest_FIELDS =
     [''companionVersion'',
      ''waitSeconds'',
      ''protocolVersion'']"

definition CompanionPollRequest_to_value :: "CompanionPollRequest \<Rightarrow> json" where
  "CompanionPollRequest_to_value m = ser_struct CompanionPollRequest_FIELDS
     [Some (JString (cpq_companion_version m)),
      Some (JInt (cpq_wait_seconds m)),
      Some (JInt (cpq_protocol_version m))]"

definition CompanionPollRequest_from_value :: "CompanionPollRequest de" where
  "CompanionPollRequest_from_value v =
     and_then (de_struct True CompanionPollRequest_FIELDS v) (\<lambda>vs.
       and_then (required de_string (vs ! 0)) (\<lambda>companion_version.
       and_then (required de_i64 (vs ! 1)) (\<lambda>wait_seconds.
       and_then (required de_i64 (vs ! 2)) (\<lambda>protocol_version.
       Inr \<lparr>cpq_companion_version = companion_version,
         cpq_wait_seconds = wait_seconds,
         cpq_protocol_version = protocol_version\<rparr>))))"

interpretation CompanionPollRequest: wire_type CompanionPollRequest_to_value CompanionPollRequest_from_value
  by unfold_locales
    (simp_all add: CompanionPollRequest_from_value_def CompanionPollRequest_to_value_def CompanionPollRequest_FIELDS_def struct_back)

definition CompanionPollRequest_shape :: shape where
  "CompanionPollRequest_shape = struct_shape CompanionPollRequest_FIELDS
     [any_shape, any_shape, any_shape]"

interpretation CompanionPollRequest: exact_type CompanionPollRequest_to_value CompanionPollRequest_from_value CompanionPollRequest_shape
  by unfold_locales
    (auto simp: CompanionPollRequest_shape_def CompanionPollRequest_from_value_def CompanionPollRequest_to_value_def and_then_Inr elim!: strict_shape;
      auto simp: CompanionPollRequest_FIELDS_def intro!: struct_same field_same)

definition CompanionPollResponse_FIELDS :: "string list" where
  "CompanionPollResponse_FIELDS =
     [''pending'',
      ''nonce'',
      ''serverName'',
      ''policyTier'',
      ''expiresAt'',
      ''protocolVersion'']"

definition CompanionPollResponse_to_value :: "CompanionPollResponse \<Rightarrow> json" where
  "CompanionPollResponse_to_value m = ser_struct CompanionPollResponse_FIELDS
     [Some (JBool (cpr_pending m)),
      map_option JString (cpr_nonce m),
      map_option JString (cpr_server_name m),
      map_option PolicyTier_to_value (cpr_policy_tier m),
      map_option JString (cpr_expires_at m),
      Some (JInt (cpr_protocol_version m))]"

definition CompanionPollResponse_from_value :: "CompanionPollResponse de" where
  "CompanionPollResponse_from_value v =
     and_then (de_struct True CompanionPollResponse_FIELDS v) (\<lambda>vs.
       and_then (required de_bool (vs ! 0)) (\<lambda>pending.
       and_then (optional de_string (vs ! 1)) (\<lambda>nonce.
       and_then (optional de_string (vs ! 2)) (\<lambda>server_name.
       and_then (optional PolicyTier_from_value (vs ! 3)) (\<lambda>policy_tier.
       and_then (optional de_string (vs ! 4)) (\<lambda>expires_at.
       and_then (required de_i64 (vs ! 5)) (\<lambda>protocol_version.
       Inr \<lparr>cpr_pending = pending,
         cpr_nonce = nonce,
         cpr_server_name = server_name,
         cpr_policy_tier = policy_tier,
         cpr_expires_at = expires_at,
         cpr_protocol_version = protocol_version\<rparr>)))))))"

interpretation CompanionPollResponse: wire_type CompanionPollResponse_to_value CompanionPollResponse_from_value
  by unfold_locales
    (simp_all add: CompanionPollResponse_from_value_def CompanionPollResponse_to_value_def CompanionPollResponse_FIELDS_def struct_back)

definition CompanionPollResponse_shape :: shape where
  "CompanionPollResponse_shape = struct_shape CompanionPollResponse_FIELDS
     [any_shape, any_shape, any_shape, enum_shape, any_shape, any_shape]"

interpretation CompanionPollResponse: exact_type CompanionPollResponse_to_value CompanionPollResponse_from_value CompanionPollResponse_shape
  by unfold_locales
    (auto simp: CompanionPollResponse_shape_def CompanionPollResponse_from_value_def CompanionPollResponse_to_value_def and_then_Inr elim!: strict_shape;
      auto simp: CompanionPollResponse_FIELDS_def intro!: struct_same field_same)

definition CompanionOutcomeRequest_FIELDS :: "string list" where
  "CompanionOutcomeRequest_FIELDS =
     [''sessionId'',
      ''waitSeconds'',
      ''protocolVersion'']"

definition CompanionOutcomeRequest_to_value :: "CompanionOutcomeRequest \<Rightarrow> json" where
  "CompanionOutcomeRequest_to_value m = ser_struct CompanionOutcomeRequest_FIELDS
     [Some (JString (coq_session_id m)),
      Some (JInt (coq_wait_seconds m)),
      Some (JInt (coq_protocol_version m))]"

definition CompanionOutcomeRequest_from_value :: "CompanionOutcomeRequest de" where
  "CompanionOutcomeRequest_from_value v =
     and_then (de_struct True CompanionOutcomeRequest_FIELDS v) (\<lambda>vs.
       and_then (required de_string (vs ! 0)) (\<lambda>session_id.
       and_then (required de_i64 (vs ! 1)) (\<lambda>wait_seconds.
       and_then (required de_i64 (vs ! 2)) (\<lambda>protocol_version.
       Inr \<lparr>coq_session_id = session_id,
         coq_wait_seconds = wait_seconds,
         coq_protocol_version = protocol_version\<rparr>))))"

interpretation CompanionOutcomeRequest: wire_type CompanionOutcomeRequest_to_value CompanionOutcomeRequest_from_value
  by unfold_locales
    (simp_all add: CompanionOutcomeRequest_from_value_def CompanionOutcomeRequest_to_value_def CompanionOutcomeRequest_FIELDS_def struct_back)

definition CompanionOutcomeRequest_shape :: shape where
  "CompanionOutcomeRequest_shape = struct_shape CompanionOutcomeRequest_FIELDS
     [any_shape, any_shape, any_shape]"

interpretation CompanionOutcomeRequest: exact_type CompanionOutcomeRequest_to_value CompanionOutcomeRequest_from_value CompanionOutcomeRequest_shape
  by unfold_locales
    (auto simp: CompanionOutcomeRequest_shape_def CompanionOutcomeRequest_from_value_def CompanionOutcomeRequest_to_value_def and_then_Inr elim!: strict_shape;
      auto simp: CompanionOutcomeRequest_FIELDS_def intro!: struct_same field_same)

definition HeartbeatRequest_FIELDS :: "string list" where
  "HeartbeatRequest_FIELDS =
     [''sessionId'',
      ''companionBuildHash'',
      ''uptimeSeconds'',
      ''gameProcessPresent'',
      ''closing'',
      ''protocolVersion'']"

definition HeartbeatRequest_to_value :: "HeartbeatRequest \<Rightarrow> json" where
  "HeartbeatRequest_to_value m = ser_struct HeartbeatRequest_FIELDS
     [Some (JString (hrq_session_id m)),
      Some (JString (hrq_companion_build_hash m)),
      Some (JInt (hrq_uptime_seconds m)),
      Some (JBool (hrq_game_process_present m)),
      map_option JBool (hrq_closing m),
      Some (JInt (hrq_protocol_version m))]"

definition HeartbeatRequest_from_value :: "HeartbeatRequest de" where
  "HeartbeatRequest_from_value v =
     and_then (de_struct True HeartbeatRequest_FIELDS v) (\<lambda>vs.
       and_then (required de_string (vs ! 0)) (\<lambda>session_id.
       and_then (required de_string (vs ! 1)) (\<lambda>companion_build_hash.
       and_then (required de_i64 (vs ! 2)) (\<lambda>uptime_seconds.
       and_then (required de_bool (vs ! 3)) (\<lambda>game_process_present.
       and_then (optional de_bool (vs ! 4)) (\<lambda>closing.
       and_then (required de_i64 (vs ! 5)) (\<lambda>protocol_version.
       Inr \<lparr>hrq_session_id = session_id,
         hrq_companion_build_hash = companion_build_hash,
         hrq_uptime_seconds = uptime_seconds,
         hrq_game_process_present = game_process_present,
         hrq_closing = closing,
         hrq_protocol_version = protocol_version\<rparr>)))))))"

interpretation HeartbeatRequest: wire_type HeartbeatRequest_to_value HeartbeatRequest_from_value
  by unfold_locales
    (simp_all add: HeartbeatRequest_from_value_def HeartbeatRequest_to_value_def HeartbeatRequest_FIELDS_def struct_back)

definition HeartbeatRequest_shape :: shape where
  "HeartbeatRequest_shape = struct_shape HeartbeatRequest_FIELDS
     [any_shape, any_shape, any_shape, any_shape, any_shape, any_shape]"

interpretation HeartbeatRequest: exact_type HeartbeatRequest_to_value HeartbeatRequest_from_value HeartbeatRequest_shape
  by unfold_locales
    (auto simp: HeartbeatRequest_shape_def HeartbeatRequest_from_value_def HeartbeatRequest_to_value_def and_then_Inr elim!: strict_shape;
      auto simp: HeartbeatRequest_FIELDS_def intro!: struct_same field_same)

definition HeartbeatResponse_FIELDS :: "string list" where
  "HeartbeatResponse_FIELDS =
     [''acknowledged'',
      ''nextIntervalSeconds'',
      ''terminate'',
      ''terminateReason'']"

definition HeartbeatResponse_to_value :: "HeartbeatResponse \<Rightarrow> json" where
  "HeartbeatResponse_to_value m = ser_struct HeartbeatResponse_FIELDS
     [Some (JBool (hrs_acknowledged m)),
      Some (JInt (hrs_next_interval_seconds m)),
      Some (JBool (hrs_terminate m)),
      map_option DenyReason_to_value (hrs_terminate_reason m)]"

definition HeartbeatResponse_from_value :: "HeartbeatResponse de" where
  "HeartbeatResponse_from_value v =
     and_then (de_struct True HeartbeatResponse_FIELDS v) (\<lambda>vs.
       and_then (required de_bool (vs ! 0)) (\<lambda>acknowledged.
       and_then (required de_i64 (vs ! 1)) (\<lambda>next_interval_seconds.
       and_then (required de_bool (vs ! 2)) (\<lambda>terminate.
       and_then (optional DenyReason_from_value (vs ! 3)) (\<lambda>terminate_reason.
       Inr \<lparr>hrs_acknowledged = acknowledged,
         hrs_next_interval_seconds = next_interval_seconds,
         hrs_terminate = terminate,
         hrs_terminate_reason = terminate_reason\<rparr>)))))"

interpretation HeartbeatResponse: wire_type HeartbeatResponse_to_value HeartbeatResponse_from_value
  by unfold_locales
    (simp_all add: HeartbeatResponse_from_value_def HeartbeatResponse_to_value_def HeartbeatResponse_FIELDS_def struct_back)

definition HeartbeatResponse_shape :: shape where
  "HeartbeatResponse_shape = struct_shape HeartbeatResponse_FIELDS
     [any_shape, any_shape, any_shape, enum_shape]"

interpretation HeartbeatResponse: exact_type HeartbeatResponse_to_value HeartbeatResponse_from_value HeartbeatResponse_shape
  by unfold_locales
    (auto simp: HeartbeatResponse_shape_def HeartbeatResponse_from_value_def HeartbeatResponse_to_value_def and_then_Inr elim!: strict_shape;
      auto simp: HeartbeatResponse_FIELDS_def intro!: struct_same field_same)

definition ProtocolError_FIELDS :: "string list" where
  "ProtocolError_FIELDS =
     [''code'',
      ''message'',
      ''requestId'']"

definition ProtocolError_to_value :: "ProtocolError \<Rightarrow> json" where
  "ProtocolError_to_value m = ser_struct ProtocolError_FIELDS
     [Some (JString (perr_code m)),
      Some (JString (perr_message m)),
      map_option JString (perr_request_id m)]"

definition ProtocolError_from_value :: "ProtocolError de" where
  "ProtocolError_from_value v =
     and_then (de_struct True ProtocolError_FIELDS v) (\<lambda>vs.
       and_then (required de_string (vs ! 0)) (\<lambda>code.
       and_then (required de_string (vs ! 1)) (\<lambda>message.
       and_then (optional de_string (vs ! 2)) (\<lambda>request_id.
       Inr \<lparr>perr_code = code,
         perr_message = message,
         perr_request_id = request_id\<rparr>))))"

interpretation ProtocolError: wire_type ProtocolError_to_value ProtocolError_from_value
  by unfold_locales
    (simp_all add: ProtocolError_from_value_def ProtocolError_to_value_def ProtocolError_FIELDS_def struct_back)

definition ProtocolError_shape :: shape where
  "ProtocolError_shape = struct_shape ProtocolError_FIELDS
     [any_shape, any_shape, any_shape]"

interpretation ProtocolError: exact_type ProtocolError_to_value ProtocolError_from_value ProtocolError_shape
  by unfold_locales
    (auto simp: ProtocolError_shape_def ProtocolError_from_value_def ProtocolError_to_value_def and_then_Inr elim!: strict_shape;
      auto simp: ProtocolError_FIELDS_def intro!: struct_same field_same)

end
