(* ===== verification/Fixture_Files.thy ===== *)
theory Fixture_Files
  imports Json
begin

text \<open>
  The shared contract fixtures, \<open>packages/protocol/fixtures/\<close>: each file as the JSON value its text
  parses to, and the directory as the map from a file's name to its value. Bytes outside ASCII are
  those of the UTF-8 text.
\<close>

definition fixture_index :: json where
  "fixture_index = JObject
      [(''$comment'', JString ''Shared contract fixtures. TypeScript, Rust, C++ and Lua each read this index and must agree on every entry. See packages/protocol/README.md.''),
       (''valid'', JArray
          [JObject
             [(''schema'', JString ''SystemSnapshot''),
              (''file'', JString ''valid/system-snapshot-full.json''),
              (''note'', JString ''A machine that meets the standard tier.'')],
           JObject
             [(''schema'', JString ''SystemSnapshot''),
              (''file'', JString ''valid/system-snapshot-degraded.json''),
              (''note'', JString ''No TPM, HVCI off, two probes failed. Well formed but will be denied at standard.'')],
           JObject
             [(''schema'', JString ''NonceRequest''),
              (''file'', JString ''valid/nonce-request.json''),
              (''note'', JString ''Resource asks for a nonce; discord identifier absent.'')],
           JObject
             [(''schema'', JString ''NonceResponse''),
              (''file'', JString ''valid/nonce-response.json''),
              (''note'', JString ''Backend answers with a 32 byte nonce.'')],
           JObject
             [(''schema'', JString ''AttestationRequest''),
              (''file'', JString ''valid/attestation-request.json''),
              (''note'', JString ''Phase 1 attestation without a TPM quote.'')],
           JObject
             [(''schema'', JString ''AttestationAck''),
              (''file'', JString ''valid/attestation-ack.json''),
              (''note'', JString (''Receipt only '' @ [CHR 0xE2, CHR 0x80, CHR 0x94] @ '' carries no judgement (ADR 0004).''))],
           JObject
             [(''schema'', JString ''Verdict''),
              (''file'', JString ''valid/verdict-allow.json''),
              (''note'', JString ''Allow with the TPM requirement skipped, as in phase 1.'')],
           JObject
             [(''schema'', JString ''Verdict''),
              (''file'', JString ''valid/verdict-deny-hvci.json''),
              (''note'', JString (''Deny that names the blocking driver '' @ [CHR 0xE2, CHR 0x80, CHR 0x94] @ '' design document 7.4.''))],
           JObject
             [(''schema'', JString ''LocalAttestCommand''),
              (''file'', JString ''valid/local-attest-command.json''),
              (''note'', JString ''NUI to companion over 127.0.0.1.'')],
           JObject
             [(''schema'', JString ''LocalAttestAck''),
              (''file'', JString ''valid/local-attest-ack.json''),
              (''note'', JString ''The only thing the localhost endpoint returns.'')],
           JObject
             [(''schema'', JString ''HeartbeatRequest''),
              (''file'', JString ''valid/heartbeat-request.json''),
              (''note'', JString ''Mid-session check-in.'')],
           JObject
             [(''schema'', JString ''HeartbeatResponse''),
              (''file'', JString ''valid/heartbeat-response-terminate.json''),
              (''note'', JString ''Backend ends the session.'')],
           JObject
             [(''schema'', JString ''LivenessResponse''),
              (''file'', JString ''valid/liveness-grace.json''),
              (''note'', JString ''Inside the grace period; the player should see a warning.'')],
           JObject
             [(''schema'', JString ''ProtocolError''),
              (''file'', JString ''valid/protocol-error.json''),
              (''note'', JString ''Shared error envelope.'')],
           JObject
             [(''schema'', JString ''CompanionOutcomeRequest''),
              (''file'', JString ''valid/companion-outcome-request.json''),
              (''note'', JString ''Companion asks how its own attestation was judged (ADR 0011).'')],
           JObject
             [(''schema'', JString ''CompanionPollRequest''),
              (''file'', JString ''valid/companion-poll-request.json''),
              (''note'', JString ''Companion asks whether somebody at this address is connecting (ADR 0010).'')],
           JObject
             [(''schema'', JString ''CompanionPollResponse''),
              (''file'', JString ''valid/companion-poll-response-pending.json''),
              (''note'', JString ''A nonce is waiting for this machine.'')],
           JObject
             [(''schema'', JString ''CompanionPollResponse''),
              (''file'', JString ''valid/companion-poll-response-empty.json''),
              (''note'', JString ''Nobody is connecting. The ordinary answer, and every optional field is absent.'')]]),
       (''invalid'', JArray
          [JObject
             [(''schema'', JString ''SystemSnapshot''),
              (''file'', JString ''invalid/snapshot-missing-features.json''),
              (''reason'', JString (''required object '' @ [CHR 0x27] @ ''features'' @ [CHR 0x27] @ '' is absent''))],
           JObject
             [(''schema'', JString ''SystemSnapshot''),
              (''file'', JString ''invalid/snapshot-unknown-feature-state.json''),
              (''reason'', JString ([CHR 0x27] @ ''probably'' @ [CHR 0x27] @ '' is not a FeatureState''))],
           JObject
             [(''schema'', JString ''SystemSnapshot''),
              (''file'', JString ''invalid/snapshot-injected-verdict.json''),
              (''reason'', JString (''carries a '' @ [CHR 0x27] @ ''clean'' @ [CHR 0x27] @ '' field '' @ [CHR 0xE2, CHR 0x80, CHR 0x94] @ '' a companion never sends a judgement (ADR 0004)''))],
           JObject
             [(''schema'', JString ''NonceResponse''),
              (''file'', JString ''invalid/nonce-response-short-nonce.json''),
              (''reason'', JString ''nonce is shorter than 64 hex characters'')],
           JObject
             [(''schema'', JString ''NonceResponse''),
              (''file'', JString ''invalid/nonce-response-bad-uuid.json''),
              (''reason'', JString ''sessionId is not a UUID'')],
           JObject
             [(''schema'', JString ''NonceRequest''),
              (''file'', JString ''invalid/nonce-request-wrong-type.json''),
              (''reason'', JString ''protocolVersion is a string'')],
           JObject
             [(''schema'', JString ''Verdict''),
              (''file'', JString ''invalid/verdict-unknown-reason.json''),
              (''reason'', JString ([CHR 0x27] @ ''vibes_were_off'' @ [CHR 0x27] @ '' is not a DenyReason''))],
           JObject
             [(''schema'', JString ''HeartbeatRequest''),
              (''file'', JString ''invalid/heartbeat-request-negative-uptime.json''),
              (''reason'', JString ''uptimeSeconds is below its minimum of 0'')],
           JObject
             [(''schema'', JString ''CompanionPollRequest''),
              (''file'', JString ''invalid/companion-poll-request-wait-too-long.json''),
              (''reason'', JString ''waitSeconds is above its maximum of 30, which would hold a connection open indefinitely'')],
           JObject
             [(''schema'', JString ''CompanionPollResponse''),
              (''file'', JString ''invalid/companion-poll-response-short-nonce.json''),
              (''reason'', JString ''a nonce that is not 64 hex characters cannot be one the backend issued'')],
           JObject
             [(''schema'', JString ''CompanionOutcomeRequest''),
              (''file'', JString ''invalid/companion-outcome-request-not-a-session.json''),
              (''reason'', JString ''sessionId is not a UUID, so it is not one the backend ever issued'')]])]"

definition fixture_valid_attestation_ack :: json where
  "fixture_valid_attestation_ack = JObject
      [(''accepted'', JBool True),
       (''sessionId'', JString ''1b4e28ba-2fa1-4d3b-8f2e-9c1d0e5a7b63''),
       (''receivedAt'', JString ''2026-08-04T14:22:32.100Z''),
       (''heartbeatIntervalSeconds'', JInt 120)]"

definition fixture_valid_attestation_request :: json where
  "fixture_valid_attestation_request = JObject
      [(''nonce'', JString ''a3f1c9b27e4d6081f5a2c3d4e5b6a7980123456789abcdef0123456789abcdef''),
       (''snapshot'', JObject
          [(''schemaVersion'', JInt 1),
           (''collectedAt'', JString ''2026-08-04T14:22:31.412Z''),
           (''companionVersion'', JString ''0.1.0''),
           (''companionBuildHash'', JString ''3f786850e387550fdab836ed7e6dc881de23001b3f2fd9e6a5b6b5a4c8a1f0e2''),
           (''osBuild'', JString ''10.0.26100''),
           (''features'', JObject
              [(''secureBoot'', JString ''enabled''),
               (''hvci'', JString ''enabled''),
               (''testSigning'', JString ''disabled''),
               (''kernelDebugging'', JString ''disabled''),
               (''driverBlocklist'', JString ''enabled''),
               (''iommu'', JString ''enabled''),
               (''virtualizationBasedSecurity'', JString ''enabled'')]),
           (''tpm'', JObject
              [(''present'', JBool True),
               (''manufacturer'', JString ''IFX''),
               (''specVersion'', JString ''2.0'')]),
           (''gameProcess'', JObject
              [(''pid'', JInt 14872),
               (''startedAtUnixMs'', JInt 1786000951000),
               (''imageName'', JString ''FiveM_GTAProcess.exe''),
               (''mainWindowPresent'', JBool True)]),
           (''probeErrors'', JArray [])]),
       (''protocolVersion'', JInt 1)]"

definition fixture_valid_companion_outcome_request :: json where
  "fixture_valid_companion_outcome_request = JObject
      [(''sessionId'', JString ''4e9d10cd-2cc2-4e05-816a-4e4edf270142''),
       (''waitSeconds'', JInt 5),
       (''protocolVersion'', JInt 1)]"

definition fixture_valid_companion_poll_request :: json where
  "fixture_valid_companion_poll_request = JObject
      [(''companionVersion'', JString ''0.1.0''),
       (''waitSeconds'', JInt 25),
       (''protocolVersion'', JInt 1)]"

definition fixture_valid_companion_poll_response_empty :: json where
  "fixture_valid_companion_poll_response_empty = JObject
      [(''pending'', JBool False),
       (''protocolVersion'', JInt 1)]"

definition fixture_valid_companion_poll_response_pending :: json where
  "fixture_valid_companion_poll_response_pending = JObject
      [(''pending'', JBool True),
       (''nonce'', JString ''9f2c1d4e6a8b0c2d4e6f8a0b1c3d5e7f91a3b5c7d9e1f3a5b7c9d1e3f5a7b9c1''),
       (''serverName'', JString ''Nordstadt Roleplay #1''),
       (''policyTier'', JString ''standard''),
       (''expiresAt'', JString ''2026-08-04T19:34:17.876Z''),
       (''protocolVersion'', JInt 1)]"

definition fixture_valid_heartbeat_request :: json where
  "fixture_valid_heartbeat_request = JObject
      [(''sessionId'', JString ''1b4e28ba-2fa1-4d3b-8f2e-9c1d0e5a7b63''),
       (''companionBuildHash'', JString ''3f786850e387550fdab836ed7e6dc881de23001b3f2fd9e6a5b6b5a4c8a1f0e2''),
       (''uptimeSeconds'', JInt 3641),
       (''gameProcessPresent'', JBool True),
       (''protocolVersion'', JInt 1)]"

definition fixture_valid_heartbeat_response_terminate :: json where
  "fixture_valid_heartbeat_response_terminate = JObject
      [(''acknowledged'', JBool False),
       (''nextIntervalSeconds'', JInt 120),
       (''terminate'', JBool True),
       (''terminateReason'', JString ''banned'')]"

definition fixture_valid_liveness_grace :: json where
  "fixture_valid_liveness_grace = JObject
      [(''sessionId'', JString ''1b4e28ba-2fa1-4d3b-8f2e-9c1d0e5a7b63''),
       (''state'', JString ''active''),
       (''lastHeartbeatAt'', JString ''2026-08-04T14:30:00.000Z''),
       (''graceExpiresAt'', JString ''2026-08-04T14:33:30.000Z''),
       (''shouldKick'', JBool False)]"

definition fixture_valid_local_attest_ack :: json where
  "fixture_valid_local_attest_ack = JObject
      [(''accepted'', JBool True),
       (''companionVersion'', JString ''0.1.0''),
       (''protocolVersion'', JInt 1)]"

definition fixture_valid_local_attest_command :: json where
  "fixture_valid_local_attest_command = JObject
      [(''nonce'', JString ''a3f1c9b27e4d6081f5a2c3d4e5b6a7980123456789abcdef0123456789abcdef''),
       (''backendUrl'', JString ''https://api.fiveprotect.dev''),
       (''serverName'', JString ''Nordstadt Roleplay''),
       (''protocolVersion'', JInt 1)]"

definition fixture_valid_nonce_request :: json where
  "fixture_valid_nonce_request = JObject
      [(''serverId'', JString ''8f14e45f-ceea-467a-9ba8-a53d9d0e0a3c''),
       (''player'', JObject
          [(''license'', JString ''license:110000112345678''),
           (''steam'', JString ''steam:110000112345678''),
           (''ip'', JString ''203.0.113.42'')]),
       (''gameBuild'', JString ''3095''),
       (''protocolVersion'', JInt 1)]"

definition fixture_valid_nonce_response :: json where
  "fixture_valid_nonce_response = JObject
      [(''nonce'', JString ''a3f1c9b27e4d6081f5a2c3d4e5b6a7980123456789abcdef0123456789abcdef''),
       (''sessionId'', JString ''1b4e28ba-2fa1-4d3b-8f2e-9c1d0e5a7b63''),
       (''expiresAt'', JString ''2026-08-04T14:23:01.412Z''),
       (''policyTier'', JString ''standard''),
       (''backendUrl'', JString ''https://api.fiveprotect.dev''),
       (''protocolVersion'', JInt 1)]"

definition fixture_valid_protocol_error :: json where
  "fixture_valid_protocol_error = JObject
      [(''code'', JString ''nonce_expired''),
       (''message'', JString ''the nonce was issued more than 30 seconds ago''),
       (''requestId'', JString ''01J9ZC4Q5T7V8W9X0Y1Z2A3B4C'')]"

definition fixture_valid_system_snapshot_degraded :: json where
  "fixture_valid_system_snapshot_degraded = JObject
      [(''schemaVersion'', JInt 1),
       (''collectedAt'', JString ''2026-08-04T14:25:02.000Z''),
       (''companionVersion'', JString ''0.1.0''),
       (''companionBuildHash'', JString ''9f2fda9d3f786850e387550fdab836ed7e6dc881de23001b3f2fd9e6a5b6b5a4''),
       (''osBuild'', JString ''10.0.19045''),
       (''features'', JObject
          [(''secureBoot'', JString ''disabled''),
           (''hvci'', JString ''disabled''),
           (''testSigning'', JString ''disabled''),
           (''kernelDebugging'', JString ''disabled''),
           (''driverBlocklist'', JString ''unknown''),
           (''iommu'', JString ''unknown''),
           (''virtualizationBasedSecurity'', JString ''disabled'')]),
       (''tpm'', JObject
          [(''present'', JBool False)]),
       (''probeErrors'', JArray
          [JString ''iommu_probe_access_denied'',
           JString ''driver_blocklist_registry_missing''])]"

definition fixture_valid_system_snapshot_full :: json where
  "fixture_valid_system_snapshot_full = JObject
      [(''schemaVersion'', JInt 1),
       (''collectedAt'', JString ''2026-08-04T14:22:31.412Z''),
       (''companionVersion'', JString ''0.1.0''),
       (''companionBuildHash'', JString ''3f786850e387550fdab836ed7e6dc881de23001b3f2fd9e6a5b6b5a4c8a1f0e2''),
       (''osBuild'', JString ''10.0.26100''),
       (''features'', JObject
          [(''secureBoot'', JString ''enabled''),
           (''hvci'', JString ''enabled''),
           (''testSigning'', JString ''disabled''),
           (''kernelDebugging'', JString ''disabled''),
           (''driverBlocklist'', JString ''enabled''),
           (''iommu'', JString ''enabled''),
           (''virtualizationBasedSecurity'', JString ''enabled'')]),
       (''tpm'', JObject
          [(''present'', JBool True),
           (''manufacturer'', JString ''IFX''),
           (''specVersion'', JString ''2.0'')]),
       (''gameProcess'', JObject
          [(''pid'', JInt 14872),
           (''startedAtUnixMs'', JInt 1786000951000),
           (''imageName'', JString ''FiveM_GTAProcess.exe''),
           (''mainWindowPresent'', JBool True)]),
       (''probeErrors'', JArray [])]"

definition fixture_valid_verdict_allow :: json where
  "fixture_valid_verdict_allow = JObject
      [(''decision'', JString ''allow''),
       (''sessionId'', JString ''1b4e28ba-2fa1-4d3b-8f2e-9c1d0e5a7b63''),
       (''reasons'', JArray []),
       (''requirements'', JArray
          [JObject
             [(''requirement'', JString ''companion_attested''),
              (''status'', JString ''pass'')],
           JObject
             [(''requirement'', JString ''test_signing_disabled''),
              (''status'', JString ''pass'')],
           JObject
             [(''requirement'', JString ''kernel_debugging_disabled''),
              (''status'', JString ''pass'')],
           JObject
             [(''requirement'', JString ''secure_boot_enabled''),
              (''status'', JString ''pass'')],
           JObject
             [(''requirement'', JString ''hvci_enabled''),
              (''status'', JString ''pass'')],
           JObject
             [(''requirement'', JString ''tpm_attestation_valid''),
              (''status'', JString ''skipped'')],
           JObject
             [(''requirement'', JString ''game_process_present''),
              (''status'', JString ''pass'')],
           JObject
             [(''requirement'', JString ''network_origin_matches''),
              (''status'', JString ''pass'')]]),
       (''policyTier'', JString ''standard''),
       (''evaluatedAt'', JString ''2026-08-04T14:22:33.900Z''),
       (''failOpen'', JBool False)]"

definition fixture_valid_verdict_deny_hvci :: json where
  "fixture_valid_verdict_deny_hvci = JObject
      [(''decision'', JString ''deny''),
       (''sessionId'', JString ''1b4e28ba-2fa1-4d3b-8f2e-9c1d0e5a7b63''),
       (''reasons'', JArray
          [JString ''policy_not_met'']),
       (''requirements'', JArray
          [JObject
             [(''requirement'', JString ''companion_attested''),
              (''status'', JString ''pass'')],
           JObject
             [(''requirement'', JString ''test_signing_disabled''),
              (''status'', JString ''pass'')],
           JObject
             [(''requirement'', JString ''kernel_debugging_disabled''),
              (''status'', JString ''pass'')],
           JObject
             [(''requirement'', JString ''secure_boot_enabled''),
              (''status'', JString ''pass'')],
           JObject
             [(''requirement'', JString ''hvci_enabled''),
              (''status'', JString ''fail''),
              (''detail'', JString ''blocked by driver rtcore64.sys'')],
           JObject
             [(''requirement'', JString ''driver_blocklist_enabled''),
              (''status'', JString ''pass'')],
           JObject
             [(''requirement'', JString ''iommu_enabled''),
              (''status'', JString ''warn'')],
           JObject
             [(''requirement'', JString ''network_origin_matches''),
              (''status'', JString ''pass'')]]),
       (''remediation'', JString (''Die Speicherintegrit'' @ [CHR 0xC3, CHR 0xA4] @ ''t ist abgeschaltet, weil der Treiber rtcore64.sys sie blockiert. Deinstalliere die zugeh'' @ [CHR 0xC3, CHR 0xB6] @ ''rige Software und aktiviere die Speicherintegrit'' @ [CHR 0xC3, CHR 0xA4] @ ''t unter Windows-Sicherheit '' @ [CHR 0xE2, CHR 0x86, CHR 0x92] @ '' Ger'' @ [CHR 0xC3, CHR 0xA4] @ ''tesicherheit '' @ [CHR 0xE2, CHR 0x86, CHR 0x92] @ '' Kernisolierung.'')),
       (''policyTier'', JString ''standard''),
       (''evaluatedAt'', JString ''2026-08-04T14:22:33.900Z''),
       (''failOpen'', JBool False)]"

definition fixture_invalid_companion_outcome_request_not_a_session :: json where
  "fixture_invalid_companion_outcome_request_not_a_session = JObject
      [(''sessionId'', JString ''keine-uuid''),
       (''waitSeconds'', JInt 5),
       (''protocolVersion'', JInt 1)]"

definition fixture_invalid_companion_poll_request_wait_too_long :: json where
  "fixture_invalid_companion_poll_request_wait_too_long = JObject
      [(''companionVersion'', JString ''0.1.0''),
       (''waitSeconds'', JInt 600),
       (''protocolVersion'', JInt 1)]"

definition fixture_invalid_companion_poll_response_short_nonce :: json where
  "fixture_invalid_companion_poll_response_short_nonce = JObject
      [(''pending'', JBool True),
       (''nonce'', JString ''9f2c1d4e''),
       (''protocolVersion'', JInt 1)]"

definition fixture_invalid_heartbeat_request_negative_uptime :: json where
  "fixture_invalid_heartbeat_request_negative_uptime = JObject
      [(''sessionId'', JString ''1b4e28ba-2fa1-4d3b-8f2e-9c1d0e5a7b63''),
       (''companionBuildHash'', JString ''3f786850e387550fdab836ed7e6dc881de23001b3f2fd9e6a5b6b5a4c8a1f0e2''),
       (''uptimeSeconds'', JInt (- 5)),
       (''gameProcessPresent'', JBool True),
       (''protocolVersion'', JInt 1)]"

definition fixture_invalid_nonce_request_wrong_type :: json where
  "fixture_invalid_nonce_request_wrong_type = JObject
      [(''serverId'', JString ''8f14e45f-ceea-467a-9ba8-a53d9d0e0a3c''),
       (''player'', JObject
          [(''license'', JString ''license:110000112345678''),
           (''ip'', JString ''203.0.113.42'')]),
       (''protocolVersion'', JString ''one'')]"

definition fixture_invalid_nonce_response_bad_uuid :: json where
  "fixture_invalid_nonce_response_bad_uuid = JObject
      [(''nonce'', JString ''a3f1c9b27e4d6081f5a2c3d4e5b6a7980123456789abcdef0123456789abcdef''),
       (''sessionId'', JString ''not-a-uuid''),
       (''expiresAt'', JString ''2026-08-04T14:23:01.412Z''),
       (''policyTier'', JString ''standard''),
       (''backendUrl'', JString ''https://api.fiveprotect.dev''),
       (''protocolVersion'', JInt 1)]"

definition fixture_invalid_nonce_response_short_nonce :: json where
  "fixture_invalid_nonce_response_short_nonce = JObject
      [(''nonce'', JString ''a3f1c9b2''),
       (''sessionId'', JString ''1b4e28ba-2fa1-4d3b-8f2e-9c1d0e5a7b63''),
       (''expiresAt'', JString ''2026-08-04T14:23:01.412Z''),
       (''policyTier'', JString ''standard''),
       (''backendUrl'', JString ''https://api.fiveprotect.dev''),
       (''protocolVersion'', JInt 1)]"

definition fixture_invalid_snapshot_injected_verdict :: json where
  "fixture_invalid_snapshot_injected_verdict = JObject
      [(''schemaVersion'', JInt 1),
       (''collectedAt'', JString ''2026-08-04T14:22:31.412Z''),
       (''companionVersion'', JString ''0.1.0''),
       (''companionBuildHash'', JString ''3f786850e387550fdab836ed7e6dc881de23001b3f2fd9e6a5b6b5a4c8a1f0e2''),
       (''osBuild'', JString ''10.0.26100''),
       (''features'', JObject
          [(''secureBoot'', JString ''enabled''),
           (''hvci'', JString ''enabled''),
           (''testSigning'', JString ''disabled''),
           (''kernelDebugging'', JString ''disabled''),
           (''driverBlocklist'', JString ''enabled''),
           (''iommu'', JString ''enabled''),
           (''virtualizationBasedSecurity'', JString ''enabled'')]),
       (''tpm'', JObject
          [(''present'', JBool True)]),
       (''probeErrors'', JArray []),
       (''clean'', JBool True)]"

definition fixture_invalid_snapshot_missing_features :: json where
  "fixture_invalid_snapshot_missing_features = JObject
      [(''schemaVersion'', JInt 1),
       (''collectedAt'', JString ''2026-08-04T14:22:31.412Z''),
       (''companionVersion'', JString ''0.1.0''),
       (''companionBuildHash'', JString ''3f786850e387550fdab836ed7e6dc881de23001b3f2fd9e6a5b6b5a4c8a1f0e2''),
       (''osBuild'', JString ''10.0.26100''),
       (''tpm'', JObject
          [(''present'', JBool True)]),
       (''probeErrors'', JArray [])]"

definition fixture_invalid_snapshot_unknown_feature_state :: json where
  "fixture_invalid_snapshot_unknown_feature_state = JObject
      [(''schemaVersion'', JInt 1),
       (''collectedAt'', JString ''2026-08-04T14:22:31.412Z''),
       (''companionVersion'', JString ''0.1.0''),
       (''companionBuildHash'', JString ''3f786850e387550fdab836ed7e6dc881de23001b3f2fd9e6a5b6b5a4c8a1f0e2''),
       (''osBuild'', JString ''10.0.26100''),
       (''features'', JObject
          [(''secureBoot'', JString ''probably''),
           (''hvci'', JString ''enabled''),
           (''testSigning'', JString ''disabled''),
           (''kernelDebugging'', JString ''disabled''),
           (''driverBlocklist'', JString ''enabled''),
           (''iommu'', JString ''enabled''),
           (''virtualizationBasedSecurity'', JString ''enabled'')]),
       (''tpm'', JObject
          [(''present'', JBool True)]),
       (''probeErrors'', JArray [])]"

definition fixture_invalid_verdict_unknown_reason :: json where
  "fixture_invalid_verdict_unknown_reason = JObject
      [(''decision'', JString ''deny''),
       (''sessionId'', JString ''1b4e28ba-2fa1-4d3b-8f2e-9c1d0e5a7b63''),
       (''reasons'', JArray
          [JString ''vibes_were_off'']),
       (''requirements'', JArray []),
       (''policyTier'', JString ''standard''),
       (''evaluatedAt'', JString ''2026-08-04T14:22:33.900Z''),
       (''failOpen'', JBool False)]"

definition fixtures_dir :: "(string \<times> json) list" where
  "fixtures_dir =
     [(''index.json'', fixture_index),
      (''valid/attestation-ack.json'', fixture_valid_attestation_ack),
      (''valid/attestation-request.json'', fixture_valid_attestation_request),
      (''valid/companion-outcome-request.json'', fixture_valid_companion_outcome_request),
      (''valid/companion-poll-request.json'', fixture_valid_companion_poll_request),
      (''valid/companion-poll-response-empty.json'', fixture_valid_companion_poll_response_empty),
      (''valid/companion-poll-response-pending.json'', fixture_valid_companion_poll_response_pending),
      (''valid/heartbeat-request.json'', fixture_valid_heartbeat_request),
      (''valid/heartbeat-response-terminate.json'', fixture_valid_heartbeat_response_terminate),
      (''valid/liveness-grace.json'', fixture_valid_liveness_grace),
      (''valid/local-attest-ack.json'', fixture_valid_local_attest_ack),
      (''valid/local-attest-command.json'', fixture_valid_local_attest_command),
      (''valid/nonce-request.json'', fixture_valid_nonce_request),
      (''valid/nonce-response.json'', fixture_valid_nonce_response),
      (''valid/protocol-error.json'', fixture_valid_protocol_error),
      (''valid/system-snapshot-degraded.json'', fixture_valid_system_snapshot_degraded),
      (''valid/system-snapshot-full.json'', fixture_valid_system_snapshot_full),
      (''valid/verdict-allow.json'', fixture_valid_verdict_allow),
      (''valid/verdict-deny-hvci.json'', fixture_valid_verdict_deny_hvci),
      (''invalid/companion-outcome-request-not-a-session.json'', fixture_invalid_companion_outcome_request_not_a_session),
      (''invalid/companion-poll-request-wait-too-long.json'', fixture_invalid_companion_poll_request_wait_too_long),
      (''invalid/companion-poll-response-short-nonce.json'', fixture_invalid_companion_poll_response_short_nonce),
      (''invalid/heartbeat-request-negative-uptime.json'', fixture_invalid_heartbeat_request_negative_uptime),
      (''invalid/nonce-request-wrong-type.json'', fixture_invalid_nonce_request_wrong_type),
      (''invalid/nonce-response-bad-uuid.json'', fixture_invalid_nonce_response_bad_uuid),
      (''invalid/nonce-response-short-nonce.json'', fixture_invalid_nonce_response_short_nonce),
      (''invalid/snapshot-injected-verdict.json'', fixture_invalid_snapshot_injected_verdict),
      (''invalid/snapshot-missing-features.json'', fixture_invalid_snapshot_missing_features),
      (''invalid/snapshot-unknown-feature-state.json'', fixture_invalid_snapshot_unknown_feature_state),
      (''invalid/verdict-unknown-reason.json'', fixture_invalid_verdict_unknown_reason)]"

end
