(* ===== verification/Contract_Tests.thy ===== *)
theory Contract_Tests
  imports Protocol_Json Fixture_Files "HOL-Library.Sublist"
begin

text \<open>
  The protocol's contract tests, \<open>packages/protocol/rust/tests/contract.rs\<close>: one payload through
  deserialization, validation and serialization (\<open>run_message\<close>), the table of the messages
  (\<open>dispatch\<close>), and each test as the condition it asserts, on the fixtures the four languages share.
  A panic of a test is its value False. What the tests check on the fixtures is then proved for every
  payload: an accepted one comes back as it was, and one with an unknown member is refused.
\<close>

section \<open>The names the generated code exports\<close>

definition SCHEMA_NAMES :: "string list" where
  "SCHEMA_NAMES =
     [''SecurityFeatures'',
      ''TpmInfo'',
      ''GameProcessEvidence'',
      ''SystemSnapshot'',
      ''AttestationQuote'',
      ''PlayerIdentifiers'',
      ''NonceRequest'',
      ''NonceResponse'',
      ''AttestationRequest'',
      ''AttestationAck'',
      ''RequirementResult'',
      ''Verdict'',
      ''LivenessResponse'',
      ''LocalAttestCommand'',
      ''LocalAttestAck'',
      ''CompanionPollRequest'',
      ''CompanionPollResponse'',
      ''CompanionOutcomeRequest'',
      ''HeartbeatRequest'',
      ''HeartbeatResponse'',
      ''ProtocolError'']"

definition ENUM_NAMES :: "string list" where
  "ENUM_NAMES =
     [''PolicyTier'',
      ''FailMode'',
      ''FeatureState'',
      ''SessionState'',
      ''VerdictDecision'',
      ''RequirementId'',
      ''RequirementStatus'',
      ''DenyReason'']"

section \<open>Fixtures\<close>

definition read_fixture :: "string \<Rightarrow> json option" where
  "read_fixture relative = map_of fixtures_dir relative"

record Entry =
  entry_schema :: string
  entry_file :: string
  entry_note :: string

text \<open>Indexing a value by a name: what is not there is null.\<close>

definition index_value :: "json \<Rightarrow> string \<Rightarrow> json" where
  "index_value v key =
     (case v of JObject members \<Rightarrow> (case map_of members key of Some w \<Rightarrow> w | None \<Rightarrow> JNull) | _ \<Rightarrow> JNull)"

definition as_str :: "json \<Rightarrow> string option" where
  "as_str v = (case v of JString s \<Rightarrow> Some s | _ \<Rightarrow> None)"

definition as_array :: "json \<Rightarrow> json list option" where
  "as_array v = (case v of JArray vs \<Rightarrow> Some vs | _ \<Rightarrow> None)"

definition entries :: "string \<Rightarrow> Entry list option" where
  "entries key =
     Option.bind (read_fixture ''index.json'') (\<lambda>index.
       map_option
         (map (\<lambda>item.
           \<lparr>entry_schema = unwrap_or (as_str (index_value item ''schema'')) [],
            entry_file = unwrap_or (as_str (index_value item ''file'')) [],
            entry_note = unwrap_or
              (case as_str (index_value item ''note'') of
                 Some note \<Rightarrow> Some note
               | None \<Rightarrow> as_str (index_value item ''reason'')) []\<rparr>))
         (as_array (index_value index key)))"

section \<open>One payload\<close>

datatype Outcome =
    Accepted json
  | Rejected "de_error + string"

definition run_message :: "'a de \<Rightarrow> ('a \<Rightarrow> string + unit) \<Rightarrow> ('a \<Rightarrow> json) \<Rightarrow> json \<Rightarrow> Outcome" where
  "run_message from_value validate_self to_value input =
     (case from_value input of
        Inl error \<Rightarrow> Rejected (Inl error)
      | Inr parsed \<Rightarrow>
          (case validate_self parsed of
             Inl error \<Rightarrow> Rejected (Inr error)
           | Inr _ \<Rightarrow> Accepted (to_value parsed)))"

definition dispatch :: "string \<Rightarrow> json \<Rightarrow> Outcome option" where
  "dispatch schema input =
     (if schema = ''SystemSnapshot''
      then Some (run_message SystemSnapshot_from_value validate_SystemSnapshot SystemSnapshot_to_value input)
      else if schema = ''NonceRequest''
      then Some (run_message NonceRequest_from_value validate_NonceRequest NonceRequest_to_value input)
      else if schema = ''NonceResponse''
      then Some (run_message NonceResponse_from_value validate_NonceResponse NonceResponse_to_value input)
      else if schema = ''AttestationRequest''
      then Some (run_message AttestationRequest_from_value validate_AttestationRequest AttestationRequest_to_value input)
      else if schema = ''AttestationAck''
      then Some (run_message AttestationAck_from_value validate_AttestationAck AttestationAck_to_value input)
      else if schema = ''Verdict''
      then Some (run_message Verdict_from_value validate_Verdict Verdict_to_value input)
      else if schema = ''LocalAttestCommand''
      then Some (run_message LocalAttestCommand_from_value validate_LocalAttestCommand LocalAttestCommand_to_value input)
      else if schema = ''LocalAttestAck''
      then Some (run_message LocalAttestAck_from_value validate_LocalAttestAck LocalAttestAck_to_value input)
      else if schema = ''HeartbeatRequest''
      then Some (run_message HeartbeatRequest_from_value validate_HeartbeatRequest HeartbeatRequest_to_value input)
      else if schema = ''HeartbeatResponse''
      then Some (run_message HeartbeatResponse_from_value validate_HeartbeatResponse HeartbeatResponse_to_value input)
      else if schema = ''LivenessResponse''
      then Some (run_message LivenessResponse_from_value validate_LivenessResponse LivenessResponse_to_value input)
      else if schema = ''ProtocolError''
      then Some (run_message ProtocolError_from_value validate_ProtocolError ProtocolError_to_value input)
      else if schema = ''CompanionOutcomeRequest''
      then Some (run_message CompanionOutcomeRequest_from_value validate_CompanionOutcomeRequest CompanionOutcomeRequest_to_value input)
      else if schema = ''CompanionPollRequest''
      then Some (run_message CompanionPollRequest_from_value validate_CompanionPollRequest CompanionPollRequest_to_value input)
      else if schema = ''CompanionPollResponse''
      then Some (run_message CompanionPollResponse_from_value validate_CompanionPollResponse CompanionPollResponse_to_value input)
      else None)"

section \<open>The tests\<close>

definition valid_fixtures_are_accepted_and_round_trip_unchanged :: "Entry \<Rightarrow> bool" where
  "valid_fixtures_are_accepted_and_round_trip_unchanged entry =
     (case read_fixture (entry_file entry) of
        None \<Rightarrow> False
      | Some input \<Rightarrow>
          (case dispatch (entry_schema entry) input of
             None \<Rightarrow> True
           | Some (Accepted output) \<Rightarrow> same_json output input
           | Some (Rejected error) \<Rightarrow> False))"

definition invalid_fixtures_are_rejected :: "Entry \<Rightarrow> bool" where
  "invalid_fixtures_are_rejected entry =
     (case read_fixture (entry_file entry) of
        None \<Rightarrow> False
      | Some input \<Rightarrow>
          (case dispatch (entry_schema entry) input of
             None \<Rightarrow> True
           | Some (Rejected error) \<Rightarrow> (case error of Inl e \<Rightarrow> True | Inr text \<Rightarrow> text \<noteq> [])
           | Some (Accepted output) \<Rightarrow> False))"

definition fixture_test :: "string \<Rightarrow> (Entry \<Rightarrow> bool) \<Rightarrow> bool" where
  "fixture_test key test = (case entries key of None \<Rightarrow> False | Some es \<Rightarrow> list_all test es)"

definition a_snapshot_cannot_smuggle_a_judgement :: bool where
  "a_snapshot_cannot_smuggle_a_judgement =
     (case read_fixture ''valid/system-snapshot-full.json'' of
        Some (JObject members) \<Rightarrow>
          list_all (\<lambda>smuggled.
            \<not> is_ok (SystemSnapshot_from_value (JObject (members @ [(smuggled, JBool True)]))))
            [''clean'', ''passed'', ''verdict'', ''isLegit'', ''trusted'']
      | _ \<Rightarrow> False)"

definition enum_wire_names_match_the_schema :: bool where
  "enum_wire_names_match_the_schema \<longleftrightarrow>
     list_all (\<lambda>tier. PolicyTier_to_value tier = JString (PolicyTier_as_wire_str tier)) PolicyTier_ALL \<and>
     FailMode_as_wire_str FailMode.FailOpen = ''fail_open'' \<and>
     DenyReason_as_wire_str DenyReason.NetworkOriginMismatch = ''network_origin_mismatch''"

definition every_message_in_the_index_has_a_handler_or_is_nested :: bool where
  "every_message_in_the_index_has_a_handler_or_is_nested =
     list_all (\<lambda>name.
       (case read_fixture ''valid/local-attest-ack.json'' of
          None \<Rightarrow> False
        | Some input \<Rightarrow>
            dispatch name input \<noteq> None \<or>
            name \<in> {''SecurityFeatures'', ''TpmInfo'', ''GameProcessEvidence'', ''AttestationQuote'',
                    ''PlayerIdentifiers'', ''RequirementResult''})) SCHEMA_NAMES"

definition error_contains :: "string + unit \<Rightarrow> string \<Rightarrow> bool" where
  "error_contains r text = (case r of Inl error \<Rightarrow> sublist text error | Inr _ \<Rightarrow> False)"

definition validate_rejects_what_the_type_system_cannot :: bool where
  "validate_rejects_what_the_type_system_cannot =
     (case map_option NonceResponse_from_value (read_fixture ''valid/nonce-response.json'') of
        Some (Inr response) \<Rightarrow>
          is_ok (validate_NonceResponse response) \<and>
          error_contains (validate_NonceResponse (response\<lparr>nrs_nonce := ''abcd''\<rparr>)) ''shorter than 64'' \<and>
          error_contains (validate_NonceResponse (response\<lparr>nrs_nonce := replicate 64 (CHR ''z'')\<rparr>)) ''hex''
      | _ \<Rightarrow> False)"

lemma contract_tests_pass:
  "a_snapshot_cannot_smuggle_a_judgement" "enum_wire_names_match_the_schema"
  "every_message_in_the_index_has_a_handler_or_is_nested"
  "validate_rejects_what_the_type_system_cannot"
  by code_simp+

section \<open>The fixtures, one by one\<close>

definition valid_entries :: "Entry list" where
  "valid_entries =
     [\<lparr>entry_schema = ''SystemSnapshot'', entry_file = ''valid/system-snapshot-full.json'',
        entry_note = ''A machine that meets the standard tier.''\<rparr>,
      \<lparr>entry_schema = ''SystemSnapshot'', entry_file = ''valid/system-snapshot-degraded.json'',
        entry_note = ''No TPM, HVCI off, two probes failed. Well formed but will be denied at standard.''\<rparr>,
      \<lparr>entry_schema = ''NonceRequest'', entry_file = ''valid/nonce-request.json'',
        entry_note = ''Resource asks for a nonce; discord identifier absent.''\<rparr>,
      \<lparr>entry_schema = ''NonceResponse'', entry_file = ''valid/nonce-response.json'',
        entry_note = ''Backend answers with a 32 byte nonce.''\<rparr>,
      \<lparr>entry_schema = ''AttestationRequest'', entry_file = ''valid/attestation-request.json'',
        entry_note = ''Phase 1 attestation without a TPM quote.''\<rparr>,
      \<lparr>entry_schema = ''AttestationAck'', entry_file = ''valid/attestation-ack.json'',
        entry_note = ''Receipt only '' @ [CHR 0xE2, CHR 0x80, CHR 0x94] @ '' carries no judgement (ADR 0004).''\<rparr>,
      \<lparr>entry_schema = ''Verdict'', entry_file = ''valid/verdict-allow.json'',
        entry_note = ''Allow with the TPM requirement skipped, as in phase 1.''\<rparr>,
      \<lparr>entry_schema = ''Verdict'', entry_file = ''valid/verdict-deny-hvci.json'',
        entry_note = ''Deny that names the blocking driver '' @ [CHR 0xE2, CHR 0x80, CHR 0x94] @ '' design document 7.4.''\<rparr>,
      \<lparr>entry_schema = ''LocalAttestCommand'', entry_file = ''valid/local-attest-command.json'',
        entry_note = ''NUI to companion over 127.0.0.1.''\<rparr>,
      \<lparr>entry_schema = ''LocalAttestAck'', entry_file = ''valid/local-attest-ack.json'',
        entry_note = ''The only thing the localhost endpoint returns.''\<rparr>,
      \<lparr>entry_schema = ''HeartbeatRequest'', entry_file = ''valid/heartbeat-request.json'',
        entry_note = ''Mid-session check-in.''\<rparr>,
      \<lparr>entry_schema = ''HeartbeatResponse'', entry_file = ''valid/heartbeat-response-terminate.json'',
        entry_note = ''Backend ends the session.''\<rparr>,
      \<lparr>entry_schema = ''LivenessResponse'', entry_file = ''valid/liveness-grace.json'',
        entry_note = ''Inside the grace period; the player should see a warning.''\<rparr>,
      \<lparr>entry_schema = ''ProtocolError'', entry_file = ''valid/protocol-error.json'',
        entry_note = ''Shared error envelope.''\<rparr>,
      \<lparr>entry_schema = ''CompanionOutcomeRequest'', entry_file = ''valid/companion-outcome-request.json'',
        entry_note = ''Companion asks how its own attestation was judged (ADR 0011).''\<rparr>,
      \<lparr>entry_schema = ''CompanionPollRequest'', entry_file = ''valid/companion-poll-request.json'',
        entry_note = ''Companion asks whether somebody at this address is connecting (ADR 0010).''\<rparr>,
      \<lparr>entry_schema = ''CompanionPollResponse'', entry_file = ''valid/companion-poll-response-pending.json'',
        entry_note = ''A nonce is waiting for this machine.''\<rparr>,
      \<lparr>entry_schema = ''CompanionPollResponse'', entry_file = ''valid/companion-poll-response-empty.json'',
        entry_note = ''Nobody is connecting. The ordinary answer, and every optional field is absent.''\<rparr>]"

lemma entries_valid: "entries ''valid'' = Some valid_entries"
  by code_simp

lemma read_valid:
  "read_fixture ''valid/system-snapshot-full.json'' = Some fixture_valid_system_snapshot_full"
  "read_fixture ''valid/system-snapshot-degraded.json'' = Some fixture_valid_system_snapshot_degraded"
  "read_fixture ''valid/nonce-request.json'' = Some fixture_valid_nonce_request"
  "read_fixture ''valid/nonce-response.json'' = Some fixture_valid_nonce_response"
  "read_fixture ''valid/attestation-request.json'' = Some fixture_valid_attestation_request"
  "read_fixture ''valid/attestation-ack.json'' = Some fixture_valid_attestation_ack"
  "read_fixture ''valid/verdict-allow.json'' = Some fixture_valid_verdict_allow"
  "read_fixture ''valid/verdict-deny-hvci.json'' = Some fixture_valid_verdict_deny_hvci"
  "read_fixture ''valid/local-attest-command.json'' = Some fixture_valid_local_attest_command"
  "read_fixture ''valid/local-attest-ack.json'' = Some fixture_valid_local_attest_ack"
  "read_fixture ''valid/heartbeat-request.json'' = Some fixture_valid_heartbeat_request"
  "read_fixture ''valid/heartbeat-response-terminate.json'' = Some fixture_valid_heartbeat_response_terminate"
  "read_fixture ''valid/liveness-grace.json'' = Some fixture_valid_liveness_grace"
  "read_fixture ''valid/protocol-error.json'' = Some fixture_valid_protocol_error"
  "read_fixture ''valid/companion-outcome-request.json'' = Some fixture_valid_companion_outcome_request"
  "read_fixture ''valid/companion-poll-request.json'' = Some fixture_valid_companion_poll_request"
  "read_fixture ''valid/companion-poll-response-pending.json'' = Some fixture_valid_companion_poll_response_pending"
  "read_fixture ''valid/companion-poll-response-empty.json'' = Some fixture_valid_companion_poll_response_empty"
  by (simp_all add: read_fixture_def fixtures_dir_def)

lemma run_valid_1: "case run_message SystemSnapshot_from_value validate_SystemSnapshot SystemSnapshot_to_value fixture_valid_system_snapshot_full of Accepted output \<Rightarrow> same_json output fixture_valid_system_snapshot_full | Rejected e \<Rightarrow> False"
  by code_simp

lemma run_valid_2: "case run_message SystemSnapshot_from_value validate_SystemSnapshot SystemSnapshot_to_value fixture_valid_system_snapshot_degraded of Accepted output \<Rightarrow> same_json output fixture_valid_system_snapshot_degraded | Rejected e \<Rightarrow> False"
  by code_simp

lemma run_valid_3: "case run_message NonceRequest_from_value validate_NonceRequest NonceRequest_to_value fixture_valid_nonce_request of Accepted output \<Rightarrow> same_json output fixture_valid_nonce_request | Rejected e \<Rightarrow> False"
  by code_simp

lemma run_valid_4: "case run_message NonceResponse_from_value validate_NonceResponse NonceResponse_to_value fixture_valid_nonce_response of Accepted output \<Rightarrow> same_json output fixture_valid_nonce_response | Rejected e \<Rightarrow> False"
  by code_simp

lemma run_valid_5: "case run_message AttestationRequest_from_value validate_AttestationRequest AttestationRequest_to_value fixture_valid_attestation_request of Accepted output \<Rightarrow> same_json output fixture_valid_attestation_request | Rejected e \<Rightarrow> False"
  by code_simp

lemma run_valid_6: "case run_message AttestationAck_from_value validate_AttestationAck AttestationAck_to_value fixture_valid_attestation_ack of Accepted output \<Rightarrow> same_json output fixture_valid_attestation_ack | Rejected e \<Rightarrow> False"
  by code_simp

lemma run_valid_7: "case run_message Verdict_from_value validate_Verdict Verdict_to_value fixture_valid_verdict_allow of Accepted output \<Rightarrow> same_json output fixture_valid_verdict_allow | Rejected e \<Rightarrow> False"
  by code_simp

lemma run_valid_8: "case run_message Verdict_from_value validate_Verdict Verdict_to_value fixture_valid_verdict_deny_hvci of Accepted output \<Rightarrow> same_json output fixture_valid_verdict_deny_hvci | Rejected e \<Rightarrow> False"
  by code_simp

lemma run_valid_9: "case run_message LocalAttestCommand_from_value validate_LocalAttestCommand LocalAttestCommand_to_value fixture_valid_local_attest_command of Accepted output \<Rightarrow> same_json output fixture_valid_local_attest_command | Rejected e \<Rightarrow> False"
  by code_simp

lemma run_valid_10: "case run_message LocalAttestAck_from_value validate_LocalAttestAck LocalAttestAck_to_value fixture_valid_local_attest_ack of Accepted output \<Rightarrow> same_json output fixture_valid_local_attest_ack | Rejected e \<Rightarrow> False"
  by code_simp

lemma run_valid_11: "case run_message HeartbeatRequest_from_value validate_HeartbeatRequest HeartbeatRequest_to_value fixture_valid_heartbeat_request of Accepted output \<Rightarrow> same_json output fixture_valid_heartbeat_request | Rejected e \<Rightarrow> False"
  by code_simp

lemma run_valid_12: "case run_message HeartbeatResponse_from_value validate_HeartbeatResponse HeartbeatResponse_to_value fixture_valid_heartbeat_response_terminate of Accepted output \<Rightarrow> same_json output fixture_valid_heartbeat_response_terminate | Rejected e \<Rightarrow> False"
  by code_simp

lemma run_valid_13: "case run_message LivenessResponse_from_value validate_LivenessResponse LivenessResponse_to_value fixture_valid_liveness_grace of Accepted output \<Rightarrow> same_json output fixture_valid_liveness_grace | Rejected e \<Rightarrow> False"
  by code_simp

lemma run_valid_14: "case run_message ProtocolError_from_value validate_ProtocolError ProtocolError_to_value fixture_valid_protocol_error of Accepted output \<Rightarrow> same_json output fixture_valid_protocol_error | Rejected e \<Rightarrow> False"
  by code_simp

lemma run_valid_15: "case run_message CompanionOutcomeRequest_from_value validate_CompanionOutcomeRequest CompanionOutcomeRequest_to_value fixture_valid_companion_outcome_request of Accepted output \<Rightarrow> same_json output fixture_valid_companion_outcome_request | Rejected e \<Rightarrow> False"
  by code_simp

lemma run_valid_16: "case run_message CompanionPollRequest_from_value validate_CompanionPollRequest CompanionPollRequest_to_value fixture_valid_companion_poll_request of Accepted output \<Rightarrow> same_json output fixture_valid_companion_poll_request | Rejected e \<Rightarrow> False"
  by code_simp

lemma run_valid_17: "case run_message CompanionPollResponse_from_value validate_CompanionPollResponse CompanionPollResponse_to_value fixture_valid_companion_poll_response_pending of Accepted output \<Rightarrow> same_json output fixture_valid_companion_poll_response_pending | Rejected e \<Rightarrow> False"
  by code_simp

lemma run_valid_18: "case run_message CompanionPollResponse_from_value validate_CompanionPollResponse CompanionPollResponse_to_value fixture_valid_companion_poll_response_empty of Accepted output \<Rightarrow> same_json output fixture_valid_companion_poll_response_empty | Rejected e \<Rightarrow> False"
  by code_simp

lemma valid_fixtures: "fixture_test ''valid'' valid_fixtures_are_accepted_and_round_trip_unchanged"
  unfolding fixture_test_def entries_valid option.case valid_entries_def list.pred_inject(2)
  by (intro conjI list.pred_inject(1); simp add: valid_fixtures_are_accepted_and_round_trip_unchanged_def read_valid dispatch_def run_valid_1 run_valid_2 run_valid_3 run_valid_4 run_valid_5 run_valid_6 run_valid_7 run_valid_8 run_valid_9 run_valid_10 run_valid_11 run_valid_12 run_valid_13 run_valid_14 run_valid_15 run_valid_16 run_valid_17 run_valid_18)

definition invalid_entries :: "Entry list" where
  "invalid_entries =
     [\<lparr>entry_schema = ''SystemSnapshot'', entry_file = ''invalid/snapshot-missing-features.json'',
        entry_note = ''required object '' @ [CHR 0x27] @ ''features'' @ [CHR 0x27] @ '' is absent''\<rparr>,
      \<lparr>entry_schema = ''SystemSnapshot'', entry_file = ''invalid/snapshot-unknown-feature-state.json'',
        entry_note = [CHR 0x27] @ ''probably'' @ [CHR 0x27] @ '' is not a FeatureState''\<rparr>,
      \<lparr>entry_schema = ''SystemSnapshot'', entry_file = ''invalid/snapshot-injected-verdict.json'',
        entry_note = ''carries a '' @ [CHR 0x27] @ ''clean'' @ [CHR 0x27] @ '' field '' @ [CHR 0xE2, CHR 0x80, CHR 0x94] @ '' a companion never sends a judgement (ADR 0004)''\<rparr>,
      \<lparr>entry_schema = ''NonceResponse'', entry_file = ''invalid/nonce-response-short-nonce.json'',
        entry_note = ''nonce is shorter than 64 hex characters''\<rparr>,
      \<lparr>entry_schema = ''NonceResponse'', entry_file = ''invalid/nonce-response-bad-uuid.json'',
        entry_note = ''sessionId is not a UUID''\<rparr>,
      \<lparr>entry_schema = ''NonceRequest'', entry_file = ''invalid/nonce-request-wrong-type.json'',
        entry_note = ''protocolVersion is a string''\<rparr>,
      \<lparr>entry_schema = ''Verdict'', entry_file = ''invalid/verdict-unknown-reason.json'',
        entry_note = [CHR 0x27] @ ''vibes_were_off'' @ [CHR 0x27] @ '' is not a DenyReason''\<rparr>,
      \<lparr>entry_schema = ''HeartbeatRequest'', entry_file = ''invalid/heartbeat-request-negative-uptime.json'',
        entry_note = ''uptimeSeconds is below its minimum of 0''\<rparr>,
      \<lparr>entry_schema = ''CompanionPollRequest'', entry_file = ''invalid/companion-poll-request-wait-too-long.json'',
        entry_note = ''waitSeconds is above its maximum of 30, which would hold a connection open indefinitely''\<rparr>,
      \<lparr>entry_schema = ''CompanionPollResponse'', entry_file = ''invalid/companion-poll-response-short-nonce.json'',
        entry_note = ''a nonce that is not 64 hex characters cannot be one the backend issued''\<rparr>,
      \<lparr>entry_schema = ''CompanionOutcomeRequest'', entry_file = ''invalid/companion-outcome-request-not-a-session.json'',
        entry_note = ''sessionId is not a UUID, so it is not one the backend ever issued''\<rparr>]"

lemma entries_invalid: "entries ''invalid'' = Some invalid_entries"
  by code_simp

lemma read_invalid:
  "read_fixture ''invalid/snapshot-missing-features.json'' = Some fixture_invalid_snapshot_missing_features"
  "read_fixture ''invalid/snapshot-unknown-feature-state.json'' = Some fixture_invalid_snapshot_unknown_feature_state"
  "read_fixture ''invalid/snapshot-injected-verdict.json'' = Some fixture_invalid_snapshot_injected_verdict"
  "read_fixture ''invalid/nonce-response-short-nonce.json'' = Some fixture_invalid_nonce_response_short_nonce"
  "read_fixture ''invalid/nonce-response-bad-uuid.json'' = Some fixture_invalid_nonce_response_bad_uuid"
  "read_fixture ''invalid/nonce-request-wrong-type.json'' = Some fixture_invalid_nonce_request_wrong_type"
  "read_fixture ''invalid/verdict-unknown-reason.json'' = Some fixture_invalid_verdict_unknown_reason"
  "read_fixture ''invalid/heartbeat-request-negative-uptime.json'' = Some fixture_invalid_heartbeat_request_negative_uptime"
  "read_fixture ''invalid/companion-poll-request-wait-too-long.json'' = Some fixture_invalid_companion_poll_request_wait_too_long"
  "read_fixture ''invalid/companion-poll-response-short-nonce.json'' = Some fixture_invalid_companion_poll_response_short_nonce"
  "read_fixture ''invalid/companion-outcome-request-not-a-session.json'' = Some fixture_invalid_companion_outcome_request_not_a_session"
  by (simp_all add: read_fixture_def fixtures_dir_def)

lemma run_invalid_1: "case run_message SystemSnapshot_from_value validate_SystemSnapshot SystemSnapshot_to_value fixture_invalid_snapshot_missing_features of Accepted output \<Rightarrow> False | Rejected e \<Rightarrow> (case e of Inl _ \<Rightarrow> True | Inr text' \<Rightarrow> text' \<noteq> [])"
  by code_simp

lemma run_invalid_2: "case run_message SystemSnapshot_from_value validate_SystemSnapshot SystemSnapshot_to_value fixture_invalid_snapshot_unknown_feature_state of Accepted output \<Rightarrow> False | Rejected e \<Rightarrow> (case e of Inl _ \<Rightarrow> True | Inr text' \<Rightarrow> text' \<noteq> [])"
  by code_simp

lemma run_invalid_3: "case run_message SystemSnapshot_from_value validate_SystemSnapshot SystemSnapshot_to_value fixture_invalid_snapshot_injected_verdict of Accepted output \<Rightarrow> False | Rejected e \<Rightarrow> (case e of Inl _ \<Rightarrow> True | Inr text' \<Rightarrow> text' \<noteq> [])"
  by code_simp

lemma run_invalid_4: "case run_message NonceResponse_from_value validate_NonceResponse NonceResponse_to_value fixture_invalid_nonce_response_short_nonce of Accepted output \<Rightarrow> False | Rejected e \<Rightarrow> (case e of Inl _ \<Rightarrow> True | Inr text' \<Rightarrow> text' \<noteq> [])"
  by code_simp

lemma run_invalid_5: "case run_message NonceResponse_from_value validate_NonceResponse NonceResponse_to_value fixture_invalid_nonce_response_bad_uuid of Accepted output \<Rightarrow> False | Rejected e \<Rightarrow> (case e of Inl _ \<Rightarrow> True | Inr text' \<Rightarrow> text' \<noteq> [])"
  by code_simp

lemma run_invalid_6: "case run_message NonceRequest_from_value validate_NonceRequest NonceRequest_to_value fixture_invalid_nonce_request_wrong_type of Accepted output \<Rightarrow> False | Rejected e \<Rightarrow> (case e of Inl _ \<Rightarrow> True | Inr text' \<Rightarrow> text' \<noteq> [])"
  by code_simp

lemma run_invalid_7: "case run_message Verdict_from_value validate_Verdict Verdict_to_value fixture_invalid_verdict_unknown_reason of Accepted output \<Rightarrow> False | Rejected e \<Rightarrow> (case e of Inl _ \<Rightarrow> True | Inr text' \<Rightarrow> text' \<noteq> [])"
  by code_simp

lemma run_invalid_8: "case run_message HeartbeatRequest_from_value validate_HeartbeatRequest HeartbeatRequest_to_value fixture_invalid_heartbeat_request_negative_uptime of Accepted output \<Rightarrow> False | Rejected e \<Rightarrow> (case e of Inl _ \<Rightarrow> True | Inr text' \<Rightarrow> text' \<noteq> [])"
  by code_simp

lemma run_invalid_9: "case run_message CompanionPollRequest_from_value validate_CompanionPollRequest CompanionPollRequest_to_value fixture_invalid_companion_poll_request_wait_too_long of Accepted output \<Rightarrow> False | Rejected e \<Rightarrow> (case e of Inl _ \<Rightarrow> True | Inr text' \<Rightarrow> text' \<noteq> [])"
  by code_simp

lemma run_invalid_10: "case run_message CompanionPollResponse_from_value validate_CompanionPollResponse CompanionPollResponse_to_value fixture_invalid_companion_poll_response_short_nonce of Accepted output \<Rightarrow> False | Rejected e \<Rightarrow> (case e of Inl _ \<Rightarrow> True | Inr text' \<Rightarrow> text' \<noteq> [])"
  by code_simp

lemma run_invalid_11: "case run_message CompanionOutcomeRequest_from_value validate_CompanionOutcomeRequest CompanionOutcomeRequest_to_value fixture_invalid_companion_outcome_request_not_a_session of Accepted output \<Rightarrow> False | Rejected e \<Rightarrow> (case e of Inl _ \<Rightarrow> True | Inr text' \<Rightarrow> text' \<noteq> [])"
  by code_simp

lemma invalid_fixtures: "fixture_test ''invalid'' invalid_fixtures_are_rejected"
  unfolding fixture_test_def entries_invalid option.case invalid_entries_def list.pred_inject(2)
  by (intro conjI list.pred_inject(1); simp add: invalid_fixtures_are_rejected_def read_invalid dispatch_def run_invalid_1 run_invalid_2 run_invalid_3 run_invalid_4 run_invalid_5 run_invalid_6 run_invalid_7 run_invalid_8 run_invalid_9 run_invalid_10 run_invalid_11)

section \<open>What holds of every payload\<close>

text \<open>The table once more, as data: the fields and the shape of each message with a handler.\<close>

definition message_fields :: "(string \<times> string list) list" where
  "message_fields =
     [(''SystemSnapshot'', SystemSnapshot_FIELDS),
       (''NonceRequest'', NonceRequest_FIELDS),
       (''NonceResponse'', NonceResponse_FIELDS),
       (''AttestationRequest'', AttestationRequest_FIELDS),
       (''AttestationAck'', AttestationAck_FIELDS),
       (''Verdict'', Verdict_FIELDS),
       (''LocalAttestCommand'', LocalAttestCommand_FIELDS),
       (''LocalAttestAck'', LocalAttestAck_FIELDS),
       (''HeartbeatRequest'', HeartbeatRequest_FIELDS),
       (''HeartbeatResponse'', HeartbeatResponse_FIELDS),
       (''LivenessResponse'', LivenessResponse_FIELDS),
       (''ProtocolError'', ProtocolError_FIELDS),
       (''CompanionOutcomeRequest'', CompanionOutcomeRequest_FIELDS),
       (''CompanionPollRequest'', CompanionPollRequest_FIELDS),
       (''CompanionPollResponse'', CompanionPollResponse_FIELDS)]"

definition message_shape :: "(string \<times> shape) list" where
  "message_shape =
     [(''SystemSnapshot'', SystemSnapshot_shape),
       (''NonceRequest'', NonceRequest_shape),
       (''NonceResponse'', NonceResponse_shape),
       (''AttestationRequest'', AttestationRequest_shape),
       (''AttestationAck'', AttestationAck_shape),
       (''Verdict'', Verdict_shape),
       (''LocalAttestCommand'', LocalAttestCommand_shape),
       (''LocalAttestAck'', LocalAttestAck_shape),
       (''HeartbeatRequest'', HeartbeatRequest_shape),
       (''HeartbeatResponse'', HeartbeatResponse_shape),
       (''LivenessResponse'', LivenessResponse_shape),
       (''ProtocolError'', ProtocolError_shape),
       (''CompanionOutcomeRequest'', CompanionOutcomeRequest_shape),
       (''CompanionPollRequest'', CompanionPollRequest_shape),
       (''CompanionPollResponse'', CompanionPollResponse_shape)]"

lemma run_message_Accepted:
  "run_message from_value ok to_value input = Accepted output \<longleftrightarrow>
     (\<exists>m. from_value input = Inr m \<and> is_ok (ok m) \<and> output = to_value m)"
  by (auto simp: run_message_def is_ok_def split: sum.splits)

context wire_type
begin

lemma run_again: "run_message de ok ser input = Accepted output \<Longrightarrow> run_message de ok ser output = Accepted output"
  by (auto simp: run_message_Accepted)

end

context exact_type
begin

lemma run_same: "shape input \<Longrightarrow> run_message de ok ser input = Accepted output \<Longrightarrow> same_json output input"
  by (auto simp: run_message_Accepted intro: exact)

end

lemma run_unknown:
  assumes "\<And>v. from_value v = and_then (de_struct True fs v) (rest v)"
    and "f \<in> fst ` set members" and "f \<notin> set fs"
  shows "\<exists>e. run_message from_value ok to_value (JObject members) = Rejected (Inl e)"
  using unknown_member [of f members fs] assms by (auto simp: run_message_def)

text \<open>
  The contract tests' fixtures. Every fixture listed as valid is accepted and comes back as the
  same JSON value, and every one listed as invalid is refused with a reason.
\<close>

lemma fixtures_agree:
  "fixture_test ''valid'' valid_fixtures_are_accepted_and_round_trip_unchanged \<and>
   fixture_test ''invalid'' invalid_fixtures_are_rejected"
  by (intro conjI valid_fixtures invalid_fixtures)

text \<open>
  C16: Serialization loses nothing. For each of the twenty-one messages, with any content, what is
  written is read back as the message it was.
\<close>

theorem messages_survive_the_wire:
  "SecurityFeatures_from_value (SecurityFeatures_to_value m0) = Inr m0 \<and>
   TpmInfo_from_value (TpmInfo_to_value m1) = Inr m1 \<and>
   GameProcessEvidence_from_value (GameProcessEvidence_to_value m2) = Inr m2 \<and>
   SystemSnapshot_from_value (SystemSnapshot_to_value m3) = Inr m3 \<and>
   AttestationQuote_from_value (AttestationQuote_to_value m4) = Inr m4 \<and>
   PlayerIdentifiers_from_value (PlayerIdentifiers_to_value m5) = Inr m5 \<and>
   NonceRequest_from_value (NonceRequest_to_value m6) = Inr m6 \<and>
   NonceResponse_from_value (NonceResponse_to_value m7) = Inr m7 \<and>
   AttestationRequest_from_value (AttestationRequest_to_value m8) = Inr m8 \<and>
   AttestationAck_from_value (AttestationAck_to_value m9) = Inr m9 \<and>
   RequirementResult_from_value (RequirementResult_to_value m10) = Inr m10 \<and>
   Verdict_from_value (Verdict_to_value m11) = Inr m11 \<and>
   LivenessResponse_from_value (LivenessResponse_to_value m12) = Inr m12 \<and>
   LocalAttestCommand_from_value (LocalAttestCommand_to_value m13) = Inr m13 \<and>
   LocalAttestAck_from_value (LocalAttestAck_to_value m14) = Inr m14 \<and>
   CompanionPollRequest_from_value (CompanionPollRequest_to_value m15) = Inr m15 \<and>
   CompanionPollResponse_from_value (CompanionPollResponse_to_value m16) = Inr m16 \<and>
   CompanionOutcomeRequest_from_value (CompanionOutcomeRequest_to_value m17) = Inr m17 \<and>
   HeartbeatRequest_from_value (HeartbeatRequest_to_value m18) = Inr m18 \<and>
   HeartbeatResponse_from_value (HeartbeatResponse_to_value m19) = Inr m19 \<and>
   ProtocolError_from_value (ProtocolError_to_value m20) = Inr m20"
  by simp

text \<open>
  C14: Nothing is read away. A payload in the usual shape (structs as objects, enums as strings, no
  null) that any handler of the protocol accepts is written back as the same JSON value: it had no
  member that the message does not have, at any depth, and none was changed.
\<close>

theorem accepted_payload_is_whole:
  assumes "map_of message_shape schema = Some sh" and "sh input"
    and "dispatch schema input = Some (Accepted output)"
  shows "same_json output input"
  using assms
  by (auto simp: message_shape_def dispatch_def split: if_splits
      intro: SystemSnapshot.run_same
        NonceRequest.run_same
        NonceResponse.run_same
        AttestationRequest.run_same
        AttestationAck.run_same
        Verdict.run_same
        LocalAttestCommand.run_same
        LocalAttestAck.run_same
        HeartbeatRequest.run_same
        HeartbeatResponse.run_same
        LivenessResponse.run_same
        ProtocolError.run_same
        CompanionOutcomeRequest.run_same
        CompanionPollRequest.run_same
        CompanionPollResponse.run_same)

text \<open>
  What was accepted is accepted again, as it is: the canonical form of a payload is a fixed point.
\<close>

lemma accepted_payload_is_canonical:
  assumes "dispatch schema input = Some (Accepted output)"
  shows "dispatch schema output = Some (Accepted output)"
  using assms
  by (auto simp: dispatch_def split: if_splits
      intro: SystemSnapshot.run_again
        NonceRequest.run_again
        NonceResponse.run_again
        AttestationRequest.run_again
        AttestationAck.run_again
        Verdict.run_again
        LocalAttestCommand.run_again
        LocalAttestAck.run_again
        HeartbeatRequest.run_again
        HeartbeatResponse.run_again
        LivenessResponse.run_again
        ProtocolError.run_again
        CompanionOutcomeRequest.run_again
        CompanionPollRequest.run_again
        CompanionPollResponse.run_again)

text \<open>
  C13: No payload smuggles a judgement. An object with a member the message does not declare is refused
  before its content is looked at, whatever the member is called, whatever else the object holds and
  whichever message it is sent as.
\<close>

theorem unknown_member_is_refused:
  assumes "map_of message_fields schema = Some fs"
    and "f \<in> fst ` set members" and "f \<notin> set fs"
  shows "\<exists>e. dispatch schema (JObject members) = Some (Rejected (Inl e))"
  using assms(1)
  by (auto simp: message_fields_def dispatch_def split: if_splits
      intro!: run_unknown [OF _ assms(2,3)] simp: SystemSnapshot_from_value_def
        NonceRequest_from_value_def
        NonceResponse_from_value_def
        AttestationRequest_from_value_def
        AttestationAck_from_value_def
        Verdict_from_value_def
        LocalAttestCommand_from_value_def
        LocalAttestAck_from_value_def
        HeartbeatRequest_from_value_def
        HeartbeatResponse_from_value_def
        LivenessResponse_from_value_def
        ProtocolError_from_value_def
        CompanionOutcomeRequest_from_value_def
        CompanionPollRequest_from_value_def
        CompanionPollResponse_from_value_def)

section \<open>Instances\<close>

lemma accepted_payload_is_whole_witness:
  "same_json (HeartbeatResponse_to_value
      \<lparr>hrs_acknowledged = True, hrs_next_interval_seconds = 120, hrs_terminate = True,
       hrs_terminate_reason = Some DenyReason.Banned\<rparr>)
     (JObject [(''terminate'', JBool True), (''terminateReason'', JString ''banned''), (''acknowledged'', JBool True),
       (''nextIntervalSeconds'', JInt 120)])"
  by (rule accepted_payload_is_whole [of "''HeartbeatResponse''" HeartbeatResponse_shape])
    (simp add: message_shape_def,
      simp add: HeartbeatResponse_shape_def HeartbeatResponse_FIELDS_def struct_shape_def any_shape_def enum_shape_def,
      code_simp)

lemma accepted_payload_is_canonical_witness:
  "dispatch ''LocalAttestAck''
      (LocalAttestAck_to_value \<lparr>laa_accepted = True, laa_companion_version = ''0.1.0'', laa_protocol_version = 1\<rparr>) =
    Some (Accepted
      (LocalAttestAck_to_value \<lparr>laa_accepted = True, laa_companion_version = ''0.1.0'', laa_protocol_version = 1\<rparr>))"
  by (rule accepted_payload_is_canonical [of _
      "JArray [JBool True, JString ''0.1.0'', JInt 1]"]) code_simp

lemma unknown_member_is_refused_witness:
  "\<exists>e. dispatch ''SystemSnapshot'' (JObject [(''clean'', JBool True)]) = Some (Rejected (Inl e))"
  by (rule unknown_member_is_refused [of _ SystemSnapshot_FIELDS "''clean''"]) code_simp+

end
