(* ===== verification/Serde_Types.thy ===== *)
theory Serde_Types
  imports Protocol_Json Window_State Updater Settings Backend_Client
begin

text \<open>
  The other types that are read or written as JSON: the view the page is given
  (\<open>fiveprotect-core/src/state.rs\<close>), the update manifest (\<open>updater.rs\<close>) and the settings file
  (\<open>fiveprotect-companion/src/settings.rs\<close>); and the readings of JSON that the other theories take as
  parameters, here for values instead of texts: a command of the local endpoint, the answers of the
  backend, the settings file.
\<close>

section \<open>The window's view\<close>

text \<open>\<open>rename_all = "lowercase"\<close>\<close>

primrec WindowState_name :: "WindowState \<Rightarrow> string" where
  "WindowState_name Idle = ''idle''"
| "WindowState_name Checking = ''checking''"
| "WindowState_name Ready = ''ready''"
| "WindowState_name Blocked = ''blocked''"

definition WindowState_to_value :: "WindowState \<Rightarrow> json" where
  "WindowState_to_value s = JString (WindowState_name s)"

definition WindowState_from_value :: "WindowState de" where
  "WindowState_from_value = de_enum [Idle, Checking, Ready, Blocked] WindowState_name"

interpretation WindowState: exact_type WindowState_to_value WindowState_from_value enum_shape
  unfolding WindowState_to_value_def [abs_def] WindowState_from_value_def
  by (rule enum_exact [OF set_WindowState inj_wire_name [OF set_WindowState]]) simp

definition WindowCheck_FIELDS :: "string list" where
  "WindowCheck_FIELDS = [''requirement'', ''status'']"

definition WindowCheck_to_value :: "WindowCheck \<Rightarrow> json" where
  "WindowCheck_to_value c = ser_struct WindowCheck_FIELDS
     [Some (RequirementId_to_value (wc_requirement c)),
      Some (RequirementStatus_to_value (wc_status c))]"

definition WindowCheck_from_value :: "WindowCheck de" where
  "WindowCheck_from_value v =
     and_then (de_struct False WindowCheck_FIELDS v) (\<lambda>vs.
       and_then (required RequirementId_from_value (vs ! 0)) (\<lambda>requirement.
       and_then (required RequirementStatus_from_value (vs ! 1)) (\<lambda>status.
       Inr \<lparr>wc_requirement = requirement, wc_status = status\<rparr>)))"

interpretation WindowCheck: wire_type WindowCheck_to_value WindowCheck_from_value
  by unfold_locales
    (simp_all add: WindowCheck_from_value_def WindowCheck_to_value_def WindowCheck_FIELDS_def struct_back)

definition WindowView_FIELDS :: "string list" where
  "WindowView_FIELDS =
     [''state'', ''requirements'', ''gamePresent'', ''remediation'', ''serverName'', ''version'',
      ''protocolVersion'']"

definition WindowView_to_value :: "WindowView \<Rightarrow> json" where
  "WindowView_to_value v = ser_struct WindowView_FIELDS
     [Some (WindowState_to_value (view_state v)),
      (if view_requirements v = [] then None
       else Some (ser_vec WindowCheck_to_value (view_requirements v))),
      Some (JBool (view_game_present v)),
      map_option JString (view_remediation v),
      map_option JString (view_server_name v),
      Some (JString (view_version v)),
      Some (JInt (view_protocol_version v))]"

definition WindowView_from_value :: "WindowView de" where
  "WindowView_from_value v =
     and_then (de_struct False WindowView_FIELDS v) (\<lambda>vs.
       and_then (required WindowState_from_value (vs ! 0)) (\<lambda>state.
       and_then (defaulted [] (de_vec WindowCheck_from_value) (vs ! 1)) (\<lambda>requirements.
       and_then (defaulted False de_bool (vs ! 2)) (\<lambda>game_present.
       and_then (optional de_string (vs ! 3)) (\<lambda>remediation.
       and_then (optional de_string (vs ! 4)) (\<lambda>server_name.
       and_then (required de_string (vs ! 5)) (\<lambda>version.
       and_then (required de_i64 (vs ! 6)) (\<lambda>protocol_version.
       Inr \<lparr>view_state = state,
         view_requirements = requirements,
         view_game_present = game_present,
         view_remediation = remediation,
         view_server_name = server_name,
         view_version = version,
         view_protocol_version = protocol_version\<rparr>))))))))"

interpretation WindowView: wire_type WindowView_to_value WindowView_from_value
  by unfold_locales
    (simp_all add: WindowView_from_value_def WindowView_to_value_def WindowView_FIELDS_def struct_back)

section \<open>The update manifest\<close>

text \<open>A \<open>u8\<close>: a number outside its range is an error.\<close>

definition de_u8 :: "u8 de" where
  "de_u8 v =
     (case v of
        JInt i \<Rightarrow> if 0 \<le> i \<and> i \<le> 255 then Inr (word_of_int i) else Inl InvalidType
      | _ \<Rightarrow> Inl InvalidType)"

definition ser_u8 :: "u8 \<Rightarrow> json" where
  "ser_u8 w = JInt (uint w)"

interpretation json_u8: exact_type ser_u8 de_u8 any_shape
proof
  fix x :: u8
  have "uint x < 2 ^ LENGTH(8)" by (rule uint_bounded)
  then show "de_u8 (ser_u8 x) = Inr x" by (simp add: de_u8_def ser_u8_def)
next
  fix v and x :: u8
  assume "de_u8 v = Inr x"
  then show "same_json (ser_u8 x) v"
    by (auto simp: de_u8_def ser_u8_def uint_word_of_int split: json.splits if_splits)
qed (simp add: ser_u8_def)

definition UpdateManifest_FIELDS :: "string list" where
  "UpdateManifest_FIELDS =
     [''version'', ''sha256'', ''url'', ''channel'', ''rolloutPercent'', ''signature'']"

definition UpdateManifest_to_value :: "UpdateManifest \<Rightarrow> json" where
  "UpdateManifest_to_value m = ser_struct UpdateManifest_FIELDS
     [Some (JString (um_version m)),
      Some (JString (um_sha256 m)),
      Some (JString (um_url m)),
      Some (JString (um_channel m)),
      Some (ser_u8 (um_rollout_percent m)),
      Some (JString (um_signature m))]"

definition UpdateManifest_from_value :: "UpdateManifest de" where
  "UpdateManifest_from_value v =
     and_then (de_struct True UpdateManifest_FIELDS v) (\<lambda>vs.
       and_then (required de_string (vs ! 0)) (\<lambda>version.
       and_then (required de_string (vs ! 1)) (\<lambda>sha256.
       and_then (required de_string (vs ! 2)) (\<lambda>url.
       and_then (required de_string (vs ! 3)) (\<lambda>channel.
       and_then (required de_u8 (vs ! 4)) (\<lambda>rollout_percent.
       and_then (required de_string (vs ! 5)) (\<lambda>signature.
       Inr \<lparr>um_version = version,
         um_sha256 = sha256,
         um_url = url,
         um_channel = channel,
         um_rollout_percent = rollout_percent,
         um_signature = signature\<rparr>)))))))"

interpretation UpdateManifest: wire_type UpdateManifest_to_value UpdateManifest_from_value
  by unfold_locales
    (simp_all add: UpdateManifest_from_value_def UpdateManifest_to_value_def UpdateManifest_FIELDS_def
      struct_back)

section \<open>The settings file\<close>

definition SettingsFile_FIELDS :: "string list" where
  "SettingsFile_FIELDS = [''allowedBackends'']"

definition SettingsFile_from_value :: "SettingsFile de" where
  "SettingsFile_from_value v =
     and_then (de_struct True SettingsFile_FIELDS v) (\<lambda>vs.
       and_then (defaulted [] (de_vec de_string) (vs ! 0)) (\<lambda>allowed_backends.
       Inr \<lparr>file_allowed_backends = allowed_backends\<rparr>))"

section \<open>Texts\<close>

text \<open>
  \<open>serde_json::from_str\<close> at a type, for a parser \<open>parse\<close> of texts into values and a rendering of errors.
\<close>

definition from_text :: "(string \<Rightarrow> string + json) \<Rightarrow> (de_error \<Rightarrow> string) \<Rightarrow> 'a de \<Rightarrow> string \<Rightarrow> string + 'a" where
  "from_text parse show_error de s =
     (case parse s of
        Inl error \<Rightarrow> Inl error
      | Inr v \<Rightarrow> map_err show_error (de v))"

definition get_code :: "json \<Rightarrow> string option" where
  "get_code v =
     (case v of
        JObject members \<Rightarrow> (case map_of members ''code'' of Some (JString s) \<Rightarrow> Some s | _ \<Rightarrow> None)
      | _ \<Rightarrow> None)"

text \<open>The parameter of the backend client, on JSON values.\<close>

definition json_serde :: "(de_error \<Rightarrow> string) \<Rightarrow> json serde" where
  "json_serde show_error =
     \<lparr>value_to_poll = (\<lambda>v. map_err show_error (CompanionPollResponse_from_value v)),
      value_to_ack = (\<lambda>v. map_err show_error (AttestationAck_from_value v)),
      value_to_verdict = (\<lambda>v. map_err show_error (Verdict_from_value v)),
      value_to_heartbeat = (\<lambda>v. map_err show_error (HeartbeatResponse_from_value v)),
      value_code = get_code\<rparr>"

text \<open>\<open>send_json(body)\<close>: the value of the body.\<close>

definition body_value :: "body \<Rightarrow> json" where
  "body_value content =
     (case content of
        PollBody request \<Rightarrow> CompanionPollRequest_to_value request
      | AttestBody request \<Rightarrow> AttestationRequest_to_value request
      | OutcomeBody request \<Rightarrow> CompanionOutcomeRequest_to_value request
      | HeartbeatBody request \<Rightarrow> HeartbeatRequest_to_value request)"

section \<open>Every name and text of a value\<close>

fun json_words :: "json \<Rightarrow> string list" where
  "json_words (JString s) = [s]"
| "json_words (JArray vs) = concat (map json_words vs)"
| "json_words (JObject ms) = concat (map (\<lambda>(k, v). k # json_words v) ms)"
| "json_words _ = []"

end
