(* ===== verification/Wire_Claims.thy ===== *)
theory Wire_Claims
  imports Serde_Types Contract_Tests
begin

text \<open>
  The companion's two ends of the protocol with the protocol's JSON: the backend client of
  \<open>fiveprotect-companion/src/backend.rs\<close>, reading the values a backend that follows the protocol answers,
  and the local endpoint's handler of \<open>fiveprotect-core/src/local.rs\<close>, reading the value of a body. Then
  the instances of the contract tests' general theorems.
\<close>

section \<open>The backend\<close>

text \<open>A backend that answers every call with one status and one value.\<close>

definition answering :: "u16 \<Rightarrow> json \<Rightarrow> json send_json" where
  "answering status v = (\<lambda>url content. UreqOk status (Inr v))"

lemma post_answer [simp]:
  "post sd from_value (answering status v) self path content = map_err Malformed (from_value v)"
  by (simp add: post_def post_raw_def answering_def)

lemma post_raw_answer [simp]: "post_raw sd (answering status v) self path content = Inr (status, v)"
  by (simp add: post_raw_def answering_def)

text \<open>
  C15: Both ends of the protocol agree. Whatever message a backend answers with, as the JSON the protocol
  gives it, the client returns that message, or the content error that its validation finds; a verdict
  is not looked at when the status says it is pending. And the JSON of each of the client's four
  requests is read back as the request.
\<close>

theorem backend_and_client_agree:
  "poll_pending (json_serde e) (answering s (CompanionPollResponse_to_value poll)) c w =
     (case validate_CompanionPollResponse poll of
        Inl m \<Rightarrow> Inl (BackendError.Malformed m)
      | Inr _ \<Rightarrow> Inr (if cpr_pending poll
          then map_option (\<lambda>n. \<lparr>pending_nonce = n, pending_server_name = cpr_server_name poll\<rparr>) (cpr_nonce poll)
          else None)) \<and>
   attest (json_serde e) (answering s (AttestationAck_to_value ack)) c arq =
     (case validate_AttestationAck ack of Inl m \<Rightarrow> Inl (BackendError.Malformed m) | Inr _ \<Rightarrow> Inr ack) \<and>
   outcome (json_serde e) (answering s (Verdict_to_value v)) c session w =
     (if s = 202 then Inr None
      else case validate_Verdict v of Inl m \<Rightarrow> Inl (BackendError.Malformed m) | Inr _ \<Rightarrow> Inr (Some v)) \<and>
   heartbeat (json_serde e) (answering s (HeartbeatResponse_to_value hrs)) c hrq =
     (case validate_HeartbeatResponse hrs of Inl m \<Rightarrow> Inl (BackendError.Malformed m) | Inr _ \<Rightarrow> Inr hrs) \<and>
   CompanionPollRequest_from_value (body_value (PollBody cpq)) = Inr cpq \<and>
   AttestationRequest_from_value (body_value (AttestBody arq)) = Inr arq \<and>
   CompanionOutcomeRequest_from_value (body_value (OutcomeBody coq)) = Inr coq \<and>
   HeartbeatRequest_from_value (body_value (HeartbeatBody hrq)) = Inr hrq"
  by (auto simp: poll_pending_def attest_def outcome_def heartbeat_def json_serde_def body_value_def
      split: sum.split option.split)

section \<open>The local endpoint\<close>

text \<open>The handler's parameter, for a parser of texts into values.\<close>

definition command_from_text :: "(string \<Rightarrow> string + json) \<Rightarrow> (de_error \<Rightarrow> string) \<Rightarrow> from_str_command" where
  "command_from_text parse show_error = from_text parse show_error LocalAttestCommand_from_value"

text \<open>
  The command that is accepted is the body that was sent. When the body parses to a JSON value in
  the usual shape, an accepted command is that value and no more: the value has no member besides the
  command's four, and its members are the command's. So the worker acts on all of what the page sent.
\<close>

lemma accepted_command_is_the_body:
  assumes "handle_request (command_from_text parse show_error) m p body allowed = Inr (Attest c)"
    and "parse body = Inr v" and "LocalAttestCommand_shape v"
  shows "same_json (LocalAttestCommand_to_value c) v"
proof -
  from assms(1) have "command_from_text parse show_error body = Inr c"
    by (auto simp: handle_request_def split: if_splits sum.splits)
  with assms(2) have "LocalAttestCommand_from_value v = Inr c"
    by (cases "LocalAttestCommand_from_value v") (simp_all add: command_from_text_def from_text_def)
  with assms(3) show ?thesis by (rule LocalAttestCommand.exact)
qed

section \<open>Instances\<close>

definition example_command_value :: json where
  "example_command_value =
     JObject [(''backendUrl'', JString ''https://a''), (''protocolVersion'', JInt 1),
       (''nonce'', JString (replicate 64 (CHR ''a'')))]"

lemma example_command_accepted:
  "handle_request (command_from_text (\<lambda>_. Inr example_command_value) (\<lambda>_. '''')) ''POST'' ''/attest'' '''' [''https://a''] =
     Inr (Attest \<lparr>lac_nonce = replicate 64 (CHR ''a''), lac_backend_url = ''https://a'', lac_server_name = None,
       lac_protocol_version = 1\<rparr>)"
  by code_simp

lemma accepted_command_is_the_body_witness:
  "same_json (LocalAttestCommand_to_value
      \<lparr>lac_nonce = replicate 64 (CHR ''a''), lac_backend_url = ''https://a'', lac_server_name = None,
       lac_protocol_version = 1\<rparr>) example_command_value"
  by (rule accepted_command_is_the_body [OF example_command_accepted refl])
    (simp add: example_command_value_def LocalAttestCommand_shape_def LocalAttestCommand_FIELDS_def struct_shape_def
      any_shape_def)

end
