(* ===== verification/Http_Headers.thy ===== *)
theory Http_Headers
  imports Http_Request
begin

text \<open>
  Requests with headers, as clients send them: what \<open>read_request\<close> of
  \<open>fiveprotect-companion/src/server.rs\<close> makes of a start line, any header lines and a body.
\<close>

section \<open>Header lines\<close>

definition header_line :: "string \<times> string \<Rightarrow> string" where
  "header_line h = fst h @ '': '' @ snd h @ crlf"

text \<open>A name without a colon, and a value that begins and ends with a visible character.\<close>

definition well_formed_header :: "string \<times> string \<Rightarrow> bool" where
  "well_formed_header h \<longleftrightarrow>
     fst h \<noteq> [] \<and> list_all (\<lambda>c. is_visible c \<and> c \<noteq> CHR '':'') (fst h) \<and>
     snd h \<noteq> [] \<and> list_all plain (snd h) \<and> is_visible (hd (snd h)) \<and> is_visible (last (snd h))"

text \<open>The length the headers announce: that of the last \<open>Content-Length\<close>, zero when it is no number.\<close>

fun announced :: "(string \<times> string) list \<Rightarrow> nat \<Rightarrow> nat" where
  "announced [] n = n"
| "announced ((name, value) # hs) n =
     announced hs
       (if eq_ignore_ascii_case name ''content-length'' then unwrap_or (parse_unsigned USIZE_MAX value) 0 else n)"

lemma trim_value:
  assumes "v \<noteq> []" and "is_visible (hd v)" and "is_visible (last v)"
  shows "trim (CHR '' '' # v @ crlf) = v"
proof -
  have "trim_start (CHR '' '' # v @ crlf) = v @ crlf"
    using assms by (cases v) (simp_all add: trim_start_def strip_visible)
  moreover have "trim_end (v @ crlf) = v"
    using assms by (simp add: trim_end_visible)
  ultimately show ?thesis by (simp add: trim_def)
qed

lemma read_headers_end:
  "read_headers \<lparr>arrived = crlf @ rest, at_eof = e\<rparr> n = Inr (n, \<lparr>arrived = rest, at_eof = e\<rparr>)"
proof -
  have "read_line \<lparr>arrived = crlf @ rest, at_eof = e\<rparr> = Inr (crlf, \<lparr>arrived = rest, at_eof = e\<rparr>)"
    using read_line_plain [of "[]" rest e] by simp
  then show ?thesis
    using trim_end_crlf [of "[]"] by (subst read_headers.simps) (simp add: trim_end_visible)
qed

lemma read_headers_line:
  assumes "well_formed_header (name, value)"
  shows "read_headers \<lparr>arrived = header_line (name, value) @ rest, at_eof = e\<rparr> n =
    read_headers \<lparr>arrived = rest, at_eof = e\<rparr> (announced [(name, value)] n)"
proof -
  let ?l = "name @ '': '' @ value"
  have name: "name \<noteq> []" "\<forall>c\<in>set name. is_visible c \<and> c \<noteq> CHR '':''"
    and val: "value \<noteq> []" "\<forall>c\<in>set value. plain c" "is_visible (hd value)" "is_visible (last value)"
    using assms by (auto simp: well_formed_header_def list_all_iff)
  have "\<forall>c\<in>set ?l. plain c"
    using name(2) val(2) by (auto simp: plain_def is_visible_def code_def)
  from read_line_plain [OF this, of rest e]
  have line: "read_line \<lparr>arrived = header_line (name, value) @ rest, at_eof = e\<rparr> =
      Inr (?l @ crlf, \<lparr>arrived = rest, at_eof = e\<rparr>)"
    by (simp add: header_line_def)
  have "trim_end (?l @ crlf) \<noteq> []"
    using name val by (subst trim_end_crlf) (simp add: trim_end_visible)
  moreover have "split_once (CHR '':'') (?l @ crlf) = Some (name, CHR '' '' # value @ crlf)"
    using name(2) by (simp add: split_once_def takeWhile_append2 dropWhile_append2)
  moreover have "trim name = name"
    using name by (intro trim_visible) auto
  moreover have "trim (CHR '' '' # value @ crlf) = value"
    using val by (intro trim_value)
  ultimately show ?thesis
    by (subst read_headers.simps) (simp add: line)
qed

lemma read_headers_lines:
  "list_all well_formed_header hs \<Longrightarrow>
   read_headers \<lparr>arrived = concat (map header_line hs) @ crlf @ rest, at_eof = e\<rparr> n =
     Inr (announced hs n, \<lparr>arrived = rest, at_eof = e\<rparr>)"
proof (induction hs arbitrary: n)
  case Nil
  then show ?case by (simp add: read_headers_end)
next
  case (Cons h hs)
  obtain name val where h: "h = (name, val)" by (cases h)
  with Cons.prems have "well_formed_header (name, val)" by simp
  from read_headers_line [OF this, of "concat (map header_line hs) @ crlf @ rest" e n]
  show ?case using Cons by (simp add: h)
qed

section \<open>Requests\<close>

definition request_text :: "string \<Rightarrow> string \<Rightarrow> (string \<times> string) list \<Rightarrow> string \<Rightarrow> string" where
  "request_text m p hs body = m @ '' '' @ p @ '' HTTP/1.1'' @ crlf @ concat (map header_line hs) @ crlf @ body"

text \<open>Words of a start line, none empty and all visible.\<close>

definition word :: "string \<Rightarrow> bool" where
  "word w \<longleftrightarrow> w \<noteq> [] \<and> list_all is_visible w"

lemma read_request_headers:
  assumes "word m" and "word p" and "list_all well_formed_header hs"
  shows "read_request \<lparr>arrived = request_text m p hs body, at_eof = e\<rparr> =
    (if announced hs 0 > MAX_BODY then Inl (InvalidData ''body exceeds the maximum'')
     else case read_exact (announced hs 0) \<lparr>arrived = body, at_eof = e\<rparr> of
       Inl err \<Rightarrow> Inl err
     | Inr b \<Rightarrow> Inr \<lparr>rq_method = m, rq_path = p, rq_body = from_utf8_lossy b\<rparr>)"
proof -
  let ?start = "m @ '' '' @ p @ '' HTTP/1.1''"
  let ?rest = "concat (map header_line hs) @ crlf @ body"
  have m: "m \<noteq> []" "\<forall>c\<in>set m. is_visible c" and p: "p \<noteq> []" "\<forall>c\<in>set p. is_visible c"
    using assms(1,2) by (simp_all add: word_def list_all_iff)
  have "\<forall>c\<in>set ?start. plain c"
    using m(2) p(2) by (auto simp: plain_def is_visible_def code_def)
  from read_line_plain [OF this, of ?rest e]
  have start: "read_line \<lparr>arrived = request_text m p hs body, at_eof = e\<rparr> =
      Inr (?start @ crlf, \<lparr>arrived = ?rest, at_eof = e\<rparr>)"
    by (simp add: request_text_def)
  have words: "next_word (?start @ crlf) = (Some m, CHR '' '' # p @ CHR '' '' # ''HTTP/1.1'' @ crlf)"
    "next_word (CHR '' '' # p @ CHR '' '' # ''HTTP/1.1'' @ crlf) = (Some p, CHR '' '' # ''HTTP/1.1'' @ crlf)"
    using next_word_visible(1) [OF m, of "p @ CHR '' '' # ''HTTP/1.1'' @ crlf"]
      next_word_visible(2) [OF p, of "''HTTP/1.1'' @ crlf"] by simp_all
  show ?thesis
    unfolding read_request_def start sum.case prod.case words read_headers_lines [OF assms(3)] unwrap_or_simps ..
qed

lemma announced_append: "announced (hs @ hs') n = announced hs' (announced hs n)"
  by (induction hs n rule: announced.induct) simp_all

lemma read_request_announced:
  assumes "word m" and "word p" and "list_all well_formed_header (before @ after)"
    and "list_all (\<lambda>h. \<not> eq_ignore_ascii_case (fst h) ''content-length'') after"
    and "length body \<le> MAX_BODY" and "utf8_valid body"
  shows "read_request
      \<lparr>arrived = request_text m p (before @ (''Content-Length'', show_nat (length body)) # after) (body @ later),
       at_eof = e\<rparr> =
    Inr \<lparr>rq_method = m, rq_path = p, rq_body = body\<rparr>"
proof -
  let ?cl = "(''Content-Length'', show_nat (length body))"
  have "well_formed_header ?cl"
    using show_nat_visible [of _ "length body"] show_nat_not_Nil [of "length body"]
    by (auto simp: well_formed_header_def list_all_iff plain_def is_visible_def code_def)
  with assms(3) have wf: "list_all well_formed_header (before @ ?cl # after)" by simp
  have "announced after n = n" for n
    using assms(4) by (induction after n rule: announced.induct) simp_all
  moreover have "eq_ignore_ascii_case ''Content-Length'' ''content-length''" by code_simp
  moreover have "length body \<le> USIZE_MAX" using assms(5) by (simp add: MAX_BODY_def USIZE_MAX_def)
  ultimately have "announced (before @ ?cl # after) 0 = length body"
    by (simp add: announced_append)
  with assms(5,6) read_request_headers [OF assms(1,2) wf, of "body @ later" e] show ?thesis
    by (simp add: read_exact_def lossy_valid_id)
qed

text \<open>
  C24: a request with any headers is read back as it was meant: the method, the path, and as the body
  exactly the number of bytes announced last, whatever arrives after them, for every method and path
  of visible characters, all header lines that are not announcements after the one that is, and every
  text of at most 16 KiB.
\<close>

theorem request_with_headers_roundtrip:
  assumes "word m" and "word p" and "list_all well_formed_header (before @ after)"
    and "list_all (\<lambda>h. \<not> eq_ignore_ascii_case (fst h) ''content-length'') after"
    and "length body \<le> MAX_BODY" and "utf8_valid body"
  shows "read_request
      \<lparr>arrived = request_text m p (before @ (''Content-Length'', show_nat (length body)) # after) (body @ later),
       at_eof = e\<rparr> =
    Inr \<lparr>rq_method = m, rq_path = p, rq_body = body\<rparr>"
  using assms by (rule read_request_announced)

lemma request_with_headers_roundtrip_witness:
  "read_request
      \<lparr>arrived = request_text ''POST'' ''/attest''
         ([(''Host'', ''127.0.0.1'')] @ (''Content-Length'', show_nat (length ''{}'')) #
          [(''Content-Type'', ''application/json'')]) (''{}'' @ ''x''),
       at_eof = False\<rparr> =
    Inr \<lparr>rq_method = ''POST'', rq_path = ''/attest'', rq_body = ''{}''\<rparr>"
  by (rule request_with_headers_roundtrip)
    (simp_all add: word_def well_formed_header_def plain_def is_visible_def code_def MAX_BODY_def
      utf8_valid_ascii, code_simp)

text \<open>
  C36: The limit of 16 KiB is one of the body alone. A header line of any length is read into memory
  whole, and the request it stands in is answered like any other: for every number there is a request
  of which the endpoint holds a line with more bytes than that.
\<close>

theorem header_lines_unbounded:
  assumes "word m" and "word p"
  shows "read_request \<lparr>arrived = request_text m p [(''X'', replicate (Suc n) (CHR ''a''))] [], at_eof = e\<rparr> =
      Inr \<lparr>rq_method = m, rq_path = p, rq_body = []\<rparr> \<and>
    (\<exists>line rest.
      read_line \<lparr>arrived = header_line (''X'', replicate (Suc n) (CHR ''a'')) @ crlf, at_eof = e\<rparr> = Inr (line, rest) \<and>
      n < length line)"
proof
  let ?h = "(''X'', replicate (Suc n) (CHR ''a''))"
  let ?l = "''X: '' @ replicate (Suc n) (CHR ''a'')"
  have "\<forall>c\<in>set ?l. plain c" by (auto simp: plain_def is_visible_def code_def)
  from read_line_plain [OF this, of crlf e]
  have "read_line \<lparr>arrived = header_line ?h @ crlf, at_eof = e\<rparr> = Inr (?l @ crlf, \<lparr>arrived = crlf, at_eof = e\<rparr>)"
    by (simp add: header_line_def)
  then show "\<exists>line rest.
      read_line \<lparr>arrived = header_line ?h @ crlf, at_eof = e\<rparr> = Inr (line, rest) \<and> n < length line"
    by (intro exI conjI) auto
  have "\<not> eq_ignore_ascii_case ''X'' ''content-length''" by code_simp
  moreover have "well_formed_header ?h"
    by (simp add: well_formed_header_def plain_def is_visible_def code_def list_all_iff)
  ultimately show "read_request \<lparr>arrived = request_text m p [?h] [], at_eof = e\<rparr> =
      Inr \<lparr>rq_method = m, rq_path = p, rq_body = []\<rparr>"
    using lossy_valid_id [of "[]"] utf8_valid_ascii [of "[]"] assms
    by (subst read_request_headers) (simp_all add: MAX_BODY_def read_exact_def)
qed

lemma header_lines_unbounded_witness:
  "\<exists>line rest.
     read_line \<lparr>arrived = header_line (''X'', replicate (Suc 1000000) (CHR ''a'')) @ crlf, at_eof = False\<rparr> =
       Inr (line, rest) \<and> 1000000 < length line"
proof -
  have "word ''POST''" "word ''/attest''" by (simp_all add: word_def is_visible_def code_def)
  from header_lines_unbounded [OF this, of 1000000 False] show ?thesis by (rule conjunct2)
qed

end
