(* ===== verification/Limits.thy ===== *)
theory Limits
  imports Backend_Client Window_State Worker
begin

text \<open>
  Times, sizes and positions: the time-outs of \<open>backend.rs\<close>, \<open>server.rs\<close> and \<open>main.rs\<close> and how they relate,
  the sizes of the two windows, the place of the menu, and the worker's constructor. Positions are
  numbers of the type \<open>f64\<close>, whose operations are a parameter.
\<close>

section \<open>Time-outs, in seconds\<close>

definition READ_TIMEOUT_HEADROOM :: nat where
  "READ_TIMEOUT_HEADROOM = 10"

definition CONNECT_TIMEOUT :: nat where
  "CONNECT_TIMEOUT = 8"

text \<open>\<open>timeout_connect\<close> and \<open>timeout_read\<close> of the agent \<open>Client::new\<close> builds, and its name.\<close>

record agent =
  timeout_connect :: nat
  timeout_read :: nat
  user_agent :: string

definition agent_of :: "string \<Rightarrow> agent" where
  "agent_of companion_version =
     \<lparr>timeout_connect = CONNECT_TIMEOUT,
      timeout_read = unat COMPANION_POLL_TIMEOUT_SECONDS + READ_TIMEOUT_HEADROOM,
      user_agent = ''FiveProtect/'' @ companion_version\<rparr>"

definition IO_TIMEOUT :: nat where
  "IO_TIMEOUT = 3"

definition SHUTDOWN_GRACE :: nat where
  "SHUTDOWN_GRACE = 3"

text \<open>
  The agent waits longer than the backend is asked to: a poll that finds nothing and an outcome that is
  not there yet are answers, not errors.
\<close>

lemma agent_outlasts_the_backend:
  assumes "0 \<le> seconds" and "seconds \<in> {i64_from_u32 COMPANION_POLL_TIMEOUT_SECONDS, OUTCOME_WAIT_SECONDS}"
  shows "seconds + 10 \<le> int (timeout_read (agent_of version))"
  using assms
  by (auto simp: agent_of_def READ_TIMEOUT_HEADROOM_def COMPANION_POLL_TIMEOUT_SECONDS_def OUTCOME_WAIT_SECONDS_def
      i64_from_u32_def)

text \<open>
  The exit does not: a goodbye to a backend that takes its time is cut off, which is why the wait of
  \<open>Companion\<close> may end at any time.
\<close>

lemma exit_may_cut_the_goodbye: "SHUTDOWN_GRACE < timeout_connect (agent_of version)"
  by (simp add: SHUTDOWN_GRACE_def agent_of_def CONNECT_TIMEOUT_def)

section \<open>The worker's constructor\<close>

definition Worker_new :: "Client \<Rightarrow> string \<Rightarrow> string \<Rightarrow> Worker" where
  "Worker_new client version build_hash =
     \<lparr>wk_client = client, wk_version = version, wk_build_hash = build_hash\<rparr>"

section \<open>Windows\<close>

text \<open>Logical pixels; both are whole numbers.\<close>

definition WINDOW_WIDTH :: nat where
  "WINDOW_WIDTH = 420"

definition WINDOW_HEIGHT :: nat where
  "WINDOW_HEIGHT = 640"

definition MENU_WIDTH :: nat where
  "MENU_WIDTH = 208"

definition MENU_HEIGHT :: nat where
  "MENU_HEIGHT = 132"

record 'f f64_ops =
  f64 :: "nat \<Rightarrow> 'f"
  f64_mult :: "'f \<Rightarrow> 'f \<Rightarrow> 'f"
  f64_minus :: "'f \<Rightarrow> 'f \<Rightarrow> 'f"
  f64_max :: "'f \<Rightarrow> 'f \<Rightarrow> 'f"

datatype 'f window_call =
    SetOuterPosition 'f 'f
  | SetVisible bool
  | SetFocus

definition show_menu_at :: "'f f64_ops \<Rightarrow> 'f \<Rightarrow> 'f \<Rightarrow> 'f \<Rightarrow> 'f window_call list" where
  "show_menu_at ops scale x y =
     (let width = f64_mult ops (f64 ops MENU_WIDTH) scale;
          height = f64_mult ops (f64 ops MENU_HEIGHT) scale
      in [SetOuterPosition
            (f64_max ops (f64_minus ops x width) (f64 ops 0))
            (f64_max ops (f64_minus ops y height) (f64 ops 0)),
          SetVisible True,
          SetFocus])"

text \<open>
  On any ordering of the numbers for which \<open>max\<close> is an upper bound, as it is for those that are not NaN,
  the menu is placed on the screen, and it is placed before it is shown.
\<close>

lemma menu_on_screen:
  fixes ops :: "('f :: order) f64_ops"
  assumes "\<And>a b. b \<le> f64_max ops a b"
  shows "case show_menu_at ops scale x y of
      SetOuterPosition px py # calls \<Rightarrow> f64 ops 0 \<le> px \<and> f64 ops 0 \<le> py \<and> calls = [SetVisible True, SetFocus]
    | _ \<Rightarrow> False"
  using assms by (simp add: show_menu_at_def)

end
