(* ===== verification/Build_Script.thy ===== *)
theory Build_Script
  imports Main
begin

text \<open>
  The build script of the companion, \<open>fiveprotect-companion/build.rs\<close>: what it tells the C++ compiler
  (the crate \<open>cc\<close>, of which the calls made are recorded) and what it prints for cargo. A path is the
  list of its components.
\<close>

type_synonym path = "string list"

section \<open>Data\<close>

record target =
  msvc :: bool
  windows :: bool

text \<open>The calls on \<open>cc::Build\<close>.\<close>

datatype cc_call =
    Cpp bool
  | Std string
  | Include path
  | Flag string
  | Define string
  | File path
  | Compile string

datatype cargo_line =
    RerunIfChanged path
  | LinkLib string

definition native_headers :: "path \<Rightarrow> path \<Rightarrow> path list" where
  "native_headers native protocol =
     [native @ [''include'', ''fiveprotect'', ''engine_abi.h''],
      native @ [''include'', ''fiveprotect'', ''probes.hpp''],
      native @ [''include'', ''fiveprotect'', ''windows_source.hpp''],
      protocol @ [''generated'', ''cpp'', ''fiveprotect_protocol.hpp''],
      protocol @ [''cpp'', ''include'', ''fiveprotect_json.hpp'']]"

definition native_sources :: "path \<Rightarrow> path list" where
  "native_sources native =
     [native @ [''src'', ''probes.cpp''],
      native @ [''src'', ''windows_source.cpp''],
      native @ [''src'', ''abi.cpp'']]"

section \<open>The script\<close>

text \<open>\<open>ancestors().nth(n)\<close>: the path with its last \<open>n\<close> components removed, as long as there are as many.\<close>

definition ancestor :: "nat \<Rightarrow> path \<Rightarrow> path option" where
  "ancestor n p = (if n \<le> length p then Some (take (length p - n) p) else None)"

definition repository_root :: "path \<Rightarrow> path" where
  "repository_root manifest = (case ancestor 4 manifest of Some root \<Rightarrow> root | None \<Rightarrow> [''.''])"

definition build_main :: "target \<Rightarrow> path \<Rightarrow> cc_call list \<times> cargo_line list" where
  "build_main t manifest =
     (let root = repository_root manifest;
          native = root @ [''apps'', ''companion'', ''native''];
          protocol = root @ [''packages'', ''protocol''];
          sources = native_sources native;
          setup =
            [Cpp True,
             Std ''c++20'',
             Include (native @ [''include'']),
             Include (protocol @ [''cpp'', ''include'']),
             Include (protocol @ [''generated'', ''cpp''])];
          flags =
            (if msvc t then [Flag ''/utf-8'', Flag ''/permissive-'', Flag ''/W4'']
             else [Flag ''-Wall'', Flag ''-Wextra'']);
          defines =
            (if windows t
             then [Define ''WIN32_LEAN_AND_MEAN'', Define ''NOMINMAX'', Define ''UNICODE'', Define ''_UNICODE'']
             else []);
          watched = map RerunIfChanged sources @ map RerunIfChanged (native_headers native protocol);
          linked =
            (if windows t then [LinkLib ''dylib=tbs'', LinkLib ''dylib=user32'', LinkLib ''dylib=advapi32''] else [])
      in (setup @ flags @ defines @ map File sources @ [Compile ''fiveprotect_scan''], watched @ linked))"

section \<open>Lemmas\<close>

text \<open>Everything that is compiled is watched, and the library is compiled last.\<close>

lemma compiled_files_are_watched:
  "case build_main t manifest of (calls, lines) \<Rightarrow>
     (\<forall>p. File p \<in> set calls \<longrightarrow> RerunIfChanged p \<in> set lines) \<and> last calls = Compile ''fiveprotect_scan''"
  by (auto simp: build_main_def Let_def)

text \<open>Every watched file is under the root, four directories above the crate.\<close>

lemma watched_under_root:
  assumes "4 \<le> length manifest" and "RerunIfChanged p \<in> set (snd (build_main t manifest))"
  shows "\<exists>inside. p = take (length manifest - 4) manifest @ inside"
  using assms
  by (auto simp: build_main_def Let_def repository_root_def ancestor_def native_sources_def native_headers_def)

text \<open>Off Windows nothing of Windows is named.\<close>

lemma portable_build:
  "\<not> windows t \<Longrightarrow> Define d \<notin> set (fst (build_main t manifest)) \<and> LinkLib l \<notin> set (snd (build_main t manifest))"
  by (auto simp: build_main_def Let_def)

end
