(* ===== verification/State_Tests.thy ===== *)
theory State_Tests
  imports Serde_Types
begin

text \<open>
  The unit tests of the window's state machine, \<open>fiveprotect-core/src/state.rs\<close>: each test as the
  condition it asserts, for the model's definitions.
\<close>

named_theorems test_defs \<open>the tests of this module\<close>

definition a_connect_walks_idle_checking_ready :: bool where
  [test_defs]: "a_connect_walks_idle_checking_ready =
     (let state = Idle;
          first = next_state state AttestRequested;
          second = next_state first AttestationAccepted
      in first = Checking \<and> second = Ready)"

definition a_refusal_blocks_from_anywhere :: bool where
  [test_defs]: "a_refusal_blocks_from_anywhere =
     list_all (\<lambda>start. next_state start (Refused None) = Blocked) [Idle, Checking, Ready, Blocked]"

definition nothing_reaches_ready_without_a_check_first :: bool where
  [test_defs]: "nothing_reaches_ready_without_a_check_first =
     list_all (\<lambda>start. next_state start AttestationAccepted \<noteq> Ready) [Idle, Blocked]"

definition a_late_acknowledgement_leaves_the_state_alone :: bool where
  [test_defs]: "a_late_acknowledgement_leaves_the_state_alone \<longleftrightarrow>
     next_state Ready AttestationAccepted = Ready \<and> next_state Idle AttestationAccepted = Idle"

definition a_new_connect_restarts_the_check_even_from_blocked :: bool where
  [test_defs]: "a_new_connect_restarts_the_check_even_from_blocked \<longleftrightarrow>
     next_state Blocked AttestRequested = Checking"

definition the_session_ending_returns_to_idle :: bool where
  [test_defs]: "the_session_ending_returns_to_idle \<longleftrightarrow> next_state Ready SessionEnded = Idle"

definition remediation_is_only_shown_on_the_blocked_screen :: bool where
  [test_defs]: "remediation_is_only_shown_on_the_blocked_screen =
     (let text' = Some (''Aktiviere die Speicherintegrit'' @ [CHR 0xC3, CHR 0xA4] @ ''t.'');
          blocked = view Blocked text' None ''0.1.0'' 1
      in view_remediation blocked = text' \<and>
         list_all (\<lambda>state. view_remediation (view state text' None ''0.1.0'' 1) = None)
           [Idle, Checking, Ready])"

text \<open>\<open>json["state"]\<close> of an object, and \<open>json.get("remediation")\<close>.\<close>

definition get_member :: "json \<Rightarrow> string \<Rightarrow> json option" where
  "get_member v key = (case v of JObject members \<Rightarrow> map_of members key | _ \<Rightarrow> None)"

definition the_view_serializes_to_what_the_window_expects :: bool where
  [test_defs]: "the_view_serializes_to_what_the_window_expects =
     (let v = view Ready None (Some ''Nordstadt Roleplay'') ''0.1.0'' 1;
          json = WindowView_to_value v
      in get_member json ''state'' = Some (JString ''ready'') \<and>
         get_member json ''serverName'' = Some (JString ''Nordstadt Roleplay'') \<and>
         get_member json ''protocolVersion'' = Some (JInt 1) \<and>
         get_member json ''remediation'' = None)"

lemma state_tests_pass:
  "a_connect_walks_idle_checking_ready" "a_refusal_blocks_from_anywhere"
  "nothing_reaches_ready_without_a_check_first" "a_late_acknowledgement_leaves_the_state_alone"
  "a_new_connect_restarts_the_check_even_from_blocked" "the_session_ending_returns_to_idle"
  "remediation_is_only_shown_on_the_blocked_screen"
  by (simp_all add: test_defs view_def)

lemma view_serialization_test_passes: "the_view_serializes_to_what_the_window_expects"
  by code_simp

end
