(* ===== verification/Local_Tests.thy ===== *)
theory Local_Tests
  imports Serde_Types
begin

text \<open>
  The unit tests of the localhost contract, \<open>fiveprotect-core/src/local.rs\<close>: each test as the condition
  it asserts, for any \<open>from_str\<close> that reads the command texts the tests format and refuses the text
  that is not JSON.
\<close>

definition trusted :: "string list" where
  "trusted = [''https://api.fiveprotect.dev'']"

definition quote :: string where
  "quote = [CHR 0x22]"

definition command_json :: "string \<Rightarrow> string \<Rightarrow> i64 \<Rightarrow> string" where
  "command_json nonce backend version =
     ''{'' @ quote @ ''nonce'' @ quote @ '':'' @ quote @ nonce @ quote @ '','' @
     quote @ ''backendUrl'' @ quote @ '':'' @ quote @ backend @ quote @ '','' @
     quote @ ''protocolVersion'' @ quote @ '':'' @ show_int version @ ''}''"

definition valid_nonce :: string where
  "valid_nonce = replicate 64 (CHR ''a'')"

definition malformed :: "RejectReason + Accepted \<Rightarrow> bool" where
  "malformed result = (case result of Inl (RejectReason.Malformed _) \<Rightarrow> True | _ \<Rightarrow> False)"

definition invalid :: "RejectReason + Accepted \<Rightarrow> bool" where
  "invalid result = (case result of Inl (Invalid _) \<Rightarrow> True | _ \<Rightarrow> False)"

section \<open>The tests\<close>

definition accepts_a_well_formed_command :: "from_str_command \<Rightarrow> bool" where
  "accepts_a_well_formed_command from_str =
     (let body = command_json valid_nonce ''https://api.fiveprotect.dev'' 1
      in case handle_request from_str ''POST'' ''/attest'' body trusted of
           Inr (Attest _) \<Rightarrow> True
         | _ \<Rightarrow> False)"

definition accepts_a_trailing_slash_but_nothing_else :: "from_str_command \<Rightarrow> bool" where
  "accepts_a_trailing_slash_but_nothing_else from_str =
     (let body = command_json valid_nonce ''https://api.fiveprotect.dev'' 1
      in is_ok (handle_request from_str ''POST'' ''/attest/'' body trusted) \<and>
         handle_request from_str ''POST'' ''/attest/extra'' body trusted = Inl WrongRoute)"

definition refuses_every_other_route_and_method :: "from_str_command \<Rightarrow> bool" where
  "refuses_every_other_route_and_method from_str =
     (let body = command_json valid_nonce ''https://api.fiveprotect.dev'' 1
      in list_all (\<lambda>(method, path). handle_request from_str method path body trusted = Inl WrongRoute)
           [(''GET'', ''/attest''), (''GET'', ''/''), (''POST'', ''/status''), (''POST'', ''/snapshot''),
            (''DELETE'', ''/attest''), (''OPTIONS'', ''/attest'')])"

definition refuses_a_body_that_is_not_json :: "from_str_command \<Rightarrow> bool" where
  "refuses_a_body_that_is_not_json from_str =
     malformed (handle_request from_str ''POST'' ''/attest'' ''not json'' trusted)"

definition refuses_a_nonce_that_is_the_wrong_shape :: "from_str_command \<Rightarrow> bool" where
  "refuses_a_nonce_that_is_the_wrong_shape from_str =
     list_all (\<lambda>nonce.
       invalid (handle_request from_str ''POST'' ''/attest''
         (command_json nonce ''https://api.fiveprotect.dev'' 1) trusted))
       [''short'', replicate 64 (CHR ''z''), replicate 63 (CHR ''a'')]"

definition refuses_a_protocol_version_it_does_not_speak :: "from_str_command \<Rightarrow> bool" where
  "refuses_a_protocol_version_it_does_not_speak from_str =
     (let body = command_json valid_nonce ''https://api.fiveprotect.dev'' 99
      in handle_request from_str ''POST'' ''/attest'' body trusted = Inl (VersionMismatch 99 1))"

definition refuses_a_backend_the_build_does_not_trust :: "from_str_command \<Rightarrow> bool" where
  "refuses_a_backend_the_build_does_not_trust from_str =
     list_all (\<lambda>backend.
       handle_request from_str ''POST'' ''/attest'' (command_json valid_nonce backend 1) trusted =
         Inl UntrustedBackend)
       [''https://evil.example'', ''http://api.fiveprotect.dev'',
        ''https://api.fiveprotect.dev.evil.example'',
        ''https://evil.example/?x=https://api.fiveprotect.dev'', '''', ''not a url'']"

definition matches_a_trusted_backend_regardless_of_path_or_case :: "from_str_command \<Rightarrow> bool" where
  "matches_a_trusted_backend_regardless_of_path_or_case from_str =
     list_all (\<lambda>backend.
       is_ok (handle_request from_str ''POST'' ''/attest'' (command_json valid_nonce backend 1) trusted))
       [''https://api.fiveprotect.dev'', ''https://API.fiveprotect.dev'',
        ''https://api.fiveprotect.dev/'', ''https://api.fiveprotect.dev/v1/attest'']"

definition distinguishes_ports :: "from_str_command \<Rightarrow> bool" where
  "distinguishes_ports from_str =
     (let allowed = [''http://127.0.0.1:8080''];
          ok = command_json valid_nonce ''http://127.0.0.1:8080'' 1;
          wrong = command_json valid_nonce ''http://127.0.0.1:9090'' 1
      in is_ok (handle_request from_str ''POST'' ''/attest'' ok allowed) \<and>
         handle_request from_str ''POST'' ''/attest'' wrong allowed = Inl UntrustedBackend)"

definition the_acknowledgement_carries_no_result :: bool where
  "the_acknowledgement_carries_no_result =
     (case LocalAttestAck_to_value (acknowledgement ''0.1.0'') of
        JObject members \<Rightarrow>
          sort (map fst members) = [''accepted'', ''companionVersion'', ''protocolVersion'']
      | _ \<Rightarrow> False)"

definition the_port_range_matches_the_protocol :: bool where
  "the_port_range_matches_the_protocol \<longleftrightarrow>
     PORT_RANGE_START = 52800 \<and> PORT_RANGE_END = 52899 \<and> length port_range = 100"

section \<open>They pass\<close>

text \<open>What the tests need of the parser: a command's text is read as the command.\<close>

definition plain_text :: "string \<Rightarrow> bool" where
  "plain_text s = list_all (\<lambda>c. is_visible c \<and> c \<noteq> CHR 0x22 \<and> c \<noteq> CHR 0x5C \<or> c = CHR '' '') s"

definition reads_commands :: "from_str_command \<Rightarrow> bool" where
  "reads_commands from_str \<longleftrightarrow>
     (\<forall>nonce backend version. plain_text nonce \<and> plain_text backend \<and> 0 \<le> version \<and> version < 2 ^ 63 \<longrightarrow>
        from_str (command_json nonce backend version) =
          Inr \<lparr>lac_nonce = nonce, lac_backend_url = backend, lac_server_name = None,
            lac_protocol_version = version\<rparr>)"

text \<open>
  A reader of just these texts, so that the hypothesis can hold: the value of a quoted member, then the
  rest.
\<close>

definition read_member :: "string \<Rightarrow> string \<Rightarrow> (string \<times> string) option" where
  "read_member before s =
     Option.bind (strip_prefix before s) (\<lambda>rest.
       map_option (Pair (takeWhile (\<lambda>c. c \<noteq> CHR 0x22) rest))
         (strip_prefix quote (dropWhile (\<lambda>c. c \<noteq> CHR 0x22) rest)))"

definition read_command :: from_str_command where
  "read_command s =
     (case Option.bind (read_member (''{'' @ quote @ ''nonce'' @ quote @ '':'' @ quote) s) (\<lambda>(nonce, s).
           Option.bind (read_member ('','' @ quote @ ''backendUrl'' @ quote @ '':'' @ quote) s) (\<lambda>(backend, s).
           Option.bind (strip_prefix ('','' @ quote @ ''protocolVersion'' @ quote @ '':'') s) (\<lambda>s.
           map_option
             (\<lambda>n. \<lparr>lac_nonce = nonce, lac_backend_url = backend, lac_server_name = None,
               lac_protocol_version = int n\<rparr>)
             (parse_unsigned 9223372036854775807 (butlast s))))) of
        None \<Rightarrow> Inl ''expected value''
      | Some command \<Rightarrow> Inr command)"

lemma read_member:
  assumes "CHR 0x22 \<notin> set v"
  shows "read_member before (before @ v @ quote @ rest) = Some (v, rest)"
proof -
  have "takeWhile (\<lambda>c. c \<noteq> CHR 0x22) (v @ quote @ rest) = v"
    using assms by (subst takeWhile_append2) (auto simp: quote_def)
  moreover have "dropWhile (\<lambda>c. c \<noteq> CHR 0x22) (v @ quote @ rest) = quote @ rest"
    using assms by (subst dropWhile_append2) (auto simp: quote_def)
  ultimately show ?thesis by (simp add: read_member_def)
qed

lemma read_command_reads: "reads_commands read_command \<and> (\<exists>e. read_command ''not json'' = Inl e)"
proof
  have "read_command (command_json nonce backend version) =
      Inr \<lparr>lac_nonce = nonce, lac_backend_url = backend, lac_server_name = None, lac_protocol_version = version\<rparr>"
    if "plain_text nonce" "plain_text backend" "0 \<le> version" "version < 2 ^ 63" for nonce backend version
  proof -
    let ?last = "'','' @ quote @ ''protocolVersion'' @ quote @ '':'' @ show_int version @ ''}''"
    let ?mid = "'','' @ quote @ ''backendUrl'' @ quote @ '':'' @ quote"
    have "CHR 0x22 \<notin> set nonce" "CHR 0x22 \<notin> set backend"
      using that by (auto simp: plain_text_def list_all_iff)
    note m = this [THEN read_member]
    have "command_json nonce backend version =
        (''{'' @ quote @ ''nonce'' @ quote @ '':'' @ quote) @ nonce @ quote @ ?mid @ backend @ quote @ ?last"
      by (simp add: command_json_def)
    moreover have "read_member ?mid (?mid @ backend @ quote @ ?last) = Some (backend, ?last)"
      by (rule m)
    moreover have "strip_prefix ('','' @ quote @ ''protocolVersion'' @ quote @ '':'') ?last = Some (show_int version @ ''}'')"
      by (metis append_assoc strip_prefix_append)
    moreover have "parse_unsigned 9223372036854775807 (show_int version) = Some (nat version)"
      using that by (simp add: show_int_def del: show_nat.simps)
    ultimately show ?thesis
      using m(1) that by (simp only: read_command_def bind.bind_lunit option.case prod.case) (simp add: butlast_append)
  qed
  then show "reads_commands read_command"
    by (simp add: reads_commands_def)
  show "\<exists>e. read_command ''not json'' = Inl e"
    by (simp add: read_command_def read_member_def strip_prefix_def quote_def)
qed

text \<open>The rest of the handler, once the body is read.\<close>

definition judged :: "string \<Rightarrow> string \<Rightarrow> LocalAttestCommand \<Rightarrow> string list \<Rightarrow> RejectReason + Accepted" where
  "judged method path command allowed = handle_request (\<lambda>_. Inr command) method path [] allowed"

lemma handle_command:
  "reads_commands from_str \<Longrightarrow> plain_text nonce \<Longrightarrow> plain_text backend \<Longrightarrow> 0 \<le> version \<Longrightarrow>
   version < 2 ^ 63 \<Longrightarrow> handle_request from_str method path (command_json nonce backend version) allowed =
     judged method path \<lparr>lac_nonce = nonce, lac_backend_url = backend, lac_server_name = None,
            lac_protocol_version = version\<rparr> allowed"
  by (simp add: reads_commands_def judged_def handle_request_def)

lemma plain_nonces [simp]: "plain_text valid_nonce" "plain_text (replicate n (CHR ''z''))"
  "plain_text (replicate n (CHR ''a''))"
  by (simp_all add: plain_text_def valid_nonce_def is_visible_def list_all_iff code_def)

lemma post_attest:
  "eq_ignore_ascii_case ''POST'' ''POST''" "trim_end_matches (CHR ''/'') ''/attest'' = ''/attest''"
  "trim_end_matches (CHR ''/'') ''/attest/'' = ''/attest''"
  by code_simp+

lemma judged_attest:
  "path \<in> {''/attest'', ''/attest/''} \<Longrightarrow> length backend \<le> 256 \<Longrightarrow> 1 \<le> version \<Longrightarrow>
   judged ''POST'' path
       \<lparr>lac_nonce = valid_nonce, lac_backend_url = backend, lac_server_name = None,
        lac_protocol_version = version\<rparr> allowed =
     (if version \<noteq> 1 then Inl (VersionMismatch version 1)
      else if is_allowed_backend backend allowed
      then Inr (Attest \<lparr>lac_nonce = valid_nonce, lac_backend_url = backend, lac_server_name = None,
        lac_protocol_version = version\<rparr>)
      else Inl UntrustedBackend)"
  (is "_ \<Longrightarrow> _ \<Longrightarrow> _ \<Longrightarrow> judged _ _ ?c _ = _")
proof -
  assume "path \<in> {''/attest'', ''/attest/''}" "length backend \<le> 256" "1 \<le> version"
  moreover from this have "is_ok (validate_LocalAttestCommand ?c)"
    by (simp add: validate_LocalAttestCommand_def valid_nonce_def is_ascii_hexdigit_def is_ascii_digit_def
        code_def list_all_iff)
  ultimately show ?thesis
    by (auto simp: judged_def handle_request_def post_attest is_ok_def PROTOCOL_VERSION_def
        i64_from_u32_def split: sum.splits)
qed

lemma judged_invalid:
  "is_ok (validate_LocalAttestCommand c) = False \<Longrightarrow> invalid (judged ''POST'' ''/attest'' c allowed)"
  by (auto simp: judged_def handle_request_def post_attest is_ok_def invalid_def split: sum.splits)

lemma judged_elsewhere:
  "\<not> eq_ignore_ascii_case method ''POST'' \<or> trim_end_matches (CHR ''/'') path \<noteq> ''/attest'' \<Longrightarrow>
   judged method path c allowed = Inl WrongRoute"
  by (auto simp: judged_def handle_request_def)

text \<open>
  The backends of the tests, against their lists. None begins or ends with white space, so the origin
  can be computed without \<open>trim\<close>.
\<close>

definition tight :: "string \<Rightarrow> bool" where
  "tight s \<longleftrightarrow> s = [] \<or> is_visible (hd s) \<and> is_visible (last s)"

definition tight_origin :: "string \<Rightarrow> string option" where
  "tight_origin s =
     (let lowered = to_ascii_lowercase s
      in case (case strip_prefix ''https://'' lowered of
                 Some rest \<Rightarrow> Some (''https'', rest)
               | None \<Rightarrow> map_option (\<lambda>rest. (''http'', rest)) (strip_prefix ''http://'' lowered)) of
           None \<Rightarrow> None
         | Some (scheme, rest) \<Rightarrow>
             (let authority = takeWhile (\<lambda>c. \<not> ends_authority c) rest
              in if authority = [] then None else Some (scheme @ ''://'' @ authority)))"

lemma origin_of_tight: "tight s \<Longrightarrow> origin_of s = tight_origin s"
proof -
  assume "tight s"
  then have "trim s = s"
    by (cases "s = []") (simp_all add: tight_def trim_visible trim_id)
  then show ?thesis
    by (auto simp: origin_of_def tight_origin_def Let_def ends_authority_def split: option.split)
qed

lemma allowed_backend_origin:
  "is_allowed_backend b allowed \<longleftrightarrow> origin_of b \<noteq> None \<and> origin_of b \<in> origin_of ` set allowed"
proof -
  have "set (List.map_filter origin_of allowed) = {o'. Some o' \<in> origin_of ` set allowed}"
    by (induction allowed) (auto split: option.splits)
  then show ?thesis
    by (auto simp: is_allowed_backend_def list_ex_iff split: option.split)
qed

lemma allowed_tight:
  "tight b \<Longrightarrow> list_all tight allowed \<Longrightarrow>
   is_allowed_backend b allowed \<longleftrightarrow> tight_origin b \<noteq> None \<and> list_ex (\<lambda>a. tight_origin b = tight_origin a) allowed"
  by (auto simp: allowed_backend_origin origin_of_tight list_all_iff list_ex_iff image_iff)

lemma test_backends:
  "list_all (\<lambda>b. is_allowed_backend b trusted)
     [''https://api.fiveprotect.dev'', ''https://API.fiveprotect.dev'',
      ''https://api.fiveprotect.dev/'', ''https://api.fiveprotect.dev/v1/attest'']"
  "list_all (\<lambda>b. \<not> is_allowed_backend b trusted)
     [''https://evil.example'', ''http://api.fiveprotect.dev'',
      ''https://api.fiveprotect.dev.evil.example'',
      ''https://evil.example/?x=https://api.fiveprotect.dev'', '''', ''not a url'']"
  "is_allowed_backend ''http://127.0.0.1:8080'' [''http://127.0.0.1:8080'']"
  "\<not> is_allowed_backend ''http://127.0.0.1:9090'' [''http://127.0.0.1:8080'']"
proof -
  have "list_all tight (''http://127.0.0.1:8080'' # ''http://127.0.0.1:9090'' # trusted)"
    by code_simp
  then have allowed: "list_all tight trusted" "tight ''http://127.0.0.1:8080''" "tight ''http://127.0.0.1:9090''"
    by simp_all
  show "is_allowed_backend ''http://127.0.0.1:8080'' [''http://127.0.0.1:8080'']"
    by (subst allowed_tight) (simp add: allowed, simp add: allowed, code_simp)
  show "\<not> is_allowed_backend ''http://127.0.0.1:9090'' [''http://127.0.0.1:8080'']"
    by (subst allowed_tight) (simp add: allowed, simp add: allowed, code_simp)
  have good: "list_all tight
     [''https://api.fiveprotect.dev'', ''https://API.fiveprotect.dev'',
      ''https://api.fiveprotect.dev/'', ''https://api.fiveprotect.dev/v1/attest'']"
    and bad: "list_all tight
     [''https://evil.example'', ''http://api.fiveprotect.dev'',
      ''https://api.fiveprotect.dev.evil.example'',
      ''https://evil.example/?x=https://api.fiveprotect.dev'', '''', ''not a url'']"
    by code_simp+
  have "list_all (\<lambda>b. tight_origin b = Some ''https://api.fiveprotect.dev'')
     [''https://api.fiveprotect.dev'', ''https://API.fiveprotect.dev'',
      ''https://api.fiveprotect.dev/'', ''https://api.fiveprotect.dev/v1/attest'']"
    by code_simp
  with good allowed(1) show "list_all (\<lambda>b. is_allowed_backend b trusted)
     [''https://api.fiveprotect.dev'', ''https://API.fiveprotect.dev'',
      ''https://api.fiveprotect.dev/'', ''https://api.fiveprotect.dev/v1/attest'']"
    by (simp add: allowed_tight) (simp add: trusted_def)
  have "list_all (\<lambda>b. tight_origin b \<noteq> Some ''https://api.fiveprotect.dev'')
     [''https://evil.example'', ''http://api.fiveprotect.dev'',
      ''https://api.fiveprotect.dev.evil.example'',
      ''https://evil.example/?x=https://api.fiveprotect.dev'', '''', ''not a url'']"
    by code_simp
  moreover have "tight_origin ''https://api.fiveprotect.dev'' = Some ''https://api.fiveprotect.dev''"
    by code_simp
  ultimately show "list_all (\<lambda>b. \<not> is_allowed_backend b trusted)
     [''https://evil.example'', ''http://api.fiveprotect.dev'',
      ''https://api.fiveprotect.dev.evil.example'',
      ''https://evil.example/?x=https://api.fiveprotect.dev'', '''', ''not a url'']"
    using bad allowed(1)
    by (simp add: allowed_tight) (simp add: trusted_def)
qed

lemma local_tests_pass:
  assumes reads: "reads_commands from_str" and not_json: "\<exists>e. from_str ''not json'' = Inl e"
  shows "accepts_a_well_formed_command from_str" "accepts_a_trailing_slash_but_nothing_else from_str"
    "refuses_every_other_route_and_method from_str" "refuses_a_body_that_is_not_json from_str"
    "refuses_a_nonce_that_is_the_wrong_shape from_str"
    "refuses_a_protocol_version_it_does_not_speak from_str"
    "refuses_a_backend_the_build_does_not_trust from_str"
    "matches_a_trusted_backend_regardless_of_path_or_case from_str" "distinguishes_ports from_str"
proof -
  have plain: "list_all plain_text
      [''https://api.fiveprotect.dev'', ''short'', ''https://evil.example'', ''http://api.fiveprotect.dev'',
        ''https://api.fiveprotect.dev.evil.example'',
        ''https://evil.example/?x=https://api.fiveprotect.dev'', '''', ''not a url'',
        ''https://API.fiveprotect.dev'', ''https://api.fiveprotect.dev/'',
        ''https://api.fiveprotect.dev/v1/attest'', ''http://127.0.0.1:8080'', ''http://127.0.0.1:9090'']"
    by code_simp
  note tests = handle_command [OF reads] judged_attest Let_def
  show "accepts_a_well_formed_command from_str"
    using plain test_backends(1) by (simp add: accepts_a_well_formed_command_def tests)
  show "accepts_a_trailing_slash_but_nothing_else from_str"
  proof -
    have "trim_end_matches (CHR ''/'') ''/attest/extra'' \<noteq> ''/attest''"
      by code_simp
    with plain test_backends(1) show ?thesis
      by (simp add: accepts_a_trailing_slash_but_nothing_else_def tests judged_elsewhere)
  qed
  show "refuses_every_other_route_and_method from_str"
  proof -
    have "list_all (\<lambda>(method, path).
        \<not> eq_ignore_ascii_case method ''POST'' \<or> trim_end_matches (CHR ''/'') path \<noteq> ''/attest'')
       [(''GET'', ''/attest''), (''GET'', ''/''), (''POST'', ''/status''), (''POST'', ''/snapshot''),
        (''DELETE'', ''/attest''), (''OPTIONS'', ''/attest'')]"
      by code_simp
    with plain show ?thesis
      by (simp add: refuses_every_other_route_and_method_def tests judged_elsewhere)
  qed
  show "refuses_a_body_that_is_not_json from_str"
    using not_json by (auto simp: refuses_a_body_that_is_not_json_def malformed_def handle_request_def post_attest)
  show "refuses_a_nonce_that_is_the_wrong_shape from_str"
    using plain
    by (simp add: refuses_a_nonce_that_is_the_wrong_shape_def tests)
      (intro conjI judged_invalid; simp add: validate_LocalAttestCommand_def is_ascii_hexdigit_def is_ascii_digit_def
        code_def list_all_iff)
  show "refuses_a_protocol_version_it_does_not_speak from_str"
    using plain by (simp add: refuses_a_protocol_version_it_does_not_speak_def tests)
  show "refuses_a_backend_the_build_does_not_trust from_str"
    using plain test_backends(2) by (simp add: refuses_a_backend_the_build_does_not_trust_def tests)
  show "matches_a_trusted_backend_regardless_of_path_or_case from_str"
    using plain test_backends(1) by (simp add: matches_a_trusted_backend_regardless_of_path_or_case_def tests)
  show "distinguishes_ports from_str"
    using plain test_backends(3,4) by (simp add: distinguishes_ports_def tests)
qed

lemma local_constant_tests_pass:
  "the_acknowledgement_carries_no_result" "the_port_range_matches_the_protocol"
proof -
  show "the_acknowledgement_carries_no_result"
    by code_simp
  show "the_port_range_matches_the_protocol"
    by (simp add: the_port_range_matches_the_protocol_def PORT_RANGE_START_def PORT_RANGE_END_def
        LOCAL_PORT_RANGE_START_def LOCAL_PORT_RANGE_END_def port_range_def)
qed

end
