(* ===== verification/Updater_Tests.thy ===== *)
theory Updater_Tests
  imports Local_Tests
begin

text \<open>
  The unit tests of the signed updater, \<open>fiveprotect-core/src/updater.rs\<close>: each test as the condition it
  asserts, for any signing key and crates. A test's hypotheses are what it needs of the crates: a
  signature of a key verifies under it and not for another message of the test, and hexadecimal text
  decodes to what was encoded.
\<close>

section \<open>Fixtures\<close>

record 'key SigningKey =
  sign :: "bytes \<Rightarrow> bytes"
  verifying_key :: 'key

definition signed_with :: "'key crates \<Rightarrow> 'key SigningKey \<Rightarrow> UpdateManifest \<Rightarrow> UpdateManifest" where
  "signed_with cr key m = m\<lparr>um_signature := hex_encode cr (sign key (signing_payload m))\<rparr>"

definition manifest :: "'key crates \<Rightarrow> 'key SigningKey \<Rightarrow> string \<Rightarrow> UpdateManifest" where
  "manifest cr key version =
     signed_with cr key
       \<lparr>um_version = version,
        um_sha256 = replicate 64 (CHR ''a''),
        um_url = ''https://dist.fiveprotect.dev/fiveprotect-setup.exe'',
        um_channel = ''stable'',
        um_rollout_percent = 100,
        um_signature = []\<rparr>"

definition policy :: UpdatePolicy where
  "policy =
     \<lparr>up_current_version = ''0.1.0'',
      up_channel = ''stable'',
      up_download_origin = ''https://dist.fiveprotect.dev'',
      up_rollout_bucket = 0\<rparr>"

text \<open>The tests' own base64 encoder: for each chunk, an index that counts the output characters.\<close>

definition test_base64_chunk :: "bytes \<Rightarrow> string" where
  "test_base64_chunk chunk =
     (let b = [chunk ! 0, if 1 < length chunk then chunk ! 1 else 0, if 2 < length chunk then chunk ! 2 else 0];
          value = push_bit 16 (ucast (b ! 0)) OR push_bit 8 (ucast (b ! 1)) OR ucast (b ! 2) :: u32
      in map (\<lambda>index.
           if index \<le> length chunk then ALPHABET ! unat (drop_bit (18 - index * 6) value AND 0x3F)
           else CHR ''='') [0..<4])"

definition base64_encode :: "bytes \<Rightarrow> string" where
  "base64_encode bytes = concat (map test_base64_chunk (chunks 3 bytes))"

definition is_not_newer :: "UpdateError + bool \<Rightarrow> bool" where
  "is_not_newer r = (case r of Inl (NotNewer _ _) \<Rightarrow> True | _ \<Rightarrow> False)"

section \<open>The tests\<close>

definition accepts_a_newer_signed_release :: "'key crates \<Rightarrow> 'key SigningKey \<Rightarrow> bool" where
  "accepts_a_newer_signed_release cr key \<longleftrightarrow>
     evaluate_manifest cr (manifest cr key ''0.2.0'') policy (verifying_key key) = Inr True"

definition refuses_a_manifest_signed_by_someone_else ::
    "'key crates \<Rightarrow> 'key SigningKey \<Rightarrow> 'key SigningKey \<Rightarrow> bool" where
  "refuses_a_manifest_signed_by_someone_else cr our_key their_key \<longleftrightarrow>
     evaluate_manifest cr (manifest cr their_key ''0.2.0'') policy (verifying_key our_key) = Inl BadSignature"

definition edits :: "(UpdateManifest \<Rightarrow> UpdateManifest) list" where
  "edits =
     [\<lambda>m. m\<lparr>um_url := ''https://dist.fiveprotect.dev/other.exe''\<rparr>,
      \<lambda>m. m\<lparr>um_sha256 := replicate 64 (CHR ''b'')\<rparr>,
      \<lambda>m. m\<lparr>um_version := ''9.9.9''\<rparr>,
      \<lambda>m. m\<lparr>um_rollout_percent := 100\<rparr>,
      \<lambda>m. m\<lparr>um_channel := ''beta''\<rparr>]"

definition slice_of :: "'key crates \<Rightarrow> 'key SigningKey \<Rightarrow> u8 \<Rightarrow> UpdateManifest" where
  "slice_of cr key percent = signed_with cr key ((manifest cr key ''0.2.0'')\<lparr>um_rollout_percent := percent\<rparr>)"

definition refuses_a_manifest_whose_fields_were_edited_after_signing ::
    "'key crates \<Rightarrow> 'key SigningKey \<Rightarrow> bool" where
  "refuses_a_manifest_whose_fields_were_edited_after_signing cr key =
     list_all (\<lambda>edit.
       let tampered = edit (slice_of cr key 50)
       in evaluate_manifest cr tampered policy (verifying_key key) = Inl BadSignature) edits"

definition refuses_a_signature_that_is_not_a_signature :: "'key crates \<Rightarrow> 'key SigningKey \<Rightarrow> bool" where
  "refuses_a_signature_that_is_not_a_signature cr key =
     list_all (\<lambda>bad.
       let broken = (manifest cr key ''0.2.0'')\<lparr>um_signature := bad\<rparr>;
           result = evaluate_manifest cr broken policy (verifying_key key)
       in result = Inl MalformedSignature \<or> result = Inl BadSignature)
       ['''', ''zz'', replicate 10 (CHR ''a''), ''not-base64-or-hex!!'']"

definition accepts_a_base64_signature_as_well_as_hex :: "'key crates \<Rightarrow> 'key SigningKey \<Rightarrow> bool" where
  "accepts_a_base64_signature_as_well_as_hex cr key =
     (let m = manifest cr key ''0.2.0'';
          raw = sign key (signing_payload m);
          m = m\<lparr>um_signature := base64_encode raw\<rparr>
      in evaluate_manifest cr m policy (verifying_key key) = Inr True)"

definition refuses_a_download_from_another_origin :: "'key crates \<Rightarrow> 'key SigningKey \<Rightarrow> bool" where
  "refuses_a_download_from_another_origin cr key =
     (let m = (manifest cr key ''0.2.0'')\<lparr>um_url := ''https://dist.fiveprotect.dev.evil.example/setup.exe''\<rparr>
      in evaluate_manifest cr (signed_with cr key m) policy (verifying_key key) = Inl UntrustedUrl)"

definition refuses_a_manifest_for_another_channel :: "'key crates \<Rightarrow> 'key SigningKey \<Rightarrow> bool" where
  "refuses_a_manifest_for_another_channel cr key =
     (let m = (manifest cr key ''0.2.0'')\<lparr>um_channel := ''beta''\<rparr>
      in case evaluate_manifest cr (signed_with cr key m) policy (verifying_key key) of
           Inl (WrongChannel _ _) \<Rightarrow> True
         | _ \<Rightarrow> False)"

definition refuses_to_go_backwards :: "'key crates \<Rightarrow> 'key SigningKey \<Rightarrow> bool" where
  "refuses_to_go_backwards cr key =
     list_all (\<lambda>version.
       is_not_newer (evaluate_manifest cr (manifest cr key version) policy (verifying_key key)))
       [''0.0.9'', ''0.1.0'']"

definition honours_the_rollout_slice :: "'key crates \<Rightarrow> 'key SigningKey \<Rightarrow> bool" where
  "honours_the_rollout_slice cr key =
     (let m = slice_of cr key 10;
          inside = policy\<lparr>up_rollout_bucket := 5\<rparr>;
          outside = policy\<lparr>up_rollout_bucket := 50\<rparr>
      in evaluate_manifest cr m inside (verifying_key key) = Inr True \<and>
         evaluate_manifest cr m outside (verifying_key key) = Inr False)"

text \<open>\<open>to_uppercase\<close> of a text in ASCII\<close>

definition uppercase :: "string \<Rightarrow> string" where
  "uppercase = map (\<lambda>c. if 97 \<le> code c \<and> code c \<le> 122 then char_of (code c - 32) else c)"

definition verifies_the_downloaded_bytes_as_well_as_the_manifest :: "'key crates \<Rightarrow> bool" where
  "verifies_the_downloaded_bytes_as_well_as_the_manifest cr =
     (let contents = into_bytes ''the real installer'';
          m =
            \<lparr>um_version = ''0.2.0'',
             um_sha256 = hex_encode cr (sha256_digest cr contents),
             um_url = ''https://dist.fiveprotect.dev/setup.exe'',
             um_channel = ''stable'',
             um_rollout_percent = 100,
             um_signature = []\<rparr>
      in verify_download cr contents m = Inr () \<and>
         verify_download cr (into_bytes ''a different installer'') m = Inl HashMismatch \<and>
         verify_download cr contents (m\<lparr>um_sha256 := uppercase (um_sha256 m)\<rparr>) = Inr ())"

definition rejects_an_unparseable_version :: "'key crates \<Rightarrow> 'key SigningKey \<Rightarrow> bool" where
  "rejects_an_unparseable_version cr key =
     (case evaluate_manifest cr (manifest cr key ''next'') policy (verifying_key key) of
        Inl (MalformedVersion _) \<Rightarrow> True
      | _ \<Rightarrow> False)"

definition compares_versions_numerically_not_lexically :: bool where
  "compares_versions_numerically_not_lexically \<longleftrightarrow>
     parse_version ''0.10.0'' = Inr (0, 10, 0) \<and>
     (case (parse_version ''0.10.0'', parse_version ''0.9.0'') of
        (Inr v, Inr w) \<Rightarrow> w < v
      | _ \<Rightarrow> False) \<and>
     parse_version ''1.2.3-beta.1'' = Inr (1, 2, 3)"

section \<open>They pass\<close>

text \<open>The tests' encoder is the one of \<open>shell.rs\<close>.\<close>

lemma test_base64_chunk: "chunk \<noteq> [] \<Longrightarrow> length chunk \<le> 3 \<Longrightarrow> test_base64_chunk chunk = base64_chunk chunk"
proof -
  assume "chunk \<noteq> []" "length chunk \<le> 3"
  then consider a where "chunk = [a]" | a b where "chunk = [a, b]" | a b c where "chunk = [a, b, c]"
    by (cases chunk; cases "tl chunk"; cases "tl (tl chunk)") auto
  moreover have "[0..<4] = [0, 1, 2, 3 :: nat]" by (simp add: upt_rec)
  ultimately show ?thesis
    by cases (simp_all add: test_base64_chunk_def base64_chunk_def Let_def)
qed

lemma chunks_sizes: "c \<in> set (chunks n xs) \<Longrightarrow> c \<noteq> [] \<and> length c \<le> n"
proof (induction n xs rule: chunks.induct)
  case (1 n xs)
  then show ?case
    by (subst (asm) chunks.simps) (auto split: if_splits)
qed

lemma base64_encode_is_base64: "base64_encode = base64"
  by (rule ext)
    (auto simp: base64_encode_def base64_def intro!: arg_cong [where f = concat] map_cong test_base64_chunk
      dest: chunks_sizes)

definition honest :: "'key crates \<Rightarrow> 'key SigningKey \<Rightarrow> bool" where
  "honest cr key \<longleftrightarrow>
     (\<forall>m. length (sign key m) = 64 \<and> ed25519_verify cr (verifying_key key) m (sign key m)) \<and>
     (\<forall>b. hex_decode cr (hex_encode cr b) = Some b) \<and>
     (\<forall>s b. hex_decode cr s = Some b \<longrightarrow> list_all is_ascii_hexdigit s \<and> length s = 2 * length b)"

lemma honest_verifies:
  "honest cr key \<Longrightarrow> verify_signature cr (signed_with cr key m) (verifying_key key) = Inr ()"
  by (simp add: honest_def verify_signature_ok decode_signature_def signed_with_def signing_payload_def)

lemma test_versions:
  "parse_version ''0.2.0'' = Inr (0, 2, 0)" "parse_version ''0.1.0'' = Inr (0, 1, 0)"
  "parse_version ''0.0.9'' = Inr (0, 0, 9)" "parse_version ''0.10.0'' = Inr (0, 10, 0)"
  "parse_version ''0.9.0'' = Inr (0, 9, 0)" "parse_version ''1.2.3-beta.1'' = Inr (1, 2, 3)"
  "parse_version ''next'' = Inl (MalformedVersion ''next'')"
  by (simp_all add: parse_version_def Let_def unwrap_or_def parse_u32_def parse_unsigned_def digit_value_def
      is_ascii_digit_def code_def)

lemma test_origins:
  "is_same_origin ''https://dist.fiveprotect.dev/fiveprotect-setup.exe'' ''https://dist.fiveprotect.dev''"
  "\<not> is_same_origin ''https://dist.fiveprotect.dev.evil.example/setup.exe'' ''https://dist.fiveprotect.dev''"
proof -
  have "list_all tight
      [''https://dist.fiveprotect.dev/fiveprotect-setup.exe'', ''https://dist.fiveprotect.dev'',
       ''https://dist.fiveprotect.dev.evil.example/setup.exe'']"
    by code_simp
  moreover have
    "tight_origin ''https://dist.fiveprotect.dev/fiveprotect-setup.exe'' = Some ''https://dist.fiveprotect.dev''"
    "tight_origin ''https://dist.fiveprotect.dev'' = Some ''https://dist.fiveprotect.dev''"
    "tight_origin ''https://dist.fiveprotect.dev.evil.example/setup.exe'' =
       Some ''https://dist.fiveprotect.dev.evil.example''"
    by code_simp+
  ultimately show
    "is_same_origin ''https://dist.fiveprotect.dev/fiveprotect-setup.exe'' ''https://dist.fiveprotect.dev''"
    "\<not> is_same_origin ''https://dist.fiveprotect.dev.evil.example/setup.exe'' ''https://dist.fiveprotect.dev''"
    by (simp_all add: is_same_origin_def same_origin_origin_of_eq origin_of_tight)
qed

text \<open>What is left of the evaluation once the signature is verified.\<close>

definition judged_manifest :: "UpdateManifest \<Rightarrow> UpdatePolicy \<Rightarrow> UpdateError + bool" where
  "judged_manifest m p =
    (if um_channel m \<noteq> up_channel p then Inl (WrongChannel (um_channel m) (up_channel p))
     else if \<not> is_same_origin (um_url m) (up_download_origin p) then Inl UntrustedUrl
     else case parse_version (um_version m) of
       Inl e \<Rightarrow> Inl e
     | Inr offered \<Rightarrow>
         (case parse_version (up_current_version p) of
            Inl e \<Rightarrow> Inl e
          | Inr current \<Rightarrow>
              if offered \<le> current then Inl (NotNewer (um_version m) (up_current_version p))
              else Inr (up_rollout_bucket p < um_rollout_percent m)))"

lemma evaluate_verified:
  "verify_signature cr m key = Inr () \<Longrightarrow> evaluate_manifest cr m p key = judged_manifest m p"
  by (simp add: evaluate_manifest_def judged_manifest_def)

lemma judged_signature [simp]: "judged_manifest (m\<lparr>um_signature := x\<rparr>) p = judged_manifest m p"
proof -
  let ?m = "m\<lparr>um_signature := x\<rparr>"
  have fields: "um_version ?m = um_version m" "um_url ?m = um_url m" "um_channel ?m = um_channel m"
    "um_rollout_percent ?m = um_rollout_percent m"
    by simp_all
  show ?thesis
    unfolding judged_manifest_def fields ..
qed

lemma evaluate_honest:
  "honest cr key \<Longrightarrow> evaluate_manifest cr (signed_with cr key m) p (verifying_key key) = judged_manifest m p"
  by (simp add: evaluate_verified honest_verifies) (simp add: signed_with_def)

lemma signing_tests_pass:
  assumes honest: "honest cr key"
  shows "accepts_a_newer_signed_release cr key" "accepts_a_base64_signature_as_well_as_hex cr key"
    "refuses_a_download_from_another_origin cr key" "refuses_a_manifest_for_another_channel cr key"
    "refuses_to_go_backwards cr key" "honours_the_rollout_slice cr key"
    "rejects_an_unparseable_version cr key"
proof -
  have less: "\<not> (2 :: u32) \<le> 1" by code_simp
  note judged = judged_manifest_def policy_def test_versions test_origins less
  note tests = Let_def manifest_def evaluate_honest [OF honest]
  show "accepts_a_newer_signed_release cr key"
    by (simp add: accepts_a_newer_signed_release_def tests) (simp add: judged)
  show "refuses_to_go_backwards cr key"
    by (simp add: refuses_to_go_backwards_def is_not_newer_def tests) (simp add: judged)
  show "rejects_an_unparseable_version cr key"
    by (simp add: rejects_an_unparseable_version_def tests) (simp add: judged)
  show "refuses_a_download_from_another_origin cr key"
    by (simp add: refuses_a_download_from_another_origin_def evaluate_honest [OF honest])
      (simp add: manifest_def signed_with_def judged)
  show "refuses_a_manifest_for_another_channel cr key"
    by (simp add: refuses_a_manifest_for_another_channel_def evaluate_honest [OF honest])
      (simp add: manifest_def signed_with_def judged)
  show "honours_the_rollout_slice cr key"
    by (simp add: honours_the_rollout_slice_def slice_of_def evaluate_honest [OF honest] Let_def)
      (simp add: manifest_def signed_with_def judged)
  show "accepts_a_base64_signature_as_well_as_hex cr key"
  proof -
    let ?m = "manifest cr key ''0.2.0''" and ?key = "verifying_key key"
    let ?raw = "sign key (signing_payload ?m)"
    have "verify_signature cr (?m\<lparr>um_signature := base64 ?raw\<rparr>) ?key = Inr ()"
      using honest by (subst base64_signature_accepted) (auto simp: honest_def signing_payload_def)
    then have "evaluate_manifest cr (?m\<lparr>um_signature := base64 ?raw\<rparr>) policy ?key = judged_manifest ?m policy"
      by (simp add: evaluate_verified)
    also have "\<dots> = Inr True"
      by (simp add: manifest_def signed_with_def judged)
    finally show ?thesis
      by (simp add: accepts_a_base64_signature_as_well_as_hex_def base64_encode_is_base64 Let_def)
  qed
qed

text \<open>A signature verifies no other of these messages.\<close>

definition no_forgery :: "'key crates \<Rightarrow> 'key SigningKey \<Rightarrow> bytes list \<Rightarrow> bool" where
  "no_forgery cr key messages =
     list_all (\<lambda>m. list_all (\<lambda>m'. m = m' \<or> \<not> ed25519_verify cr (verifying_key key) m' (sign key m)) messages) messages"

lemma foreign_signature_test_passes:
  assumes "honest cr our_key" and "honest cr their_key"
    and "\<And>m. \<not> ed25519_verify cr (verifying_key our_key) m (sign their_key m)"
  shows "refuses_a_manifest_signed_by_someone_else cr our_key their_key"
  using assms
  by (simp add: refuses_a_manifest_signed_by_someone_else_def evaluate_manifest_def verify_signature_def
      decode_signature_def manifest_def signed_with_def honest_def signing_payload_def)

lemma slice_payload: "signing_payload (edit (slice_of cr key p)) = signing_payload (edit (slice_of cr' key' p))"
  if "edit \<in> set (id # edits)"
  using that by (auto simp: edits_def slice_of_def signed_with_def manifest_def signing_payload_def)

lemma edited_manifest_test_passes:
  assumes honest: "honest cr key"
    and "no_forgery cr key (map (\<lambda>edit. signing_payload (edit (slice_of cr key 50))) (id # edits))"
  shows "refuses_a_manifest_whose_fields_were_edited_after_signing cr key"
proof -
  let ?m = "slice_of cr key 50"
  have one_line: "one_line_fields ?m"
    by (simp add: one_line_fields_def slice_of_def signed_with_def manifest_def newline_def)
  have "evaluate_manifest cr (edit ?m) policy (verifying_key key) = Inl BadSignature" if e: "edit \<in> set edits" for edit
  proof -
    have signature: "um_signature (edit ?m) = hex_encode cr (sign key (signing_payload ?m))"
      using e by (auto simp: edits_def slice_of_def signed_with_def signing_payload_def)
    have "signing_payload ?m \<noteq> signing_payload (edit ?m)"
    proof
      assume "signing_payload ?m = signing_payload (edit ?m)"
      from signing_payload_inj [OF this one_line] e show False
        by (auto simp: edits_def slice_of_def signed_with_def manifest_def)
    qed
    then have "\<not> ed25519_verify cr (verifying_key key) (signing_payload (edit ?m)) (sign key (signing_payload ?m))"
      using assms(2) e by (auto simp: no_forgery_def list_all_iff)
    with honest signature show ?thesis
      by (simp add: evaluate_manifest_def verify_signature_def decode_signature_def honest_def)
  qed
  then show ?thesis
    by (simp add: refuses_a_manifest_whose_fields_were_edited_after_signing_def list_all_iff Let_def)
qed

lemma broken_signature_test_passes:
  assumes "honest cr key"
  shows "refuses_a_signature_that_is_not_a_signature cr key"
proof -
  have short: "length raw \<noteq> 64" if "hex_decode cr s = Some raw" "length s < 128" for s raw
    using that assms by (auto simp: honest_def)
  have "list_all (\<lambda>s. length s < 128 \<and> (case base64_decode s of None \<Rightarrow> True | Some raw \<Rightarrow> length raw \<noteq> 64))
      ['''', ''zz'', replicate 10 (CHR ''a''), ''not-base64-or-hex!!'']"
    by code_simp
  moreover have "verify_signature cr m k = Inl MalformedSignature"
    if "length (um_signature m) < 128 \<and>
      (case base64_decode (um_signature m) of None \<Rightarrow> True | Some raw \<Rightarrow> length raw \<noteq> 64)" for m k
    using that short by (auto simp: verify_signature_def decode_signature_def split: option.splits)
  ultimately show ?thesis
    by (simp add: refuses_a_signature_that_is_not_a_signature_def evaluate_manifest_def Let_def del: replicate.simps)
qed

lemma uppercase_same: "to_ascii_lowercase (uppercase s) = to_ascii_lowercase s"
proof -
  have "to_ascii_lowercase_char (if 97 \<le> code c \<and> code c \<le> 122 then char_of (code c - 32) else c) =
      to_ascii_lowercase_char c" for c
    by (auto simp: to_ascii_lowercase_char_def code_char_of) (simp add: code_def)
  then show ?thesis by (simp add: to_ascii_lowercase_def uppercase_def)
qed

lemma download_test_passes:
  assumes "\<not> eq_ignore_ascii_case (hex_encode cr (sha256_digest cr (into_bytes ''a different installer'')))
      (hex_encode cr (sha256_digest cr (into_bytes ''the real installer'')))"
  shows "verifies_the_downloaded_bytes_as_well_as_the_manifest cr"
  using assms
  by (simp add: verifies_the_downloaded_bytes_as_well_as_the_manifest_def verify_download_def Let_def
      eq_ignore_ascii_case_def uppercase_same)

lemma version_test_passes: "compares_versions_numerically_not_lexically"
proof -
  have "(9 :: u32) < 10" by code_simp
  then show ?thesis by (simp add: compares_versions_numerically_not_lexically_def test_versions)
qed

end
