(* ===== verification/Worker_Tests.thy ===== *)
theory Worker_Tests
  imports Serde_Types Window_Checks
begin

text \<open>
  The unit tests of the worker's pure functions, \<open>fiveprotect-companion/src/worker.rs\<close>: each test as the
  condition it asserts. That the printed JSON contains a word in quotes is that the word is one of the
  value's names or texts.
\<close>

named_theorems worker_tests \<open>the tests and fixtures of this module\<close>

definition test_snapshot :: "SecurityFeatures \<Rightarrow> bool \<Rightarrow> bool \<Rightarrow> SystemSnapshot" where
  [worker_tests]: "test_snapshot features tpm_there game =
     \<lparr>snap_schema_version = 1,
      snap_collected_at = ''2026-08-04T12:00:00.000Z'',
      snap_companion_version = ''0.1.0'',
      snap_companion_build_hash = replicate 64 (CHR ''a''),
      snap_os_build = ''10.0.26200'',
      snap_features = features,
      snap_tpm =
        \<lparr>tpm_present = tpm_there,
         tpm_manufacturer = None,
         tpm_spec_version = None,
         tpm_attestation_key_id = None\<rparr>,
      snap_game_process =
        (if game
         then Some \<lparr>gpe_pid = 4242, gpe_started_at_unix_ms = 1754000000000, gpe_image_name = ''FiveM.exe'',
                gpe_main_window_present = True\<rparr>
         else None),
      snap_probe_errors = []\<rparr>"

definition all_features :: "FeatureState \<Rightarrow> SecurityFeatures" where
  [worker_tests]: "all_features state =
     \<lparr>sf_secure_boot = state,
      sf_hvci = state,
      sf_test_signing = state,
      sf_kernel_debugging = state,
      sf_driver_blocklist = state,
      sf_iommu = state,
      sf_virtualization_based_security = state\<rparr>"

definition an_unknown_feature_is_never_shown_as_passing :: bool where
  [worker_tests]: "an_unknown_feature_is_never_shown_as_passing =
     (let checks = checks_from (test_snapshot (all_features FeatureState.Unknown) False False)
      in list_all (\<lambda>entry.
           if wc_requirement entry = TpmAttestationValid \<or> wc_requirement entry = GameProcessPresent then True
           else wc_status entry = RequirementStatus.Unknown) checks)"

definition test_signing_and_kernel_debugging_read_the_other_way_round :: bool where
  [worker_tests]: "test_signing_and_kernel_debugging_read_the_other_way_round =
     (let on = checks_from (test_snapshot (all_features FeatureState.Enabled) True True);
          off = checks_from (test_snapshot (all_features FeatureState.Disabled) True True)
      in status_of on TestSigningDisabled = Some RequirementStatus.Fail \<and>
         status_of on KernelDebuggingDisabled = Some RequirementStatus.Fail \<and>
         status_of on SecureBootEnabled = Some RequirementStatus.Pass \<and>
         status_of off TestSigningDisabled = Some RequirementStatus.Pass \<and>
         status_of off SecureBootEnabled = Some RequirementStatus.Fail)"

definition the_window_never_carries_a_requirement_the_companion_cannot_measure :: bool where
  [worker_tests]: "the_window_never_carries_a_requirement_the_companion_cannot_measure =
     (let checks = checks_from (test_snapshot (all_features FeatureState.Enabled) True True)
      in list_all (\<lambda>entry.
           wc_requirement entry \<notin> {NetworkOriginMatches, CompanionAttested, VulnerableDriversAbsent}) checks)"

definition a_logged_session_id_is_never_a_whole_one :: bool where
  "a_logged_session_id_is_never_a_whole_one =
     (let full = ''1cda7543-82a1-405e-a8eb-2e03db4fc54e'';
          short = short_session full
      in short = ''1cda7543'' \<and> take (length short) full = short \<and> length short < length full \<and>
         short_session ''abc'' = ''abc'' \<and> short_session '''' = '''')"

definition a_missing_game_process_is_reported_as_missing :: bool where
  [worker_tests]: "a_missing_game_process_is_reported_as_missing =
     (let without = checks_from (test_snapshot (all_features FeatureState.Enabled) True False)
      in status_of without GameProcessPresent = Some RequirementStatus.Fail)"

definition the_published_view_carries_no_field_that_implies_an_outcome :: bool where
  "the_published_view_carries_no_field_that_implies_an_outcome =
     (let model = with_checks (view Ready None (Some ''Test'') ''0.1.0'' 1)
            (checks_from (test_snapshot (all_features FeatureState.Enabled) True True));
          words = json_words (WindowView_to_value model)
      in list_all (\<lambda>forbidden. \<not> List.member words forbidden) [''clean'', ''passed'', ''verdict'', ''decision''])"

lemma worker_tests_pass:
  "an_unknown_feature_is_never_shown_as_passing"
  "test_signing_and_kernel_debugging_read_the_other_way_round"
  "the_window_never_carries_a_requirement_the_companion_cannot_measure"
  "a_missing_game_process_is_reported_as_missing"
  by (simp_all add: worker_tests checks_from_def check_def)

lemma short_session_test_passes: "a_logged_session_id_is_never_a_whole_one"
  by code_simp

text \<open>
  The last test for every view, against a list that does not depend on the model of the types: the
  names and texts a view's JSON may hold are these, and the three texts the view carries. There is
  none for an outcome, such as \<open>passed\<close> or \<open>verdict\<close>, and the name of a field added to the view or to a
  row would not be in it.
\<close>

definition permitted_words :: "string list" where
  "permitted_words =
     [''state'', ''requirements'', ''gamePresent'', ''remediation'', ''serverName'', ''version'', ''protocolVersion'',
      ''requirement'', ''status'',
      ''idle'', ''checking'', ''ready'', ''blocked'',
      ''companion_attested'', ''test_signing_disabled'', ''kernel_debugging_disabled'', ''secure_boot_enabled'',
      ''tpm_attestation_valid'', ''hvci_enabled'', ''driver_blocklist_enabled'', ''iommu_enabled'',
      ''vulnerable_drivers_absent'', ''game_process_present'', ''network_origin_matches'',
      ''pass'', ''fail'', ''warn'', ''skipped'', ''unknown'']"

definition view_words :: "WindowView \<Rightarrow> string list" where
  "view_words v = permitted_words @ view_version v # case_option [] (\<lambda>s. [s]) (view_remediation v) @
     case_option [] (\<lambda>s. [s]) (view_server_name v)"

text \<open>The booleans of a value.\<close>

fun json_bools :: "json \<Rightarrow> nat" where
  "json_bools (JBool b) = 1"
| "json_bools (JArray vs) = sum_list (map json_bools vs)"
| "json_bools (JObject ms) = sum_list (map (\<lambda>m. json_bools (snd m)) ms)"
| "json_bools _ = 0"

lemma json_words_struct:
  assumes "w \<in> set (json_words (ser_struct fs vs))"
  shows "w \<in> set fs \<or> (\<exists>v. Some v \<in> set vs \<and> w \<in> set (json_words v))"
proof -
  from assms obtain k v
    where kv: "(k, v) \<in> set (List.map_filter (\<lambda>(f, v). map_option (Pair f) v) (zip fs vs))"
      and w: "w = k \<or> w \<in> set (json_words v)"
    by (auto simp: ser_struct_def)
  from kv have "(k, Some v) \<in> set (zip fs vs)"
    by (auto simp: map_filter_def)
  then have "k \<in> set fs" "Some v \<in> set vs"
    by (auto dest: set_zip_leftD set_zip_rightD)
  with w show ?thesis by blast
qed

lemma Some_eq_map_option: "Some b = map_option f x \<longleftrightarrow> (\<exists>a. x = Some a \<and> b = f a)"
  by (cases x) auto

lemma json_words_vec: "w \<in> set (json_words (ser_vec ser xs)) \<Longrightarrow> \<exists>x\<in>set xs. w \<in> set (json_words (ser x))"
  by (auto simp: ser_vec_def)

lemma json_words_check:
  "w \<in> set (json_words (WindowCheck_to_value c)) \<Longrightarrow>
   w \<in> set WindowCheck_FIELDS \<or> w = RequirementId_as_wire_str (wc_requirement c) \<or>
   w = RequirementStatus_as_wire_str (wc_status c)"
  unfolding WindowCheck_to_value_def
  by (drule json_words_struct) (auto simp: RequirementId_to_value_def RequirementStatus_to_value_def)

lemma check_words_permitted:
  "w \<in> set (json_words (WindowCheck_to_value c)) \<Longrightarrow> w \<in> set permitted_words"
proof -
  assume "w \<in> set (json_words (WindowCheck_to_value c))"
  then consider "w \<in> set WindowCheck_FIELDS" | "w = RequirementId_as_wire_str (wc_requirement c)"
    | "w = RequirementStatus_as_wire_str (wc_status c)"
    using json_words_check by blast
  then show ?thesis
  proof cases
    case 2
    then show ?thesis by (cases "wc_requirement c") (simp_all add: permitted_words_def)
  next
    case 3
    then show ?thesis by (cases "wc_status c") (simp_all add: permitted_words_def)
  qed (auto simp: permitted_words_def WindowCheck_FIELDS_def)
qed

lemma json_bools_check: "json_bools (WindowCheck_to_value c) = 0"
  by (simp add: WindowCheck_to_value_def WindowCheck_FIELDS_def ser_struct_def map_filter_simps
      RequirementId_to_value_def RequirementStatus_to_value_def)

text \<open>
  C22: what the page is told (ADR 0004). The JSON of any view holds no name or text but the 29 of a
  fixed list, none of which says how a check was judged as a whole, and the three texts the view carries; and
  it holds one boolean, whether the game is there.
\<close>

theorem view_says_no_more:
  "set (json_words (WindowView_to_value v)) \<subseteq> set (view_words v) \<and>
   json_bools (WindowView_to_value v) = 1 \<and>
   (''gamePresent'', JBool (view_game_present v)) \<in>
     (case WindowView_to_value v of JObject members \<Rightarrow> set members | _ \<Rightarrow> {})"
proof (intro conjI subsetI)
  fix w assume "w \<in> set (json_words (WindowView_to_value v))"
  then consider "w \<in> set WindowView_FIELDS" | "w = WindowState_name (view_state v)"
    | "w \<in> set (json_words (ser_vec WindowCheck_to_value (view_requirements v)))"
    | "view_remediation v = Some w" | "view_server_name v = Some w" | "w = view_version v"
    unfolding WindowView_to_value_def
    by (drule_tac json_words_struct) (auto simp: WindowState_to_value_def Some_eq_map_option split: if_splits)
  then show "w \<in> set (view_words v)"
  proof cases
    case 1
    then show ?thesis by (auto simp: view_words_def permitted_words_def WindowView_FIELDS_def)
  next
    case 2
    then show ?thesis by (cases "view_state v") (simp_all add: view_words_def permitted_words_def)
  next
    case 3
    then show ?thesis using json_words_vec check_words_permitted by (fastforce simp: view_words_def)
  qed (simp_all add: view_words_def)
next
  have rows: "json_bools (ser_vec WindowCheck_to_value cs) = 0" for cs
    by (simp add: ser_vec_def json_bools_check)
  show "json_bools (WindowView_to_value v) = 1"
    by (cases "view_remediation v"; cases "view_server_name v")
      (simp_all add: WindowView_to_value_def WindowView_FIELDS_def ser_struct_def map_filter_simps rows
        WindowState_to_value_def)
  show "(''gamePresent'', JBool (view_game_present v)) \<in>
     (case WindowView_to_value v of JObject members \<Rightarrow> set members | _ \<Rightarrow> {})"
    by (simp add: WindowView_to_value_def WindowView_FIELDS_def ser_struct_def map_filter_simps)
qed

lemma published_view_test_passes: "the_published_view_carries_no_field_that_implies_an_outcome"
  by code_simp

end
