(* ===== verification/Server_Tests.thy ===== *)
theory Server_Tests
  imports Http_Headers Server Local_Tests "HOL-Library.Sublist"
begin

text \<open>
  The tests of the localhost endpoint, \<open>fiveprotect-companion/src/server.rs\<close>: each test as the condition
  it asserts. A test writes the bytes of one request to a socket it keeps open, and reads the answer;
  what the endpoint forwards is the first component of \<open>serve_one\<close>. The parser and the printer are those
  of a run: they read the commands the tests format, and print an accepted acknowledgement as such.
\<close>

section \<open>Fixtures\<close>

record run_crates =
  from_str :: from_str_command
  to_string :: "LocalAttestAck \<Rightarrow> string option"

definition start :: "run_crates \<Rightarrow> stream \<Rightarrow> LocalAttestCommand option \<times> string option" where
  "start cr s =
     serve_one (from_str cr) (to_string cr) True s [''http://127.0.0.1:8080''] ''0.1.0''"

definition request_test :: "run_crates \<Rightarrow> string \<Rightarrow> LocalAttestCommand option \<times> string" where
  "request_test cr raw =
     (case start cr \<lparr>arrived = raw, at_eof = False\<rparr> of (forwarded, answer) \<Rightarrow> (forwarded, unwrap_or answer []))"

definition post_test :: "run_crates \<Rightarrow> string \<Rightarrow> LocalAttestCommand option \<times> string" where
  "post_test cr body =
     request_test cr
       (request_text ''POST'' ''/attest''
         [(''Host'', ''127.0.0.1''), (''Content-Type'', ''application/json''),
          (''Content-Length'', show_nat (length body))] body)"

definition starts_with :: "string \<Rightarrow> string \<Rightarrow> bool" where
  "starts_with s p \<longleftrightarrow> take (length p) s = p"

section \<open>The tests\<close>

definition binds_inside_the_range :: "(u16 \<Rightarrow> string + unit) \<Rightarrow> bool" where
  "binds_inside_the_range listen =
     (case bind_endpoint listen of Inl _ \<Rightarrow> False | Inr port \<Rightarrow> List.member port_range port)"

definition a_valid_command_is_acknowledged_and_forwarded :: "run_crates \<Rightarrow> bool" where
  "a_valid_command_is_acknowledged_and_forwarded cr =
     (let nonce = replicate 64 (CHR ''a'');
          (forwarded, answer) = post_test cr (command_json nonce ''http://127.0.0.1:8080'' 1)
      in starts_with answer ''HTTP/1.1 200'' \<and>
         sublist ''\"accepted\":true'' answer \<and>
         map_option lac_nonce forwarded = Some nonce)"

definition the_preflight_is_answered_although_the_contract_refuses_options :: "run_crates \<Rightarrow> bool" where
  "the_preflight_is_answered_although_the_contract_refuses_options cr =
     (let (forwarded, answer) =
        request_test cr
          (request_text ''OPTIONS'' ''/attest''
            [(''Host'', ''127.0.0.1''), (''Origin'', ''https://cfx-nui-fiveprotect''),
             (''Access-Control-Request-Method'', ''POST'')] [])
      in starts_with answer ''HTTP/1.1 204'' \<and>
         sublist ''Access-Control-Allow-Origin: *'' answer \<and>
         sublist ''Access-Control-Allow-Headers: Content-Type'' answer)"

definition an_untrusted_backend_is_refused_and_nothing_is_forwarded :: "run_crates \<Rightarrow> bool" where
  "an_untrusted_backend_is_refused_and_nothing_is_forwarded cr =
     (let nonce = replicate 64 (CHR ''a'');
          (forwarded, answer) = post_test cr (command_json nonce ''https://evil.example'' 1)
      in starts_with answer ''HTTP/1.1 400'' \<and> forwarded = None)"

definition every_other_route_is_a_404 :: "run_crates \<Rightarrow> bool" where
  "every_other_route_is_a_404 cr =
     (let (forwarded, answer) = request_test cr (request_text ''GET'' ''/state'' [(''Host'', ''127.0.0.1'')] [])
      in starts_with answer ''HTTP/1.1 404'')"

definition the_endpoint_answers_no_question_about_the_outcome :: "run_crates \<Rightarrow> bool" where
  "the_endpoint_answers_no_question_about_the_outcome cr =
     list_all (\<lambda>route.
       let (forwarded, answer) = request_test cr (request_text ''GET'' route [(''Host'', ''127.0.0.1'')] [])
       in starts_with answer ''HTTP/1.1 404'')
       [''/state'', ''/status'', ''/verdict'', ''/snapshot'']"

definition an_oversized_body_is_refused_before_it_is_read :: "run_crates \<Rightarrow> bool" where
  "an_oversized_body_is_refused_before_it_is_read cr =
     (let (forwarded, answer) =
        request_test cr
          (request_text ''POST'' ''/attest''
            [(''Host'', ''127.0.0.1''), (''Content-Length'', ''999999'')] [])
      in starts_with answer ''HTTP/1.1 400'')"

section \<open>They pass\<close>

lemma binding_test_passes:
  "list_ex (\<lambda>p. is_ok (listen p)) port_range \<Longrightarrow> binds_inside_the_range listen"
proof -
  assume "list_ex (\<lambda>p. is_ok (listen p)) port_range"
  moreover have "list_ex (\<lambda>p. is_ok (listen p)) ports \<Longrightarrow>
      \<exists>p. bind_loop listen ports err = Inr p \<and> p \<in> set ports" for ports err
    by (induction ports arbitrary: err) (auto simp: is_ok_def split: sum.splits)
  ultimately obtain p where "bind_endpoint listen = Inr p" "p \<in> set port_range"
    unfolding bind_endpoint_def by blast
  then show ?thesis
    by (simp add: binds_inside_the_range_def)
qed

lemma response_body: "\<exists>head. response n body = head @ body"
  unfolding response_def
  by (rule exI [of _ "''HTTP/1.1 '' @ show_nat n @ '' '' @ reason_phrase n @ crlf @
     ''Content-Type: application/json; charset=utf-8'' @ crlf @
     ''Content-Length: '' @ show_nat (length body) @ crlf @
     ''Access-Control-Allow-Origin: *'' @ crlf @
     ''Access-Control-Allow-Methods: POST, OPTIONS'' @ crlf @
     ''Access-Control-Allow-Headers: Content-Type'' @ crlf @
     ''Access-Control-Max-Age: 600'' @ crlf @
     ''Cache-Control: no-store'' @ crlf @
     ''Connection: close'' @ crlf @ crlf"])
    (simp only: append_assoc)

lemma response_starts: "starts_with (response n body) (''HTTP/1.1 '' @ show_nat n)"
  by (simp add: starts_with_def response_def)

lemma sublist_response: "sublist x body \<Longrightarrow> sublist x (response n body)"
proof -
  assume "sublist x body"
  moreover from response_body obtain head where "response n body = head @ body" by blast
  then have "sublist body (response n body)" by simp
  ultimately show ?thesis by (rule sublist_order.order_trans)
qed

lemma show_statuses: "show_nat 200 = ''200''" "show_nat 204 = ''204''" "show_nat 400 = ''400''" "show_nat 404 = ''404''"
  by code_simp+

lemma response_status:
  "starts_with (response 200 body) ''HTTP/1.1 200''" "starts_with (response 204 body) ''HTTP/1.1 204''"
  "starts_with (response 400 body) ''HTTP/1.1 400''" "starts_with (response 404 body) ''HTTP/1.1 404''"
  using response_starts [of 200 body] response_starts [of 204 body] response_starts [of 400 body]
    response_starts [of 404 body]
  unfolding show_statuses by simp_all

lemma test_headers:
  "list_all well_formed_header
     [(''Host'', ''127.0.0.1''), (''Content-Type'', ''application/json''), (''Origin'', ''https://cfx-nui-fiveprotect''),
      (''Access-Control-Request-Method'', ''POST''), (''Content-Length'', ''999999'')]"
  by (simp add: well_formed_header_def plain_def is_visible_def code_def)

lemma test_header_names:
  "list_all (\<lambda>name. \<not> eq_ignore_ascii_case name ''content-length'')
     [''Host'', ''Content-Type'', ''Origin'', ''Access-Control-Request-Method'']"
  "eq_ignore_ascii_case ''Content-Length'' ''content-length''"
  by code_simp+

lemma test_words: "list_all word [''POST'', ''GET'', ''OPTIONS'', ''/attest'', ''/state'', ''/status'', ''/verdict'', ''/snapshot'']"
  by (simp add: word_def is_visible_def code_def)

text \<open>A request without a body.\<close>

lemma bodiless:
  assumes "word m" and "word p" and "list_all well_formed_header hs"
    and "list_all (\<lambda>h. \<not> eq_ignore_ascii_case (fst h) ''content-length'') hs"
  shows "read_request \<lparr>arrived = request_text m p hs [], at_eof = e\<rparr> = Inr \<lparr>rq_method = m, rq_path = p, rq_body = []\<rparr>"
proof -
  have "announced hs n = n" for n
    using assms(4) by (induction hs n rule: announced.induct) simp_all
  then show ?thesis
    using lossy_valid_id [of "[]"] utf8_valid_ascii [of "[]"]
    by (simp add: read_request_headers [OF assms(1,2,3)] MAX_BODY_def read_exact_def)
qed

text \<open>Every route but the contract's is answered 404, whatever the method but \<open>OPTIONS\<close>.\<close>

lemma other_route:
  assumes "word p" and "trim_end_matches (CHR ''/'') p \<noteq> ''/attest''"
  shows "starts_with (snd (request_test cr (request_text ''GET'' p [(''Host'', ''127.0.0.1'')] []))) ''HTTP/1.1 404''"
proof -
  have "read_request \<lparr>arrived = request_text ''GET'' p [(''Host'', ''127.0.0.1'')] [], at_eof = False\<rparr> =
      Inr \<lparr>rq_method = ''GET'', rq_path = p, rq_body = []\<rparr>"
    using test_words test_headers test_header_names assms(1) by (intro bodiless) simp_all
  moreover have "\<not> eq_ignore_ascii_case ''GET'' ''OPTIONS''" by code_simp
  ultimately show ?thesis
    using assms(2) response_status
    by (simp add: request_test_def start_def serve_one_def handle_request_def)
qed

lemma route_tests_pass:
  "every_other_route_is_a_404 cr" "the_endpoint_answers_no_question_about_the_outcome cr"
proof -
  have "list_all (\<lambda>p. trim_end_matches (CHR ''/'') p \<noteq> ''/attest'') [''/state'', ''/status'', ''/verdict'', ''/snapshot'']"
    by code_simp
  with test_words other_route show "every_other_route_is_a_404 cr"
    "the_endpoint_answers_no_question_about_the_outcome cr"
    by (simp_all add: every_other_route_is_a_404_def the_endpoint_answers_no_question_about_the_outcome_def
        case_prod_unfold)
qed

lemma preflight_test_passes: "the_preflight_is_answered_although_the_contract_refuses_options cr"
proof -
  let ?hs = "[(''Host'', ''127.0.0.1''), (''Origin'', ''https://cfx-nui-fiveprotect''),
             (''Access-Control-Request-Method'', ''POST'')]"
  have "read_request \<lparr>arrived = request_text ''OPTIONS'' ''/attest'' ?hs [], at_eof = False\<rparr> =
      Inr \<lparr>rq_method = ''OPTIONS'', rq_path = ''/attest'', rq_body = []\<rparr>"
    using test_words test_headers test_header_names by (intro bodiless) simp_all
  moreover have "eq_ignore_ascii_case ''OPTIONS'' ''OPTIONS''" by code_simp
  moreover have "sublist ''Access-Control-Allow-Origin: *'' (response 204 [])"
    unfolding sublist_def response_def
    by (intro exI [of _ "''HTTP/1.1 '' @ show_nat 204 @ '' '' @ reason_phrase 204 @ crlf @
     ''Content-Type: application/json; charset=utf-8'' @ crlf @
     ''Content-Length: '' @ show_nat (length []) @ crlf"] exI) (simp only: append_assoc)
  moreover have "sublist ''Access-Control-Allow-Headers: Content-Type'' (response 204 [])"
    unfolding sublist_def response_def
    by (intro exI [of _ "''HTTP/1.1 '' @ show_nat 204 @ '' '' @ reason_phrase 204 @ crlf @
     ''Content-Type: application/json; charset=utf-8'' @ crlf @
     ''Content-Length: '' @ show_nat (length []) @ crlf @
     ''Access-Control-Allow-Origin: *'' @ crlf @
     ''Access-Control-Allow-Methods: POST, OPTIONS'' @ crlf"] exI) (simp only: append_assoc)
  ultimately show ?thesis
    using response_status
    by (simp add: the_preflight_is_answered_although_the_contract_refuses_options_def request_test_def start_def
        serve_one_def)
qed

lemma oversized_test_passes: "an_oversized_body_is_refused_before_it_is_read cr"
proof -
  have "parse_unsigned USIZE_MAX ''999999'' = Some 999999"
    by (simp add: parse_unsigned_def digit_value_def is_ascii_digit_def code_def USIZE_MAX_def)
  with test_words test_headers test_header_names response_status show ?thesis
    by (simp add: an_oversized_body_is_refused_before_it_is_read_def request_test_def start_def serve_one_def
        read_request_headers MAX_BODY_def)
qed

text \<open>What the tests need of the parser and the printer.\<close>

definition run_crates_ok :: "run_crates \<Rightarrow> bool" where
  "run_crates_ok cr \<longleftrightarrow> reads_commands (from_str cr) \<and>
     (\<forall>a s. laa_accepted a \<longrightarrow> to_string cr a = Some s \<longrightarrow> sublist ''\"accepted\":true'' s)"

lemma command_ascii:
  "plain_text nonce \<Longrightarrow> plain_text backend \<Longrightarrow> 0 \<le> v \<Longrightarrow>
   utf8_valid (command_json nonce backend v)"
proof (rule utf8_valid_ascii)
  assume plain: "plain_text nonce" "plain_text backend" and v: "0 \<le> v"
  have digits: "list_all (\<lambda>c. code c < 128) (show_int v)"
    using v by (auto simp: show_int_def is_ascii_digit_def list_all_iff dest!: show_nat_digits)
  have plain_ascii: "list_all (\<lambda>c. code c < 128) s" if "plain_text s" for s
  proof (unfold list_all_iff, rule ballI)
    fix c assume "c \<in> set s"
    with that have "is_visible c \<or> c = CHR '' ''" by (auto simp: plain_text_def list_all_iff)
    then show "code c < 128" by (elim disjE) (simp_all add: is_visible_def, simp add: code_def)
  qed
  have "list_all (\<lambda>c. code c < 128) (command_json nonce backend v)"
    unfolding command_json_def list_all_append
    by (intro conjI; (rule digits | rule plain [THEN plain_ascii] | code_simp))
  then show "\<forall>c\<in>set (command_json nonce backend v). code c < 128"
    by (simp add: list_all_iff)
qed

lemma posted_command:
  assumes "run_crates_ok cr" and "plain_text backend \<and> length backend \<le> 256"
  shows "post_test cr (command_json valid_nonce backend 1) =
    (if is_allowed_backend backend [''http://127.0.0.1:8080'']
     then (Some \<lparr>lac_nonce = valid_nonce, lac_backend_url = backend, lac_server_name = None, lac_protocol_version = 1\<rparr>,
       response 200 (unwrap_or (to_string cr (acknowledgement ''0.1.0'')) ''{\"accepted\":true}''))
     else (None, response 400 REFUSED_BODY))"
proof -
  let ?body = "command_json valid_nonce backend 1"
  have "show_nat 1 = ''1''" by code_simp
  then have "length ?body \<le> 400"
    using assms(2) by (simp add: command_json_def quote_def valid_nonce_def show_int_def)
  moreover have "utf8_valid ?body"
    using assms(2) by (intro command_ascii) simp_all
  ultimately have "read_request
      \<lparr>arrived = request_text ''POST'' ''/attest'' ([(''Host'', ''127.0.0.1''), (''Content-Type'', ''application/json'')] @
         (''Content-Length'', show_nat (length ?body)) # []) (?body @ []), at_eof = False\<rparr> =
      Inr \<lparr>rq_method = ''POST'', rq_path = ''/attest'', rq_body = ?body\<rparr>"
    using test_words test_headers by (intro read_request_announced) (simp_all add: MAX_BODY_def)
  moreover have "\<not> eq_ignore_ascii_case ''POST'' ''OPTIONS''" by code_simp
  moreover have "handle_request (from_str cr) ''POST'' ''/attest'' ?body [''http://127.0.0.1:8080''] =
      (if is_allowed_backend backend [''http://127.0.0.1:8080'']
       then Inr (Attest \<lparr>lac_nonce = valid_nonce, lac_backend_url = backend, lac_server_name = None, lac_protocol_version = 1\<rparr>)
       else Inl UntrustedBackend)"
    using assms by (simp add: run_crates_ok_def handle_command judged_attest)
  ultimately show ?thesis
    by (simp add: post_test_def request_test_def start_def serve_one_def Let_def)
qed

lemma command_tests_pass:
  assumes "run_crates_ok cr"
  shows "a_valid_command_is_acknowledged_and_forwarded cr"
    "an_untrusted_backend_is_refused_and_nothing_is_forwarded cr"
proof -
  have plain: "plain_text ''http://127.0.0.1:8080'' \<and> length ''http://127.0.0.1:8080'' \<le> 256"
    "plain_text ''https://evil.example'' \<and> length ''https://evil.example'' \<le> 256"
    by code_simp+
  let ?ack = "unwrap_or (to_string cr (acknowledgement ''0.1.0'')) ''{\"accepted\":true}''"
  have "sublist ''\"accepted\":true'' ?ack"
  proof (cases "to_string cr (acknowledgement ''0.1.0'')")
    case None
    have "''{\"accepted\":true}'' = ''{'' @ ''\"accepted\":true'' @ ''}''" by simp
    with None show ?thesis unfolding sublist_def by (metis unwrap_or_simps(1))
  next
    case (Some s)
    moreover have "laa_accepted (acknowledgement ''0.1.0'')" by (simp add: acknowledgement_def)
    ultimately show ?thesis using assms unfolding run_crates_ok_def unwrap_or_def by force
  qed
  then have "sublist ''\"accepted\":true'' (response 200 ?ack)"
    by (rule sublist_response)
  with response_status(1) [of ?ack] show "a_valid_command_is_acknowledged_and_forwarded cr"
    unfolding a_valid_command_is_acknowledged_and_forwarded_def valid_nonce_def [symmetric] Let_def
      posted_command [OF assms plain(1)] if_P [OF test_backends(3)] prod.case by simp
  have "\<not> is_allowed_backend ''https://evil.example'' [''http://127.0.0.1:8080'']"
    by (subst allowed_tight) code_simp+
  with response_status(3) [of REFUSED_BODY] show "an_untrusted_backend_is_refused_and_nothing_is_forwarded cr"
    unfolding an_untrusted_backend_is_refused_and_nothing_is_forwarded_def valid_nonce_def [symmetric] Let_def
      posted_command [OF assms plain(2)] by simp
qed

end
