(* ===== verification/Companion_Tests.thy ===== *)
theory Companion_Tests
  imports Local_Tests Identity Diagnostics Shell "HOL-Library.Sublist"
begin

text \<open>
  The unit tests of the companion's smaller modules, \<open>settings.rs\<close>, \<open>backend.rs\<close>, \<open>engine.rs\<close>, \<open>identity.rs\<close>,
  \<open>diagnostics.rs\<close> and \<open>shell.rs\<close> of \<open>fiveprotect-companion/src\<close>: each as the condition it asserts. What a
  test takes from the machine it runs on, or from a crate, is an argument.
\<close>

section \<open>Settings\<close>

definition the_built_in_list_is_never_empty :: bool where
  "the_built_in_list_is_never_empty \<longleftrightarrow> allowed_backends built_in \<noteq> []"

text \<open>The file the test writes, read back.\<close>

definition settings_text :: string where
  "settings_text = ''{\"allowedBackends\":[\"http://127.0.0.1:8080\"]}''"

definition a_file_extends_the_list_rather_than_replacing_it :: "(string \<Rightarrow> SettingsFile option) \<Rightarrow> string \<Rightarrow> bool" where
  "a_file_extends_the_list_rather_than_replacing_it from_str dir =
     (let settings = from_file (\<lambda>path. if path = dir @ FILE_NAME then Some settings_text else None) from_str
        (dir @ FILE_NAME)
      in List.member (allowed_backends settings) ''http://127.0.0.1:8080'' \<and>
         list_all (List.member (allowed_backends settings)) BUILT_IN)"

definition a_malformed_file_leaves_the_compiled_in_list_intact ::
    "(string \<Rightarrow> SettingsFile option) \<Rightarrow> string \<Rightarrow> bool" where
  "a_malformed_file_leaves_the_compiled_in_list_intact from_str dir \<longleftrightarrow>
     allowed_backends (from_file (\<lambda>path. if path = dir @ FILE_NAME then Some ''{ not json'' else None) from_str
       (dir @ FILE_NAME)) = allowed_backends built_in"

lemma settings_tests_pass:
  "the_built_in_list_is_never_empty"
  "from_str settings_text = Some \<lparr>file_allowed_backends = [''http://127.0.0.1:8080'']\<rparr> \<Longrightarrow>
   a_file_extends_the_list_rather_than_replacing_it from_str dir"
  "from_str ''{ not json'' = None \<Longrightarrow> a_malformed_file_leaves_the_compiled_in_list_intact from_str dir"
  by (simp_all add: the_built_in_list_is_never_empty_def built_in_def BUILT_IN_def from_file_def Let_def
      a_file_extends_the_list_rather_than_replacing_it_def set_insort_key
      a_malformed_file_leaves_the_compiled_in_list_intact_def)

text \<open>The two texts, when the parser gives the values they are.\<close>

lemma settings_text_value:
  "SettingsFile_from_value (JObject [(''allowedBackends'', JArray [JString ''http://127.0.0.1:8080''])]) =
     Inr \<lparr>file_allowed_backends = [''http://127.0.0.1:8080'']\<rparr>"
  by code_simp

section \<open>Backend client\<close>

definition the_base_url_loses_its_trailing_slash :: bool where
  "the_base_url_loses_its_trailing_slash \<longleftrightarrow>
     base_url (Client_new ''https://api.fiveprotect.dev/'' ''0.1.0'') = ''https://api.fiveprotect.dev''"

definition an_unreachable_backend_is_an_error_and_not_a_panic :: "'v serde \<Rightarrow> 'v send_json \<Rightarrow> bool" where
  "an_unreachable_backend_is_an_error_and_not_a_panic sd send =
     (case poll_pending sd send (Client_new ''http://127.0.0.1:1'' ''0.1.0'') 0 of
        Inl (Unreachable _) \<Rightarrow> True
      | _ \<Rightarrow> False)"

lemma base_url_test_passes: "the_base_url_loses_its_trailing_slash"
  by code_simp

lemma unreachable_test_passes:
  assumes "\<And>content. \<exists>t. send ''http://127.0.0.1:1/v1/companion/pending'' content = UreqTransport t"
  shows "an_unreachable_backend_is_an_error_and_not_a_panic sd send"
proof -
  have "trim_end_matches (CHR ''/'') ''http://127.0.0.1:1'' = ''http://127.0.0.1:1''" by code_simp
  then show ?thesis
    using assms [of "PollBody (poll_request (Client_new ''http://127.0.0.1:1'' ''0.1.0'') 0)"]
    by (auto simp: an_unreachable_backend_is_an_error_and_not_a_panic_def poll_pending_def post_def post_raw_def
        Client_new_def)
qed

section \<open>Scan engine\<close>

definition the_engine_reports_a_version :: "string option \<Rightarrow> bool" where
  "the_engine_reports_a_version raw \<longleftrightarrow> engine_version raw \<noteq> []"

definition a_string_with_a_nul_byte_is_refused_rather_than_truncated :: "engine_fn \<Rightarrow> from_str_snapshot \<Rightarrow> bool" where
  "a_string_with_a_nul_byte_is_refused_rather_than_truncated engine from_str \<longleftrightarrow>
     snd (scan engine from_str (''0.1.0'' @ [CHR 0x00] @ ''evil'') (replicate 64 (CHR ''c'')) ''2026-08-04T12:00:00Z'') =
       Inl (Argument ''companion_version'')"

lemma engine_tests_pass:
  "utf8_valid text' \<Longrightarrow> text' \<noteq> [] \<Longrightarrow> the_engine_reports_a_version (Some text')"
  "a_string_with_a_nul_byte_is_refused_rather_than_truncated engine from_str"
  by (simp_all add: the_engine_reports_a_version_def engine_version_def lossy_valid_id scan_def has_nul_def
      a_string_with_a_nul_byte_is_refused_rather_than_truncated_def)

section \<open>Identity\<close>

definition lowercase_hex :: "char \<Rightarrow> bool" where
  "lowercase_hex c \<longleftrightarrow> is_ascii_hexdigit c \<and> \<not> (65 \<le> code c \<and> code c \<le> 90)"

definition the_build_hash_is_a_sha256_of_the_running_binary ::
    "'h hasher \<Rightarrow> (bytes \<Rightarrow> string) \<Rightarrow> (string \<Rightarrow> string + file_reads) \<Rightarrow> string + string \<Rightarrow> bool" where
  "the_build_hash_is_a_sha256_of_the_running_binary sha to_hex open_file exe =
     (case build_hash sha to_hex open_file exe of
        Inl _ \<Rightarrow> False
      | Inr hash \<Rightarrow> length hash = 64 \<and> list_all lowercase_hex hash)"

text \<open>Two calls, whose reads may cut the file in different ways.\<close>

definition the_build_hash_is_stable_across_calls ::
    "'h hasher \<Rightarrow> (bytes \<Rightarrow> string) \<Rightarrow> (string \<Rightarrow> string + file_reads) \<Rightarrow> (string \<Rightarrow> string + file_reads) \<Rightarrow>
     string + string \<Rightarrow> bool" where
  "the_build_hash_is_stable_across_calls sha to_hex first_open second_open exe =
     (case (build_hash sha to_hex first_open exe, build_hash sha to_hex second_open exe) of
        (Inr a, Inr b) \<Rightarrow> a = b
      | _ \<Rightarrow> False)"

definition the_timestamp_matches_what_the_protocol_accepts :: "(string \<Rightarrow> 't \<Rightarrow> string option) \<Rightarrow> 't \<Rightarrow> bool" where
  "the_timestamp_matches_what_the_protocol_accepts format now =
     (let stamp = now_iso format now
      in length stamp = 24 \<and> last stamp = CHR ''Z'' \<and> take 1 (drop 4 stamp) = ''-'' \<and>
         take 1 (drop 10 stamp) = ''T'' \<and> take 1 (drop 19 stamp) = ''.'')"

text \<open>A file that can be read to its end, in any pieces.\<close>

definition readable :: "string + file_reads \<Rightarrow> bytes \<Rightarrow> bool" where
  "readable opened bs \<longleftrightarrow> (\<exists>want. opened = Inr \<lparr>contents = bs, wanted = want, fails_with = (\<lambda>_. None)\<rparr>)"

lemma build_hash_tests_pass:
  assumes "streams sha" and "\<And>h. length (hasher_finalize sha h) = 32"
    and "\<And>b. length (to_hex b) = 2 * length b \<and> list_all lowercase_hex (to_hex b)"
    and "readable (first_open path) bs" and "readable (second_open path) bs"
  shows "the_build_hash_is_a_sha256_of_the_running_binary sha to_hex first_open (Inr path)"
    "the_build_hash_is_stable_across_calls sha to_hex first_open second_open (Inr path)"
  using assms
  by (auto simp: the_build_hash_is_a_sha256_of_the_running_binary_def the_build_hash_is_stable_across_calls_def
      readable_def build_hash_def hash_file_def hash_loop_ok)

lemma timestamp_test_passes:
  assumes "format TIMESTAMP t \<in>
      {None, Some (padded 4 year @ ''-'' @ padded 2 month @ ''-'' @ padded 2 day @ ''T'' @ padded 2 hour @
        '':'' @ padded 2 minute @ '':'' @ padded 2 second @ ''.'' @ padded 3 milli @ ''Z'')}"
    and "year < 10000" "month \<le> 12" "day \<le> 31" "hour < 24" "minute < 60" "second < 60" "milli < 1000"
  shows "the_timestamp_matches_what_the_protocol_accepts format t"
proof (cases "format TIMESTAMP t")
  case None
  then show ?thesis by (simp add: the_timestamp_matches_what_the_protocol_accepts_def now_iso_def)
next
  case (Some stamp)
  have widths: "length (padded 4 year) = 4" "length (padded 3 milli) = 3" "n < 100 \<Longrightarrow> length (padded 2 n) = 2" for n
    using assms(2,8) by (simp_all add: length_padded)
  from Some assms show ?thesis
    by (simp add: the_timestamp_matches_what_the_protocol_accepts_def now_iso_def widths)
qed

section \<open>Diagnostics\<close>

definition the_export_lands_somewhere_and_says_where :: "string \<Rightarrow> findings \<Rightarrow> bool" where
  "the_export_lands_somewhere_and_says_where dir f =
     (case export_into dir (Inr ()) (\<lambda>_. None) (Inr ()) f of
        (Some text', Inr path) \<Rightarrow>
          path = dir @ DIAGNOSTICS_NAME \<and>
          sublist ''FiveProtect Diagnose'' text' \<and>
          sublist (''--- Systempr'' @ ue_utf8 @ ''fung ---'') text' \<and>
          sublist ''osBuild'' text'
      | _ \<Rightarrow> False)"

definition the_desktop_fallback_names_a_directory_that_exists ::
    "string option \<Rightarrow> (string \<Rightarrow> bool) \<Rightarrow> string \<Rightarrow> bool" where
  "the_desktop_fallback_names_a_directory_that_exists user_profile is_dir temp_dir \<longleftrightarrow>
     is_dir (desktop_dir user_profile is_dir temp_dir)"

lemma desktop_test_passes:
  "list_all is_dir (case_option [temp_dir] (\<lambda>profile. [profile]) user_profile) \<Longrightarrow>
   the_desktop_fallback_names_a_directory_that_exists user_profile is_dir temp_dir"
  by (auto simp: the_desktop_fallback_names_a_directory_that_exists_def desktop_dir_def Let_def split: option.splits)

lemma sublist_in_lines: "l \<in> set ls \<Longrightarrow> sublist x l \<Longrightarrow> sublist x (concat (map (\<lambda>l. l @ [newline]) ls))"
proof (induction ls)
  case (Cons m ls)
  show ?case
  proof (cases "l = m")
    case True
    then have "sublist l (concat (map (\<lambda>l. l @ [newline]) (m # ls)))" by simp
    with Cons.prems(2) show ?thesis by (rule sublist_order.order_trans)
  next
    case False
    with Cons have "sublist x (concat (map (\<lambda>l. l @ [newline]) ls))" by simp
    moreover have "sublist (concat (map (\<lambda>l. l @ [newline]) ls)) (concat (map (\<lambda>l. l @ [newline]) (m # ls)))"
      using sublist_append_leftI [of "concat (map (\<lambda>l. l @ [newline]) ls)" "m @ [newline]"] by simp
    ultimately show ?thesis by (rule sublist_order.order_trans)
  qed
qed simp

lemma export_test_passes:
  assumes "diagnostics_scan f = Inr s" and "pretty f s = Inr t" and "sublist ''osBuild'' t"
  shows "the_export_lands_somewhere_and_says_where dir f"
proof -
  let ?ls = "composed_lines f @ log_lines_part f"
  have "''FiveProtect Diagnose'' \<in> set ?ls" "newline # ''--- Systempr'' @ ue_utf8 @ ''fung ---'' \<in> set ?ls" "t \<in> set ?ls"
    using assms(1,2) by (simp_all add: composed_lines_def)
  moreover have "sublist (''--- Systempr'' @ ue_utf8 @ ''fung ---'') (newline # ''--- Systempr'' @ ue_utf8 @ ''fung ---'')"
    using sublist_append_leftI [of "''--- Systempr'' @ ue_utf8 @ ''fung ---''" "[newline]"] by simp
  ultimately have "sublist ''FiveProtect Diagnose'' (concat (map (\<lambda>l. l @ [newline]) ?ls))"
    "sublist (''--- Systempr'' @ ue_utf8 @ ''fung ---'') (concat (map (\<lambda>l. l @ [newline]) ?ls))"
    "sublist ''osBuild'' (concat (map (\<lambda>l. l @ [newline]) ?ls))"
    using assms(3) by (blast intro: sublist_in_lines)+
  then show ?thesis
    using write_lines_all [of ?ls "\<lambda>_. None" 0]
    by (simp only: the_export_lands_somewhere_and_says_where_def export_into_def Let_def sum.case prod.case
        option.case simp_thms)
qed

section \<open>Shell\<close>

definition base64_matches_the_reference_vectors :: bool where
  "base64_matches_the_reference_vectors \<longleftrightarrow>
     list_all (\<lambda>(raw, encoded). base64 (into_bytes raw) = encoded)
       [('''', ''''), (''f'', ''Zg==''), (''fo'', ''Zm8=''), (''foo'', ''Zm9v''), (''foob'', ''Zm9vYg==''),
        (''fooba'', ''Zm9vYmE=''), (''foobar'', ''Zm9vYmFy'')]"

definition a_view_is_pushed_as_one_statement :: "(WindowView \<Rightarrow> string option) \<Rightarrow> bool" where
  "a_view_is_pushed_as_one_statement to_string =
     (let script = push_script to_string (view Checking None None ''0.1.0'' 1)
      in take (length ''window.__fiveprotect &&'') script = ''window.__fiveprotect &&'' \<and>
         sublist ''\"state\":\"checking\"'' script)"

lemma shell_tests_pass:
  "base64_matches_the_reference_vectors"
  "to_string (view Checking None None ''0.1.0'' 1) = Some json \<Longrightarrow> sublist ''\"state\":\"checking\"'' json \<Longrightarrow>
   a_view_is_pushed_as_one_statement to_string"
proof -
  show "base64_matches_the_reference_vectors" by code_simp
  assume json: "to_string (view Checking None None ''0.1.0'' 1) = Some json" "sublist ''\"state\":\"checking\"'' json"
  have "sublist json (''window.__fiveprotect && window.__fiveprotect.push('' @ json @ '');'')"
    by (rule sublist_appendI)
  with json(2) have "sublist ''\"state\":\"checking\"'' (''window.__fiveprotect && window.__fiveprotect.push('' @ json @ '');'')"
    by (rule sublist_order.order_trans)
  then show "a_view_is_pushed_as_one_statement to_string"
    unfolding a_view_is_pushed_as_one_statement_def push_script_def Let_def json(1) option.case by simp
qed

end
