(* ===== verification/Spec2Isabelle.thy ===== *)
theory Spec2Isabelle
  imports Base64_Codec Updater Settings Server Worker_Claims Desktop Identity Startup Shell Log_File Diagnostics Tray_Icon
    Worker_Pacing Contract_Tests Wire_Claims Http_Headers Limits Build_Script
    State_Tests Updater_Tests Worker_Tests Server_Tests Companion_Tests
begin

text \<open>
  A verification library for the Rust part of FiveProtect: the companion, a desktop program that
  attests a player's Windows installation to a backend and keeps a session alive while the game
  runs (crates \<open>fiveprotect-core\<close> and \<open>fiveprotect-companion\<close>, and the Rust bindings of
  \<open>packages/protocol\<close>). Paths below are those of the repository.

  \<^bold>\<open>The program.\<close> \<open>main\<close> hashes its own file (\<open>identity.rs\<close>), reads the settings, binds a port,
  publishes it (\<open>registry.rs\<close>) and starts its threads. Three of them share one channel. The endpoint
  (\<open>server.rs\<close>) listens on the loopback address, reads an HTTP request (\<open>read_request\<close>), decides it by the contract of
  \<open>local.rs\<close> and sends the command to the bridge, which makes it \<open>Job::Local\<close>. The collector
  (\<open>collect_nonces\<close> in \<open>worker.rs\<close>) polls the backend and sends \<open>Job::Collected\<close>. The worker (\<open>Worker::run\<close>) receives a job or a
  time-out, runs the native scan through \<open>engine.rs\<close>, posts the attestation through \<open>backend.rs\<close>,
  sends heartbeats while a session is active, and sends every change of what it shows through the
  views thread to the main thread (\<open>main.rs\<close>), which owns the two windows and the tray icon, runs a
  script in the page for each view (\<open>shell.rs\<close>), and on Quit lets the worker say goodbye. The states
  the window can be in are a state machine of \<open>state.rs\<close>. \<open>settings.rs\<close> says which backends are trusted and
  \<open>updater.rs\<close> which signed releases are installed. Every message in either direction is checked by
  the generated code of \<open>packages/protocol/generated/rust/protocol.rs\<close>.

  \<^bold>\<open>The theories\<close>, each importing those it calls:
  \<^item> \<open>Rust_Prelude\<close>: what the program uses of the language and of \<open>std\<close> (results as sums, the
    string functions on bytes, \<open>parse\<close> and \<open>to_string\<close> of numbers, durations in nanoseconds,
    saturating arithmetic) with the facts the components share.
  \<^item> \<open>Interfaces\<close>: the locales \<open>codec\<close>, \<open>machine\<close>, \<open>observed_machine\<close>, \<open>refinement\<close> and
    \<open>inductive_invariant\<close>; four more contracts stand with their subject, \<open>origin_policy\<close> in \<open>Url_Origin\<close>,
    \<open>validated_call\<close> in \<open>Backend_Client\<close>, \<open>wire_type\<close> and \<open>exact_type\<close> in \<open>Json\<close> (a type whose JSON is
    read back as it was, hence a \<open>codec\<close>; a type that accepts in the usual shape only what it would
    write). Each is interpreted on the definitions of the program.
  \<^item> \<open>Protocol_Types\<close>, \<open>Protocol_Check\<close>: the constants, enums, messages and \<open>validate\<close> methods of
    \<open>protocol.rs\<close>. Record fields have a short prefix of their message, since the messages share
    field names.
  \<^item> \<open>Json\<close>: JSON values and what serde's attributes mean for them. \<open>Protocol_Json\<close>: the
    derived \<open>Serialize\<close> and \<open>Deserialize\<close> of every enum and message of \<open>protocol.rs\<close>, each an
    interpretation of \<open>wire_type\<close> and \<open>exact_type\<close>. \<open>Serde_Types\<close>: those of the view, the update
    manifest and the settings file, and the whole of serde as the parameter of the components.
  \<^item> \<open>Fixture_Files\<close>, \<open>Contract_Tests\<close>: the fixtures of \<open>packages/protocol/fixtures\<close> as JSON values, the
    tests on them (\<open>packages/protocol/rust/tests/contract.rs\<close>) and the properties of the wire format.
    \<open>Wire_Claims\<close>: the client of \<open>backend.rs\<close> and the endpoint with that format.
  \<^item> \<open>Base64_Codec\<close>: \<open>decode_base64\<close> of \<open>updater.rs\<close> on its 32-bit buffer, and \<open>base64\<close> of
    \<open>shell.rs\<close>; the specification is the list of bits.
  \<^item> \<open>Window_State\<close>: \<open>state.rs\<close>. \<open>Url_Origin\<close>, \<open>Local_Endpoint\<close>: \<open>local.rs\<close> and the port range of
    \<open>lib.rs\<close>. \<open>Updater\<close>: \<open>updater.rs\<close>. \<open>Settings\<close>: \<open>settings.rs\<close>.
  \<^item> \<open>Utf8\<close>: \<open>String::from_utf8\<close> and \<open>from_utf8_lossy\<close>. \<open>Scan_Engine\<close>: \<open>scan\<close> of \<open>engine.rs\<close>.
  \<^item> \<open>Backend_Client\<close>: \<open>backend.rs\<close>. \<open>Window_Checks\<close>: the pure functions of \<open>worker.rs\<close>. \<open>Worker\<close>:
    one definition per branch of \<open>Worker::run\<close>, put together in \<open>iterate\<close>; \<open>Worker_Properties\<close> has its
    three interpretations, \<open>Worker_Claims\<close> the collector and the properties, \<open>Worker_Pacing\<close> how
    often it talks to the backend, over a run with its clock.
  \<^item> \<open>Http_Request\<close>, \<open>Server\<close>: \<open>server.rs\<close>; the thread counter is the step relation
    \<open>endpoint_step\<close>, in which every atomic operation of every thread is a step of its own.
    \<open>Http_Headers\<close>: requests with headers.
  \<^item> \<open>Desktop\<close>: the commands of the pages and the event loop of \<open>main.rs\<close>. \<open>Tray_Icon\<close>: \<open>chrome.rs\<close>,
    \<open>tray.rs\<close>, the icon, and the main thread without it.
  \<^item> \<open>Companion\<close>: the running program. Its state is the record \<open>companion\<close> (every channel, every value
    a thread holds between receiving and sending, the worker's variables and the actions it has
    still to do, the desktop, and a history that no step reads); \<open>thread_step\<close> has a rule for every step of
    every thread, so a run of it is any interleaving. \<open>Companion_Properties\<close> has the
    interpretations of \<open>inductive_invariant\<close>: the worker's part is a run of its loop, the channels keep what
    was sent in order, everything has a cause, views are lost only where the page loses them.
    \<open>Companion_Claims\<close> has the properties.
  \<^item> \<open>Identity\<close>: \<open>identity.rs\<close>. \<open>Registry\<close>: \<open>registry.rs\<close>. \<open>Startup\<close>: \<open>main\<close>, and the configuration the
    threads of \<open>Companion\<close> get from it.
  \<^item> \<open>Shell\<close>: the pages of \<open>shell.rs\<close>. \<open>Log_File\<close>: \<open>log.rs\<close>. \<open>Diagnostics\<close>: \<open>diagnostics.rs\<close>.
  \<^item> \<open>Limits\<close>: the time-outs, the sizes and the position of the menu. \<open>Build_Script\<close>: \<open>build.rs\<close>.
  \<^item> \<open>State_Tests\<close>, \<open>Local_Tests\<close>, \<open>Updater_Tests\<close>, \<open>Worker_Tests\<close>, \<open>Server_Tests\<close>, \<open>Companion_Tests\<close>: the
    unit tests of the two crates, each as the condition it asserts of the definitions, and proved.
  \<^item> this theory: the properties that cross components.

  \<^bold>\<open>State and effects.\<close> The worker's local variables are the record \<open>worker_state\<close>. One turn of its loop,
  \<open>iterate self ps env st\<close>, takes what the world answers during that turn, \<open>env\<close> (the job received,
  the scan, the HTTP answers, the clock), and returns the new variables, or None when the loop ends,
  with the list of the turn's actions (views published, requests posted, lines logged,
  the shutdown acknowledged). A run is a list of environments; nothing is assumed of it except where a
  property says so. An error is the left side of a sum. Strings are lists of bytes.

  \<^bold>\<open>What the lemmas show.\<close> Of the worker: the page shows the machine's state after every turn, Ready
  only after an acknowledgement, state and session agree, no acknowledged nonce is reported again,
  every request and view is well-formed, the log never depends on a nonce, heartbeats are
  at least five seconds apart, and while no job comes at most an hour and the delay of the worker; the page's
  JSON has no word but those of a fixed list and its texts. Of the scan: its buffers are bounded, and it
  returns a text the engine served. Of the wire format: every message is read back as it was written; an accepted payload
  in the usual shape is kept whole, at every depth; a member that is not declared is refused; the client and a
  backend that follows the format understand each other. Of the
  endpoint: which requests are accepted and which refusal the others get, that a request survives
  framing, that at most \<open>MAX_CONCURRENT\<close> are served at once in any interleaving. Of the updater:
  what is accepted was signed under exactly the shown fields, is newer, and its download has the
  signed hash; a chain of updates increases; the rollout takes exactly its share of the buckets. Of
  the codecs: the decoder is the bit-stream function and undoes the encoder. Of the whole program, in
  every interleaving: the worker takes the jobs in the order they were sent, accepted commands can be brought to an attestation,
  every reported nonce has an origin, views are handed to the page in order, and the page can catch up
  unless it lost the last one, a page that says Ready was told so after an acknowledgement, the program ends only when
  quit was chosen, and its goodbye precedes the signal the exit waits for. Of the start: when it
  succeeds, and that all requests go to the least trusted backend with the hash that was read.
  Some state what the code does where its comments promise more: heartbeats wait for jobs, a refusal
  met during a session outlives every recheck, a window without a tray icon is lost, a server
  name can forge a line of the log, the named backend of a command is not used, a long denial is
  taken for none, header lines are without a limit, a refused nonce is
  reported again and again without a pause, a view that comes before the page is parsed is never repeated.

  \<^bold>\<open>Bounds and termination.\<close> There is no fuel. The scan loop ends because its buffer grows strictly
  and is bounded by \<open>MAX_BUFFER\<close> (4 MiB, from 64 KiB); that measure is the termination proof of
  \<open>scan_loop\<close>. The line reader of \<open>Http_Request\<close> and the UTF-8 decoder consume their input. A body is at most
  \<open>MAX_BODY\<close> bytes. Word arithmetic wraps at the source's width; the counter of
  connections is a 64-bit word (\<open>usize\<close>) with a wrapping subtraction, shown never to wrap.

  \<^bold>\<open>Parameters\<close>: serde_json's text format (\<open>serde\<close>, \<open>from_str\<close>; what the derives do with a value is
  \<open>Json\<close>'s, by serde's documentation, and \<open>json_serde\<close> puts the two together), ureq (\<open>send\<close>), hex, sha2 and ed25519-dalek
  (\<open>crates\<close>, \<open>hasher\<close>), the PNG decoder, the native engine (\<open>engine\<close>), \<open>bind\<close>, the registry, the file
  system, the clock and the formatting of its date, arithmetic on \<open>f64\<close>. The properties
  of the updater that speak of signatures take unforgeability as a named hypothesis.

  \<^bold>\<open>Not modelled\<close>: building windows and web views (tao, wry; their failure is), the encoding of registry names as
  UTF-16, what a time-out does inside a socket or the HTTP agent (an answer that does not come is an error of
  the parameter; \<open>Limits\<close> has the durations), the compiler behind the build script, the C++ engine, and the
  bindings of the protocol in other languages. Of the unit tests, those that need the real scan, the
  embedded pages or the file system's state are left out. Steps of threads are atomic per channel operation; how long a wait lasts is not a part of
  \<open>Companion\<close>, where a wait may time out whenever its channel is empty, and the exit's wait at any
  time.
\<close>

section \<open>Where jobs come from\<close>

text \<open>
  The two senders of the worker's channel that bring nonces: the collector, with what a poll
  found, and the endpoint, with a command one of its connections carried.
\<close>

definition sent_by_program :: "'v env \<Rightarrow> bool" where
  "sent_by_program env \<longleftrightarrow>
     (case received env of
        Got (Collected p) \<Rightarrow>
          \<exists>(sd :: 'v serde) sj client alive. Sent (Collected p) \<in> set (snd (collect_turn sd sj client alive))
      | Got (Local c) \<Rightarrow>
          \<exists>from_str to_string cloned s allowed version.
            fst (serve_one from_str to_string cloned s allowed version) = Some c
      | _ \<Rightarrow> True)"

lemma collected_nonce: "Sent (Collected p) \<in> set (snd (collect_turn sd sj client alive)) \<Longrightarrow> is_nonce (pending_nonce p)"
  using poll_pending_nonce [of sd sj client "i64_from_u32 COMPANION_POLL_TIMEOUT_SECONDS" p]
  by (cases "poll_pending sd sj client (i64_from_u32 COMPANION_POLL_TIMEOUT_SECONDS)")
    (auto simp: collect_turn_def split: option.splits if_splits)

lemma sent_by_program_nonce: "sent_by_program env \<Longrightarrow> brings_nonce env"
  unfolding sent_by_program_def brings_nonce_def
  using collected_nonce served_nonce
  by (fastforce simp: job_nonce_def split: received.splits Job.splits)

lemma posts_action: "b \<in> set (posts acts) \<Longrightarrow> \<exists>url. Post url b \<in> set acts"
  by (auto simp: posts_def map_filter_def split: action.splits)

section \<open>Messages\<close>

lemma uuid_path: "is_ok (check_uuid v p) = is_ok (check_uuid v q)"
  by (simp add: is_ok_check_uuid)

lemma version_ok: "is_ok (check_semver VERSION p)"
  by code_simp

section \<open>Properties\<close>

text \<open>
  Every nonce the worker ever reports is 64 hexadecimal digits and goes to the configured
  backend, whatever the backend answered a poll and whatever a local program sent to the endpoint.
\<close>

lemma reported_nonces_are_well_formed:
  assumes "\<forall>env\<in>set envs. sent_by_program env"
    and "AttestBody r \<in> set (posts (outputs (worker_step self ps) (worker_out self ps)
      (True, start_state self ps env0) envs))"
  shows "length (arq_nonce r) = 64 \<and> list_all is_ascii_hexdigit (arq_nonce r)"
proof -
  obtain url where "Post url (AttestBody r) \<in> set (outputs (worker_step self ps) (worker_out self ps)
      (True, start_state self ps env0) envs)"
    using posts_action [OF assms(2)] by blast
  then have "good_action self (Post url (AttestBody r))"
    using assms(1) sent_by_program_nonce
    by (intro actions.outputs_good [of "(True, start_state self ps env0)" envs]) (auto simp: state_ok_start)
  then show ?thesis by (auto simp: good_action_def good_request_def good_body_def is_nonce_def)
qed

lemma reported_nonces_are_well_formed_witness:
  "length example_nonce = 64 \<and> list_all is_ascii_hexdigit example_nonce"
proof -
  let ?c = "example_command ''https://api.example''\<lparr>lac_nonce := example_nonce\<rparr>"
  let ?env = "example_env (Got (Local ?c))"
  have "handle_request (\<lambda>_. Inr ?c) ''POST'' ''/attest'' [] [''https://api.example''] = Inr (Attest ?c)"
    using example_nonce_ok
    by (simp add: handle_request_ok is_allowed_backend_def map_filter_def example_trusted
        attest_route_iff example_simps command_accept_simps trim_end_matches_def)
  moreover have "read_request \<lparr>arrived = ''POST'' @ '' '' @ ''/attest'' @ '' HTTP/1.1'' @ crlf @
      ''Content-Length: '' @ show_nat (length ([] :: string)) @ crlf @ crlf @ [] @ [], at_eof = False\<rparr> =
    Inr \<lparr>rq_method = ''POST'', rq_path = ''/attest'', rq_body = []\<rparr>"
    by (rule read_request_plain) (simp_all add: is_visible_def code_def)
  ultimately have served: "\<exists>s. fst (serve_one (\<lambda>_. Inr ?c) (\<lambda>_. None) True s [''https://api.example''] VERSION) = Some ?c"
    using post_not_options [of "''POST''"] by (force simp: serve_one_accepted)
  then obtain s where s: "fst (serve_one (\<lambda>_. Inr ?c) (\<lambda>_. None) True s [''https://api.example''] VERSION) = Some ?c"
    by blast
  have "\<forall>env\<in>set [?env]. sent_by_program env"
    by (simp add: sent_by_program_def) (intro exI, rule s)
  moreover have "AttestBody (attestation_request example_nonce example_snapshot) \<in>
      set (posts (outputs (worker_step example_worker example_parsers) (worker_out example_worker example_parsers)
        (True, start_state example_worker example_parsers (example_env TimedOut)) [?env]))"
    by (simp add: posts_iterate) (simp add: turn_posts_def job_nonce_def)
  ultimately have "length (arq_nonce (attestation_request example_nonce example_snapshot)) = 64 \<and>
      list_all is_ascii_hexdigit (arq_nonce (attestation_request example_nonce example_snapshot))"
    by (rule reported_nonces_are_well_formed)
  then show ?thesis by (simp add: attestation_request_def)
qed

text \<open>
  C40: with the version compiled in, a build hash of 64 hexadecimal digits and a session id that is a
  UUID, the poll, the outcome question, every heartbeat and the acknowledgement of the endpoint are
  valid by the protocol's own checks. An attestation is valid exactly when its nonce is 64 hexadecimal
  digits and its snapshot is valid; the second is up to the scan engine, since the companion does not
  check the snapshot before it posts it.
\<close>

theorem own_messages_valid:
  assumes "length (wk_build_hash self) = 64" and "list_all is_ascii_hexdigit (wk_build_hash self)"
    and "is_ok (check_uuid sid ''AttestationAck.sessionId'')"
    and "client_version client = VERSION"
  shows "is_ok (validate_CompanionPollRequest (poll_request client (i64_from_u32 COMPANION_POLL_TIMEOUT_SECONDS))) \<and>
    is_ok (validate_CompanionOutcomeRequest (outcome_request sid OUTCOME_WAIT_SECONDS)) \<and>
    is_ok (validate_HeartbeatRequest (beat_request self env sid present closing)) \<and>
    is_ok (validate_LocalAttestAck (acknowledgement VERSION)) \<and>
    (is_ok (validate_AttestationRequest (attestation_request nonce snapshot)) \<longleftrightarrow>
      is_nonce nonce \<and> is_ok (validate_SystemSnapshot snapshot))"
proof -
  have "length VERSION \<le> 32" by (simp add: VERSION_def)
  moreover have "is_ok (check_uuid sid p)" for p using assms(3) uuid_path by blast
  moreover have "i64_from_u32 COMPANION_POLL_TIMEOUT_SECONDS = 25"
    by (simp add: i64_from_u32_def COMPANION_POLL_TIMEOUT_SECONDS_def)
  ultimately show ?thesis
    using assms version_ok
    by (auto simp: validate_CompanionPollRequest_def validate_CompanionOutcomeRequest_def
        validate_HeartbeatRequest_def validate_LocalAttestAck_def validate_AttestationRequest_def
        poll_request_def outcome_request_def beat_request_def acknowledgement_def
        attestation_request_def OUTCOME_WAIT_SECONDS_def is_nonce_def)
qed

lemma own_messages_valid_witness:
  "is_ok (validate_CompanionPollRequest (poll_request \<lparr>base_url = [], client_version = VERSION\<rparr>
     (i64_from_u32 COMPANION_POLL_TIMEOUT_SECONDS))) \<and>
   is_ok (validate_CompanionOutcomeRequest (outcome_request (ack_session_id example_ack) OUTCOME_WAIT_SECONDS)) \<and>
   is_ok (validate_HeartbeatRequest (beat_request example_worker (example_env TimedOut)
     (ack_session_id example_ack) True None)) \<and>
   is_ok (validate_LocalAttestAck (acknowledgement VERSION)) \<and>
   is_ok (validate_AttestationRequest (attestation_request example_nonce example_snapshot)) \<and>
   \<not> is_ok (validate_AttestationRequest (attestation_request example_nonce
     (example_snapshot\<lparr>snap_companion_build_hash := []\<rparr>)))"
proof -
  have hash: "length (wk_build_hash example_worker) = 64" "list_all is_ascii_hexdigit (wk_build_hash example_worker)"
    by (simp_all add: example_worker_def list_all_iff is_ascii_hexdigit_def code_def)
  have id: "is_ok (check_uuid (ack_session_id example_ack) ''AttestationAck.sessionId'')"
    by code_simp
  have snapshot: "is_ok (validate_SystemSnapshot example_snapshot)" by code_simp
  have broken: "\<not> is_ok (validate_SystemSnapshot (example_snapshot\<lparr>snap_companion_build_hash := []\<rparr>))" by code_simp
  note valid = own_messages_valid [OF hash id, of "\<lparr>base_url = [], client_version = VERSION\<rparr>"
      "example_env TimedOut" True None example_nonce]
  show ?thesis
    using valid [of example_snapshot] valid [of "example_snapshot\<lparr>snap_companion_build_hash := []\<rparr>"]
      snapshot broken example_nonce_ok by simp
qed

text \<open>
  The length limits of the generated validation count bytes, not characters as its messages
  say: a German text of 300 characters, 600 bytes, is refused by a limit of 500, with an error
  that says it has more than 500 characters.
\<close>

lemma length_limit_counts_bytes:
  "char_count (concat (replicate 300 ue)) = 300 \<and>
   check_length (concat (replicate 300 ue)) path None (Some 500) =
     Inl (path @ '': longer than 500 characters'')"
proof -
  have "char_count (concat (replicate n ue)) = n" "length (concat (replicate n ue)) = 2 * n" for n
    by (induction n) (simp_all add: char_count_def ue_def is_continuation_def code_def)
  moreover have "show_nat 500 = ''500''" by code_simp
  ultimately show ?thesis by (simp add: check_length_def del: replicate.simps)
qed

text \<open>
  C33: what follows from that for a denial: when its remediation has more than 500 bytes, for which 251
  characters can suffice, the denial is dropped as malformed and the window says Ready, with a session
  being kept alive, while the server refuses the connection. The instance below is a text of 300
  characters, within the limit of 500 that is documented.
\<close>

theorem long_denial_shows_ready:
  assumes "received env = Got job" and "job_nonce job = Some nonce" and "last_nonce st \<noteq> Some nonce"
    and "worker_scan self ps env 0 = Inr snapshot"
    and "attest (serde_of ps) (send env) (wk_client self) (attestation_request nonce snapshot) = Inr ack"
    and "send env (base_url (wk_client self) @ ''/v1/companion/outcome'')
      (OutcomeBody (outcome_request (ack_session_id ack) 5)) = UreqOk 200 (Inr v)"
    and "value_to_verdict (serde_of ps) v = Inr verdict"
    and "verdict_decision verdict = Deny"
    and "verdict_remediation verdict = Some text" and "500 < length text"
  shows "\<exists>st'. fst (iterate self ps env st) = Some st' \<and> p_state (shown st') = Ready \<and>
    p_remediation (shown st') = None \<and> active st' \<noteq> None"
proof -
  have "\<not> is_ok (validate_Verdict verdict)"
    using assms(9,10) by (simp add: validate_Verdict_def)
  then obtain m where "validate_Verdict verdict = Inl m"
    by (cases "validate_Verdict verdict") simp_all
  then have "outcome (serde_of ps) (send env) (wk_client self) (ack_session_id ack) OUTCOME_WAIT_SECONDS =
      Inl (Malformed m)"
    using assms(6,7) by (simp add: outcome_def post_raw_def Let_def OUTCOME_WAIT_SECONDS_def)
  then show ?thesis
    using assms(1-5)
    by (simp add: iterate_nonce on_nonce_def on_snapshot_def on_outcome_def Let_def split: option.split)
qed


definition denial :: Verdict where
  "denial =
     \<lparr>verdict_decision = Deny, verdict_session_id = ack_session_id example_ack, verdict_reasons = [PolicyNotMet],
      verdict_requirements = [], verdict_remediation = Some (concat (replicate 300 ue)),
      verdict_policy_tier = Strict, verdict_evaluated_at = ''2025-01-01T00:00:00'', verdict_fail_open = False\<rparr>"

definition denying_parsers :: "nat parsers" where
  "denying_parsers = example_parsers
     \<lparr>serde_of := (serde_of example_parsers)\<lparr>value_to_verdict := (\<lambda>_. Inr denial)\<rparr>\<rparr>"

definition denying_env :: "nat env" where
  "denying_env = (example_env (Got example_job))
     \<lparr>send := (\<lambda>_ b. case b of HeartbeatBody _ \<Rightarrow> UreqTransport [] | _ \<Rightarrow> UreqOk 200 (Inr 0))\<rparr>"

lemma long_denial_shows_ready_witness:
  "\<exists>st'. fst (iterate example_worker denying_parsers denying_env
      (start_state example_worker example_parsers (example_env TimedOut))) = Some st' \<and>
    p_state (shown st') = Ready \<and> p_remediation (shown st') = None \<and> active st' \<noteq> None"
proof (rule long_denial_shows_ready [where job = example_job and nonce = example_nonce])
  have "worker_scan example_worker denying_parsers denying_env 0 =
      worker_scan example_worker example_parsers (example_env (Got example_job)) 0"
    by (simp add: worker_scan_def denying_parsers_def denying_env_def)
  then show "worker_scan example_worker denying_parsers denying_env 0 = Inr example_snapshot" by simp
  show "attest (serde_of denying_parsers) (send denying_env) (wk_client example_worker)
      (attestation_request example_nonce example_snapshot) = Inr example_ack"
    using example_ack_ok
    by (simp add: attest_call.call_ok)
      (simp add: post_def post_raw_def Let_def denying_env_def denying_parsers_def example_parsers_def)
  show "value_to_verdict (serde_of denying_parsers) 0 = Inr denial"
    by (simp add: denying_parsers_def)
  have "length (concat (replicate n ue)) = 2 * n" for n by (induction n) (simp_all add: ue_def)
  then show "500 < length (concat (replicate 300 ue))" by (simp del: replicate.simps)
qed (simp_all add: denying_env_def denial_def del: replicate.simps)

end
